(* ===== verification/Prelude.thy ===== *)
theory Prelude
  imports Main "HOL-Library.AList" "HOL-Library.Monad_Syntax"
begin

text \<open>
  Shared vocabulary of the development: the error values of the operator, string maps, the
  result of a reconcile, the monad of stateful operations that may panic, its weakest
  precondition rules, and the generic list lemmas that several components use.

  A stateful Go function becomes a HOL function that ends in \<open>('s, 'a) go\<close>.  The value
  \<^term>\<open>None\<close> is a Go panic (a nil dereference, an index out of range, a failed type
  assertion); a returned Go error is a value of type \<open>go_error option\<close> in the result.
\<close>

named_theorems go_wp \<open>weakest precondition rules of the operations\<close>
named_theorems go_unfold \<open>small helper definitions that proofs always unfold\<close>

section \<open>Errors\<close>

text \<open>
  The reasons of an API status error that the operator asks about, and the shapes of error values
  it builds: \<open>errors.New\<close> and \<open>fmt.Errorf\<close> without a wrapped error, package level error
  variables (compared by identity, hence by their name), \<open>fmt.Errorf\<close> with one \<open>%w\<close>, and
  \<open>errors.Wrap\<close> / \<open>errors.Wrapf\<close> of \<open>github.com/pkg/errors\<close>.
\<close>

datatype status_reason =
    ReasonNotFound | ReasonAlreadyExists | ReasonConflict | ReasonInvalid
  | ReasonInternalError | ReasonOther

datatype go_error =
    ErrorString string
  | Sentinel string
  | WrapError string go_error
  | PkgWrap string go_error
  | StatusError status_reason string
  | NoMatchError string

primrec err_msg :: "go_error \<Rightarrow> string" where
  "err_msg (ErrorString m) = m"
| "err_msg (Sentinel m) = m"
| "err_msg (WrapError m e) = m"
| "err_msg (PkgWrap m e) = m @ '': '' @ err_msg e"
| "err_msg (StatusError r m) = m"
| "err_msg (NoMatchError m) = m"

text \<open>The reason found along the chain of wrapped errors (\<open>ReasonForError\<close>).\<close>

primrec err_reason :: "go_error \<Rightarrow> status_reason option" where
  "err_reason (ErrorString m) = None"
| "err_reason (Sentinel m) = None"
| "err_reason (WrapError m e) = err_reason e"
| "err_reason (PkgWrap m e) = err_reason e"
| "err_reason (StatusError r m) = Some r"
| "err_reason (NoMatchError m) = None"

definition IsNotFound :: "go_error \<Rightarrow> bool" where
  "IsNotFound e = (err_reason e = Some ReasonNotFound)"

definition IsAlreadyExists :: "go_error \<Rightarrow> bool" where
  "IsAlreadyExists e = (err_reason e = Some ReasonAlreadyExists)"

definition IsConflict :: "go_error \<Rightarrow> bool" where
  "IsConflict e = (err_reason e = Some ReasonConflict)"

definition IsInternalError :: "go_error \<Rightarrow> bool" where
  "IsInternalError e = (err_reason e = Some ReasonInternalError)"

text \<open>\<open>meta.IsNoMatchError\<close> also looks through wrapped errors.\<close>

primrec IsNoMatchError :: "go_error \<Rightarrow> bool" where
  "IsNoMatchError (ErrorString m) = False"
| "IsNoMatchError (Sentinel m) = False"
| "IsNoMatchError (WrapError m e) = IsNoMatchError e"
| "IsNoMatchError (PkgWrap m e) = IsNoMatchError e"
| "IsNoMatchError (StatusError r m) = False"
| "IsNoMatchError (NoMatchError m) = True"

text \<open>\<open>errors.Is\<close> against a package level error variable.\<close>

primrec err_is :: "go_error \<Rightarrow> string \<Rightarrow> bool" where
  "err_is (ErrorString m) v = False"
| "err_is (Sentinel m) v = (m = v)"
| "err_is (WrapError m e) v = err_is e v"
| "err_is (PkgWrap m e) v = err_is e v"
| "err_is (StatusError r m) v = False"
| "err_is (NoMatchError m) v = False"

lemmas err_class_defs [go_unfold] =
  IsNotFound_def IsAlreadyExists_def IsConflict_def IsInternalError_def

lemma err_class_exclusive:
  "IsNotFound e \<Longrightarrow> \<not> IsAlreadyExists e \<and> \<not> IsConflict e \<and> \<not> IsInternalError e"
  by (simp add: go_unfold)

lemma err_class_wrap [simp]:
  "IsNotFound (WrapError m e) = IsNotFound e"
  "IsNotFound (PkgWrap m e) = IsNotFound e"
  "IsConflict (WrapError m e) = IsConflict e"
  "IsConflict (PkgWrap m e) = IsConflict e"
  by (simp_all add: go_unfold)

section \<open>String maps\<close>

text \<open>
  A \<open>map[string]string\<close> (labels, annotations, the environment, image overrides) is an
  association list; \<open>nil\<close> and the empty map are both \<^term>\<open>[]\<close>.  Reading an absent key gives
  the empty string, as in Go.
\<close>

type_synonym strmap = "(string \<times> string) list"

definition sm_get :: "strmap \<Rightarrow> string \<Rightarrow> string" where
  "sm_get m k = (case map_of m k of None \<Rightarrow> '''' | Some v \<Rightarrow> v)"

definition sm_has :: "strmap \<Rightarrow> string \<Rightarrow> bool" where
  "sm_has m k = (map_of m k \<noteq> None)"

abbreviation sm_put :: "strmap \<Rightarrow> string \<Rightarrow> string \<Rightarrow> strmap" where
  "sm_put m k v \<equiv> AList.update k v m"

lemma map_of_update [simp]: "map_of (AList.update k v m) = (map_of m)(k \<mapsto> v)"
  by (rule AList.update_conv')

lemma sm_get_put: "sm_get (sm_put m k v) k' = (if k' = k then v else sm_get m k')"
  by (simp add: sm_get_def)

lemma sm_has_put: "sm_has (sm_put m k v) k' = (k' = k \<or> sm_has m k')"
  by (simp add: sm_has_def)

lemma sm_get_nonempty_has: "sm_get m k \<noteq> '''' \<Longrightarrow> sm_has m k"
  by (auto simp: sm_get_def sm_has_def split: option.splits)

section \<open>Reconcile results and nil interfaces\<close>

type_synonym time = int

text \<open>\<open>ctrl.Result\<close>; durations are in nanoseconds.\<close>

record ctrl_result =
  Requeue :: bool
  RequeueAfter :: int

definition no_requeue :: ctrl_result where
  "no_requeue = \<lparr>Requeue = False, RequeueAfter = 0\<rparr>"

definition requeue_now :: ctrl_result where
  "requeue_now = \<lparr>Requeue = True, RequeueAfter = 0\<rparr>"

definition requeue_in :: "int \<Rightarrow> ctrl_result" where
  "requeue_in d = \<lparr>Requeue = False, RequeueAfter = d\<rparr>"

abbreviation second :: int where
  "second \<equiv> 1000000000"

type_synonym reconcile_result = "ctrl_result \<times> go_error option"

abbreviation (input) ok_result :: reconcile_result where
  "ok_result \<equiv> (no_requeue, None)"

lemma requeue_kinds_distinct:
  "no_requeue \<noteq> requeue_now" "requeue_in d \<noteq> requeue_now"
  "(requeue_in d = no_requeue) = (d = 0)"
  by (simp_all add: no_requeue_def requeue_now_def requeue_in_def)

section \<open>Stateful operations that may panic\<close>

type_synonym ('s, 'a) go = "'s \<Rightarrow> ('a \<times> 's) option"

text \<open>Partial correctness: whatever the operation returns satisfies \<open>Q\<close>.\<close>

definition spost :: "('a \<Rightarrow> 's \<Rightarrow> bool) \<Rightarrow> ('a \<times> 's) option \<Rightarrow> bool" where
  "spost Q m = (case m of None \<Rightarrow> True | Some (r, s) \<Rightarrow> Q r s)"

text \<open>Total correctness: the operation does not panic and its result satisfies \<open>Q\<close>.\<close>

definition stotal :: "('a \<Rightarrow> 's \<Rightarrow> bool) \<Rightarrow> ('a \<times> 's) option \<Rightarrow> bool" where
  "stotal Q m = (case m of None \<Rightarrow> False | Some (r, s) \<Rightarrow> Q r s)"

lemma spost_Some [simp]: "spost Q (Some (r, s)) = Q r s"
  by (simp add: spost_def)

lemma spost_None [simp]: "spost Q None"
  by (simp add: spost_def)

lemma stotal_Some [simp]: "stotal Q (Some (r, s)) = Q r s"
  by (simp add: stotal_def)

lemma stotal_None [simp]: "\<not> stotal Q None"
  by (simp add: stotal_def)

lemma spost_bind [go_wp]:
  "spost Q (Option.bind m f) = spost (\<lambda>r s. spost Q (f (r, s))) m"
  by (cases m) (auto simp: spost_def)

lemma stotal_bind [go_wp]:
  "stotal Q (Option.bind m f) = stotal (\<lambda>r s. stotal Q (f (r, s))) m"
  by (cases m) (auto simp: stotal_def)

lemma spost_mono: "spost P m \<Longrightarrow> (\<And>r s. P r s \<Longrightarrow> Q r s) \<Longrightarrow> spost Q m"
  by (cases m) (auto simp: spost_def)

lemma stotal_mono: "stotal P m \<Longrightarrow> (\<And>r s. P r s \<Longrightarrow> Q r s) \<Longrightarrow> stotal Q m"
  by (cases m) (auto simp: stotal_def)

lemma stotal_spost: "stotal Q m \<Longrightarrow> spost Q m"
  by (cases m) (auto simp: stotal_def spost_def)

lemma stotal_iff: "stotal Q m \<longleftrightarrow> (\<exists>r s. m = Some (r, s) \<and> Q r s)"
  by (cases m) (auto simp: stotal_def)

lemma spost_iff: "spost Q m \<longleftrightarrow> (\<forall>r s. m = Some (r, s) \<longrightarrow> Q r s)"
  by (cases m) (auto simp: spost_def)

lemma spost_conj: "spost P m \<Longrightarrow> spost Q m \<Longrightarrow> spost (\<lambda>r s. P r s \<and> Q r s) m"
  by (cases m) (auto simp: spost_def)

lemma stotal_conj: "stotal P m \<Longrightarrow> spost Q m \<Longrightarrow> stotal (\<lambda>r s. P r s \<and> Q r s) m"
  by (cases m) (auto simp: stotal_def spost_def)

lemma spost_bindI:
  "spost P m \<Longrightarrow> (\<And>r s. P r s \<Longrightarrow> spost Q (f (r, s))) \<Longrightarrow> spost Q (Option.bind m f)"
  by (cases m) (auto simp: spost_def)

section \<open>Lists\<close>

text \<open>
  \<open>find_first\<close> is the Go idiom \<open>for _, x := range xs { if p(x) { return x } }\<close>;
  \<open>update_first\<close> the loop that assigns to the first matching slot.
\<close>

fun update_first :: "('a \<Rightarrow> bool) \<Rightarrow> ('a \<Rightarrow> 'a) \<Rightarrow> 'a list \<Rightarrow> 'a list" where
  "update_first p f [] = []"
| "update_first p f (x # xs) = (if p x then f x # xs else x # update_first p f xs)"

lemma length_update_first [simp]: "length (update_first p f xs) = length xs"
  by (induction xs) auto

lemma map_update_first:
  assumes "\<And>x. g (f x) = g x"
  shows "map g (update_first p f xs) = map g xs"
  using assms by (induction xs) auto

lemma find_update_first:
  assumes "\<And>x. p (f x) = p x"
  shows "List.find p (update_first p f xs) = map_option f (List.find p xs)"
  using assms by (induction xs) auto

lemma find_update_first_other:
  assumes "\<And>x. q x \<Longrightarrow> \<not> p x" "\<And>x. q (f x) = q x"
  shows "List.find q (update_first p f xs) = List.find q xs"
  using assms by (induction xs) auto

lemma find_append:
  "List.find p (xs @ ys) = (case List.find p xs of None \<Rightarrow> List.find p ys | Some x \<Rightarrow> Some x)"
  by (induction xs) auto

lemma find_filter_other:
  assumes "\<And>x. q x \<Longrightarrow> p x"
  shows "List.find q (filter p xs) = List.find q xs"
  using assms by (induction xs) auto

lemma find_filter_none:
  assumes "\<And>x. q x \<Longrightarrow> \<not> p x"
  shows "List.find q (filter p xs) = None"
  using assms by (induction xs) auto

lemma update_first_id: "(\<And>x. x \<in> set xs \<Longrightarrow> \<not> p x) \<Longrightarrow> update_first p f xs = xs"
  by (induction xs) auto

lemma set_update_first: "set (update_first p f xs) \<subseteq> set xs \<union> f ` set xs"
  by (induction xs) auto

section \<open>Results that may be errors\<close>

lemma bind_Inr_conv:
  "Option.bind m (\<lambda>r. case r of Inl e \<Rightarrow> Some (Inl e) | Inr x \<Rightarrow> f x) = Some (Inr v) \<longleftrightarrow>
    (\<exists>x. m = Some (Inr x) \<and> f x = Some (Inr v))"
  by (cases m) (auto split: sum.splits)

lemma bind_map_Inr_conv:
  "Option.bind m (\<lambda>r. Some (case r of Inl e \<Rightarrow> Inl e | Inr x \<Rightarrow> Inr (g x))) = Some (Inr v) \<longleftrightarrow>
    (\<exists>x. m = Some (Inr x) \<and> v = g x)"
  by (cases m) (auto split: sum.splits)

end
