(* ===== verification/Api_Types.thy ===== *)
theory Api_Types
  imports Prelude
begin

text \<open>
  The MultiClusterEngine custom resource: the types of \<open>api/v1/multiclusterengine_types.go\<close> and
  the component list with its methods of \<open>api/v1/multiclusterengine_methods.go\<close>.  The lemmas show
  that the override list behaves as a finite map from component names to flags (stated once as the
  locale \<open>component_store\<close>) and that the component tables of the package are consistent.
\<close>

section \<open>Component names\<close>

abbreviation AssistedService :: string where "AssistedService \<equiv> ''assisted-service''"
abbreviation ClusterAPI :: string where "ClusterAPI \<equiv> ''cluster-api''"
abbreviation ClusterAPIPreview :: string where "ClusterAPIPreview \<equiv> ''cluster-api-preview''"
abbreviation ClusterAPIProviderAWS :: string where
  "ClusterAPIProviderAWS \<equiv> ''cluster-api-provider-aws''"
abbreviation ClusterAPIProviderAWSPreview :: string where
  "ClusterAPIProviderAWSPreview \<equiv> ''cluster-api-provider-aws-preview''"
abbreviation ClusterAPIProviderAzure :: string where
  "ClusterAPIProviderAzure \<equiv> ''cluster-api-provider-azure''"
abbreviation ClusterAPIProviderAzurePreview :: string where
  "ClusterAPIProviderAzurePreview \<equiv> ''cluster-api-provider-azure-preview''"
abbreviation ClusterAPIProviderMetal :: string where
  "ClusterAPIProviderMetal \<equiv> ''cluster-api-provider-metal3''"
abbreviation ClusterAPIProviderMetalPreview :: string where
  "ClusterAPIProviderMetalPreview \<equiv> ''cluster-api-provider-metal3-preview''"
abbreviation ClusterAPIProviderOA :: string where
  "ClusterAPIProviderOA \<equiv> ''cluster-api-provider-openshift-assisted''"
abbreviation ClusterAPIProviderOAPreview :: string where
  "ClusterAPIProviderOAPreview \<equiv> ''cluster-api-provider-openshift-assisted-preview''"
abbreviation ClusterLifecycle :: string where "ClusterLifecycle \<equiv> ''cluster-lifecycle''"
abbreviation ClusterManager :: string where "ClusterManager \<equiv> ''cluster-manager''"
abbreviation ClusterPermission :: string where "ClusterPermission \<equiv> ''cluster-permission''"
abbreviation ClusterProxyAddon :: string where "ClusterProxyAddon \<equiv> ''cluster-proxy-addon''"
abbreviation ConsoleMCE :: string where "ConsoleMCE \<equiv> ''console-mce''"
abbreviation Discovery :: string where "Discovery \<equiv> ''discovery''"
abbreviation FleetNavigation :: string where "FleetNavigation \<equiv> ''fleet-navigation''"
abbreviation Hive :: string where "Hive \<equiv> ''hive''"
abbreviation HyperShift :: string where "HyperShift \<equiv> ''hypershift''"
abbreviation HypershiftLocalHosting :: string where
  "HypershiftLocalHosting \<equiv> ''hypershift-local-hosting''"
abbreviation HyperShiftPreview :: string where "HyperShiftPreview \<equiv> ''hypershift-preview''"
abbreviation ImageBasedInstallOperator :: string where
  "ImageBasedInstallOperator \<equiv> ''image-based-install-operator''"
abbreviation ImageBasedInstallOperatorPreview :: string where
  "ImageBasedInstallOperatorPreview \<equiv> ''image-based-install-operator-preview''"
abbreviation LocalCluster :: string where "LocalCluster \<equiv> ''local-cluster''"
abbreviation ManagedServiceAccount :: string where
  "ManagedServiceAccount \<equiv> ''managedserviceaccount''"
abbreviation ManagedServiceAccountPreview :: string where
  "ManagedServiceAccountPreview \<equiv> ''managedserviceaccount-preview''"
abbreviation ServerFoundation :: string where "ServerFoundation \<equiv> ''server-foundation''"
abbreviation MaestroPreview :: string where "MaestroPreview \<equiv> ''maestro-preview''"

section \<open>CRD directory names\<close>

abbreviation AssistedServiceCRDDir :: string where
  "AssistedServiceCRDDir \<equiv> ''assisted-service''"
abbreviation ClusterAPICRDDir :: string where "ClusterAPICRDDir \<equiv> ''cluster-api''"
abbreviation ClusterAPIK8SCRDDir :: string where "ClusterAPIK8SCRDDir \<equiv> ''cluster-api-k8s''"
abbreviation ClusterAPIProviderAWSCRDDir :: string where
  "ClusterAPIProviderAWSCRDDir \<equiv> ''cluster-api-provider-aws''"
abbreviation ClusterAPIProviderAzureCRDDir :: string where
  "ClusterAPIProviderAzureCRDDir \<equiv> ''cluster-api-provider-azure''"
abbreviation ClusterAPIProviderAzureK8SCRDDir :: string where
  "ClusterAPIProviderAzureK8SCRDDir \<equiv> ''cluster-api-provider-azure-k8s''"
abbreviation ClusterAPIProviderMetalCRDDir :: string where
  "ClusterAPIProviderMetalCRDDir \<equiv> ''cluster-api-provider-metal3''"
abbreviation ClusterAPIProviderMetalK8SCRDDir :: string where
  "ClusterAPIProviderMetalK8SCRDDir \<equiv> ''cluster-api-provider-metal3-k8s''"
abbreviation ClusterAPIProviderOACRDDir :: string where
  "ClusterAPIProviderOACRDDir \<equiv> ''cluster-api-provider-openshift-assisted''"
abbreviation ClusterAPIProviderOAK8SCRDDir :: string where
  "ClusterAPIProviderOAK8SCRDDir \<equiv> ''cluster-api-provider-openshift-assisted-k8s''"
abbreviation ClusterLifecycleCRDDir :: string where
  "ClusterLifecycleCRDDir \<equiv> ''cluster-lifecycle''"
abbreviation ClusterManagerCRDDir :: string where
  "ClusterManagerCRDDir \<equiv> ''cluster-manager''"
abbreviation ClusterPermissionCRDDir :: string where
  "ClusterPermissionCRDDir \<equiv> ''cluster-permission''"
abbreviation ClusterProxyAddonCRDDir :: string where
  "ClusterProxyAddonCRDDir \<equiv> ''cluster-proxy-addon''"
abbreviation DiscoveryCRDDir :: string where "DiscoveryCRDDir \<equiv> ''discovery-operator''"
abbreviation HiveCRDDir :: string where "HiveCRDDir \<equiv> ''hive-operator''"
abbreviation ImageBasedInstallOperatorCRDDir :: string where
  "ImageBasedInstallOperatorCRDDir \<equiv> ''image-based-install-operator''"
abbreviation ManagedServiceAccountCRDDir :: string where
  "ManagedServiceAccountCRDDir \<equiv> ''managed-serviceaccount''"
abbreviation ServerFoundationCRDDir :: string where "ServerFoundationCRDDir \<equiv> ''foundation''"

definition AllComponents :: "string list" where
  "AllComponents =
    [AssistedService, ClusterAPI, ClusterAPIPreview, ClusterAPIProviderAWS,
     ClusterAPIProviderAWSPreview, ClusterAPIProviderAzurePreview, ClusterAPIProviderMetal,
     ClusterAPIProviderMetalPreview, ClusterAPIProviderOAPreview, ClusterAPIProviderOA,
     ClusterLifecycle, ClusterManager, ClusterPermission, ClusterProxyAddon, ConsoleMCE,
     Discovery, FleetNavigation, Hive, HyperShift, HypershiftLocalHosting, HyperShiftPreview,
     ImageBasedInstallOperator, ImageBasedInstallOperatorPreview, LocalCluster,
     ManagedServiceAccount, ManagedServiceAccountPreview, ServerFoundation, MaestroPreview]"

definition MCEComponents :: "string list" where
  "MCEComponents =
    [AssistedService, ClusterAPI, ClusterAPIProviderAWS, ClusterAPIProviderAzurePreview,
     ClusterAPIProviderMetal, ClusterAPIProviderOA, ClusterLifecycle, ClusterManager,
     ClusterPermission, ClusterProxyAddon, ConsoleMCE, Discovery, FleetNavigation, Hive,
     HyperShift, HypershiftLocalHosting, ImageBasedInstallOperator, ManagedServiceAccount,
     ServerFoundation, MaestroPreview]"

definition PreviewComponents :: "string list" where
  "PreviewComponents =
    [ClusterAPIPreview, ClusterAPIProviderAWSPreview, ClusterAPIProviderMetalPreview,
     ClusterAPIProviderOAPreview, HyperShiftPreview, ImageBasedInstallOperatorPreview,
     ManagedServiceAccountPreview]"

definition PreviewToStable :: strmap where
  "PreviewToStable =
    [(ClusterAPIPreview, ClusterAPI),
     (ClusterAPIProviderAWSPreview, ClusterAPIProviderAWS),
     (ClusterAPIProviderMetalPreview, ClusterAPIProviderMetal),
     (ClusterAPIProviderOAPreview, ClusterAPIProviderOA),
     (HyperShiftPreview, HyperShift),
     (ImageBasedInstallOperatorPreview, ImageBasedInstallOperator),
     (ManagedServiceAccountPreview, ManagedServiceAccount)]"

section \<open>The custom resource\<close>

abbreviation HABasic :: string where "HABasic \<equiv> ''Basic''"
abbreviation HAHigh :: string where "HAHigh \<equiv> ''High''"
abbreviation ModeHosted :: string where "ModeHosted \<equiv> ''Hosted''"
abbreviation ModeStandalone :: string where "ModeStandalone \<equiv> ''Standalone''"

record EnvConfig =
  ec_Name :: string
  ec_Value :: string

record ContainerConfig =
  ct_Name :: string
  ct_Env :: "EnvConfig list"

record DeploymentConfig =
  dc_Name :: string
  dc_Containers :: "ContainerConfig list"

text \<open>\<open>ConfigOverride\<close> has the list of deployment overrides as its only field.\<close>

record ConfigOverride =
  co_Deployments :: "DeploymentConfig list"

record ComponentConfig =
  cc_Enabled :: bool
  cc_Name :: string
  cc_ConfigOverrides :: ConfigOverride

record Overrides =
  ov_ImagePullPolicy :: string
  ov_Components :: "ComponentConfig list"
  ov_InfrastructureCustomNamespace :: string

record Toleration =
  tol_Key :: string
  tol_Operator :: string
  tol_Value :: string
  tol_Effect :: string
  tol_TolerationSeconds :: "int option"

record NetworkPoliciesConfig =
  np_Enabled :: bool

text \<open>Pointers (\<open>*Overrides\<close>, \<open>*NetworkPoliciesConfig\<close>) are options: \<^term>\<open>None\<close> is nil.\<close>

record MultiClusterEngineSpec =
  sp_AvailabilityConfig :: string
  sp_NodeSelector :: strmap
  sp_ImagePullSecret :: string
  sp_Overrides :: "Overrides option"
  sp_Tolerations :: "Toleration list option"
  sp_TargetNamespace :: string
  sp_LocalClusterName :: string
  sp_NetworkPolicies :: "NetworkPoliciesConfig option"

record ComponentCondition =
  cp_Name :: string
  cp_Kind :: string
  cp_Available :: bool
  cp_Type :: string
  cp_Status :: string
  cp_LastUpdateTime :: time
  cp_LastTransitionTime :: time
  cp_Reason :: string
  cp_Message :: string

record MultiClusterEngineCondition =
  cd_Type :: string
  cd_Status :: string
  cd_LastUpdateTime :: time
  cd_LastTransitionTime :: time
  cd_Reason :: string
  cd_Message :: string

abbreviation PhaseProgressing :: string where "PhaseProgressing \<equiv> ''Progressing''"
abbreviation PhasePaused :: string where "PhasePaused \<equiv> ''Paused''"
abbreviation PhaseAvailable :: string where "PhaseAvailable \<equiv> ''Available''"
abbreviation PhaseUninstalling :: string where "PhaseUninstalling \<equiv> ''Uninstalling''"
abbreviation PhaseError :: string where "PhaseError \<equiv> ''Error''"
abbreviation PhaseUnimplemented :: string where "PhaseUnimplemented \<equiv> ''Unimplemented''"
abbreviation PhaseUpdating :: string where "PhaseUpdating \<equiv> ''Updating''"

abbreviation MultiClusterEngineAvailable :: string where
  "MultiClusterEngineAvailable \<equiv> ''Available''"
abbreviation MultiClusterEngineProgressing :: string where
  "MultiClusterEngineProgressing \<equiv> ''Progressing''"
abbreviation MultiClusterEngineComponentFailure :: string where
  "MultiClusterEngineComponentFailure \<equiv> ''ComponentFailure''"
abbreviation MultiClusterEngineFailure :: string where
  "MultiClusterEngineFailure \<equiv> ''Failure''"
abbreviation MultiClusterEngineComponentsExternallyManaged :: string where
  "MultiClusterEngineComponentsExternallyManaged \<equiv> ''ComponentsExternallyManaged''"

record MultiClusterEngineStatus =
  ms_Phase :: string
  ms_Components :: "ComponentCondition list"
  ms_Conditions :: "MultiClusterEngineCondition list"
  ms_CurrentVersion :: string
  ms_DesiredVersion :: string

text \<open>
  The object: the metadata the operator reads or writes (a nil \<open>DeletionTimestamp\<close> is
  \<^term>\<open>None\<close>), the spec and the status.
\<close>

record MultiClusterEngine =
  mce_Name :: string
  mce_UID :: string
  mce_Labels :: strmap
  mce_Annotations :: strmap
  mce_Finalizers :: "string list"
  mce_DeletionTimestamp :: "time option"
  mce_ResourceVersion :: string
  mce_Generation :: int
  mce_Spec :: MultiClusterEngineSpec
  mce_Status :: MultiClusterEngineStatus

text \<open>The zero values the Go composite literals \<open>Overrides{}\<close> and \<open>ConfigOverride{}\<close> build.\<close>

definition empty_Overrides :: Overrides where
  "empty_Overrides =
    \<lparr>ov_ImagePullPolicy = '''', ov_Components = [], ov_InfrastructureCustomNamespace = ''''\<rparr>"

definition empty_ConfigOverride :: ConfigOverride where
  "empty_ConfigOverride = \<lparr>co_Deployments = []\<rparr>"

section \<open>Methods on the component overrides\<close>

definition mce_components :: "MultiClusterEngine \<Rightarrow> ComponentConfig list" where
  "mce_components m = (case sp_Overrides (mce_Spec m) of None \<Rightarrow> [] | Some ov \<Rightarrow> ov_Components ov)"

definition ComponentPresent :: "MultiClusterEngine \<Rightarrow> string \<Rightarrow> bool" where
  "ComponentPresent m s =
    (case sp_Overrides (mce_Spec m) of
       None \<Rightarrow> False
     | Some ov \<Rightarrow> List.find (\<lambda>c. cc_Name c = s) (ov_Components ov) \<noteq> None)"

definition Enabled :: "MultiClusterEngine \<Rightarrow> string \<Rightarrow> bool" where
  "Enabled m s =
    (case sp_Overrides (mce_Spec m) of
       None \<Rightarrow> False
     | Some ov \<Rightarrow>
         (case List.find (\<lambda>c. cc_Name c = s) (ov_Components ov) of
            None \<Rightarrow> False
          | Some c \<Rightarrow> cc_Enabled c))"

text \<open>
  \<open>Enable\<close> and \<open>Disable\<close> share their body: the first entry of that name gets the flag, and an
  entry is appended when there is none.
\<close>

definition set_component_flag :: "bool \<Rightarrow> ComponentConfig list \<Rightarrow> string \<Rightarrow> ComponentConfig list" where
  "set_component_flag b cs s =
    (if \<exists>c \<in> set cs. cc_Name c = s
     then update_first (\<lambda>c. cc_Name c = s) (\<lambda>c. c\<lparr>cc_Enabled := b\<rparr>) cs
     else cs @ [\<lparr>cc_Enabled = b, cc_Name = s, cc_ConfigOverrides = empty_ConfigOverride\<rparr>])"

definition set_mce_components ::
  "(ComponentConfig list \<Rightarrow> ComponentConfig list) \<Rightarrow> MultiClusterEngine \<Rightarrow> MultiClusterEngine" where
  "set_mce_components f m =
    (let ov = (case sp_Overrides (mce_Spec m) of None \<Rightarrow> empty_Overrides | Some ov \<Rightarrow> ov)
     in m\<lparr>mce_Spec := (mce_Spec m)\<lparr>sp_Overrides :=
            Some (ov\<lparr>ov_Components := f (ov_Components ov)\<rparr>)\<rparr>\<rparr>)"

definition Enable :: "MultiClusterEngine \<Rightarrow> string \<Rightarrow> MultiClusterEngine" where
  "Enable m s = set_mce_components (\<lambda>cs. set_component_flag True cs s) m"

definition Disable :: "MultiClusterEngine \<Rightarrow> string \<Rightarrow> MultiClusterEngine" where
  "Disable m s = set_mce_components (\<lambda>cs. set_component_flag False cs s) m"

definition Prune :: "MultiClusterEngine \<Rightarrow> string \<Rightarrow> bool \<times> MultiClusterEngine" where
  "Prune m s =
    (case sp_Overrides (mce_Spec m) of
       None \<Rightarrow> (False, m)
     | Some ov \<Rightarrow>
         (if \<exists>c \<in> set (ov_Components ov). cc_Name c = s
          then (True, set_mce_components (filter (\<lambda>c. cc_Name c \<noteq> s)) m)
          else (False, m)))"

definition validComponent :: "ComponentConfig \<Rightarrow> bool" where
  "validComponent c = (cc_Name c \<in> set AllComponents)"

definition IsInHostedMode :: "MultiClusterEngine \<Rightarrow> bool" where
  "IsInHostedMode m = (sm_get (mce_Annotations m) ''deploymentmode'' = ModeHosted)"

definition IsACMManaged :: "MultiClusterEngine \<Rightarrow> bool" where
  "IsACMManaged m =
    (sm_get (mce_Labels m) ''multiclusterhubs.operator.open-cluster-management.io/managed-by''
       = ''true'')"

section \<open>The override list as a map\<close>

text \<open>
  The abstract view: a component is absent, disabled or enabled.  \<open>defaults_for\<close> and
  \<open>migrate_all\<close> are the two loops that clients run over a store: give every absent component of
  a list its default, and replace every component of a list by its successor.
\<close>

definition component_flag :: "MultiClusterEngine \<Rightarrow> string \<Rightarrow> bool option" where
  "component_flag m s = map_option cc_Enabled (List.find (\<lambda>c. cc_Name c = s) (mce_components m))"

lemma ComponentPresent_flag: "ComponentPresent m s = (component_flag m s \<noteq> None)"
  by (auto simp: ComponentPresent_def component_flag_def mce_components_def split: option.splits)

lemma Enabled_flag: "Enabled m s = (component_flag m s = Some True)"
  by (auto simp: Enabled_def component_flag_def mce_components_def split: option.splits)

fun defaults_for ::
  "('m \<Rightarrow> string \<Rightarrow> bool) \<Rightarrow> ('m \<Rightarrow> string \<Rightarrow> 'm) \<Rightarrow> string list \<Rightarrow> 'm \<Rightarrow> bool \<times> 'm" where
  "defaults_for present put [] m = (False, m)"
| "defaults_for present put (c # cs) m =
    (if present m c then defaults_for present put cs m
     else (True, snd (defaults_for present put cs (put m c))))"

fun migrate_all ::
  "('m \<Rightarrow> string \<Rightarrow> bool) \<Rightarrow> ('m \<Rightarrow> string \<Rightarrow> 'm) \<Rightarrow> ('m \<Rightarrow> string \<Rightarrow> bool \<times> 'm)
    \<Rightarrow> strmap \<Rightarrow> string list \<Rightarrow> 'm \<Rightarrow> bool \<times> 'm" where
  "migrate_all enabled enable prune repl [] m = (False, m)"
| "migrate_all enabled enable prune repl (p # ps) m =
    (let m1 = (if enabled m p
               then (case map_of repl p of None \<Rightarrow> m | Some q \<Rightarrow> enable m q)
               else m);
         (pruned, m2) = prune m1 p;
         (changed, m3) = migrate_all enabled enable prune repl ps m2
     in (pruned \<or> changed, m3))"

locale component_store =
  fixes flag :: "'m \<Rightarrow> string \<Rightarrow> bool option"
    and present :: "'m \<Rightarrow> string \<Rightarrow> bool"
    and enabled :: "'m \<Rightarrow> string \<Rightarrow> bool"
    and enable :: "'m \<Rightarrow> string \<Rightarrow> 'm"
    and disable :: "'m \<Rightarrow> string \<Rightarrow> 'm"
    and prune :: "'m \<Rightarrow> string \<Rightarrow> bool \<times> 'm"
  assumes present_flag: "present m s = (flag m s \<noteq> None)"
    and enabled_flag: "enabled m s = (flag m s = Some True)"
    and flag_enable: "flag (enable m s) t = (if t = s then Some True else flag m t)"
    and flag_disable: "flag (disable m s) t = (if t = s then Some False else flag m t)"
    and flag_prune: "flag (snd (prune m s)) t = (if t = s then None else flag m t)"
    and fst_prune: "fst (prune m s) = present m s"
    and prune_absent: "\<not> present m s \<Longrightarrow> prune m s = (False, m)"
begin

lemma flag_defaults_enable:
  "flag (snd (defaults_for present enable cs m)) t =
    (if flag m t = None \<and> t \<in> set cs then Some True else flag m t)"
  by (induction cs arbitrary: m) (auto simp: present_flag flag_enable)

lemma flag_defaults_disable:
  "flag (snd (defaults_for present disable cs m)) t =
    (if flag m t = None \<and> t \<in> set cs then Some False else flag m t)"
  by (induction cs arbitrary: m) (auto simp: present_flag flag_disable)

lemma fst_defaults: "fst (defaults_for present put cs m) = (\<exists>c \<in> set cs. \<not> present m c)"
  by (induction cs arbitrary: m) auto

lemma defaults_unchanged:
  "(\<And>c. c \<in> set cs \<Longrightarrow> present m c) \<Longrightarrow> defaults_for present put cs m = (False, m)"
  by (induction cs) auto

lemma flag_migrate_all:
  assumes "distinct ps" "\<And>p q. map_of repl p = Some q \<Longrightarrow> q \<notin> set ps"
  shows "flag (snd (migrate_all enabled enable prune repl ps m)) t =
    (if t \<in> set ps then None
     else if \<exists>p \<in> set ps. flag m p = Some True \<and> map_of repl p = Some t then Some True
     else flag m t)"
  using assms
proof (induction ps arbitrary: m)
  case (Cons p ps)
  define m1 where
    "m1 = (if enabled m p then (case map_of repl p of None \<Rightarrow> m | Some q \<Rightarrow> enable m q) else m)"
  define m2 where "m2 = snd (prune m1 p)"
  have step: "snd (migrate_all enabled enable prune repl (p # ps) m)
      = snd (migrate_all enabled enable prune repl ps m2)"
    by (simp add: m1_def m2_def Let_def split_beta)
  have m2: "flag m2 u = (if u = p then None
      else if flag m p = Some True \<and> map_of repl p = Some u then Some True else flag m u)" for u
    by (auto simp: m2_def m1_def flag_prune flag_enable enabled_flag [of m p] split: option.splits)
  have same: "flag m2 q = flag m q" if "q \<in> set ps" for q
    using that Cons.prems by (auto simp: m2)
  have ih: "flag (snd (migrate_all enabled enable prune repl ps m2)) t =
      (if t \<in> set ps then None
       else if \<exists>q \<in> set ps. flag m q = Some True \<and> map_of repl q = Some t then Some True
       else flag m2 t)"
    using Cons.IH [of m2] Cons.prems same by auto
  show ?case
    unfolding step ih using Cons.prems by (auto simp: m2)
qed simp

lemma migrate_all_unchanged:
  "(\<And>p. p \<in> set ps \<Longrightarrow> \<not> present m p) \<Longrightarrow>
    migrate_all enabled enable prune repl ps m = (False, m)"
proof (induction ps)
  case (Cons p ps)
  then have "\<not> enabled m p" by (simp add: present_flag enabled_flag)
  with Cons show ?case by (simp add: prune_absent)
qed simp

end

lemma mce_components_set [simp]:
  "mce_components (set_mce_components f m) = f (mce_components m)"
  by (auto simp: mce_components_def set_mce_components_def empty_Overrides_def Let_def
      split: option.splits)

lemma find_set_component_flag:
  "map_option cc_Enabled (List.find (\<lambda>c. cc_Name c = t) (set_component_flag b cs s)) =
    (if t = s then Some b
     else map_option cc_Enabled (List.find (\<lambda>c. cc_Name c = t) cs))"
proof (cases "\<exists>c \<in> set cs. cc_Name c = s")
  case True
  then have some: "List.find (\<lambda>c. cc_Name c = s) cs \<noteq> None"
    by (auto simp: find_None_iff)
  show ?thesis
  proof (cases "t = s")
    case True
    then show ?thesis using some \<open>\<exists>c \<in> set cs. cc_Name c = s\<close>
      by (auto simp: set_component_flag_def find_update_first)
  next
    case False
    then have "List.find (\<lambda>c. cc_Name c = t) (set_component_flag b cs s)
        = List.find (\<lambda>c. cc_Name c = t) cs"
      using True by (auto simp: set_component_flag_def intro!: find_update_first_other)
    then show ?thesis using False by simp
  qed
next
  case False
  then have "List.find (\<lambda>c. cc_Name c = s) cs = None" by (auto simp: find_None_iff)
  then show ?thesis using False
    by (auto simp: set_component_flag_def find_append split: option.splits)
qed

lemma component_flag_Enable:
  "component_flag (Enable m s) t = (if t = s then Some True else component_flag m t)"
  by (simp add: component_flag_def Enable_def find_set_component_flag)

lemma component_flag_Disable:
  "component_flag (Disable m s) t = (if t = s then Some False else component_flag m t)"
  by (simp add: component_flag_def Disable_def find_set_component_flag)

lemma Prune_absent: "component_flag m s = None \<Longrightarrow> Prune m s = (False, m)"
  by (auto simp: Prune_def component_flag_def mce_components_def find_None_iff
      split: option.splits)

lemma Prune_present:
  "component_flag m s \<noteq> None \<Longrightarrow>
    Prune m s = (True, set_mce_components (filter (\<lambda>c. cc_Name c \<noteq> s)) m)"
  by (auto simp: Prune_def component_flag_def mce_components_def find_Some_iff
      split: option.splits)

lemma component_flag_Prune:
  "component_flag (snd (Prune m s)) t = (if t = s then None else component_flag m t)"
proof (cases "component_flag m s = None")
  case False
  have "List.find (\<lambda>c. cc_Name c = t) (filter (\<lambda>c. cc_Name c \<noteq> s) cs)
      = List.find (\<lambda>c. cc_Name c = t) cs" if "t \<noteq> s" for cs :: "ComponentConfig list"
    using that by (intro find_filter_other) simp
  then show ?thesis using False
    by (simp add: Prune_present component_flag_def find_filter_none)
qed (auto simp: Prune_absent)

interpretation overrides: component_store component_flag ComponentPresent Enabled Enable Disable Prune
proof (unfold_locales, goal_cases)
  case (6 m s)
  then show ?case
    by (cases "component_flag m s = None")
      (auto simp: Prune_absent Prune_present ComponentPresent_flag)
qed (simp_all add: ComponentPresent_flag Enabled_flag component_flag_Enable
    component_flag_Disable component_flag_Prune Prune_absent)

end
