(* ===== verification/Kube.thy ===== *)
theory Kube
  imports Api_Types
begin

text \<open>
  The cluster as the operator sees it.  The Kubernetes client is a library the sources only call:
  it is the parameter \<open>'w client\<close>, a record with one function per method and result type, over
  an arbitrary type \<open>'w\<close> of worlds.  Every call threads the world, so other actors may change the
  cluster between two calls.  The wrappers \<open>api_Get\<close>, \<open>api_Create\<close>, \dots are the calls of the
  model: they run the client and append the call to the trace of the state, so that the safety
  theorems can speak about exactly which requests an operation sends, for every client.
\<close>

section \<open>Objects\<close>

datatype json =
    JNull
  | JBool bool
  | JInt int
  | JString string
  | JArray "json list"
  | JObject "(string \<times> json) list"

text \<open>Group, version and kind.  A \<open>NamespacedName\<close> is the pair of namespace and name.\<close>

record gvk =
  gvk_Group :: string
  gvk_Version :: string
  gvk_Kind :: string

type_synonym nn = "string \<times> string"

record owner_ref =
  or_APIVersion :: string
  or_Kind :: string
  or_Name :: string
  or_UID :: string
  or_Controller :: "bool option"
  or_BlockOwnerDeletion :: "bool option"

text \<open>
  An object (typed or \<open>unstructured.Unstructured\<close>): its metadata and, in \<open>ko_Content\<close>, the
  other top level fields (\<open>spec\<close>, \<open>data\<close>, \<open>status\<close>, \dots).
\<close>

record kobj =
  ko_GVK :: gvk
  ko_Name :: string
  ko_Namespace :: string
  ko_UID :: string
  ko_ResourceVersion :: string
  ko_Labels :: strmap
  ko_Annotations :: strmap
  ko_Finalizers :: "string list"
  ko_OwnerRefs :: "owner_ref list"
  ko_DeletionTimestamp :: "time option"
  ko_Content :: "(string \<times> json) list"

definition mk_gvk :: "string \<Rightarrow> string \<Rightarrow> string \<Rightarrow> gvk" where
  "mk_gvk g v k = \<lparr>gvk_Group = g, gvk_Version = v, gvk_Kind = k\<rparr>"

definition mk_obj :: "gvk \<Rightarrow> string \<Rightarrow> string \<Rightarrow> kobj" where
  "mk_obj g ns n =
    \<lparr>ko_GVK = g, ko_Name = n, ko_Namespace = ns, ko_UID = '''', ko_ResourceVersion = '''',
     ko_Labels = [], ko_Annotations = [], ko_Finalizers = [], ko_OwnerRefs = [],
     ko_DeletionTimestamp = None, ko_Content = []\<rparr>"

abbreviation ko_Kind :: "kobj \<Rightarrow> string" where
  "ko_Kind u \<equiv> gvk_Kind (ko_GVK u)"

abbreviation ko_key :: "kobj \<Rightarrow> nn" where
  "ko_key u \<equiv> (ko_Namespace u, ko_Name u)"

text \<open>\<open>GetAPIVersion\<close>: the group and version joined, the core group left out.\<close>

definition api_version :: "gvk \<Rightarrow> string" where
  "api_version g = (if gvk_Group g = '''' then gvk_Version g
                    else gvk_Group g @ ''/'' @ gvk_Version g)"

text \<open>
  Reading and writing nested fields of the content, as the accessors
  \<open>unstructured.NestedFieldNoCopy\<close> and \<open>SetNestedField\<close> do on the object's map.  Reading gives
  \<^term>\<open>None\<close> when the path is absent; a value in the middle of the path that is not an object is
  an error there, reported here by \<^term>\<open>Some None\<close>.
\<close>

fun nested :: "(string \<times> json) list \<Rightarrow> string list \<Rightarrow> json option option" where
  "nested m [] = Some (Some (JObject m))"
| "nested m [k] = (case map_of m k of None \<Rightarrow> None | Some v \<Rightarrow> Some (Some v))"
| "nested m (k # ks) =
    (case map_of m k of
       None \<Rightarrow> None
     | Some (JObject m') \<Rightarrow> nested m' ks
     | Some v \<Rightarrow> Some None)"

fun set_nested :: "(string \<times> json) list \<Rightarrow> string list \<Rightarrow> json \<Rightarrow> (string \<times> json) list option" where
  "set_nested m [] v = Some m"
| "set_nested m [k] v = Some (AList.update k v m)"
| "set_nested m (k # ks) v =
    (case map_of m k of
       None \<Rightarrow> map_option (\<lambda>m'. AList.update k (JObject m') m) (set_nested [] ks v)
     | Some (JObject m') \<Rightarrow> map_option (\<lambda>m''. AList.update k (JObject m'') m) (set_nested m' ks v)
     | Some _ \<Rightarrow> None)"

lemma nested_set_nested:
  "ks \<noteq> [] \<Longrightarrow> set_nested m ks v = Some m' \<Longrightarrow> nested m' ks = Some (Some v)"
proof (induction m ks v arbitrary: m' rule: set_nested.induct)
  case (3 m k k2 ks v)
  then show ?case by (auto split: option.splits json.splits)
qed auto

text \<open>A path has a place in an object unless something strictly above its end is there and is no object.\<close>

definition has_place :: "(string \<times> json) list \<Rightarrow> string list \<Rightarrow> bool" where
  "has_place m ks = (\<forall>i \<in> set [1..<length ks]. \<forall>j. nested m (take i ks) = Some (Some j) \<longrightarrow> (\<exists>m'. j = JObject m'))"

lemma set_nested_empty: "ks \<noteq> [] \<Longrightarrow> set_nested [] ks v \<noteq> None"
proof (induction ks)
  case (Cons k ks)
  then show ?case by (cases ks) auto
qed simp

lemma nested_take:
  "nested m (k # take i (k2 # ks)) = (case map_of m k of None \<Rightarrow> None
      | Some (JObject m') \<Rightarrow> nested m' (take i (k2 # ks)) | Some v \<Rightarrow> if i = 0 then Some (Some v) else Some None)"
  by (cases i) (auto split: option.split json.split)

lemma has_place_step:
  "has_place m (k # k2 # ks) \<longleftrightarrow>
    (case map_of m k of None \<Rightarrow> True | Some (JObject m') \<Rightarrow> has_place m' (k2 # ks) | Some _ \<Rightarrow> False)"
proof -
  have "[1..<length (k # k2 # ks)] = map Suc (0 # [1..<length (k2 # ks)])"
    by (simp add: map_Suc_upt upt_conv_Cons del: upt_Suc)
  then have range: "set [1..<length (k # k2 # ks)] = Suc ` set (0 # [1..<length (k2 # ks)])"
    by (simp only: list.set_map)
  have "has_place m (k # k2 # ks) \<longleftrightarrow> (\<forall>i \<in> set (0 # [1..<length (k2 # ks)]). \<forall>j.
      nested m (k # take i (k2 # ks)) = Some (Some j) \<longrightarrow> (\<exists>m'. j = JObject m'))"
    unfolding has_place_def range by (simp only: ball_simps take_Suc_Cons)
  then show ?thesis
    unfolding nested_take has_place_def by (auto simp del: upt_Suc split: option.split json.split)
qed

lemma set_nested_None:
  "ks \<noteq> [] \<Longrightarrow> set_nested m ks v = None \<longleftrightarrow> \<not> has_place m ks"
proof (induction m ks v rule: set_nested.induct)
  case (3 m k k2 ks v)
  then show ?case
    using set_nested_empty [of "k2 # ks" v]
    by (cases "map_of m k") (auto simp: has_place_step split: json.split)
qed (auto simp: has_place_def)

text \<open>The string map of an object field such as \<open>data\<close>; values that are no strings are dropped.\<close>

fun json_strmap :: "(string \<times> json) list \<Rightarrow> strmap" where
  "json_strmap [] = []"
| "json_strmap ((k, JString v) # m) = (k, v) # json_strmap m"
| "json_strmap (_ # m) = json_strmap m"

definition strmap_json :: "strmap \<Rightarrow> json" where
  "strmap_json m = JObject (map (\<lambda>(k, v). (k, JString v)) m)"

definition data_of :: "kobj \<Rightarrow> strmap" where
  "data_of u = (case map_of (ko_Content u) ''data'' of
                  Some (JObject m) \<Rightarrow> json_strmap m
                | _ \<Rightarrow> [])"

lemma json_strmap_inverse: "strmap_json m = JObject m' \<Longrightarrow> json_strmap m' = m"
  by (induction m arbitrary: m') (auto simp: strmap_json_def)

section \<open>Deployments\<close>

text \<open>The part of \<open>appsv1.Deployment\<close> that the status code reads.\<close>

record deploy_condition =
  dcn_Type :: string
  dcn_Status :: string
  dcn_LastUpdateTime :: time
  dcn_LastTransitionTime :: time
  dcn_Reason :: string
  dcn_Message :: string

record deployment =
  dp_Kind :: string
  dp_Name :: string
  dp_Namespace :: string
  dp_Labels :: strmap
  dp_UnavailableReplicas :: int
  dp_Conditions :: "deploy_condition list"

section \<open>The client\<close>

type_synonym 'a resp = "go_error + 'a"

record 'w client =
  cl_Get :: "gvk \<Rightarrow> nn \<Rightarrow> 'w \<Rightarrow> kobj resp \<times> 'w"
  cl_GetDeployment :: "nn \<Rightarrow> 'w \<Rightarrow> deployment resp \<times> 'w"
  cl_GetMCE :: "string \<Rightarrow> 'w \<Rightarrow> MultiClusterEngine resp \<times> 'w"
  cl_ListMCE :: "'w \<Rightarrow> MultiClusterEngine list resp \<times> 'w"
  cl_List :: "gvk \<Rightarrow> string \<Rightarrow> strmap \<Rightarrow> 'w \<Rightarrow> kobj list resp \<times> 'w"
  cl_Create :: "kobj \<Rightarrow> 'w \<Rightarrow> kobj resp \<times> 'w"
  cl_Update :: "kobj \<Rightarrow> 'w \<Rightarrow> kobj resp \<times> 'w"
  cl_Patch :: "kobj \<Rightarrow> 'w \<Rightarrow> kobj resp \<times> 'w"
  cl_Delete :: "kobj \<Rightarrow> 'w \<Rightarrow> go_error option \<times> 'w"
  cl_UpdateMCE :: "MultiClusterEngine \<Rightarrow> 'w \<Rightarrow> MultiClusterEngine resp \<times> 'w"
  cl_StatusUpdateMCE :: "MultiClusterEngine \<Rightarrow> 'w \<Rightarrow> MultiClusterEngine resp \<times> 'w"
  cl_ServerSupports :: "string \<Rightarrow> string \<Rightarrow> 'w \<Rightarrow> go_error option \<times> 'w"
  cl_Now :: "'w \<Rightarrow> time \<times> 'w"

datatype api_call =
    CGet gvk nn "kobj resp"
  | CGetDeployment nn
  | CGetMCE string
  | CListMCE
  | CList gvk string strmap
  | CCreate kobj
  | CUpdate kobj
  | CPatch kobj
  | CDelete kobj
  | CUpdateMCE MultiClusterEngine
  | CStatusUpdateMCE MultiClusterEngine
  | CServerSupports string string

text \<open>
  A read of an object is logged with its answer, so that theorems can relate a write to what the
  operator saw before.  The calls that change objects in the cluster are the writes.
\<close>

fun is_write :: "api_call \<Rightarrow> bool" where
  "is_write (CCreate _) = True"
| "is_write (CUpdate _) = True"
| "is_write (CPatch _) = True"
| "is_write (CDelete _) = True"
| "is_write (CUpdateMCE _) = True"
| "is_write (CStatusUpdateMCE _) = True"
| "is_write _ = False"

text \<open>The object a write on a resource other than the MultiClusterEngine carries.\<close>

fun write_target :: "api_call \<Rightarrow> kobj option" where
  "write_target (CCreate u) = Some u"
| "write_target (CUpdate u) = Some u"
| "write_target (CPatch u) = Some u"
| "write_target (CDelete u) = Some u"
| "write_target _ = None"

record 'w kstate =
  ks_World :: 'w
  ks_Trace :: "api_call list"

definition log_call :: "api_call \<Rightarrow> 'w \<Rightarrow> ('w, 'z) kstate_scheme \<Rightarrow> ('w, 'z) kstate_scheme" where
  "log_call c w s = s\<lparr>ks_World := w, ks_Trace := ks_Trace s @ [c]\<rparr>"

definition api_Get :: "'w client \<Rightarrow> gvk \<Rightarrow> nn \<Rightarrow> (('w, 'z) kstate_scheme, kobj resp) go" where
  "api_Get cl g n s =
    (let (r, w) = cl_Get cl g n (ks_World s) in Some (r, log_call (CGet g n r) w s))"

definition api_GetDeployment :: "'w client \<Rightarrow> nn \<Rightarrow> (('w, 'z) kstate_scheme, deployment resp) go" where
  "api_GetDeployment cl n s =
    (let (r, w) = cl_GetDeployment cl n (ks_World s)
     in Some (r, log_call (CGetDeployment n) w s))"

definition api_GetMCE ::
  "'w client \<Rightarrow> string \<Rightarrow> (('w, 'z) kstate_scheme, MultiClusterEngine resp) go" where
  "api_GetMCE cl n s =
    (let (r, w) = cl_GetMCE cl n (ks_World s) in Some (r, log_call (CGetMCE n) w s))"

definition api_ListMCE ::
  "'w client \<Rightarrow> (('w, 'z) kstate_scheme, MultiClusterEngine list resp) go" where
  "api_ListMCE cl s = (let (r, w) = cl_ListMCE cl (ks_World s) in Some (r, log_call CListMCE w s))"

definition api_List ::
  "'w client \<Rightarrow> gvk \<Rightarrow> string \<Rightarrow> strmap \<Rightarrow> (('w, 'z) kstate_scheme, kobj list resp) go" where
  "api_List cl g ns ls s =
    (let (r, w) = cl_List cl g ns ls (ks_World s) in Some (r, log_call (CList g ns ls) w s))"

definition api_Create :: "'w client \<Rightarrow> kobj \<Rightarrow> (('w, 'z) kstate_scheme, kobj resp) go" where
  "api_Create cl u s =
    (let (r, w) = cl_Create cl u (ks_World s) in Some (r, log_call (CCreate u) w s))"

definition api_Update :: "'w client \<Rightarrow> kobj \<Rightarrow> (('w, 'z) kstate_scheme, kobj resp) go" where
  "api_Update cl u s =
    (let (r, w) = cl_Update cl u (ks_World s) in Some (r, log_call (CUpdate u) w s))"

definition api_Patch :: "'w client \<Rightarrow> kobj \<Rightarrow> (('w, 'z) kstate_scheme, kobj resp) go" where
  "api_Patch cl u s =
    (let (r, w) = cl_Patch cl u (ks_World s) in Some (r, log_call (CPatch u) w s))"

definition api_Delete :: "'w client \<Rightarrow> kobj \<Rightarrow> (('w, 'z) kstate_scheme, go_error option) go" where
  "api_Delete cl u s =
    (let (r, w) = cl_Delete cl u (ks_World s) in Some (r, log_call (CDelete u) w s))"

definition api_UpdateMCE ::
  "'w client \<Rightarrow> MultiClusterEngine \<Rightarrow> (('w, 'z) kstate_scheme, MultiClusterEngine resp) go" where
  "api_UpdateMCE cl m s =
    (let (r, w) = cl_UpdateMCE cl m (ks_World s) in Some (r, log_call (CUpdateMCE m) w s))"

definition api_StatusUpdateMCE ::
  "'w client \<Rightarrow> MultiClusterEngine \<Rightarrow> (('w, 'z) kstate_scheme, MultiClusterEngine resp) go" where
  "api_StatusUpdateMCE cl m s =
    (let (r, w) = cl_StatusUpdateMCE cl m (ks_World s)
     in Some (r, log_call (CStatusUpdateMCE m) w s))"

definition api_ServerSupports ::
  "'w client \<Rightarrow> string \<Rightarrow> string \<Rightarrow> (('w, 'z) kstate_scheme, go_error option) go" where
  "api_ServerSupports cl g v s =
    (let (r, w) = cl_ServerSupports cl g v (ks_World s)
     in Some (r, log_call (CServerSupports g v) w s))"

definition api_Now :: "'w client \<Rightarrow> (('w, 'z) kstate_scheme, time) go" where
  "api_Now cl s = (let (t, w) = cl_Now cl (ks_World s) in Some (t, s\<lparr>ks_World := w\<rparr>))"

lemmas api_defs =
  api_Get_def api_GetDeployment_def api_GetMCE_def api_ListMCE_def api_List_def api_Create_def
  api_Update_def api_Patch_def api_Delete_def api_UpdateMCE_def api_StatusUpdateMCE_def
  api_ServerSupports_def api_Now_def log_call_def

text \<open>Every call returns: its result is the client's, and the state logs it.\<close>

lemma api_eqs:
  "api_Get cl g n s = Some (fst (cl_Get cl g n (ks_World s)),
     log_call (CGet g n (fst (cl_Get cl g n (ks_World s)))) (snd (cl_Get cl g n (ks_World s))) s)"
  "api_GetDeployment cl n s = Some (fst (cl_GetDeployment cl n (ks_World s)),
     log_call (CGetDeployment n) (snd (cl_GetDeployment cl n (ks_World s))) s)"
  "api_GetMCE cl k s = Some (fst (cl_GetMCE cl k (ks_World s)),
     log_call (CGetMCE k) (snd (cl_GetMCE cl k (ks_World s))) s)"
  "api_ListMCE cl s = Some (fst (cl_ListMCE cl (ks_World s)),
     log_call (CListMCE) (snd (cl_ListMCE cl (ks_World s))) s)"
  "api_List cl g ns ls s = Some (fst (cl_List cl g ns ls (ks_World s)),
     log_call (CList g ns ls) (snd (cl_List cl g ns ls (ks_World s))) s)"
  "api_Create cl u s = Some (fst (cl_Create cl u (ks_World s)),
     log_call (CCreate u) (snd (cl_Create cl u (ks_World s))) s)"
  "api_Update cl u s = Some (fst (cl_Update cl u (ks_World s)),
     log_call (CUpdate u) (snd (cl_Update cl u (ks_World s))) s)"
  "api_Patch cl u s = Some (fst (cl_Patch cl u (ks_World s)),
     log_call (CPatch u) (snd (cl_Patch cl u (ks_World s))) s)"
  "api_Delete cl u s = Some (fst (cl_Delete cl u (ks_World s)),
     log_call (CDelete u) (snd (cl_Delete cl u (ks_World s))) s)"
  "api_UpdateMCE cl m s = Some (fst (cl_UpdateMCE cl m (ks_World s)),
     log_call (CUpdateMCE m) (snd (cl_UpdateMCE cl m (ks_World s))) s)"
  "api_StatusUpdateMCE cl m s = Some (fst (cl_StatusUpdateMCE cl m (ks_World s)),
     log_call (CStatusUpdateMCE m) (snd (cl_StatusUpdateMCE cl m (ks_World s))) s)"
  "api_ServerSupports cl gr v s = Some (fst (cl_ServerSupports cl gr v (ks_World s)),
     log_call (CServerSupports gr v) (snd (cl_ServerSupports cl gr v (ks_World s))) s)"
  by (simp_all add: api_defs split_beta)

lemma log_call_simps [simp]:
  "ks_World (log_call c w s) = w"
  "ks_Trace (log_call c w s) = ks_Trace s @ [c]"
  by (simp_all add: log_call_def)

section \<open>Which calls an operation sends\<close>

text \<open>
  \<open>emits P t m\<close>: starting from trace \<open>t\<close>, the outcome \<open>m\<close> only appends calls that satisfy
  \<open>P\<close>.  The rules follow the shape of the code: sequencing, branches, and the client calls.
\<close>

named_theorems emits_intro \<open>introduction rules for the calls an operation sends\<close>

definition emits ::
  "(api_call \<Rightarrow> bool) \<Rightarrow> api_call list \<Rightarrow> ('a \<times> ('w, 'z) kstate_scheme) option \<Rightarrow> bool" where
  "emits P t m = spost (\<lambda>r s. \<exists>es. ks_Trace s = t @ es \<and> list_all P es) m"

lemma emits_Some [emits_intro]: "ks_Trace s = t \<Longrightarrow> emits P t (Some (r, s))"
  by (simp add: emits_def)

lemma emits_None [emits_intro]: "emits P t None"
  by (simp add: emits_def)

lemma emits_bind [emits_intro]:
  assumes "emits P t m" "\<And>r s. emits P (ks_Trace s) (f (r, s))"
  shows "emits P t (Option.bind m f)"
proof (cases m)
  case (Some rs)
  obtain r s where rs: "rs = (r, s)" by (cases rs)
  obtain es where es: "ks_Trace s = t @ es" "list_all P es"
    using assms(1) Some rs by (auto simp: emits_def)
  have "spost (\<lambda>r' s'. \<exists>es'. ks_Trace s' = (t @ es) @ es' \<and> list_all P es') (f (r, s))"
    using assms(2) [of s r] es(1) by (simp add: emits_def)
  then show ?thesis using es(2) Some rs
    by (auto simp: emits_def elim!: spost_mono)
qed (simp add: emits_def)

lemma emits_if [emits_intro]:
  "(b \<Longrightarrow> emits P t m) \<Longrightarrow> (\<not> b \<Longrightarrow> emits P t n) \<Longrightarrow> emits P t (if b then m else n)"
  by simp

lemma emits_let [emits_intro]: "(\<And>x. x = v \<Longrightarrow> emits P t (f x)) \<Longrightarrow> emits P t (Let v f)"
  by simp

lemma emits_case_option [emits_intro]:
  "(x = None \<Longrightarrow> emits P t m) \<Longrightarrow> (\<And>a. x = Some a \<Longrightarrow> emits P t (f a)) \<Longrightarrow>
    emits P t (case x of None \<Rightarrow> m | Some a \<Rightarrow> f a)"
  by (cases x) auto

lemma emits_case_sum [emits_intro]:
  "(\<And>a. x = Inl a \<Longrightarrow> emits P t (f a)) \<Longrightarrow> (\<And>b. x = Inr b \<Longrightarrow> emits P t (g b)) \<Longrightarrow>
    emits P t (case x of Inl a \<Rightarrow> f a | Inr b \<Rightarrow> g b)"
  by (cases x) auto

lemma emits_case_prod [emits_intro]:
  "(\<And>a b. x = (a, b) \<Longrightarrow> emits P t (f a b)) \<Longrightarrow> emits P t (case x of (a, b) \<Rightarrow> f a b)"
  by (cases x) auto

lemma emits_mono: "emits P t m \<Longrightarrow> (\<And>c. P c \<Longrightarrow> Q c) \<Longrightarrow> emits Q t m"
  unfolding emits_def by (erule spost_mono) (auto simp: list_all_iff)

text \<open>Reads satisfy every predicate that only restricts writes.\<close>

lemma emits_reads:
  assumes "\<And>c. \<not> is_write c \<Longrightarrow> P c"
  shows "ks_Trace s = t \<Longrightarrow> emits P t (api_Get cl g n s)"
    "ks_Trace s = t \<Longrightarrow> emits P t (api_GetDeployment cl n s)"
    "ks_Trace s = t \<Longrightarrow> emits P t (api_GetMCE cl k s)"
    "ks_Trace s = t \<Longrightarrow> emits P t (api_ListMCE cl s)"
    "ks_Trace s = t \<Longrightarrow> emits P t (api_List cl g ns ls s)"
    "ks_Trace s = t \<Longrightarrow> emits P t (api_ServerSupports cl gr v s)"
  using assms by (simp_all add: emits_def api_eqs)

lemma emits_now [emits_intro]: "ks_Trace s = t \<Longrightarrow> emits P t (api_Now cl s)"
  by (simp add: emits_def api_Now_def split_beta)

lemma emits_writes:
  "P (CCreate u) \<Longrightarrow> ks_Trace s = t \<Longrightarrow> emits P t (api_Create cl u s)"
  "P (CUpdate u) \<Longrightarrow> ks_Trace s = t \<Longrightarrow> emits P t (api_Update cl u s)"
  "P (CPatch u) \<Longrightarrow> ks_Trace s = t \<Longrightarrow> emits P t (api_Patch cl u s)"
  "P (CDelete u) \<Longrightarrow> ks_Trace s = t \<Longrightarrow> emits P t (api_Delete cl u s)"
  "P (CUpdateMCE m) \<Longrightarrow> ks_Trace s = t \<Longrightarrow> emits P t (api_UpdateMCE cl m s)"
  "P (CStatusUpdateMCE m) \<Longrightarrow> ks_Trace s = t \<Longrightarrow> emits P t (api_StatusUpdateMCE cl m s)"
  by (simp_all add: emits_def api_eqs)

end
