(* ===== verification/Sample_Cluster.thy ===== *)
theory Sample_Cluster
  imports Kube
begin

text \<open>
  A small in-memory cluster.  It is one instance of the client parameter, used by the witnesses to
  run the operations on concrete inputs: objects are kept in a list and found by kind and key,
  creating an existing object or reading, updating or deleting a missing one is an error, and the
  clock stands still.
\<close>

record mem =
  mem_Objs :: "kobj list"
  mem_MCEs :: "MultiClusterEngine list"
  mem_Deployments :: "deployment list"
  mem_Clock :: time

definition same_key :: "kobj \<Rightarrow> kobj \<Rightarrow> bool" where
  "same_key u v = (gvk_Group (ko_GVK u) = gvk_Group (ko_GVK v) \<and> ko_Kind u = ko_Kind v
     \<and> ko_key u = ko_key v)"

definition mem_find :: "mem \<Rightarrow> gvk \<Rightarrow> nn \<Rightarrow> kobj option" where
  "mem_find w g n =
    List.find (\<lambda>u. gvk_Group (ko_GVK u) = gvk_Group g \<and> ko_Kind u = gvk_Kind g \<and> ko_key u = n)
      (mem_Objs w)"

abbreviation not_found :: go_error where
  "not_found \<equiv> StatusError ReasonNotFound ''not found''"

abbreviation already_exists :: go_error where
  "already_exists \<equiv> StatusError ReasonAlreadyExists ''already exists''"

definition mem_put :: "kobj \<Rightarrow> mem \<Rightarrow> mem" where
  "mem_put u w = w\<lparr>mem_Objs := u # filter (\<lambda>v. \<not> same_key u v) (mem_Objs w)\<rparr>"

definition mem_client :: "mem client" where
  "mem_client =
    \<lparr>cl_Get = (\<lambda>g n w. (case mem_find w g n of None \<Rightarrow> Inl not_found | Some u \<Rightarrow> Inr u, w)),
     cl_GetDeployment = (\<lambda>n w.
       (case List.find (\<lambda>d. (dp_Namespace d, dp_Name d) = n) (mem_Deployments w) of
          None \<Rightarrow> Inl not_found | Some d \<Rightarrow> Inr d, w)),
     cl_GetMCE = (\<lambda>n w.
       (case List.find (\<lambda>m. mce_Name m = n) (mem_MCEs w) of
          None \<Rightarrow> Inl not_found | Some m \<Rightarrow> Inr m, w)),
     cl_ListMCE = (\<lambda>w. (Inr (mem_MCEs w), w)),
     cl_List = (\<lambda>g ns ls w.
       (Inr (filter (\<lambda>u. gvk_Group (ko_GVK u) = gvk_Group g
                         \<and> ko_Kind u @ ''List'' = gvk_Kind g
                         \<and> (ns = '''' \<or> ko_Namespace u = ns)
                         \<and> list_all (\<lambda>(k, v). map_of (ko_Labels u) k = Some v) ls) (mem_Objs w)), w)),
     cl_Create = (\<lambda>u w.
       (if mem_find w (ko_GVK u) (ko_key u) = None then (Inr u, mem_put u w)
        else (Inl already_exists, w))),
     cl_Update = (\<lambda>u w.
       (if mem_find w (ko_GVK u) (ko_key u) = None then (Inl not_found, w)
        else (Inr u, mem_put u w))),
     cl_Patch = (\<lambda>u w. (Inr u, mem_put u w)),
     cl_Delete = (\<lambda>u w.
       (if mem_find w (ko_GVK u) (ko_key u) = None then (Some not_found, w)
        else (None, w\<lparr>mem_Objs := filter (\<lambda>v. \<not> same_key u v) (mem_Objs w)\<rparr>))),
     cl_UpdateMCE = (\<lambda>m w.
       (Inr m, w\<lparr>mem_MCEs := map (\<lambda>n. if mce_Name n = mce_Name m then m else n) (mem_MCEs w)\<rparr>)),
     cl_StatusUpdateMCE = (\<lambda>m w.
       (Inr m, w\<lparr>mem_MCEs := map (\<lambda>n. if mce_Name n = mce_Name m then m else n) (mem_MCEs w)\<rparr>)),
     cl_ServerSupports = (\<lambda>g v w. (None, w)),
     cl_Now = (\<lambda>w. (mem_Clock w, w))\<rparr>"

definition empty_mem :: mem where
  "empty_mem = \<lparr>mem_Objs = [], mem_MCEs = [], mem_Deployments = [], mem_Clock = 100\<rparr>"

definition start :: "mem \<Rightarrow> mem kstate" where
  "start w = \<lparr>ks_World = w, ks_Trace = []\<rparr>"

definition sample_spec :: MultiClusterEngineSpec where
  "sample_spec =
    \<lparr>sp_AvailabilityConfig = HAHigh, sp_NodeSelector = [], sp_ImagePullSecret = '''',
     sp_Overrides = None, sp_Tolerations = None, sp_TargetNamespace = ''mce'',
     sp_LocalClusterName = ''local-cluster'', sp_NetworkPolicies = None\<rparr>"

definition sample_status :: MultiClusterEngineStatus where
  "sample_status =
    \<lparr>ms_Phase = '''', ms_Components = [], ms_Conditions = [], ms_CurrentVersion = '''',
     ms_DesiredVersion = ''''\<rparr>"

definition sample_mce :: MultiClusterEngine where
  "sample_mce =
    \<lparr>mce_Name = ''engine'', mce_UID = ''uid-1'', mce_Labels = [], mce_Annotations = [],
     mce_Finalizers = [], mce_DeletionTimestamp = None, mce_ResourceVersion = ''1'',
     mce_Generation = 1, mce_Spec = sample_spec, mce_Status = sample_status\<rparr>"

definition with_components :: "ComponentConfig list \<Rightarrow> MultiClusterEngine \<Rightarrow> MultiClusterEngine" where
  "with_components cs m =
    m\<lparr>mce_Spec := (mce_Spec m)\<lparr>sp_Overrides := Some (empty_Overrides\<lparr>ov_Components := cs\<rparr>)\<rparr>\<rparr>"

definition mk_component :: "string \<Rightarrow> bool \<Rightarrow> ComponentConfig" where
  "mk_component n b = \<lparr>cc_Enabled = b, cc_Name = n, cc_ConfigOverrides = empty_ConfigOverride\<rparr>"

end
