(* ===== verification/Go_Lib.thy ===== *)
theory Go_Lib
  imports Prelude
begin

text \<open>
  The functions of the Go standard library the operator calls, on byte strings: decimal
  formatting and parsing, prefix, split and join from the \<open>strings\<close> package, and the list loops
  the code writes by hand.  Each comes with the lemmas its callers rely on.
\<close>

section \<open>Decimal numbers\<close>

definition digit_char :: "nat \<Rightarrow> char" where
  "digit_char d = char_of (48 + d)"

fun itoa_nat :: "nat \<Rightarrow> string" where
  "itoa_nat n = (if n < 10 then [digit_char n] else itoa_nat (n div 10) @ [digit_char (n mod 10)])"

declare itoa_nat.simps [simp del]

definition itoa :: "int \<Rightarrow> string" where
  "itoa i = (if i < 0 then CHR 0x2D # itoa_nat (nat (- i)) else itoa_nat (nat i))"

definition is_digit :: "char \<Rightarrow> bool" where
  "is_digit c = (48 \<le> (of_char c :: nat) \<and> (of_char c :: nat) \<le> 57)"

definition digit_val :: "char \<Rightarrow> nat" where
  "digit_val c = of_char c - 48"

text \<open>The value of a string of decimal digits.\<close>

fun digits_val :: "nat \<Rightarrow> string \<Rightarrow> nat" where
  "digits_val acc [] = acc"
| "digits_val acc (c # cs) = digits_val (acc * 10 + digit_val c) cs"

text \<open>
  \<open>strconv.ParseInt(s, 10, bits)\<close> and \<open>strconv.Atoi\<close> (64 bits): an optional sign, at least one
  digit, only digits, and a value in range; anything else is an error.
\<close>

datatype parse_error = ErrSyntax | ErrRange

definition parse_digits :: "string \<Rightarrow> nat option" where
  "parse_digits ds = (if ds \<noteq> [] \<and> list_all is_digit ds then Some (digits_val 0 ds) else None)"

definition ParseInt :: "nat \<Rightarrow> string \<Rightarrow> parse_error + int" where
  "ParseInt bits s =
    (let neg = (s \<noteq> [] \<and> hd s = CHR 0x2D);
         ds = (if s \<noteq> [] \<and> (hd s = CHR 0x2D \<or> hd s = CHR 0x2B) then tl s else s)
     in (case parse_digits ds of
           None \<Rightarrow> Inl ErrSyntax
         | Some n \<Rightarrow>
             if neg \<and> n > 2 ^ (bits - 1) \<or> \<not> neg \<and> n \<ge> 2 ^ (bits - 1) then Inl ErrRange
             else Inr (if neg then - int n else int n)))"

definition Atoi :: "string \<Rightarrow> parse_error + int" where
  "Atoi s = ParseInt 64 s"

lemma digits_val_append: "digits_val a (xs @ ys) = digits_val (digits_val a xs) ys"
  by (induction xs arbitrary: a) auto

lemma digit_char_val [simp]: "d < 10 \<Longrightarrow> digit_val (digit_char d) = d"
  by (simp add: digit_val_def digit_char_def take_bit_eq_mod)

lemma is_digit_digit_char [simp]: "d < 10 \<Longrightarrow> is_digit (digit_char d)"
  by (simp add: is_digit_def digit_char_def take_bit_eq_mod)

lemma itoa_nat_nonempty [simp]: "itoa_nat n \<noteq> []"
  by (subst itoa_nat.simps) simp

lemma itoa_nat_digits: "list_all is_digit (itoa_nat n)"
proof (induction n rule: itoa_nat.induct)
  case (1 n)
  then show ?case by (subst itoa_nat.simps) auto
qed

lemma digits_val_itoa_nat: "digits_val 0 (itoa_nat n) = n"
proof (induction n rule: itoa_nat.induct)
  case (1 n)
  then show ?case
    by (subst itoa_nat.simps) (simp add: digits_val_append)
qed

lemma parse_digits_itoa: "parse_digits (itoa_nat n) = Some n"
  by (simp add: parse_digits_def itoa_nat_digits digits_val_itoa_nat)

lemma is_digit_not_sign: "is_digit c \<Longrightarrow> c \<noteq> CHR 0x2D \<and> c \<noteq> CHR 0x2B"
  by (auto simp: is_digit_def)

lemma ParseInt_range:
  assumes "ParseInt bits s = Inr i"
  shows "- (2 ^ (bits - 1)) \<le> i \<and> i < 2 ^ (bits - 1)"
proof -
  have "int n < 2 ^ k" if "n < 2 ^ k" for n k :: nat
    using that by (metis of_nat_less_iff of_nat_numeral of_nat_power)
  moreover have "int n \<le> 2 ^ k" if "n \<le> 2 ^ k" for n k :: nat
    using that by (metis of_nat_le_iff of_nat_numeral of_nat_power)
  moreover have "- int n < 2 ^ k" "- (2 ^ k) \<le> int n" for n k :: nat
    by (rule order.strict_trans1 [of _ 0], simp_all) (rule order_trans [of _ 0], simp_all)
  ultimately show ?thesis using assms
    by (auto simp: ParseInt_def Let_def not_less not_le split: option.splits if_splits)
qed

lemma ParseInt_itoa:
  assumes "- (2 ^ (bits - 1)) \<le> i" "i < 2 ^ (bits - 1)"
  shows "ParseInt bits (itoa i) = Inr i"
proof -
  have hd: "is_digit (hd (itoa_nat n))" for n
    using itoa_nat_digits [of n] itoa_nat_nonempty [of n] by (cases "itoa_nat n") auto
  have "nat i < 2 ^ (bits - 1)" if "0 \<le> i"
    using assms that by (simp add: nat_less_iff)
  moreover have "nat (- i) \<le> 2 ^ (bits - 1)" if "i < 0"
    using assms that by (simp add: nat_le_iff)
  ultimately show ?thesis
    using assms hd [of "nat i"] is_digit_not_sign
    by (auto simp: ParseInt_def itoa_def Let_def parse_digits_itoa)
qed

section \<open>Strings\<close>

definition HasPrefix :: "string \<Rightarrow> string \<Rightarrow> bool" where
  "HasPrefix s p = (take (length p) s = p)"

definition HasSuffix :: "string \<Rightarrow> string \<Rightarrow> bool" where
  "HasSuffix s p = (length p \<le> length s \<and> drop (length s - length p) s = p)"

definition TrimPrefix :: "string \<Rightarrow> string \<Rightarrow> string" where
  "TrimPrefix s p = (if HasPrefix s p then drop (length p) s else s)"

definition TrimSuffix :: "string \<Rightarrow> string \<Rightarrow> string" where
  "TrimSuffix s p = (if HasSuffix s p then take (length s - length p) s else s)"

definition lower_char :: "char \<Rightarrow> char" where
  "lower_char c = (if 65 \<le> (of_char c :: nat) \<and> (of_char c :: nat) \<le> 90
                   then char_of ((of_char c :: nat) + 32) else c)"

text \<open>\<open>ToLower\<close> on ASCII text; the callers fold image keys and annotation values.\<close>

definition ToLower :: "string \<Rightarrow> string" where
  "ToLower s = map lower_char s"

fun Contains :: "string \<Rightarrow> string \<Rightarrow> bool" where
  "Contains [] p = (p = [])"
| "Contains (c # cs) p = (HasPrefix (c # cs) p \<or> Contains cs p)"

text \<open>\<open>strings.Split\<close> with a one byte separator.\<close>

fun split_on :: "char \<Rightarrow> string \<Rightarrow> string list" where
  "split_on d [] = [[]]"
| "split_on d (c # cs) =
    (if c = d then [] # split_on d cs
     else (case split_on d cs of [] \<Rightarrow> [[c]] | w # ws \<Rightarrow> (c # w) # ws))"

text \<open>\<open>strings.SplitN(s, sep, 2)\<close> with a one byte separator: a list of one or two parts.\<close>

definition split_two :: "char \<Rightarrow> string \<Rightarrow> string list" where
  "split_two d s =
    (if d \<in> set s then [takeWhile (\<lambda>c. c \<noteq> d) s, tl (dropWhile (\<lambda>c. c \<noteq> d) s)] else [s])"

fun join :: "string \<Rightarrow> string list \<Rightarrow> string" where
  "join sep [] = []"
| "join sep [w] = w"
| "join sep (w # v # ws) = w @ sep @ join sep (v # ws)"

lemma split_on_nonempty [simp]: "split_on d s \<noteq> []"
  by (cases s) (auto split: list.splits)

lemma join_split_on: "join [d] (split_on d s) = s"
proof (induction s)
  case (Cons c cs)
  obtain w ws where w: "split_on d cs = w # ws" by (cases "split_on d cs") auto
  with Cons show ?case by (cases ws) auto
qed simp

lemma split_on_no_sep: "d \<notin> set s \<Longrightarrow> split_on d s = [s]"
  by (induction s) auto

lemma split_on_parts: "w \<in> set (split_on d s) \<Longrightarrow> d \<notin> set w"
proof (induction s arbitrary: w)
  case (Cons c cs)
  then show ?case by (auto split: if_splits list.splits)
qed simp

lemma split_on_append: "d \<notin> set w \<Longrightarrow> split_on d (w @ d # s) = w # split_on d s"
  by (induction w) auto

lemma split_on_join:
  "ws \<noteq> [] \<Longrightarrow> \<forall>w \<in> set ws. d \<notin> set w \<Longrightarrow> split_on d (join [d] ws) = ws"
  by (induction "[d]" ws rule: join.induct) (auto simp: split_on_no_sep split_on_append)

lemma HasPrefix_append [simp]: "HasPrefix (p @ s) p"
  by (simp add: HasPrefix_def)

lemma HasPrefix_iff: "HasPrefix s p \<longleftrightarrow> (\<exists>t. s = p @ t)"
  by (metis HasPrefix_append HasPrefix_def append_take_drop_id)

lemma TrimPrefix_append [simp]: "TrimPrefix (p @ s) p = s"
  by (simp add: TrimPrefix_def)

lemma Contains_iff: "Contains s p \<longleftrightarrow> (\<exists>u v. s = u @ p @ v)"
proof (induction s)
  case (Cons c cs)
  show ?case
  proof
    assume "Contains (c # cs) p"
    then consider "HasPrefix (c # cs) p" | "Contains cs p" by auto
    then show "\<exists>u v. c # cs = u @ p @ v"
    proof cases
      case 1
      then show ?thesis by (metis HasPrefix_iff append_Nil)
    next
      case 2
      then show ?thesis using Cons.IH by (metis append_Cons)
    qed
  next
    assume "\<exists>u v. c # cs = u @ p @ v"
    then obtain u v where uv: "c # cs = u @ p @ v" by blast
    show "Contains (c # cs) p"
    proof (cases u)
      case Nil
      with uv have "HasPrefix (c # cs) p" by simp
      then show ?thesis by simp
    next
      case (Cons d u')
      with uv have "cs = u' @ p @ v" by simp
      with Cons.IH show ?thesis by auto
    qed
  qed
qed simp

section \<open>Paths\<close>

text \<open>\<open>path.Clean\<close> and \<open>path.Join\<close>: the elements of a path without empty and \<open>.\<close> parts, with
  \<open>..\<close> resolved where possible.\<close>

fun clean_parts :: "bool \<Rightarrow> string list \<Rightarrow> string list \<Rightarrow> string list" where
  "clean_parts rooted stack [] = rev stack"
| "clean_parts rooted stack (p # ps) =
    (if p = '''' \<or> p = ''.'' then clean_parts rooted stack ps
     else if p = ''..''
     then (case stack of
             [] \<Rightarrow> clean_parts rooted (if rooted then [] else [''..'']) ps
           | q # qs \<Rightarrow> if q = ''..'' then clean_parts rooted (''..'' # stack) ps
                       else clean_parts rooted qs ps)
     else clean_parts rooted (p # stack) ps)"

definition path_Clean :: "string \<Rightarrow> string" where
  "path_Clean p =
    (let rooted = HasPrefix p ''/'';
         body = join ''/'' (clean_parts rooted [] (split_on CHR ''/'' p));
         q = (if rooted then ''/'' @ body else body)
     in if q = '''' then ''.'' else q)"

definition path_Join :: "string list \<Rightarrow> string" where
  "path_Join elems =
    (let es = filter (\<lambda>e. e \<noteq> '''') elems
     in if es = [] then '''' else path_Clean (join ''/'' es))"

text \<open>
  \<open>filepath.Rel\<close> and \<open>filepath.Dir\<close> on Unix.  The relative path goes up from what is left of the base after
  the common elements, and down along what is left of the target; it cannot go up from an unknown \<open>..\<close>.
\<close>

definition path_elements :: "string \<Rightarrow> string list" where
  "path_elements p = clean_parts (HasPrefix p ''/'') [] (split_on CHR ''/'' p)"

fun strip_common :: "string list \<Rightarrow> string list \<Rightarrow> string list \<times> string list" where
  "strip_common (b # bs) (t # ts) = (if b = t then strip_common bs ts else (b # bs, t # ts))"
| "strip_common bs ts = (bs, ts)"

definition filepath_Rel :: "string \<Rightarrow> string \<Rightarrow> go_error + string" where
  "filepath_Rel basepath targpath =
    (let failed = Inl (ErrorString (''Rel: can'' @ [CHR 0x27] @ ''t make '' @ targpath @ '' relative to '' @ basepath));
         targ = (if path_Clean targpath = ''.'' then [''.''] else path_elements targpath);
         (bs, ts) = strip_common (path_elements basepath) targ
     in if path_Clean targpath = path_Clean basepath then Inr ''.''
        else if HasPrefix basepath ''/'' \<noteq> HasPrefix targpath ''/'' then failed
        else if bs \<noteq> [] \<and> hd bs = ''..'' \<and> ts \<noteq> [] then failed
        else Inr (join ''/'' (replicate (length bs) ''..'' @ ts)))"

definition filepath_Dir :: "string \<Rightarrow> string" where
  "filepath_Dir p = path_Clean (rev (dropWhile (\<lambda>c. c \<noteq> CHR ''/'') (rev p)))"

text \<open>Paths below a directory, by their elements.\<close>

definition plain_name :: "string \<Rightarrow> bool" where
  "plain_name c = (c \<noteq> '''' \<and> c \<noteq> ''.'' \<and> c \<noteq> ''..'' \<and> CHR ''/'' \<notin> set c)"

definition clean_dir :: "string \<Rightarrow> string list \<Rightarrow> bool" where
  "clean_dir d bs = (bs \<noteq> [] \<and> list_all plain_name bs \<and> (d = join ''/'' bs \<or> d = ''/'' @ join ''/'' bs))"

lemma clean_parts_plain: "list_all plain_name ps \<Longrightarrow> clean_parts r st ps = rev st @ ps"
  by (induction r st ps rule: clean_parts.induct) (auto simp: plain_name_def)

lemma clean_parts_trailing: "list_all plain_name ps \<Longrightarrow> clean_parts r st (ps @ [[]]) = rev st @ ps"
  by (induction r st ps rule: clean_parts.induct) (auto simp: plain_name_def)

lemma split_plain: "list_all plain_name ps \<Longrightarrow> ps \<noteq> [] \<Longrightarrow> split_on CHR ''/'' (join ''/'' ps) = ps"
  by (intro split_on_join) (auto simp: plain_name_def list_all_iff)

lemma join_plain_slash: "list_all plain_name ps \<Longrightarrow> \<not> HasPrefix (join ''/'' ps) ''/''"
proof (induction "''/''" ps rule: join.induct)
  case (2 w)
  then show ?case by (cases w) (auto simp: plain_name_def HasPrefix_def)
next
  case (3 w v ws)
  then show ?case by (cases w) (auto simp: plain_name_def HasPrefix_def)
qed (simp add: HasPrefix_def)

lemma join_plain_empty: "list_all plain_name ps \<Longrightarrow> ps \<noteq> [] \<Longrightarrow> join ''/'' ps \<noteq> ''''"
  by (cases ps rule: remdups_adj.cases) (auto simp: plain_name_def)

lemma join_append:
  "xs \<noteq> [] \<Longrightarrow> ys \<noteq> [] \<Longrightarrow> join sep (xs @ ys) = join sep xs @ sep @ join sep ys"
proof (induction sep xs rule: join.induct)
  case (2 sep w)
  then show ?case by (cases ys) auto
qed auto

lemma elements_plain:
  assumes "list_all plain_name ps" "ps \<noteq> []"
  shows "path_elements (join ''/'' ps) = ps" "path_elements (''/'' @ join ''/'' ps) = ps"
    and "path_Clean (join ''/'' ps) = join ''/'' ps" "path_Clean (''/'' @ join ''/'' ps) = ''/'' @ join ''/'' ps"
proof -
  have rooted: "HasPrefix (CHR ''/'' # q) ''/''" "split_on CHR ''/'' (CHR ''/'' # q) = [] # split_on CHR ''/'' q" for q
    by (simp_all add: HasPrefix_def)
  show "path_elements (join ''/'' ps) = ps" "path_elements (''/'' @ join ''/'' ps) = ps"
    by (simp_all add: path_elements_def rooted split_plain assms clean_parts_plain del: split_on.simps)
  show "path_Clean (join ''/'' ps) = join ''/'' ps" "path_Clean (''/'' @ join ''/'' ps) = ''/'' @ join ''/'' ps"
    by (simp_all add: path_Clean_def Let_def rooted split_plain assms clean_parts_plain join_plain_empty
        join_plain_slash del: split_on.simps)
qed

lemma strip_prefix: "strip_common bs (bs @ ts) = ([], ts)"
  by (induction bs) (cases ts; simp)+

text \<open>The path of a file below a clean directory, relative to it, and its directory.\<close>

lemma Rel_below:
  assumes "clean_dir d bs" "list_all plain_name ps" "ps \<noteq> []"
  shows "filepath_Rel d (d @ ''/'' @ join ''/'' ps) = Inr (join ''/'' ps)"
proof -
  have plain: "list_all plain_name (bs @ ps)" "bs @ ps \<noteq> []" and bs: "bs \<noteq> []" "list_all plain_name bs"
    using assms by (auto simp: clean_dir_def)
  have path: "d @ ''/'' @ join ''/'' ps = (if d = join ''/'' bs then join ''/'' (bs @ ps) else ''/'' @ join ''/'' (bs @ ps))"
    using assms(1,3) bs by (auto simp: clean_dir_def join_append)
  have elements: "path_elements d = bs" "path_elements (d @ ''/'' @ join ''/'' ps) = bs @ ps"
    using assms(1) elements_plain [OF bs(2,1)] elements_plain [OF plain] unfolding path by (auto simp: clean_dir_def)
  have clean: "path_Clean d = d" "path_Clean (d @ ''/'' @ join ''/'' ps) = d @ ''/'' @ join ''/'' ps"
    using assms(1) elements_plain [OF bs(2,1)] elements_plain [OF plain] unfolding path by (auto simp: clean_dir_def)
  have "d \<noteq> ''''" using assms(1) join_plain_empty [OF bs(2,1)] by (auto simp: clean_dir_def)
  then have "d @ ''/'' @ join ''/'' ps \<noteq> ''.''" "HasPrefix (d @ ''/'' @ join ''/'' ps) ''/'' = HasPrefix d ''/''"
    by (cases d; simp add: HasPrefix_def)+
  then show ?thesis
    by (simp only: filepath_Rel_def Let_def clean elements strip_prefix prod.case if_False) simp
qed

lemma Dir_below:
  assumes "list_all plain_name ds" "plain_name n"
  shows "filepath_Dir (join ''/'' (ds @ [n])) = (if ds = [] then ''.'' else join ''/'' ds)"
proof -
  have n: "CHR ''/'' \<notin> set n" using assms(2) by (simp add: plain_name_def)
  show ?thesis
  proof (cases "ds = []")
    case True
    have "dropWhile (\<lambda>c. c \<noteq> CHR ''/'') (rev n) = []" using n by (auto simp: dropWhile_eq_Nil_conv)
    then show ?thesis using True
      by (simp only: filepath_Dir_def append_Nil join.simps) (simp add: path_Clean_def HasPrefix_def)
  next
    case False
    have "dropWhile (\<lambda>c. c \<noteq> CHR ''/'') (rev n @ CHR ''/'' # q) = CHR ''/'' # q" for q
      using n by (subst dropWhile_append2) auto
    then have "filepath_Dir (join ''/'' (ds @ [n])) = path_Clean (join ''/'' ds @ ''/'')"
      using False by (simp add: filepath_Dir_def join_append)
    also have "\<dots> = join ''/'' ds"
    proof -
      have "split_on CHR ''/'' (join ''/'' ds @ ''/'') = ds @ [[]]"
        using split_on_join [of "ds @ [[]]" "CHR ''/''"] assms(1) False
        by (simp add: join_append list_all_iff plain_name_def)
      moreover have "clean_parts r [] (ds @ [[]]) = ds" for r
        using assms(1) False by (simp add: clean_parts_trailing)
      moreover have "HasPrefix (join ''/'' ds @ ''/'') ''/'' = HasPrefix (join ''/'' ds) ''/''"
        using join_plain_empty [OF assms(1) False] by (cases "join ''/'' ds") (auto simp: HasPrefix_def)
      ultimately show ?thesis
        using join_plain_empty [OF assms(1) False] join_plain_slash [OF assms(1)]
        by (simp add: path_Clean_def Let_def)
    qed
    finally show ?thesis using False by simp
  qed
qed

section \<open>Base 64\<close>

definition base64_char :: "nat \<Rightarrow> char" where
  "base64_char n =
    (if n < 26 then char_of (65 + n)
     else if n < 52 then char_of (97 + (n - 26))
     else if n < 62 then char_of (48 + (n - 52))
     else if n = 62 then CHR ''+'' else CHR ''/'')"

fun base64 :: "string \<Rightarrow> string" where
  "base64 (a # b # c # cs) =
    (let x = of_char a * 65536 + of_char b * 256 + of_char c
     in base64_char (x div 262144) # base64_char (x div 4096 mod 64)
        # base64_char (x div 64 mod 64) # base64_char (x mod 64) # base64 cs)"
| "base64 [a, b] =
    (let x = of_char a * 65536 + of_char b * 256
     in [base64_char (x div 262144), base64_char (x div 4096 mod 64), base64_char (x div 64 mod 64),
         CHR ''='']) "
| "base64 [a] =
    (let x = of_char a * 65536
     in [base64_char (x div 262144), base64_char (x div 4096 mod 64), CHR ''='', CHR ''=''])"
| "base64 [] = []"

lemma length_base64: "length (base64 s) = 4 * ((length s + 2) div 3)"
  by (induction s rule: base64.induct) (simp_all add: Let_def, presburger)

end
