(* ===== verification/Webhook.thy ===== *)
theory Webhook
  imports Sample_Cluster Go_Lib
begin

text \<open>
  The admission webhook of the custom resource, \<open>api/v1/multiclusterengine_webhook.go\<close>:
  defaulting, and validation of creation, update and deletion.  A validator returns
  \<^term>\<open>None\<close> (admitted) or the error that the API server reports.
\<close>

section \<open>Constants and tables\<close>

abbreviation DefaultTargetNamespace :: string where
  "DefaultTargetNamespace \<equiv> ''multicluster-engine''"

definition maxLocalClusterNameLength :: nat where
  "maxLocalClusterNameLength = 35"


abbreviation ErrInvalidComponent :: go_error where
  "ErrInvalidComponent \<equiv> Sentinel ''invalid component config''"
abbreviation ErrInvalidNamespace :: go_error where
  "ErrInvalidNamespace \<equiv> Sentinel ''invalid TargetNamespace''"
abbreviation ErrInvalidDeployMode :: go_error where
  "ErrInvalidDeployMode \<equiv> Sentinel ''invalid DeploymentMode''"
abbreviation ErrInvalidAvailability :: go_error where
  "ErrInvalidAvailability \<equiv> Sentinel ''invalid AvailabilityConfig''"
abbreviation ErrInvalidInfraNS :: go_error where
  "ErrInvalidInfraNS \<equiv> Sentinel ''invalid InfrastructureCustomNamespace''"
abbreviation ErrComponentExclusivity :: go_error where
  "ErrComponentExclusivity \<equiv> Sentinel ''component exclusivity violation''"
abbreviation ErrMaestroDeprecated :: go_error where
  "ErrMaestroDeprecated \<equiv>
    Sentinel ''maestro component is deprecated in MCE 5.0 and cannot be enabled''"


text \<open>\<open>fmt.Errorf("%w: ...", sentinel, ...)\<close>.\<close>

definition wrap_sentinel :: "go_error \<Rightarrow> string \<Rightarrow> go_error" where
  "wrap_sentinel e m = WrapError (err_msg e @ '': '' @ m) e"

section \<open>Defaulting and field checks\<close>

definition Default :: "MultiClusterEngine \<Rightarrow> MultiClusterEngine" where
  "Default obj =
    (if sp_TargetNamespace (mce_Spec obj) = ''''
     then obj\<lparr>mce_Spec := (mce_Spec obj)\<lparr>sp_TargetNamespace := DefaultTargetNamespace\<rparr>\<rparr>
     else obj)"

definition validateLocalClusterNameLength :: "string \<Rightarrow> go_error option" where
  "validateLocalClusterNameLength name =
    (if length name \<ge> maxLocalClusterNameLength
     then Some (ErrorString (''local-cluster name must be shorter than ''
       @ itoa (int maxLocalClusterNameLength) @ '' characters (currently ''
       @ itoa (int (length name)) @ ''). ''
       @ ''This limit ensures generated resource names stay within Kubernetes 63-character limit.''))
     else None)"

definition hypershiftComponents :: "string list" where
  "hypershiftComponents = [HyperShift, HyperShiftPreview, HypershiftLocalHosting]"

definition clusterAPIComponents :: "string list" where
  "clusterAPIComponents =
    [ClusterAPI, ClusterAPIPreview, ClusterAPIProviderAWS, ClusterAPIProviderAWSPreview,
     ClusterAPIProviderAzurePreview, ClusterAPIProviderMetal, ClusterAPIProviderMetalPreview,
     ClusterAPIProviderOA, ClusterAPIProviderOAPreview]"

definition validateComponentExclusivity :: "MultiClusterEngine \<Rightarrow> go_error option" where
  "validateComponentExclusivity r =
    (let hypershiftEnabled = list_ex (Enabled r) hypershiftComponents;
         clusterAPIEnabled = list_ex (Enabled r) clusterAPIComponents
     in if hypershiftEnabled \<and> clusterAPIEnabled
        then Some (wrap_sentinel ErrComponentExclusivity
          (''HyperShift components (hypershift, hypershift-local-hosting) ''
           @ ''and Cluster API components (cluster-api, cluster-api-provider-aws, ''
           @ ''cluster-api-provider-azure-preview, cluster-api-provider-metal3, cluster-api-provider-openshift-assisted) ''
           @ ''cannot be enabled simultaneously. Please enable only one set of components''))
        else None)"

text \<open>The check of \<open>AvailabilityConfig\<close> that both validators open with.\<close>

definition availability_ok :: "MultiClusterEngine \<Rightarrow> bool" where
  "availability_ok obj =
    (\<not> (sp_AvailabilityConfig (mce_Spec obj) \<noteq> HABasic
      \<and> sp_AvailabilityConfig (mce_Spec obj) \<noteq> HAHigh
      \<and> sp_AvailabilityConfig (mce_Spec obj) \<noteq> ''''))"

text \<open>
  The loop over the component overrides: the first offending entry decides the error.  On update
  an already enabled Maestro stays allowed (\<open>maestro_ok\<close>).
\<close>

fun validate_components :: "bool \<Rightarrow> ComponentConfig list \<Rightarrow> go_error option" where
  "validate_components maestro_ok [] = None"
| "validate_components maestro_ok (c # cs) =
    (if \<not> validComponent c
     then Some (wrap_sentinel ErrInvalidComponent (cc_Name c @ '' is not a known component''))
     else if cc_Name c = MaestroPreview \<and> cc_Enabled c \<and> \<not> maestro_ok
     then Some (wrap_sentinel ErrMaestroDeprecated (cc_Name c @ '' cannot be enabled''))
     else validate_components maestro_ok cs)"

section \<open>Creation\<close>

text \<open>The loop over the MultiClusterEngines that already exist.\<close>

fun create_conflict :: "MultiClusterEngine \<Rightarrow> string \<Rightarrow> MultiClusterEngine list \<Rightarrow> go_error option" where
  "create_conflict obj targetNS [] = None"
| "create_conflict obj targetNS (mce # rest) =
    (if sp_TargetNamespace (mce_Spec mce) = targetNS
        \<or> targetNS = DefaultTargetNamespace \<and> sp_TargetNamespace (mce_Spec mce) = ''''
     then Some (wrap_sentinel ErrInvalidNamespace
       (''MultiClusterEngine with targetNamespace already exists: '' @ [CHR 0x27]
        @ mce_Name mce @ [CHR 0x27]))
     else if \<not> IsInHostedMode obj \<and> \<not> IsInHostedMode mce
     then Some (wrap_sentinel ErrInvalidDeployMode
       (''MultiClusterEngine in Standalone mode already exists: '' @ [CHR 0x60] @ mce_Name mce
        @ [CHR 0x60] @ ''. Only one resource may exist in Standalone mode.''))
     else create_conflict obj targetNS rest)"

definition effective_namespace :: "MultiClusterEngine \<Rightarrow> string" where
  "effective_namespace m =
    (if sp_TargetNamespace (mce_Spec m) = '''' then DefaultTargetNamespace
     else sp_TargetNamespace (mce_Spec m))"

definition ValidateCreate ::
  "'w client \<Rightarrow> MultiClusterEngine \<Rightarrow> (('w, 'z) kstate_scheme, go_error option) go" where
  "ValidateCreate cl obj s =
    (if \<not> availability_ok obj then Some (Some ErrInvalidAvailability, s)
     else case validate_components False (mce_components obj) of
       Some e \<Rightarrow> Some (Some e, s)
     | None \<Rightarrow>
       (case validateComponentExclusivity obj of
         Some e \<Rightarrow> Some (Some e, s)
       | None \<Rightarrow> do {
           (r, s) \<leftarrow> api_ListMCE cl s;
           case r of
             Inl e \<Rightarrow> Some (Some (ErrorString (''unable to list BackplaneConfigs: '' @ err_msg e)), s)
           | Inr items \<Rightarrow>
               (case validateLocalClusterNameLength (sp_LocalClusterName (mce_Spec obj)) of
                  Some e \<Rightarrow> Some (Some e, s)
                | None \<Rightarrow> Some (create_conflict obj (effective_namespace obj) items, s))
         }))"

section \<open>Update\<close>

text \<open>
  Building a REST configuration and a discovery client is library code that may fail:
  \<open>we_GetConfig\<close> and \<open>we_NewDiscovery\<close> are the errors those calls return.
\<close>

record webhook_env =
  we_GetConfig :: "go_error option"
  we_NewDiscovery :: "go_error option"
  we_Env :: strmap

definition infra_namespace :: "MultiClusterEngine \<Rightarrow> string" where
  "infra_namespace m =
    (case sp_Overrides (mce_Spec m) of
       None \<Rightarrow> '''' | Some ov \<Rightarrow> ov_InfrastructureCustomNamespace ov)"

text \<open>The checks that need no cluster access, in the order of the code.\<close>

definition update_static_checks ::
  "MultiClusterEngine \<Rightarrow> MultiClusterEngine \<Rightarrow> go_error option" where
  "update_static_checks oldObj newObj =
    (if sp_TargetNamespace (mce_Spec newObj) \<noteq> sp_TargetNamespace (mce_Spec oldObj)
        \<and> sp_TargetNamespace (mce_Spec oldObj) \<noteq> ''''
     then Some (wrap_sentinel ErrInvalidNamespace ''changes cannot be made to target namespace'')
     else if IsInHostedMode newObj \<noteq> IsInHostedMode oldObj
     then Some (wrap_sentinel ErrInvalidDeployMode ''changes cannot be made to DeploymentMode'')
     else if infra_namespace oldObj \<noteq> infra_namespace newObj
     then Some (wrap_sentinel ErrInvalidInfraNS
       ''changes cannot be made to InfrastructureCustomNamespace'')
     else if \<not> availability_ok newObj then Some ErrInvalidAvailability
     else case validate_components (Enabled oldObj MaestroPreview) (mce_components newObj) of
       Some e \<Rightarrow> Some e
     | None \<Rightarrow> validateComponentExclusivity newObj)"

definition block_discovery_disable ::
  "'w client \<Rightarrow> webhook_env \<Rightarrow> MultiClusterEngine \<Rightarrow> (('w, 'z) kstate_scheme, go_error option) go" where
  "block_discovery_disable cl env newObj s =
    (if ComponentPresent newObj Discovery \<and> \<not> Enabled newObj Discovery
     then case we_GetConfig env of
       Some e \<Rightarrow> Some (Some e, s)
     | None \<Rightarrow>
       (case we_NewDiscovery env of
         Some e \<Rightarrow> Some (Some e, s)
       | None \<Rightarrow> do {
           let g = mk_gvk ''discovery.open-cluster-management.io'' ''v1'' ''DiscoveryConfigList'';
           (sup, s) \<leftarrow> api_ServerSupports cl (gvk_Group g) (gvk_Version g) s;
           if sup = None
           then do {
             (r, s) \<leftarrow> api_List cl g '''' [] s;
             case r of
               Inl e \<Rightarrow> Some (Some (ErrorString (''unable to list DiscoveryConfig: '' @ err_msg e)), s)
             | Inr items \<Rightarrow>
                 Some (if items \<noteq> []
                       then Some (ErrorString ''existing DiscoveryConfig resources must first be deleted'')
                       else None, s)
           }
           else Some (None, s)
         })
     else Some (None, s))"

definition managedClusterListGVK :: gvk where
  "managedClusterListGVK = mk_gvk ''cluster.open-cluster-management.io'' ''v1'' ''ManagedClusterList''"

definition block_rename ::
  "'w client \<Rightarrow> MultiClusterEngine \<Rightarrow> MultiClusterEngine
    \<Rightarrow> (('w, 'z) kstate_scheme, go_error option) go" where
  "block_rename cl oldObj newObj s =
    (let mcName = sp_LocalClusterName (mce_Spec oldObj)
     in if mcName \<noteq> sp_LocalClusterName (mce_Spec newObj)
        then case validateLocalClusterNameLength (sp_LocalClusterName (mce_Spec newObj)) of
          Some e \<Rightarrow> Some (Some e, s)
        | None \<Rightarrow> do {
            (r, s) \<leftarrow> api_List cl managedClusterListGVK '''' [] s;
            case r of
              Inl e \<Rightarrow> Some (Some (ErrorString (''unable to list ManagedCluster: '' @ err_msg e)), s)
            | Inr items \<Rightarrow>
                Some (if \<exists>mc \<in> set items. ko_Name mc = mcName
                            \<or> sm_get (ko_Labels mc) ''local-cluster'' = ''true''
                      then Some (ErrorString
                        ''cannot update Spec.LocalClusterName while local-cluster is enabled'')
                      else None, s)
          }
        else Some (None, s))"

definition ValidateUpdate ::
  "'w client \<Rightarrow> webhook_env \<Rightarrow> MultiClusterEngine \<Rightarrow> MultiClusterEngine
    \<Rightarrow> (('w, 'z) kstate_scheme, go_error option) go" where
  "ValidateUpdate cl env oldObj newObj s =
    (case update_static_checks oldObj newObj of
       Some e \<Rightarrow> Some (Some e, s)
     | None \<Rightarrow> do {
         (e, s) \<leftarrow> block_discovery_disable cl env newObj s;
         (case e of Some e \<Rightarrow> Some (Some e, s) | None \<Rightarrow> block_rename cl oldObj newObj s)
       })"

section \<open>Deletion\<close>








section \<open>What admission guarantees\<close>

definition components_admissible :: "bool \<Rightarrow> MultiClusterEngine \<Rightarrow> bool" where
  "components_admissible maestro_ok m =
    (\<forall>c \<in> set (mce_components m). cc_Name c \<in> set AllComponents
       \<and> (cc_Name c = MaestroPreview \<and> cc_Enabled c \<longrightarrow> maestro_ok))"

definition exclusive :: "MultiClusterEngine \<Rightarrow> bool" where
  "exclusive m =
    (\<not> ((\<exists>h \<in> set hypershiftComponents. Enabled m h)
        \<and> (\<exists>c \<in> set clusterAPIComponents. Enabled m c)))"

lemma validate_components_None:
  "validate_components ok cs = None \<longleftrightarrow>
    (\<forall>c \<in> set cs. validComponent c \<and> (cc_Name c = MaestroPreview \<and> cc_Enabled c \<longrightarrow> ok))"
  by (induction cs) auto

lemma validate_components_admissible:
  "validate_components ok (mce_components m) = None \<longleftrightarrow> components_admissible ok m"
  by (simp add: validate_components_None components_admissible_def validComponent_def)

lemma exclusivity_None: "validateComponentExclusivity m = None \<longleftrightarrow> exclusive m"
  by (auto simp: validateComponentExclusivity_def exclusive_def Let_def list_ex_iff)

lemma validateLength_None:
  "validateLocalClusterNameLength n = None \<longleftrightarrow> length n < 35"
  by (auto simp: validateLocalClusterNameLength_def maxLocalClusterNameLength_def)

lemma create_conflict_None:
  "create_conflict obj (effective_namespace obj) ms = None \<longleftrightarrow>
    (\<forall>m \<in> set ms. effective_namespace m \<noteq> effective_namespace obj
       \<and> (IsInHostedMode obj \<or> IsInHostedMode m))"
  by (induction ms) (auto simp: effective_namespace_def split: if_splits)

lemma ValidateCreate_None:
  "(\<exists>s'. ValidateCreate cl obj s = Some (None, s')) \<longleftrightarrow>
    availability_ok obj \<and> components_admissible False obj \<and> exclusive obj
    \<and> length (sp_LocalClusterName (mce_Spec obj)) < 35
    \<and> (\<exists>ms. fst (cl_ListMCE cl (ks_World s)) = Inr ms
         \<and> (\<forall>m \<in> set ms. effective_namespace m \<noteq> effective_namespace obj
              \<and> (IsInHostedMode obj \<or> IsInHostedMode m)))"
  by (auto simp: ValidateCreate_def api_ListMCE_def validate_components_admissible [symmetric]
      exclusivity_None [symmetric] validateLength_None [symmetric] create_conflict_None [symmetric]
      split: option.splits sum.splits prod.splits)

text \<open>
  C18: A creation request is admitted exactly when the availability value is known, every
  component is a known one and Maestro is not enabled, HyperShift and Cluster API are not both
  enabled, the list of existing engines could be read, the local cluster name has fewer than 35
  bytes, and no existing engine has the same effective namespace or is also standalone.
\<close>

theorem ValidateCreate_admits_iff:
  "(\<exists>s'. ValidateCreate cl obj s = Some (None, s')) \<longleftrightarrow>
    availability_ok obj \<and> components_admissible False obj \<and> exclusive obj
    \<and> length (sp_LocalClusterName (mce_Spec obj)) < 35
    \<and> (\<exists>ms. fst (cl_ListMCE cl (ks_World s)) = Inr ms
         \<and> (\<forall>m \<in> set ms. effective_namespace m \<noteq> effective_namespace obj
              \<and> (IsInHostedMode obj \<or> IsInHostedMode m)))"
  by (rule ValidateCreate_None)

theorem ValidateCreate_admits_iff_witness:
  "\<exists>s'. ValidateCreate mem_client sample_mce (start empty_mem) = Some (None, s')"
  by (subst ValidateCreate_admits_iff)
    (simp add: availability_ok_def components_admissible_def exclusive_def hypershiftComponents_def
      clusterAPIComponents_def Enabled_def mce_components_def sample_mce_def sample_spec_def
      mem_client_def empty_mem_def start_def)

lemma update_static_checks_None:
  "update_static_checks oldObj newObj = None \<longleftrightarrow>
    (sp_TargetNamespace (mce_Spec newObj) = sp_TargetNamespace (mce_Spec oldObj)
      \<or> sp_TargetNamespace (mce_Spec oldObj) = '''')
    \<and> IsInHostedMode newObj = IsInHostedMode oldObj
    \<and> infra_namespace newObj = infra_namespace oldObj
    \<and> availability_ok newObj
    \<and> components_admissible (Enabled oldObj MaestroPreview) newObj
    \<and> exclusive newObj"
  by (auto simp: update_static_checks_def validate_components_admissible [symmetric]
      exclusivity_None [symmetric] split: option.splits)

text \<open>
  What the two checks that read the cluster see.  Switching discovery off asks the server whether it serves
  the kind and lists the discovery configurations: \<open>discovery_free\<close> is the cluster after these requests when
  nothing stands in the way.  Renaming the local cluster lists the managed clusters.
\<close>

abbreviation discoveryConfigListGVK :: gvk where
  "discoveryConfigListGVK \<equiv> mk_gvk ''discovery.open-cluster-management.io'' ''v1'' ''DiscoveryConfigList''"

definition discovery_free :: "'w client \<Rightarrow> webhook_env \<Rightarrow> MultiClusterEngine \<Rightarrow> 'w \<Rightarrow> 'w option" where
  "discovery_free cl env m w =
    (if ComponentPresent m Discovery \<longrightarrow> Enabled m Discovery then Some w
     else if we_GetConfig env \<noteq> None \<or> we_NewDiscovery env \<noteq> None then None
     else case cl_ServerSupports cl ''discovery.open-cluster-management.io'' ''v1'' w of
       (Some _, w) \<Rightarrow> Some w
     | (None, w) \<Rightarrow> (case cl_List cl discoveryConfigListGVK '''' [] w of
         (Inr [], w) \<Rightarrow> Some w | _ \<Rightarrow> None))"

definition rename_ok :: "MultiClusterEngine \<Rightarrow> MultiClusterEngine \<Rightarrow> kobj list \<Rightarrow> bool" where
  "rename_ok oldObj newObj items =
    (length (sp_LocalClusterName (mce_Spec newObj)) < 35
     \<and> (\<forall>mc \<in> set items. ko_Name mc \<noteq> sp_LocalClusterName (mce_Spec oldObj)
          \<and> sm_get (ko_Labels mc) ''local-cluster'' \<noteq> ''true''))"

lemma block_discovery_None:
  "(\<exists>s'. block_discovery_disable cl env m s = Some (None, s') \<and> ks_World s' = w)
    \<longleftrightarrow> discovery_free cl env m (ks_World s) = Some w"
  by (auto simp: block_discovery_disable_def discovery_free_def api_eqs mk_gvk_def split_beta Let_def
      split: option.splits sum.splits list.splits prod.splits)

lemma block_rename_None:
  "(\<exists>s'. block_rename cl oldObj newObj s = Some (None, s')) \<longleftrightarrow>
    sp_LocalClusterName (mce_Spec oldObj) = sp_LocalClusterName (mce_Spec newObj)
    \<or> (\<exists>items. fst (cl_List cl managedClusterListGVK '''' [] (ks_World s)) = Inr items
         \<and> rename_ok oldObj newObj items)"
  by (auto simp: block_rename_def api_eqs rename_ok_def validateLength_None [symmetric]
      Let_def split: option.splits sum.splits prod.splits)

lemma ValidateUpdate_static:
  "ValidateUpdate cl env oldObj newObj s = Some (None, s') \<Longrightarrow> update_static_checks oldObj newObj = None"
  by (auto simp: ValidateUpdate_def split: option.splits)

lemmas ValidateUpdate_None = ValidateUpdate_static [unfolded update_static_checks_None]

lemma ValidateUpdate_runs:
  "(\<exists>s'. ValidateUpdate cl env oldObj newObj s = Some (None, s')) \<longleftrightarrow>
    update_static_checks oldObj newObj = None
    \<and> (\<exists>s1. block_discovery_disable cl env newObj s = Some (None, s1)
         \<and> (\<exists>s'. block_rename cl oldObj newObj s1 = Some (None, s')))"
  by (cases "block_discovery_disable cl env newObj s") (auto simp: ValidateUpdate_def split: option.splits)


definition sample_env :: webhook_env where
  "sample_env = \<lparr>we_GetConfig = None, we_NewDiscovery = None, we_Env = []\<rparr>"

lemmas sample_defs =
  sample_mce_def sample_spec_def sample_status_def mem_client_def empty_mem_def start_def
  sample_env_def with_components_def mk_component_def empty_Overrides_def empty_ConfigOverride_def

text \<open>
  Renaming the local cluster: admitted while only another managed cluster exists, refused as soon as the
  local cluster is there.
\<close>

definition renamed_mce :: MultiClusterEngine where
  "renamed_mce = sample_mce\<lparr>mce_Spec := sample_spec\<lparr>sp_LocalClusterName := ''hub''\<rparr>\<rparr>"


lemma rename_static:
  "update_static_checks sample_mce renamed_mce = None"
  "discovery_free mem_client sample_env renamed_mce w = Some w"
  by (simp_all add: update_static_checks_def availability_ok_def mce_components_def IsInHostedMode_def
      validateComponentExclusivity_def hypershiftComponents_def clusterAPIComponents_def Enabled_def
      infra_namespace_def discovery_free_def ComponentPresent_def renamed_mce_def sample_defs)


section \<open>Deletion is blocked by dependent resources\<close>










section \<open>The engines of a cluster over time\<close>

text \<open>
  The engines stored in a cluster, changed only by admitted requests: a creation, an update of a stored
  engine, and a deletion.  The webhook lists the engines through the cache of the manager
  (\<open>mgr.GetClient()\<close>), which may lag behind; \<open>fresh\<close> are the histories in which, at every creation, the list
  that was read had exactly the stored engines in it.  Without it the list is arbitrary.
\<close>

inductive admission_step ::
  "'w client \<Rightarrow> bool \<Rightarrow> MultiClusterEngine list \<Rightarrow> MultiClusterEngine list \<Rightarrow> bool"
  for cl :: "'w client" and fresh where
  create: "ValidateCreate cl obj (s :: 'w kstate) = Some (None, s') \<Longrightarrow>
    (fresh \<Longrightarrow> \<exists>listed. fst (cl_ListMCE cl (ks_World s)) = Inr listed \<and> set listed = set ms) \<Longrightarrow>
    admission_step cl fresh ms (ms @ [obj])"
| update: "ValidateUpdate cl env oldObj newObj (s :: 'w kstate) = Some (None, s') \<Longrightarrow>
    admission_step cl fresh (xs @ oldObj # ys) (xs @ newObj # ys)"
| delete: "admission_step cl fresh (xs @ obj # ys) (xs @ ys)"

inductive admitted :: "'w client \<Rightarrow> bool \<Rightarrow> MultiClusterEngine list \<Rightarrow> bool" for cl :: "'w client" and fresh where
  empty: "admitted cl fresh []"
| step: "admitted cl fresh ms \<Longrightarrow> admission_step cl fresh ms ms' \<Longrightarrow> admitted cl fresh ms'"

definition standalone :: "MultiClusterEngine list \<Rightarrow> MultiClusterEngine list" where
  "standalone ms = filter (\<lambda>m. \<not> IsInHostedMode m) ms"

definition admission_inv :: "bool \<Rightarrow> MultiClusterEngine list \<Rightarrow> bool" where
  "admission_inv fresh ms =
    ((fresh \<longrightarrow> length (standalone ms) \<le> 1)
     \<and> (\<forall>m \<in> set ms. exclusive m \<and> availability_ok m \<and> components_admissible True m))"

lemma components_admissible_weaken:
  "components_admissible b m \<Longrightarrow> components_admissible True m"
  by (auto simp: components_admissible_def)

lemma admission_inv_step:
  assumes "admission_step cl fresh ms ms'" "admission_inv fresh ms"
  shows "admission_inv fresh ms'"
  using assms
proof cases
  case (create obj s s')
  have *: "exclusive obj" "availability_ok obj" "components_admissible False obj"
    "fresh \<Longrightarrow> \<forall>m \<in> set ms. IsInHostedMode obj \<or> IsInHostedMode m"
    using iffD1 [OF ValidateCreate_None, OF exI, OF create(2)] create(3) by auto
  have "length (standalone (ms @ [obj])) \<le> 1" if fresh
    using assms(2) *(4) [OF that] that by (auto simp: admission_inv_def standalone_def filter_empty_conv)
  with * create(1) assms(2) show ?thesis
    by (auto simp: admission_inv_def intro: components_admissible_weaken)
next
  case (update env oldObj newObj s s' xs ys)
  note * = ValidateUpdate_None [OF update(3)]
  have "length (standalone (xs @ newObj # ys)) = length (standalone (xs @ oldObj # ys))"
    using * by (simp add: standalone_def)
  with * update assms(2) show ?thesis
    by (auto simp: admission_inv_def intro: components_admissible_weaken)
next
  case (delete xs obj ys)
  then show ?thesis
    using assms(2) by (auto simp: admission_inv_def standalone_def split: if_splits)
qed

text \<open>
  C17: After any sequence of admitted creations, updates and deletions, each stored engine has a known
  availability value, only known components and never both a HyperShift and a Cluster API component enabled,
  whatever list the webhook read.  If at every creation the webhook's list held exactly the stored engines
  (its client is the manager's cache, which does not promise that), there is at most one engine in
  standalone mode.
\<close>

theorem admitted_invariant:
  assumes "admitted cl fresh ms"
  shows "(\<forall>m \<in> set ms. exclusive m \<and> availability_ok m \<and> components_admissible True m)
    \<and> (fresh \<longrightarrow> length (standalone ms) \<le> 1)"
proof -
  from assms have "admission_inv fresh ms"
  proof (induction rule: admitted.induct)
    case empty
    then show ?case by (simp add: admission_inv_def standalone_def)
  next
    case (step ms ms')
    then show ?case using admission_inv_step by blast
  qed
  then show ?thesis by (simp add: admission_inv_def)
qed

text \<open>
  A history with a creation and the renaming of its local cluster; and, from a stale list, one with two
  standalone engines.
\<close>

lemma sample_create: "\<exists>s'. ValidateCreate mem_client sample_mce (start empty_mem) = Some (None, s')"
  by (simp add: ValidateCreate_def availability_ok_def validateComponentExclusivity_def
      hypershiftComponents_def clusterAPIComponents_def Enabled_def mce_components_def api_eqs
      validateLocalClusterNameLength_def maxLocalClusterNameLength_def sample_defs)

lemma sample_history: "admitted mem_client True [renamed_mce]"
proof -
  obtain s' where "ValidateCreate mem_client sample_mce (start empty_mem) = Some (None, s')"
    using sample_create by blast
  then have "admission_step mem_client True [] ([] @ [sample_mce])"
    by (intro admission_step.create [where s = "start empty_mem"])
      (simp_all add: sample_defs)
  then have created: "admitted mem_client True ([] @ sample_mce # [])"
    using admitted.step [OF admitted.empty] by simp
  have "\<exists>s'. ValidateUpdate mem_client sample_env sample_mce renamed_mce (start empty_mem) = Some (None, s')"
  proof -
    obtain s1 where "block_discovery_disable mem_client sample_env renamed_mce (start empty_mem) = Some (None, s1)"
      "ks_World s1 = empty_mem"
      using block_discovery_None [of mem_client sample_env renamed_mce "start empty_mem" empty_mem] rename_static(2)
      by (auto simp: start_def)
    moreover have "fst (cl_List mem_client managedClusterListGVK '''' [] empty_mem) = Inr []"
      "rename_ok sample_mce renamed_mce []"
      by (simp_all add: mem_client_def empty_mem_def rename_ok_def renamed_mce_def sample_spec_def)
    ultimately show ?thesis
      using rename_static(1) unfolding ValidateUpdate_runs block_rename_None by auto
  qed
  then obtain s' where "ValidateUpdate mem_client sample_env sample_mce renamed_mce (start empty_mem) = Some (None, s')" ..
  from admitted.step [OF created admission_step.update [OF this]] show ?thesis by simp
qed

lemma stale_history: "admitted mem_client False [sample_mce, sample_mce]"
proof -
  obtain s' where "ValidateCreate mem_client sample_mce (start empty_mem) = Some (None, s')"
    using sample_create by blast
  then have create: "admission_step mem_client False ms (ms @ [sample_mce])" for ms
    by (rule admission_step.create) simp
  from admitted.step [OF admitted.step [OF admitted.empty create] create] show ?thesis by simp
qed

theorem admitted_invariant_witness:
  "length (standalone [renamed_mce]) \<le> 1 \<and> exclusive renamed_mce \<and> availability_ok renamed_mce
    \<and> sp_LocalClusterName (mce_Spec renamed_mce) = ''hub''
    \<and> exclusive sample_mce \<and> length (standalone [sample_mce, sample_mce]) = 2"
  using admitted_invariant [OF sample_history] admitted_invariant [OF stale_history]
  by (simp add: renamed_mce_def standalone_def IsInHostedMode_def sm_get_def sample_defs)

end
