(* ===== verification/Utils.thy ===== *)
theory Utils
  imports Webhook
begin

text \<open>
  The helpers of \<open>pkg/utils\<close>: default components, availability and version helpers, the CRD
  directories of a component (\<open>utils.go\<close>), and the annotations of the custom resource
  (\<open>annotations.go\<close>).  The lemmas show that defaulting is complete and idempotent and that the CRD
  directories of two different components never overlap except for preview aliases.
\<close>

section \<open>Default components\<close>

definition onComponents :: "string list" where
  "onComponents =
    [AssistedService, ClusterLifecycle, ClusterManager, ClusterPermission, Discovery,
     FleetNavigation, Hive, ServerFoundation, ClusterProxyAddon, LocalCluster,
     HypershiftLocalHosting, HyperShift, ManagedServiceAccount]"

definition offComponents :: "string list" where
  "offComponents =
    [ClusterAPI, ClusterAPIProviderAWS, ClusterAPIProviderAzurePreview, ClusterAPIProviderMetal,
     ClusterAPIProviderOA, ImageBasedInstallOperator, MaestroPreview]"

definition nonOCPComponents :: "string list" where
  "nonOCPComponents =
    [ClusterLifecycle, ClusterManager, HyperShift, HypershiftLocalHosting, LocalCluster,
     ServerFoundation]"

definition SetDefaultComponents :: "MultiClusterEngine \<Rightarrow> bool \<times> MultiClusterEngine" where
  "SetDefaultComponents m =
    (let (u1, m) = defaults_for ComponentPresent Enable onComponents m;
         (u2, m) = defaults_for ComponentPresent Disable offComponents m
     in (u1 \<or> u2, m))"

section \<open>Small helpers\<close>

definition AddBackplaneConfigLabels :: "string \<Rightarrow> kobj \<Rightarrow> kobj" where
  "AddBackplaneConfigLabels name u =
    u\<lparr>ko_Labels := sm_put (ko_Labels u) ''backplaneconfig.name'' name\<rparr>"

definition ProxyEnvVarsAreSet :: "strmap \<Rightarrow> bool" where
  "ProxyEnvVarsAreSet env =
    (sm_get env ''HTTP_PROXY'' \<noteq> '''' \<or> sm_get env ''HTTPS_PROXY'' \<noteq> ''''
     \<or> sm_get env ''NO_PROXY'' \<noteq> '''')"

definition DefaultReplicaCount :: "MultiClusterEngine \<Rightarrow> int" where
  "DefaultReplicaCount m = (if sp_AvailabilityConfig (mce_Spec m) = HABasic then 1 else 2)"

definition AvailabilityConfigIsValid :: "string \<Rightarrow> bool" where
  "AvailabilityConfigIsValid config = (config = HAHigh \<or> config = HABasic)"

definition GetImagePullPolicy :: "MultiClusterEngine \<Rightarrow> string" where
  "GetImagePullPolicy m =
    (case sp_Overrides (mce_Spec m) of
       None \<Rightarrow> ''IfNotPresent''
     | Some ov \<Rightarrow> if ov_ImagePullPolicy ov = '''' then ''IfNotPresent'' else ov_ImagePullPolicy ov)"

definition IsUpgrading :: "MultiClusterEngine \<Rightarrow> bool" where
  "IsUpgrading m =
    (ms_DesiredVersion (mce_Status m) \<noteq> ms_CurrentVersion (mce_Status m)
     \<and> ms_CurrentVersion (mce_Status m) \<noteq> '''')"

text \<open>Subtraction of two Go \<open>int\<close> values wraps at 64 bits.\<close>

definition wrap64 :: "int \<Rightarrow> int" where
  "wrap64 i = (i + 2 ^ 63) mod 2 ^ 64 - 2 ^ 63"

definition IsEUSUpgrading :: "MultiClusterEngine \<Rightarrow> bool" where
  "IsEUSUpgrading m =
    (let cur = ms_CurrentVersion (mce_Status m);
         currentParts = split_on CHR ''.'' cur;
         desiredParts = split_on CHR ''.'' (ms_DesiredVersion (mce_Status m))
     in if cur = '''' then False
        else if length currentParts < 2 \<or> length desiredParts < 2 then False
        else (case (Atoi (currentParts ! 1), Atoi (desiredParts ! 1)) of
                (Inr currentY, Inr desiredY) \<Rightarrow> wrap64 (desiredY - currentY) = 2
              | _ \<Rightarrow> False))"

definition IsUnitTest :: "strmap \<Rightarrow> bool" where
  "IsUnitTest env = (map_of env ''UNIT_TEST'' = Some ''true'')"

definition GetMCHNamespace :: "MultiClusterEngine \<Rightarrow> string" where
  "GetMCHNamespace m = sm_get (mce_Labels m) ''installer.namespace''"

definition DefaultTolerations :: "Toleration list" where
  "DefaultTolerations =
    [\<lparr>tol_Key = ''node-role.kubernetes.io/infra'', tol_Operator = ''Exists'', tol_Value = '''',
      tol_Effect = ''NoSchedule'', tol_TolerationSeconds = None\<rparr>,
     \<lparr>tol_Key = ''dedicated'', tol_Operator = ''Exists'', tol_Value = '''',
      tol_Effect = ''NoSchedule'', tol_TolerationSeconds = None\<rparr>]"

fun list_Contains :: "string list \<Rightarrow> string \<Rightarrow> bool" where
  "list_Contains [] str = False"
| "list_Contains (v # s) str = (v = str \<or> list_Contains s str)"

fun Remove :: "string list \<Rightarrow> string \<Rightarrow> string list" where
  "Remove [] str = []"
| "Remove (v # s) str = (if v = str then s else v # Remove s str)"

text \<open>\<open>OperatorNamespace\<close> panics when \<open>POD_NAMESPACE\<close> is not set.\<close>

definition OperatorNamespace :: "strmap \<Rightarrow> string option" where
  "OperatorNamespace env = map_of env ''POD_NAMESPACE''"

definition isCommunityMode :: "strmap \<Rightarrow> bool" where
  "isCommunityMode env = (sm_get env ''OPERATOR_PACKAGE'' \<noteq> ''multicluster-engine'')"

definition GetHubType :: "strmap \<Rightarrow> MultiClusterEngine \<Rightarrow> string" where
  "GetHubType env m =
    (if isCommunityMode env
     then (if IsACMManaged m then ''stolostron'' else ''stolostron-engine'')
     else (if IsACMManaged m then ''acm'' else ''mce''))"

definition namespaceGVK :: gvk where
  "namespaceGVK = mk_gvk '''' ''v1'' ''Namespace''"

text \<open>\<open>DetectOpenShift\<close>: the new value of the global flag, or the error that leaves it alone.\<close>

definition DetectOpenShift :: "'w client \<Rightarrow> (('w, 'z) kstate_scheme, bool resp) go" where
  "DetectOpenShift cl s = do {
     (r, s) \<leftarrow> api_Get cl namespaceGVK ('''', ''openshift-config'') s;
     case r of
       Inl e \<Rightarrow> if IsNotFound e then Some (Inr False, s) else Some (Inl e, s)
     | Inr _ \<Rightarrow> Some (Inr True, s)
   }"

section \<open>CRD directories of a component\<close>

definition ComponentCRDDirectories :: "string \<Rightarrow> string list" where
  "ComponentCRDDirectories component =
    (if component = ClusterAPI \<or> component = ClusterAPIPreview
     then [ClusterAPICRDDir, ClusterAPIK8SCRDDir]
     else if component = ClusterAPIProviderMetal \<or> component = ClusterAPIProviderMetalPreview
     then [ClusterAPIProviderMetalCRDDir, ClusterAPIProviderMetalK8SCRDDir]
     else if component = ClusterAPIProviderOA \<or> component = ClusterAPIProviderOAPreview
     then [ClusterAPIProviderOACRDDir, ClusterAPIProviderOAK8SCRDDir]
     else if component = ClusterAPIProviderAzure \<or> component = ClusterAPIProviderAzurePreview
     then [ClusterAPIProviderAzureCRDDir, ClusterAPIProviderAzureK8SCRDDir]
     else if component = AssistedService then [AssistedServiceCRDDir]
     else if component = ClusterAPIProviderAWS \<or> component = ClusterAPIProviderAWSPreview
     then [ClusterAPIProviderAWSCRDDir]
     else if component = ClusterLifecycle then [ClusterLifecycleCRDDir]
     else if component = ClusterManager then [ClusterManagerCRDDir]
     else if component = ClusterPermission then [ClusterPermissionCRDDir]
     else if component = ClusterProxyAddon then [ClusterProxyAddonCRDDir]
     else if component = Discovery then [DiscoveryCRDDir]
     else if component = Hive then [HiveCRDDir]
     else if component = ImageBasedInstallOperator \<or> component = ImageBasedInstallOperatorPreview
     then [ImageBasedInstallOperatorCRDDir]
     else if component = ManagedServiceAccount \<or> component = ManagedServiceAccountPreview
     then [ManagedServiceAccountCRDDir]
     else if component = ServerFoundation then [ServerFoundationCRDDir]
     else [])"

section \<open>Annotations\<close>

abbreviation AnnotationMCEIgnore :: string where
  "AnnotationMCEIgnore \<equiv> ''multiclusterengine.openshift.io/ignore''"
abbreviation AnnotationIgnoreOCPVersion :: string where
  "AnnotationIgnoreOCPVersion \<equiv> ''installer.multicluster.openshift.io/ignore-ocp-version''"
abbreviation DeprecatedAnnotationIgnoreOCPVersion :: string where
  "DeprecatedAnnotationIgnoreOCPVersion \<equiv> ''ignoreOCPVersion''"
abbreviation AnnotationEdgeManagerEnabled :: string where
  "AnnotationEdgeManagerEnabled \<equiv> ''installer.open-cluster-management.io/edge-manager-enabled''"
abbreviation AnnotationImageOverridesCM :: string where
  "AnnotationImageOverridesCM \<equiv> ''installer.multicluster.openshift.io/image-overrides-configmap''"
abbreviation DeprecatedAnnotationImageOverridesCM :: string where
  "DeprecatedAnnotationImageOverridesCM \<equiv> ''imageOverridesCM''"
abbreviation AnnotationImageRepo :: string where
  "AnnotationImageRepo \<equiv> ''installer.multicluster.openshift.io/image-repository''"
abbreviation DeprecatedAnnotationImageRepo :: string where
  "DeprecatedAnnotationImageRepo \<equiv> ''imageRepository''"
abbreviation AnnotationEditable :: string where
  "AnnotationEditable \<equiv> ''installer.multicluster.openshift.io/is-editable''"
abbreviation AnnotationKubeconfig :: string where
  "AnnotationKubeconfig \<equiv> ''installer.multicluster.openshift.io/kubeconfig''"
abbreviation DeprecatedAnnotationKubeconfig :: string where
  "DeprecatedAnnotationKubeconfig \<equiv> ''mce-kubeconfig''"
abbreviation AnnotationMCEPause :: string where
  "AnnotationMCEPause \<equiv> ''installer.multicluster.openshift.io/pause''"
abbreviation DeprecatedAnnotationMCEPause :: string where
  "DeprecatedAnnotationMCEPause \<equiv> ''pause''"
abbreviation AnnotationReleaseVersion :: string where
  "AnnotationReleaseVersion \<equiv> ''installer.multicluster.openshift.io/release-version''"
abbreviation AnnotationTemplateOverridesCM :: string where
  "AnnotationTemplateOverridesCM \<equiv> ''installer.multicluster.openshift.io/template-override-configmap''"
abbreviation AnnotationExternallyManaged :: string where
  "AnnotationExternallyManaged \<equiv> ''installer.openshift.io/externally-managed''"
abbreviation AnnotationResourceAdoptionPolicy :: string where
  "AnnotationResourceAdoptionPolicy \<equiv> ''installer.multicluster.openshift.io/resource-adoption-policy''"
abbreviation AnnotationProbeTimeoutSeconds :: string where
  "AnnotationProbeTimeoutSeconds \<equiv> ''installer.multicluster.openshift.io/probe-timeout-seconds''"
abbreviation AnnotationProbeFailureThreshold :: string where
  "AnnotationProbeFailureThreshold \<equiv> ''installer.multicluster.openshift.io/probe-failure-threshold''"
abbreviation AnnotationProbeSuccessThreshold :: string where
  "AnnotationProbeSuccessThreshold \<equiv> ''installer.multicluster.openshift.io/probe-success-threshold''"

text \<open>
  \<open>strings.EqualFold(v, "true")\<close>: the four letters have no case variants outside ASCII, so folding
  the ASCII letters decides it.
\<close>

definition equal_fold_true :: "string \<Rightarrow> bool" where
  "equal_fold_true v = (ToLower v = ''true'')"

definition IsAnnotationTrue :: "MultiClusterEngine \<Rightarrow> string \<Rightarrow> bool" where
  "IsAnnotationTrue m key = equal_fold_true (sm_get (mce_Annotations m) key)"

definition IsPaused :: "MultiClusterEngine \<Rightarrow> bool" where
  "IsPaused m = (IsAnnotationTrue m AnnotationMCEPause \<or> IsAnnotationTrue m DeprecatedAnnotationMCEPause)"

definition AnnotationPresent :: "string \<Rightarrow> kobj \<Rightarrow> bool" where
  "AnnotationPresent annotation u = sm_has (ko_Annotations u) annotation"

definition getAnnotation :: "MultiClusterEngine \<Rightarrow> string \<Rightarrow> string" where
  "getAnnotation m key = sm_get (mce_Annotations m) key"

definition getAnnotationOrDefault :: "MultiClusterEngine \<Rightarrow> string \<Rightarrow> string \<Rightarrow> string" where
  "getAnnotationOrDefault m primaryKey deprecatedKey =
    (let primaryValue = getAnnotation m primaryKey
     in if primaryValue \<noteq> '''' then primaryValue else getAnnotation m deprecatedKey)"

definition GetHostedCredentialsSecret :: "MultiClusterEngine \<Rightarrow> nn resp" where
  "GetHostedCredentialsSecret m =
    (let name = getAnnotationOrDefault m AnnotationKubeconfig DeprecatedAnnotationKubeconfig
     in if name = ''''
        then Inl (ErrorString (''no kubeconfig secret annotation defined in '' @ mce_Name m))
        else Inr (if sp_TargetNamespace (mce_Spec m) = '''' then DefaultTargetNamespace
                  else sp_TargetNamespace (mce_Spec m), name))"

definition GetImageRepository :: "MultiClusterEngine \<Rightarrow> string" where
  "GetImageRepository m = getAnnotationOrDefault m AnnotationImageRepo DeprecatedAnnotationImageRepo"

definition GetImageOverridesConfigmapName :: "MultiClusterEngine \<Rightarrow> string" where
  "GetImageOverridesConfigmapName m =
    getAnnotationOrDefault m AnnotationImageOverridesCM DeprecatedAnnotationImageOverridesCM"

definition GetTemplateOverridesConfigmapName :: "MultiClusterEngine \<Rightarrow> string" where
  "GetTemplateOverridesConfigmapName m = getAnnotation m AnnotationTemplateOverridesCM"

definition IsTemplateAnnotationTrue :: "kobj \<Rightarrow> string \<Rightarrow> bool" where
  "IsTemplateAnnotationTrue u key = equal_fold_true (sm_get (ko_Annotations u) key)"

definition HasAnnotation :: "MultiClusterEngine \<Rightarrow> string \<Rightarrow> bool" where
  "HasAnnotation m key = sm_has (mce_Annotations m) key"

definition GetEdgeManagerEnabled :: "MultiClusterEngine \<Rightarrow> string" where
  "GetEdgeManagerEnabled m =
    (if HasAnnotation m AnnotationEdgeManagerEnabled
     then sm_get (mce_Annotations m) AnnotationEdgeManagerEnabled else ''false'')"

definition ShouldIgnoreOCPVersion :: "MultiClusterEngine \<Rightarrow> bool" where
  "ShouldIgnoreOCPVersion m =
    (HasAnnotation m AnnotationIgnoreOCPVersion \<or> HasAnnotation m DeprecatedAnnotationIgnoreOCPVersion)"

text \<open>
  \<open>OverrideImageRepository\<close> keeps what follows the last slash.  An image reference without a slash
  makes the slice expression \<open>imageRef[-1:]\<close> panic.
\<close>

definition last_slash_suffix :: "string \<Rightarrow> string option" where
  "last_slash_suffix ref =
    (if CHR ''/'' \<in> set ref
     then Some (CHR ''/'' # rev (takeWhile (\<lambda>c. c \<noteq> CHR ''/'') (rev ref)))
     else None)"

fun OverrideImageRepository :: "strmap \<Rightarrow> string \<Rightarrow> strmap option" where
  "OverrideImageRepository [] repo = Some []"
| "OverrideImageRepository ((k, ref) # rest) repo = do {
     suffix \<leftarrow> last_slash_suffix ref;
     rest' \<leftarrow> OverrideImageRepository rest repo;
     Some ((k, repo @ suffix) # rest')
   }"

section \<open>Defaulting\<close>

lemma fst_SetDefaultComponents:
  "fst (SetDefaultComponents m) = (\<exists>c \<in> set (onComponents @ offComponents). \<not> ComponentPresent m c)"
proof -
  have "set onComponents \<inter> set offComponents = {}"
    by (simp add: onComponents_def offComponents_def)
  then have "(\<exists>c \<in> set offComponents.
      \<not> ComponentPresent (snd (defaults_for ComponentPresent Enable onComponents m)) c)
      = (\<exists>c \<in> set offComponents. \<not> ComponentPresent m c)"
    by (auto simp: ComponentPresent_flag overrides.flag_defaults_enable)
  then show ?thesis
    by (auto simp: SetDefaultComponents_def split_beta Let_def overrides.fst_defaults)
qed

lemma flag_SetDefaultComponents:
  "component_flag (snd (SetDefaultComponents m)) t =
    (if component_flag m t \<noteq> None then component_flag m t
     else if t \<in> set onComponents then Some True
     else if t \<in> set offComponents then Some False
     else None)"
  by (auto simp: SetDefaultComponents_def split_beta Let_def overrides.flag_defaults_enable
      overrides.flag_defaults_disable)

lemma SetDefaultComponents_unchanged:
  assumes "\<And>c. c \<in> set onComponents \<union> set offComponents \<Longrightarrow> ComponentPresent m c"
  shows "SetDefaultComponents m = (False, m)"
  using assms by (simp add: SetDefaultComponents_def overrides.defaults_unchanged)

text \<open>
  C38: Defaulting the components gives every component of the on-list that the user did not mention
  the value enabled, every one of the off-list disabled, keeps whatever the user configured, reports
  a change exactly when something was missing, and changes nothing the second time.
\<close>

theorem SetDefaultComponents_spec:
  "component_flag (snd (SetDefaultComponents m)) t =
     (case component_flag m t of
        Some b \<Rightarrow> Some b
      | None \<Rightarrow> if t \<in> set onComponents then Some True
                else if t \<in> set offComponents then Some False else None)
   \<and> fst (SetDefaultComponents m) = (\<exists>c \<in> set (onComponents @ offComponents). \<not> ComponentPresent m c)
   \<and> SetDefaultComponents (snd (SetDefaultComponents m)) = (False, snd (SetDefaultComponents m))"
proof -
  have "SetDefaultComponents (snd (SetDefaultComponents m)) = (False, snd (SetDefaultComponents m))"
    by (rule SetDefaultComponents_unchanged) (auto simp: ComponentPresent_flag flag_SetDefaultComponents)
  then show ?thesis
    by (simp add: flag_SetDefaultComponents fst_SetDefaultComponents split: option.splits)
qed

theorem SetDefaultComponents_spec_witness:
  "component_flag (snd (SetDefaultComponents (with_components [mk_component Hive False] sample_mce))) Hive
     = Some False
   \<and> component_flag (snd (SetDefaultComponents (with_components [mk_component Hive False] sample_mce)))
       Discovery = Some True"
  using SetDefaultComponents_spec [where m = "with_components [mk_component Hive False] sample_mce"
      and t = Hive]
    SetDefaultComponents_spec [where m = "with_components [mk_component Hive False] sample_mce"
      and t = Discovery]
  by (simp add: component_flag_def mce_components_def with_components_def mk_component_def
      onComponents_def)

section \<open>CRD directories\<close>

lemma ComponentCRDDirectories_distinct: "distinct (ComponentCRDDirectories c)"
  by (simp add: ComponentCRDDirectories_def)

definition stable_name :: "string \<Rightarrow> string" where
  "stable_name c = (case map_of PreviewToStable c of None \<Rightarrow> c | Some q \<Rightarrow> q)"

text \<open>The stable component that each CRD directory belongs to.\<close>

definition crd_owner :: strmap where
  "crd_owner =
    [(AssistedServiceCRDDir, AssistedService), (ClusterAPICRDDir, ClusterAPI),
     (ClusterAPIK8SCRDDir, ClusterAPI), (ClusterAPIProviderAWSCRDDir, ClusterAPIProviderAWS),
     (ClusterAPIProviderAzureCRDDir, ClusterAPIProviderAzurePreview),
     (ClusterAPIProviderAzureK8SCRDDir, ClusterAPIProviderAzurePreview),
     (ClusterAPIProviderMetalCRDDir, ClusterAPIProviderMetal),
     (ClusterAPIProviderMetalK8SCRDDir, ClusterAPIProviderMetal),
     (ClusterAPIProviderOACRDDir, ClusterAPIProviderOA),
     (ClusterAPIProviderOAK8SCRDDir, ClusterAPIProviderOA),
     (ClusterLifecycleCRDDir, ClusterLifecycle), (ClusterManagerCRDDir, ClusterManager),
     (ClusterPermissionCRDDir, ClusterPermission), (ClusterProxyAddonCRDDir, ClusterProxyAddon),
     (DiscoveryCRDDir, Discovery), (HiveCRDDir, Hive),
     (ImageBasedInstallOperatorCRDDir, ImageBasedInstallOperator),
     (ManagedServiceAccountCRDDir, ManagedServiceAccount),
     (ServerFoundationCRDDir, ServerFoundation)]"

lemma crd_owner_all:
  "list_all (\<lambda>c. list_all (\<lambda>d. map_of crd_owner d = Some (stable_name c)) (ComponentCRDDirectories c))
    AllComponents"
  by code_simp

text \<open>
  Two known components share a CRD directory only when they are the same component or the
  preview and stable name of one: skipping the directories of one component never drops the CRDs of
  an unrelated one.
\<close>

theorem crd_directories_disjoint:
  assumes "c \<in> set AllComponents" "d \<in> set AllComponents" "stable_name c \<noteq> stable_name d"
  shows "set (ComponentCRDDirectories c) \<inter> set (ComponentCRDDirectories d) = {}"
proof -
  have "map_of crd_owner x = Some (stable_name e)"
    if "e \<in> set AllComponents" "x \<in> set (ComponentCRDDirectories e)" for e x
    using crd_owner_all that unfolding list_all_iff by blast
  with assms show ?thesis by (metis disjoint_iff option.inject)
qed

theorem crd_directories_disjoint_witness:
  "set (ComponentCRDDirectories Hive) \<inter> set (ComponentCRDDirectories Discovery) = {}"
  by (rule crd_directories_disjoint)
    (simp_all add: AllComponents_def stable_name_def PreviewToStable_def)

section \<open>Image repository override\<close>

lemma last_slash_suffix_Some:
  assumes "last_slash_suffix ref = Some suf"
  shows "\<exists>pre rest. ref = pre @ suf \<and> suf = CHR ''/'' # rest \<and> CHR ''/'' \<notin> set rest"
proof -
  let ?tw = "takeWhile (\<lambda>c. c \<noteq> CHR ''/'') (rev ref)"
  let ?dw = "dropWhile (\<lambda>c. c \<noteq> CHR ''/'') (rev ref)"
  have mem: "CHR ''/'' \<in> set ref" and suf: "suf = CHR ''/'' # rev ?tw"
    using assms by (auto simp: last_slash_suffix_def split: if_splits)
  then have ne: "?dw \<noteq> []" by (auto simp: dropWhile_eq_Nil_conv)
  then have "hd ?dw = CHR ''/''" using hd_dropWhile [of "\<lambda>c. c \<noteq> CHR ''/''" "rev ref"] by simp
  then have "?dw = CHR ''/'' # tl ?dw" using ne by (cases ?dw) auto
  then have "rev ref = ?tw @ CHR ''/'' # tl ?dw" by (metis takeWhile_dropWhile_id)
  then have "rev (rev ref) = rev (?tw @ CHR ''/'' # tl ?dw)" by (rule arg_cong)
  then have "ref = rev (tl ?dw) @ suf" by (simp add: suf)
  moreover have "CHR ''/'' \<notin> set (rev ?tw)" by (auto dest: set_takeWhileD)
  ultimately show ?thesis using suf by blast
qed

lemma OverrideImageRepository_None:
  "OverrideImageRepository m repo = None \<longleftrightarrow> (\<exists>(k, ref) \<in> set m. CHR ''/'' \<notin> set ref)"
  by (induction m) (auto simp: last_slash_suffix_def bind_eq_None_conv)

lemma OverrideImageRepository_lookup:
  "OverrideImageRepository m repo = Some m' \<Longrightarrow>
    map_of m' k = (case map_of m k of None \<Rightarrow> None
      | Some ref \<Rightarrow> map_option (\<lambda>suf. repo @ suf) (last_slash_suffix ref))"
  by (induction m repo arbitrary: m' rule: OverrideImageRepository.induct)
    (auto simp: bind_eq_Some_conv)

text \<open>
  C39: Overriding the image repository panics exactly when some image reference has no slash; otherwise
  it keeps the keys and replaces everything before the last slash of each reference by the
  repository.
\<close>

theorem OverrideImageRepository_spec:
  "(OverrideImageRepository m repo = None \<longleftrightarrow> (\<exists>(k, ref) \<in> set m. CHR ''/'' \<notin> set ref))
   \<and> (\<forall>m'. OverrideImageRepository m repo = Some m' \<longrightarrow>
        map fst m' = map fst m
        \<and> (\<forall>k ref. map_of m k = Some ref \<longrightarrow>
             (\<exists>pre rest. ref = pre @ CHR ''/'' # rest \<and> CHR ''/'' \<notin> set rest
                \<and> map_of m' k = Some (repo @ CHR ''/'' # rest))))"
proof (intro conjI allI impI)
  show "OverrideImageRepository m repo = None \<longleftrightarrow> (\<exists>(k, ref) \<in> set m. CHR ''/'' \<notin> set ref)"
    by (rule OverrideImageRepository_None)
next
  fix m' assume "OverrideImageRepository m repo = Some m'"
  then show "map fst m' = map fst m"
    by (induction m repo arbitrary: m' rule: OverrideImageRepository.induct)
      (auto simp: bind_eq_Some_conv)
next
  fix m' k ref
  assume run: "OverrideImageRepository m repo = Some m'" and k: "map_of m k = Some ref"
  have "CHR ''/'' \<in> set ref"
    using run OverrideImageRepository_None [of m repo] map_of_SomeD [OF k] by auto
  then obtain suf where suf: "last_slash_suffix ref = Some suf"
    by (auto simp: last_slash_suffix_def)
  from last_slash_suffix_Some [OF this] OverrideImageRepository_lookup [OF run, of k] k suf
  show "\<exists>pre rest. ref = pre @ CHR ''/'' # rest \<and> CHR ''/'' \<notin> set rest
      \<and> map_of m' k = Some (repo @ CHR ''/'' # rest)"
    by fastforce
qed

theorem OverrideImageRepository_spec_witness:
  "OverrideImageRepository [(''hive'', ''hive:latest'')] ''quay.io/x'' = None
   \<and> OverrideImageRepository [(''hive'', ''a/b/hive:1'')] ''quay.io/x'' = Some [(''hive'', ''quay.io/x/hive:1'')]"
proof -
  have "OverrideImageRepository [(''hive'', ''a/b/hive:1'')] ''quay.io/x''
      = Some [(''hive'', ''quay.io/x/hive:1'')]"
    by (simp add: last_slash_suffix_def)
  with OverrideImageRepository_spec [where m = "[(''hive'', ''hive:latest'')]" and repo = "''quay.io/x''"]
  show ?thesis by simp
qed

end
