(* ===== verification/Tls.thy ===== *)
theory Tls
  imports Utils "HOL-Library.Word"
begin

text \<open>
  The TLS helpers of \<open>pkg/utils/utils.go\<close>: translating the cluster's cipher names to IANA names and
  to the 16 bit identifiers of \<open>crypto/tls\<close>, and choosing the TLS profile.
\<close>

definition opensslToIANACipherMap :: strmap where
  "opensslToIANACipherMap =
    [(''TLS_AES_128_GCM_SHA256'', ''TLS_AES_128_GCM_SHA256''),
     (''TLS_AES_256_GCM_SHA384'', ''TLS_AES_256_GCM_SHA384''),
     (''TLS_CHACHA20_POLY1305_SHA256'', ''TLS_CHACHA20_POLY1305_SHA256''),
     (''ECDHE-ECDSA-AES128-GCM-SHA256'', ''TLS_ECDHE_ECDSA_WITH_AES_128_GCM_SHA256''),
     (''ECDHE-RSA-AES128-GCM-SHA256'', ''TLS_ECDHE_RSA_WITH_AES_128_GCM_SHA256''),
     (''ECDHE-ECDSA-AES256-GCM-SHA384'', ''TLS_ECDHE_ECDSA_WITH_AES_256_GCM_SHA384''),
     (''ECDHE-RSA-AES256-GCM-SHA384'', ''TLS_ECDHE_RSA_WITH_AES_256_GCM_SHA384''),
     (''ECDHE-ECDSA-CHACHA20-POLY1305'', ''TLS_ECDHE_ECDSA_WITH_CHACHA20_POLY1305_SHA256''),
     (''ECDHE-RSA-CHACHA20-POLY1305'', ''TLS_ECDHE_RSA_WITH_CHACHA20_POLY1305_SHA256''),
     (''DHE-RSA-AES128-GCM-SHA256'', ''TLS_DHE_RSA_WITH_AES_128_GCM_SHA256''),
     (''DHE-RSA-AES256-GCM-SHA384'', ''TLS_DHE_RSA_WITH_AES_256_GCM_SHA384''),
     (''DHE-RSA-CHACHA20-POLY1305'', ''TLS_DHE_RSA_WITH_CHACHA20_POLY1305_SHA256''),
     (''ECDHE-ECDSA-AES128-SHA256'', ''TLS_ECDHE_ECDSA_WITH_AES_128_CBC_SHA256''),
     (''ECDHE-RSA-AES128-SHA256'', ''TLS_ECDHE_RSA_WITH_AES_128_CBC_SHA256''),
     (''ECDHE-ECDSA-AES128-SHA'', ''TLS_ECDHE_ECDSA_WITH_AES_128_CBC_SHA''),
     (''ECDHE-RSA-AES128-SHA'', ''TLS_ECDHE_RSA_WITH_AES_128_CBC_SHA''),
     (''ECDHE-ECDSA-AES256-SHA384'', ''TLS_ECDHE_ECDSA_WITH_AES_256_CBC_SHA384''),
     (''ECDHE-RSA-AES256-SHA384'', ''TLS_ECDHE_RSA_WITH_AES_256_CBC_SHA384''),
     (''ECDHE-ECDSA-AES256-SHA'', ''TLS_ECDHE_ECDSA_WITH_AES_256_CBC_SHA''),
     (''ECDHE-RSA-AES256-SHA'', ''TLS_ECDHE_RSA_WITH_AES_256_CBC_SHA''),
     (''DHE-RSA-AES128-SHA256'', ''TLS_DHE_RSA_WITH_AES_128_CBC_SHA256''),
     (''DHE-RSA-AES256-SHA256'', ''TLS_DHE_RSA_WITH_AES_256_CBC_SHA256''),
     (''AES128-GCM-SHA256'', ''TLS_RSA_WITH_AES_128_GCM_SHA256''),
     (''AES256-GCM-SHA384'', ''TLS_RSA_WITH_AES_256_GCM_SHA384''),
     (''AES128-SHA256'', ''TLS_RSA_WITH_AES_128_CBC_SHA256''),
     (''AES256-SHA256'', ''TLS_RSA_WITH_AES_256_CBC_SHA256''),
     (''AES128-SHA'', ''TLS_RSA_WITH_AES_128_CBC_SHA''),
     (''AES256-SHA'', ''TLS_RSA_WITH_AES_256_CBC_SHA''),
     (''DES-CBC3-SHA'', ''TLS_RSA_WITH_3DES_EDE_CBC_SHA'')]"

fun ConvertCipherSuitesToIANA :: "string list \<Rightarrow> string list resp" where
  "ConvertCipherSuitesToIANA [] = Inr []"
| "ConvertCipherSuitesToIANA (cipher # ciphers) =
    (case map_of opensslToIANACipherMap cipher of
       None \<Rightarrow> Inl (ErrorString (''unknown cipher suite: '' @ cipher))
     | Some iana \<Rightarrow>
         (case ConvertCipherSuitesToIANA ciphers of
            Inl e \<Rightarrow> Inl e
          | Inr rest \<Rightarrow> Inr (iana # rest)))"

text \<open>The constants of \<open>crypto/tls\<close>.\<close>

definition ConvertTLSVersion :: "string \<Rightarrow> 16 word" where
  "ConvertTLSVersion version =
    (if version = ''VersionTLS10'' then 0x0301
     else if version = ''VersionTLS11'' then 0x0302
     else if version = ''VersionTLS12'' then 0x0303
     else if version = ''VersionTLS13'' then 0x0304
     else 0x0303)"

definition cipherMap :: "(string \<times> 16 word) list" where
  "cipherMap =
    [(''ECDHE-RSA-AES128-GCM-SHA256'', 0xc02f),
     (''ECDHE-RSA-AES256-GCM-SHA384'', 0xc030),
     (''ECDHE-ECDSA-AES128-GCM-SHA256'', 0xc02b),
     (''ECDHE-ECDSA-AES256-GCM-SHA384'', 0xc02c),
     (''ECDHE-RSA-CHACHA20-POLY1305'', 0xcca8),
     (''ECDHE-ECDSA-CHACHA20-POLY1305'', 0xcca9),
     (''ECDHE-RSA-AES128-SHA256'', 0xc027),
     (''ECDHE-RSA-AES128-SHA'', 0xc013),
     (''ECDHE-ECDSA-AES128-SHA256'', 0xc023),
     (''ECDHE-ECDSA-AES128-SHA'', 0xc009),
     (''ECDHE-RSA-AES256-SHA'', 0xc014),
     (''ECDHE-ECDSA-AES256-SHA'', 0xc00a),
     (''AES128-GCM-SHA256'', 0x009c),
     (''AES256-GCM-SHA384'', 0x009d),
     (''AES128-SHA256'', 0x003c),
     (''AES128-SHA'', 0x002f),
     (''AES256-SHA'', 0x0035),
     (''DES-CBC3-SHA'', 0x000a)]"

fun ConvertCipherSuites :: "string list \<Rightarrow> 16 word list" where
  "ConvertCipherSuites [] = []"
| "ConvertCipherSuites (name # names) =
    (if length name > 4 \<and> take 4 name = ''TLS_'' then ConvertCipherSuites names
     else case map_of cipherMap name of
       None \<Rightarrow> ConvertCipherSuites names
     | Some cipher \<Rightarrow> cipher # ConvertCipherSuites names)"

section \<open>The profile of the API server\<close>

text \<open>
  A profile has its minimum version and its ciphers.  The table \<open>configv1.TLSProfiles\<close> of predefined
  profiles belongs to the OpenShift API package and is the parameter \<open>profiles\<close>; the security profile
  of the APIServer resource (its type and its custom part, if set) is read through \<open>decode\<close>.
\<close>

record TLSProfileSpec =
  tp_Ciphers :: "string list"
  tp_MinTLSVersion :: string

record TLSSecurityProfile =
  sec_Type :: string
  sec_Custom :: "TLSProfileSpec option"

definition apiServerGVK :: gvk where
  "apiServerGVK = mk_gvk ''config.openshift.io'' ''v1'' ''APIServer''"

definition GetAPIServerTLSProfile ::
  "'w client \<Rightarrow> strmap \<Rightarrow> bool \<Rightarrow> (string \<Rightarrow> TLSProfileSpec option) \<Rightarrow> (kobj \<Rightarrow> TLSSecurityProfile option)
    \<Rightarrow> (('w, 'z) kstate_scheme, TLSProfileSpec option resp) go" where
  "GetAPIServerTLSProfile cl env deployOnOCP profiles decode s =
    (let intermediate = profiles ''Intermediate''
     in if IsUnitTest env then Some (Inr intermediate, s)
        else if \<not> deployOnOCP then Some (Inr intermediate, s)
        else do {
          (r, s) \<leftarrow> api_Get cl apiServerGVK ('''', ''cluster'') s;
          case r of
            Inl e \<Rightarrow>
              Some (Inl (WrapError (''failed to get APIServer resource: '' @ err_msg e) e), s)
          | Inr u \<Rightarrow>
              (case decode u of
                 None \<Rightarrow> Some (Inr intermediate, s)
               | Some profile \<Rightarrow>
                   (case profiles (sec_Type profile) of
                      Some spec \<Rightarrow> Some (Inr (Some spec), s)
                    | None \<Rightarrow>
                        (if sec_Type profile = ''Custom'' \<and> sec_Custom profile \<noteq> None
                         then Some (Inr (sec_Custom profile), s)
                         else Some (Inr intermediate, s))))
        })"

section \<open>Properties\<close>

lemma ConvertCipherSuites_filter:
  "ConvertCipherSuites names =
    map (the \<circ> map_of cipherMap) (filter (\<lambda>n. map_of cipherMap n \<noteq> None) names)"
proof -
  have "map_of cipherMap n = None" if "take 4 n = ''TLS_''" for n
  proof -
    have "list_all (\<lambda>k. take 4 k \<noteq> ''TLS_'') (map fst cipherMap)" by (simp add: cipherMap_def)
    with that show ?thesis by (auto simp: map_of_eq_None_iff list_all_iff)
  qed
  then show ?thesis by (induction names) (auto split: option.splits)
qed

lemma cipherMap_distinct:
  "distinct (map snd cipherMap)" "distinct (map fst cipherMap)"
  "list_all (\<lambda>n. map_of opensslToIANACipherMap n \<noteq> None) (map fst cipherMap)"
  by (simp_all add: cipherMap_def opensslToIANACipherMap_def)

text \<open>
  The conversion to \<open>crypto/tls\<close> identifiers keeps the order, drops exactly the names without an
  entry, and maps different supported names to different identifiers; every supported name also has
  an IANA name.
\<close>

theorem ConvertCipherSuites_spec:
  "ConvertCipherSuites names =
     map (\<lambda>n. the (map_of cipherMap n)) (filter (\<lambda>n. n \<in> fst ` set cipherMap) names)
   \<and> inj_on (\<lambda>n. the (map_of cipherMap n)) (fst ` set cipherMap)
   \<and> fst ` set cipherMap \<subseteq> fst ` set opensslToIANACipherMap"
proof (intro conjI)
  have in_dom: "(map_of cipherMap n \<noteq> None) = (n \<in> fst ` set cipherMap)" for n
    by (simp add: map_of_eq_None_iff)
  show "ConvertCipherSuites names =
      map (\<lambda>n. the (map_of cipherMap n)) (filter (\<lambda>n. n \<in> fst ` set cipherMap) names)"
    unfolding ConvertCipherSuites_filter in_dom by (simp add: comp_def)
  show "inj_on (\<lambda>n. the (map_of cipherMap n)) (fst ` set cipherMap)"
  proof (rule inj_onI)
    fix x y
    assume "x \<in> fst ` set cipherMap" "y \<in> fst ` set cipherMap"
    then obtain a b where ab: "map_of cipherMap x = Some a" "map_of cipherMap y = Some b"
      by (metis in_dom option.exhaust)
    assume "the (map_of cipherMap x) = the (map_of cipherMap y)"
    with ab have "(x, a) \<in> set cipherMap" "(y, a) \<in> set cipherMap"
      using map_of_SomeD by fastforce+
    with cipherMap_distinct(1) show "x = y"
      by (metis distinct_map inj_onD prod.inject snd_conv)
  qed
  show "fst ` set cipherMap \<subseteq> fst ` set opensslToIANACipherMap"
    using cipherMap_distinct(3) by (auto simp: list_all_iff map_of_eq_None_iff)
qed

text \<open>
  The conversion to IANA names fails exactly when some name is unknown, and otherwise translates
  the list elementwise.
\<close>

theorem ConvertCipherSuitesToIANA_spec:
  "((\<exists>e. ConvertCipherSuitesToIANA cs = Inl e)
      \<longleftrightarrow> (\<exists>c. c \<in> set cs \<and> c \<notin> fst ` set opensslToIANACipherMap))
   \<and> (\<forall>out. ConvertCipherSuitesToIANA cs = Inr out \<longrightarrow>
        map Some out = map (map_of opensslToIANACipherMap) cs)"
  by (induction cs)
    (auto simp: map_of_eq_None_iff [symmetric] split: option.splits sum.splits
      dest: map_of_SomeD)

theorem ConvertCipherSuitesToIANA_spec_witness:
  "ConvertCipherSuitesToIANA [''AES128-SHA'', ''TLS_AES_128_GCM_SHA256'']
     = Inr [''TLS_RSA_WITH_AES_128_CBC_SHA'', ''TLS_AES_128_GCM_SHA256'']
   \<and> (\<exists>e. ConvertCipherSuitesToIANA [''RC4-MD5''] = Inl e)"
  using ConvertCipherSuitesToIANA_spec [of "[''RC4-MD5'']"]
  by (simp add: opensslToIANACipherMap_def)

end
