(* ===== verification/Image_Overrides.thy ===== *)
theory Image_Overrides
  imports Utils
begin

text \<open>
  Image and template overrides, \<open>pkg/overrides/overrides.go\<close>: from the environment of the operator
  and from the JSON in a ConfigMap.  Decoding the JSON into the manifest types is the parameter
  \<open>unmarshal\<close>; a decoded template value is a string, an integer, a floating point number of some type
  \<open>'f\<close> with its \<open>%f\<close> rendering as a parameter, a boolean, or a value of another type.
\<close>

abbreviation OSBSImagePrefix :: string where "OSBSImagePrefix \<equiv> ''RELATED_IMAGE_''"
abbreviation OperandImagePrefix :: string where "OperandImagePrefix \<equiv> ''OPERAND_IMAGE_''"
abbreviation TemplateOverridePrefix :: string where "TemplateOverridePrefix \<equiv> ''TEMPLATE_OVERRIDE_''"

record ManifestImage =
  mi_ImageKey :: string
  mi_ImageName :: string
  mi_ImageVersion :: string
  mi_ImageRemote :: string
  mi_ImageDigest :: string
  mi_ImageTag :: string

text \<open>The \<open>%v\<close> rendering of the struct.\<close>

definition fmt_ManifestImage :: "ManifestImage \<Rightarrow> string" where
  "fmt_ManifestImage m =
    ''{'' @ join '' '' [mi_ImageKey m, mi_ImageName m, mi_ImageVersion m, mi_ImageRemote m,
      mi_ImageDigest m, mi_ImageTag m] @ ''}''"

definition image_ref :: "ManifestImage \<Rightarrow> string option" where
  "image_ref m =
    (if mi_ImageDigest m \<noteq> ''''
     then Some (mi_ImageRemote m @ ''/'' @ mi_ImageName m @ ''@'' @ mi_ImageDigest m)
     else if mi_ImageTag m \<noteq> ''''
     then Some (mi_ImageRemote m @ ''/'' @ mi_ImageName m @ '':'' @ mi_ImageTag m)
     else None)"

text \<open>The map is updated in place: on an error the entries before the bad image stay.\<close>

fun ConvertImageOverrides :: "strmap \<Rightarrow> ManifestImage list \<Rightarrow> go_error option \<times> strmap" where
  "ConvertImageOverrides ov [] = (None, ov)"
| "ConvertImageOverrides ov (m # ms) =
    (if mi_ImageKey m = ''''
     then (Some (ErrorString (''unexpected manifest image format: missing or empty ImageKey ''
             @ fmt_ManifestImage m)), ov)
     else case image_ref m of
       Some ref \<Rightarrow> ConvertImageOverrides (sm_put ov (mi_ImageKey m) ref) ms
     | None \<Rightarrow>
         (Some (ErrorString (''unexpected manifest image format: neither ImageDigest nor ImageTag provided ''
             @ fmt_ManifestImage m)), ov))"

datatype override_value =
    VString string
  | VInt int
  | VFloat string
  | VBool bool
  | VOther string

fun ConvertToString :: "override_value \<Rightarrow> string resp" where
  "ConvertToString (VString v) = Inr v"
| "ConvertToString (VInt i) = Inr (itoa i)"
| "ConvertToString (VFloat x) = Inr x"
| "ConvertToString (VBool b) = Inr (if b then ''true'' else ''false'')"
| "ConvertToString (VOther ty) = Inl (ErrorString (''unsupported type: '' @ ty))"

fun ConvertTemplateOverrides ::
  "strmap \<Rightarrow> (string \<times> override_value) list \<Rightarrow> go_error option \<times> strmap" where
  "ConvertTemplateOverrides ov [] = (None, ov)"
| "ConvertTemplateOverrides ov ((key, v) # rest) =
    (if sm_get ov key \<noteq> '''' then ConvertTemplateOverrides ov rest
     else case ConvertToString v of
       Inl e \<Rightarrow>
         (Some (WrapError (''error converting value for key '' @ key @ '': '' @ err_msg e) e), ov)
     | Inr str \<Rightarrow> ConvertTemplateOverrides (sm_put ov key str) rest)"

text \<open>The two decoders.\<close>

record decoders =
  dec_Images :: "string \<Rightarrow> ManifestImage list resp"
  dec_Template :: "string \<Rightarrow> (string \<times> override_value) list resp"

definition configMapGVK :: gvk where
  "configMapGVK = mk_gvk '''' ''v1'' ''ConfigMap''"

text \<open>
  A read error other than \<open>NotFound\<close> is not handled by the code: the ConfigMap variable stays empty
  and the key count check reports it.
\<close>

definition GetOverridesFromConfigmap ::
  "'w client \<Rightarrow> decoders \<Rightarrow> strmap \<Rightarrow> string \<Rightarrow> string \<Rightarrow> bool
    \<Rightarrow> (('w, 'z) kstate_scheme, go_error option \<times> strmap) go" where
  "GetOverridesFromConfigmap cl dec ov namespace configmapName isTemplate s = do {
     (r, s) \<leftarrow> api_Get cl configMapGVK (namespace, configmapName) s;
     case r of
       Inl e \<Rightarrow>
         if IsNotFound e then Some ((Some e, ov), s)
         else Some ((Some (ErrorString (''Unexpected number of keys in ConfigMap '' @ configmapName
                @ '': expected 1 key, found 0 keys'')), ov), s)
     | Inr cm \<Rightarrow>
         (case data_of cm of
            [(_, v)] \<Rightarrow>
              (if isTemplate
               then (case dec_Template dec v of
                       Inl e \<Rightarrow> Some ((Some e, ov), s)
                     | Inr t \<Rightarrow> Some (ConvertTemplateOverrides ov t, s))
               else (case dec_Images dec v of
                       Inl e \<Rightarrow> Some ((Some e, ov), s)
                     | Inr ms \<Rightarrow> Some (ConvertImageOverrides ov ms, s)))
          | d \<Rightarrow>
              Some ((Some (ErrorString (''Unexpected number of keys in ConfigMap '' @ configmapName
                @ '': expected 1 key, found '' @ itoa (int (length d)) @ '' keys'')), ov), s))
   }"

definition parseEnvVarByPrefix :: "string \<Rightarrow> string \<Rightarrow> string \<times> string" where
  "parseEnvVarByPrefix envVar prefix =
    (case split_two CHR ''='' envVar of
       [k, v] \<Rightarrow> if HasPrefix k prefix then (ToLower (TrimPrefix k prefix), v) else ('''', '''')
     | _ \<Rightarrow> ('''', ''''))"

text \<open>\<open>os.Environ()\<close> is the list of \<open>key=value\<close> strings of the environment.\<close>

definition environ :: "strmap \<Rightarrow> string list" where
  "environ env = map (\<lambda>(k, v). k @ ''='' @ v) env"

definition GetOverridesFromEnv :: "string list \<Rightarrow> string \<Rightarrow> strmap" where
  "GetOverridesFromEnv es prefix =
    fold (\<lambda>e ov. let (key, value) = parseEnvVarByPrefix e prefix
                 in if key \<noteq> '''' \<and> value \<noteq> '''' then sm_put ov key value else ov) es []"

section \<open>Properties\<close>

lemma parseEnvVar_pair:
  assumes "CHR ''='' \<notin> set k"
  shows "parseEnvVarByPrefix (k @ ''='' @ v) prefix =
    (if HasPrefix k prefix then (ToLower (drop (length prefix) k), v) else ('''', ''''))"
proof -
  have "takeWhile (\<lambda>c. c \<noteq> CHR ''='') (k @ CHR ''='' # v) = k"
    "dropWhile (\<lambda>c. c \<noteq> CHR ''='') (k @ CHR ''='' # v) = CHR ''='' # v"
    using assms by (auto simp: takeWhile_append dropWhile_append)
  then show ?thesis by (simp add: parseEnvVarByPrefix_def split_two_def TrimPrefix_def)
qed

lemma fold_env_lookup:
  "map_of (fold (\<lambda>e ov. let (key, value) = parseEnvVarByPrefix e prefix
      in if key \<noteq> '''' \<and> value \<noteq> '''' then sm_put ov key value else ov) es ov) k =
    (case List.find (\<lambda>e. fst (parseEnvVarByPrefix e prefix) = k
            \<and> snd (parseEnvVarByPrefix e prefix) \<noteq> '''') (rev es) of
       None \<Rightarrow> map_of ov k
     | Some e \<Rightarrow> Some (snd (parseEnvVarByPrefix e prefix)))"
  if "k \<noteq> ''''"
  using that
proof (induction es arbitrary: ov rule: rev_induct)
  case (snoc e es)
  then show ?case by (auto simp: split_beta Let_def)
qed simp

text \<open>
  An override read from the environment is the value of the last variable whose name is the
  prefix followed by a name that lowers to the key; other variables and empty values have no effect.
\<close>

theorem GetOverridesFromEnv_lookup:
  assumes "k \<noteq> ''''"
  shows "map_of (GetOverridesFromEnv es prefix) k =
    map_option (\<lambda>e. snd (parseEnvVarByPrefix e prefix))
      (List.find (\<lambda>e. fst (parseEnvVarByPrefix e prefix) = k
         \<and> snd (parseEnvVarByPrefix e prefix) \<noteq> '''') (rev es))"
  unfolding GetOverridesFromEnv_def fold_env_lookup [OF assms] by (auto split: option.splits)

theorem GetOverridesFromEnv_lookup_witness:
  "map_of (GetOverridesFromEnv [''OPERAND_IMAGE_HIVE=q/hive:1'', ''PATH=/bin''] OperandImagePrefix)
     ''hive'' = Some ''q/hive:1''"
  by (subst GetOverridesFromEnv_lookup)
    (simp_all add: parseEnvVarByPrefix_def split_two_def HasPrefix_def TrimPrefix_def ToLower_def
      lower_char_def char_of_def bit_0)

lemma ConvertTemplateOverrides_keeps:
  "map_of ov k = Some v \<Longrightarrow> v \<noteq> '''' \<Longrightarrow>
    map_of (snd (ConvertTemplateOverrides ov t)) k = Some v"
proof (induction ov t rule: ConvertTemplateOverrides.induct)
  case (2 ov key w rest)
  then show ?case by (cases "k = key") (auto simp: sm_get_def split: sum.splits option.splits)
qed simp

text \<open>
  A template override that is already set, by the environment, is never changed by the ConfigMap,
  whether or not the ConfigMap is well formed.
\<close>

theorem template_env_precedence:
  assumes "map_of ov k = Some v" "v \<noteq> ''''"
    and "GetOverridesFromConfigmap cl dec ov ns name True s = Some ((e, ov'), s')"
  shows "map_of ov' k = Some v"
proof -
  have "ov' = ov \<or> (\<exists>t. ov' = snd (ConvertTemplateOverrides ov t))"
    using assms(3)
    by (auto simp: GetOverridesFromConfigmap_def api_eqs split: sum.splits list.splits if_splits)
      (metis snd_conv)+
  then show ?thesis using assms(1) ConvertTemplateOverrides_keeps [OF assms(1,2)] by blast
qed

definition sample_decoders :: decoders where
  "sample_decoders =
    \<lparr>dec_Images = (\<lambda>_. Inr []), dec_Template = (\<lambda>_. Inr [(''a'', VBool True), (''b'', VInt 7)])\<rparr>"

definition sample_configmap :: kobj where
  "sample_configmap =
    (mk_obj configMapGVK ''op'' ''cm'')\<lparr>ko_Content := [(''data'', JObject [(''x'', JString ''{}'')])]\<rparr>"

theorem template_env_precedence_witness:
  "\<exists>e ov' s'. GetOverridesFromConfigmap mem_client sample_decoders [(''a'', ''env'')] ''op'' ''cm'' True
      (start (empty_mem\<lparr>mem_Objs := [sample_configmap]\<rparr>)) = Some ((e, ov'), s')
    \<and> map_of ov' ''a'' = Some ''env'' \<and> map_of ov' ''b'' = Some ''7''"
proof -
  let ?s = "start (empty_mem\<lparr>mem_Objs := [sample_configmap]\<rparr>)"
  obtain e ov' s' where run: "GetOverridesFromConfigmap mem_client sample_decoders
      [(''a'', ''env'')] ''op'' ''cm'' True ?s = Some ((e, ov'), s')" "map_of ov' ''b'' = Some ''7''"
    by (simp add: GetOverridesFromConfigmap_def api_eqs mem_client_def mem_find_def start_def
        empty_mem_def sample_configmap_def configMapGVK_def mk_gvk_def mk_obj_def data_of_def
        sample_decoders_def sm_get_def itoa_def itoa_nat.simps digit_char_def char_of_def bit_0)
  then show ?thesis
    using template_env_precedence [OF _ _ run(1), of "''a''" "''env''"] by auto
qed

lemma ConvertImageOverrides_ok:
  assumes "ConvertImageOverrides ov ms = (None, ov')" "distinct (map mi_ImageKey ms)" "m \<in> set ms"
  shows "\<exists>ref. image_ref m = Some ref \<and> map_of ov' (mi_ImageKey m) = Some ref"
  using assms
proof (induction ov ms rule: ConvertImageOverrides.induct)
  case (2 ov m0 ms)
  then obtain ref where ref: "image_ref m0 = Some ref"
      "ConvertImageOverrides (sm_put ov (mi_ImageKey m0) ref) ms = (None, ov')"
    by (auto split: if_splits option.splits)
  have keep: "map_of ov2 k = map_of ov1 k"
    if "ConvertImageOverrides ov1 xs = (None, ov2)" "k \<notin> mi_ImageKey ` set xs" for ov1 ov2 xs k
    using that by (induction ov1 xs rule: ConvertImageOverrides.induct)
      (auto split: if_splits option.splits)
  show ?case
  proof (cases "m = m0")
    case True
    then show ?thesis using keep [OF ref(2), of "mi_ImageKey m0"] ref(1) 2 by auto
  next
    case False
    with ref 2 show ?thesis by (auto split: if_splits)
  qed
qed simp

text \<open>
  When converting a manifest succeeds, every listed image has an override, built from its digest if
  it has one and from its tag otherwise.
\<close>

theorem ConvertImageOverrides_digest_first:
  assumes "ConvertImageOverrides ov ms = (None, ov')" "distinct (map mi_ImageKey ms)" "m \<in> set ms"
  shows "map_of ov' (mi_ImageKey m) = Some (mi_ImageRemote m @ ''/'' @ mi_ImageName m @
    (if mi_ImageDigest m \<noteq> '''' then ''@'' @ mi_ImageDigest m else '':'' @ mi_ImageTag m))"
  using ConvertImageOverrides_ok [OF assms] by (auto simp: image_ref_def split: if_splits)

theorem ConvertImageOverrides_digest_first_witness:
  "map_of (snd (ConvertImageOverrides [] [\<lparr>mi_ImageKey = ''k'', mi_ImageName = ''n'',
      mi_ImageVersion = '''', mi_ImageRemote = ''r'', mi_ImageDigest = ''sha'', mi_ImageTag = ''t''\<rparr>]))
     ''k'' = Some ''r/n@sha''"
proof -
  let ?m = "\<lparr>mi_ImageKey = ''k'', mi_ImageName = ''n'', mi_ImageVersion = '''', mi_ImageRemote = ''r'',
      mi_ImageDigest = ''sha'', mi_ImageTag = ''t''\<rparr>"
  have "ConvertImageOverrides [] [?m] = (None, snd (ConvertImageOverrides [] [?m]))"
    by (simp add: image_ref_def)
  from ConvertImageOverrides_digest_first [OF this, of ?m] show ?thesis by simp
qed

end
