(* ===== verification/Status_Conditions.thy ===== *)
theory Status_Conditions
  imports Kube Go_Lib
begin

text \<open>
  The condition list of a MultiClusterEngine, \<open>pkg/status/condition.go\<close>: replacing, looking up and
  filtering conditions.  The locale \<open>keyed_list\<close> states the contract the tracker relies on, and is
  interpreted on \<open>getCondition\<close>, \<open>setCondition\<close> and \<open>filterOutCondition\<close>.

  \<open>sort.Slice\<close> is modelled by the stable \<^const>\<open>sort_key\<close>: on slices of at most twelve elements
  the Go implementation is an insertion sort, which is stable; on longer slices only the relative
  order of conditions with equal transition times could differ.
\<close>

section \<open>Reasons\<close>

abbreviation ApplyFailedReason :: string where "ApplyFailedReason \<equiv> ''FailedApplyingComponent''"
abbreviation ComponentsAvailableReason :: string where
  "ComponentsAvailableReason \<equiv> ''ComponentsAvailable''"
abbreviation ComponentsUnavailableReason :: string where
  "ComponentsUnavailableReason \<equiv> ''ComponentsUnavailable''"
abbreviation DeployFailedReason :: string where
  "DeployFailedReason \<equiv> ''FailedDeployingComponent''"
abbreviation DeploySuccessReason :: string where "DeploySuccessReason \<equiv> ''ComponentsDeployed''"
abbreviation RequirementsNotMetReason :: string where
  "RequirementsNotMetReason \<equiv> ''RequirementsNotMet''"
abbreviation DeleteTimestampReason :: string where
  "DeleteTimestampReason \<equiv> ''DeletionTimestampPresent''"
abbreviation WaitingForResourceReason :: string where
  "WaitingForResourceReason \<equiv> ''WaitingForResource''"
abbreviation ManagedClusterTerminatingReason :: string where
  "ManagedClusterTerminatingReason \<equiv> ''ManagedClusterTerminating''"
abbreviation NamespaceTerminatingReason :: string where
  "NamespaceTerminatingReason \<equiv> ''ManagedClusterNamespaceTerminating''"
abbreviation PausedReason :: string where "PausedReason \<equiv> ''Paused''"
abbreviation UnsupportedConfigReason :: string where
  "UnsupportedConfigReason \<equiv> ''UnsupportedConfiguration''"
abbreviation ComponentDisabledReason :: string where
  "ComponentDisabledReason \<equiv> ''ComponentDisabled''"
abbreviation ComponentsUpdatingReason :: string where
  "ComponentsUpdatingReason \<equiv> ''UpdatingComponentResource''"
abbreviation ExternalManagementReason :: string where
  "ExternalManagementReason \<equiv> ''ExternalManagement''"

abbreviation ConditionTrue :: string where "ConditionTrue \<equiv> ''True''"
abbreviation ConditionFalse :: string where "ConditionFalse \<equiv> ''False''"
abbreviation ConditionUnknown :: string where "ConditionUnknown \<equiv> ''Unknown''"

type_synonym cond = MultiClusterEngineCondition

section \<open>Operations\<close>

text \<open>\<open>NewCondition\<close> reads the clock twice, once for each time stamp.\<close>

definition NewCondition ::
  "'w client \<Rightarrow> string \<Rightarrow> string \<Rightarrow> string \<Rightarrow> string \<Rightarrow> (('w, 'z) kstate_scheme, cond) go" where
  "NewCondition cl condType status reason message s = do {
     (t1, s) \<leftarrow> api_Now cl s;
     (t2, s) \<leftarrow> api_Now cl s;
     Some (\<lparr>cd_Type = condType, cd_Status = status, cd_LastUpdateTime = t1,
            cd_LastTransitionTime = t2, cd_Reason = reason, cd_Message = message\<rparr>, s)
   }"

definition getCondition :: "cond list \<Rightarrow> string \<Rightarrow> cond option" where
  "getCondition cs condType = List.find (\<lambda>c. cd_Type c = condType) cs"

definition filterOutCondition :: "cond list \<Rightarrow> string \<Rightarrow> cond list" where
  "filterOutCondition cs condType = filter (\<lambda>c. \<not> cd_Type c = condType) cs"

definition setCondition :: "cond list \<Rightarrow> cond \<Rightarrow> cond list" where
  "setCondition cs c =
    (case getCondition cs (cd_Type c) of
       None \<Rightarrow>
         sort_key cd_LastTransitionTime (filterOutCondition cs (cd_Type c) @ [c])
     | Some cur \<Rightarrow>
         if cd_Status cur = cd_Status c \<and> cd_Reason cur = cd_Reason c
            \<and> cd_Message cur = cd_Message c
         then cs
         else
           (let c = (if cd_Status cur = cd_Status c
                     then c\<lparr>cd_LastTransitionTime := cd_LastTransitionTime cur\<rparr> else c)
            in sort_key cd_LastTransitionTime (filterOutCondition cs (cd_Type c) @ [c])))"

definition FilterOutConditionWithSubString :: "cond list \<Rightarrow> string \<Rightarrow> cond list" where
  "FilterOutConditionWithSubString cs condType = filter (\<lambda>c. \<not> Contains (cd_Type c) condType) cs"

definition ConditionPresentWithSubstring :: "cond list \<Rightarrow> string \<Rightarrow> bool" where
  "ConditionPresentWithSubstring cs substring = list_ex (\<lambda>c. Contains (cd_Type c) substring) cs"

section \<open>The contract of a list keyed by type\<close>

text \<open>
  \<open>core\<close> is the part of an entry that clients compare; \<open>put\<close> makes it the entry of its key and
  leaves the entries of other keys alone, \<open>drop\<close> removes a key.
\<close>

locale keyed_list =
  fixes key :: "'e \<Rightarrow> string"
    and core :: "'e \<Rightarrow> 'c"
    and get :: "'e list \<Rightarrow> string \<Rightarrow> 'e option"
    and put :: "'e list \<Rightarrow> 'e \<Rightarrow> 'e list"
    and remove :: "'e list \<Rightarrow> string \<Rightarrow> 'e list"
    and wf :: "'e list \<Rightarrow> bool"
  assumes wf_empty: "wf []"
    and wf_put: "wf cs \<Longrightarrow> wf (put cs c)"
    and wf_remove: "wf cs \<Longrightarrow> wf (remove cs k)"
    and get_put_same: "wf cs \<Longrightarrow> map_option core (get (put cs c) (key c)) = Some (core c)"
    and get_put_other: "wf cs \<Longrightarrow> k \<noteq> key c \<Longrightarrow> get (put cs c) k = get cs k"
    and get_remove: "wf cs \<Longrightarrow> get (remove cs k) k' = (if k' = k then None else get cs k')"
    and put_same_core:
      "wf cs \<Longrightarrow> get cs (key c) = Some d \<Longrightarrow> core d = core c \<Longrightarrow> put cs c = cs"
begin

lemma wf_fold_put: "wf cs \<Longrightarrow> wf (foldl put cs ds)"
  by (induction ds arbitrary: cs) (auto intro: wf_put)

lemma put_idempotent:
  assumes "wf cs"
  shows "put (put cs c) c = put cs c"
proof -
  obtain d where "get (put cs c) (key c) = Some d" "core d = core c"
    using get_put_same [OF assms, of c] by (cases "get (put cs c) (key c)") auto
  then show ?thesis using put_same_core [OF wf_put [OF assms]] by blast
qed

lemma get_fold_put_other:
  assumes "wf cs" "k \<notin> key ` set ds"
  shows "get (foldl put cs ds) k = get cs k"
  using assms
proof (induction ds arbitrary: cs)
  case (Cons d ds)
  then show ?case by (auto simp: wf_put get_put_other)
qed simp

end

text \<open>The lists the operator keeps: sorted by transition time, at most one entry per type.\<close>

definition wf_conditions :: "cond list \<Rightarrow> bool" where
  "wf_conditions cs = (sorted (map cd_LastTransitionTime cs) \<and> distinct (map cd_Type cs))"

definition cond_core :: "cond \<Rightarrow> string \<times> string \<times> string" where
  "cond_core c = (cd_Status c, cd_Reason c, cd_Message c)"

lemma getCondition_distinct:
  assumes "distinct (map cd_Type cs)"
  shows "getCondition cs k = Some c \<longleftrightarrow> c \<in> set cs \<and> cd_Type c = k"
proof
  assume "getCondition cs k = Some c"
  then show "c \<in> set cs \<and> cd_Type c = k"
    by (auto simp: getCondition_def find_Some_iff)
next
  assume c: "c \<in> set cs \<and> cd_Type c = k"
  then obtain d where d: "getCondition cs k = Some d"
    by (cases "getCondition cs k") (auto simp: getCondition_def find_None_iff)
  then have "d \<in> set cs" "cd_Type d = k" by (auto simp: getCondition_def find_Some_iff)
  with c assms have "d = c" by (auto simp: distinct_map dest: inj_onD)
  with d show "getCondition cs k = Some c" by simp
qed

lemma getCondition_set_eq:
  assumes "distinct (map cd_Type cs)" "distinct (map cd_Type ds)"
    and "\<And>c. cd_Type c = k \<Longrightarrow> c \<in> set cs \<longleftrightarrow> c \<in> set ds"
  shows "getCondition cs k = getCondition ds k"
  using getCondition_distinct [OF assms(1), of k] getCondition_distinct [OF assms(2), of k] assms(3)
  by (metis option.exhaust)

lemma distinct_map_sort_key: "distinct (map f (sort_key g xs)) = distinct (map f xs)"
  by (simp add: distinct_map)

lemma wf_sort_insert:
  assumes "distinct (map cd_Type cs)"
  shows "wf_conditions (sort_key cd_LastTransitionTime (filterOutCondition cs (cd_Type c) @ [c]))"
  using assms
  by (auto simp: wf_conditions_def distinct_map_sort_key filterOutCondition_def distinct_map
      inj_on_def)

text \<open>The entry that \<open>setCondition\<close> stores when it replaces one.\<close>

definition merged :: "cond list \<Rightarrow> cond \<Rightarrow> cond" where
  "merged cs c =
    (case getCondition cs (cd_Type c) of
       Some cur \<Rightarrow> if cd_Status cur = cd_Status c
                   then c\<lparr>cd_LastTransitionTime := cd_LastTransitionTime cur\<rparr> else c
     | None \<Rightarrow> c)"

lemma merged_simps [simp]: "cd_Type (merged cs c) = cd_Type c" "cond_core (merged cs c) = cond_core c"
  by (auto simp: merged_def cond_core_def split: option.splits)

lemma setCondition_cases:
  "setCondition cs c =
    (if \<exists>cur. getCondition cs (cd_Type c) = Some cur \<and> cond_core cur = cond_core c then cs
     else sort_key cd_LastTransitionTime
            (filterOutCondition cs (cd_Type (merged cs c)) @ [merged cs c]))"
  by (auto simp: setCondition_def merged_def cond_core_def Let_def split: option.splits)

lemma wf_setCondition: "wf_conditions cs \<Longrightarrow> wf_conditions (setCondition cs c)"
  unfolding setCondition_cases using wf_sort_insert [of cs "merged cs c"]
  by (auto simp: wf_conditions_def)

lemma set_setCondition:
  "\<nexists>cur. getCondition cs (cd_Type c) = Some cur \<and> cond_core cur = cond_core c \<Longrightarrow>
    set (setCondition cs c) = {d \<in> set cs. cd_Type d \<noteq> cd_Type c} \<union> {merged cs c}"
  by (auto simp: setCondition_cases filterOutCondition_def)

lemma getCondition_set_same:
  assumes "wf_conditions cs"
  shows "map_option cond_core (getCondition (setCondition cs c) (cd_Type c)) = Some (cond_core c)"
proof (cases "\<exists>cur. getCondition cs (cd_Type c) = Some cur \<and> cond_core cur = cond_core c")
  case False
  have "merged cs c \<in> set (setCondition cs c)" using False by (simp add: set_setCondition)
  moreover have "distinct (map cd_Type (setCondition cs c))"
    using wf_setCondition [OF assms] by (simp add: wf_conditions_def)
  ultimately have "getCondition (setCondition cs c) (cd_Type c) = Some (merged cs c)"
    by (simp add: getCondition_distinct)
  then show ?thesis by simp
qed (auto simp: setCondition_cases)

lemma getCondition_set_other:
  assumes "wf_conditions cs" "k \<noteq> cd_Type c"
  shows "getCondition (setCondition cs c) k = getCondition cs k"
proof (cases "\<exists>cur. getCondition cs (cd_Type c) = Some cur \<and> cond_core cur = cond_core c")
  case False
  show ?thesis
  proof (rule getCondition_set_eq)
    show "distinct (map cd_Type (setCondition cs c))" "distinct (map cd_Type cs)"
      using assms wf_setCondition by (auto simp: wf_conditions_def)
    show "\<And>d. cd_Type d = k \<Longrightarrow> (d \<in> set (setCondition cs c)) = (d \<in> set cs)"
      using assms(2) False by (auto simp: set_setCondition)
  qed
qed (auto simp: setCondition_cases)

lemma wf_filterOut: "wf_conditions cs \<Longrightarrow> wf_conditions (filterOutCondition cs k)"
  by (auto simp: wf_conditions_def filterOutCondition_def sorted_map distinct_map inj_on_def
      sorted_wrt_filter)

lemma getCondition_filterOut:
  "getCondition (filterOutCondition cs k) k' = (if k' = k then None else getCondition cs k')"
  by (induction cs) (auto simp: getCondition_def filterOutCondition_def)

interpretation conditions: keyed_list cd_Type cond_core getCondition setCondition
  filterOutCondition wf_conditions
proof (unfold_locales, goal_cases)
  case 1
  then show ?case by (simp add: wf_conditions_def)
next
  case (2 cs c)
  then show ?case by (rule wf_setCondition)
next
  case (3 cs k)
  then show ?case by (rule wf_filterOut)
next
  case (4 cs c)
  then show ?case by (rule getCondition_set_same)
next
  case (5 cs k c)
  then show ?case by (rule getCondition_set_other)
next
  case (6 cs k k')
  then show ?case by (simp add: getCondition_filterOut)
next
  case (7 cs c d)
  then show ?case by (auto simp: setCondition_cases)
qed

section \<open>Properties\<close>

lemma getCondition_set_entry:
  assumes "wf_conditions cs"
  shows "\<exists>d. getCondition (setCondition cs c) (cd_Type c) = Some d \<and> cond_core d = cond_core c
    \<and> cd_LastTransitionTime d = cd_LastTransitionTime (merged cs c)"
proof (cases "\<exists>cur. getCondition cs (cd_Type c) = Some cur \<and> cond_core cur = cond_core c")
  case True
  then show ?thesis by (auto simp: setCondition_cases merged_def cond_core_def)
next
  case False
  have "distinct (map cd_Type (setCondition cs c))"
    using wf_setCondition [OF assms] by (simp add: wf_conditions_def)
  then have "getCondition (setCondition cs c) (cd_Type c) = Some (merged cs c)"
    using False by (simp add: set_setCondition getCondition_distinct)
  then show ?thesis by simp
qed

text \<open>
  C10: Setting a condition in a list that is sorted by transition time and has one entry per type keeps
  it so, stores the given status, reason and message under the condition's type and leaves the
  condition of every other type alone.  The transition time is the one of the entry already there if
  that has the same status, and the new one otherwise.
\<close>

theorem setCondition_spec:
  assumes "wf_conditions cs"
  shows "wf_conditions (setCondition cs c)
    \<and> (\<exists>d. getCondition (setCondition cs c) (cd_Type c) = Some d \<and> cond_core d = cond_core c
         \<and> cd_LastTransitionTime d =
             (case getCondition cs (cd_Type c) of
                Some cur \<Rightarrow> if cd_Status cur = cd_Status c then cd_LastTransitionTime cur
                            else cd_LastTransitionTime c
              | None \<Rightarrow> cd_LastTransitionTime c))
    \<and> (\<forall>k. k \<noteq> cd_Type c \<longrightarrow> getCondition (setCondition cs c) k = getCondition cs k)"
proof -
  have "cd_LastTransitionTime (merged cs c) =
      (case getCondition cs (cd_Type c) of
         Some cur \<Rightarrow> if cd_Status cur = cd_Status c then cd_LastTransitionTime cur
                     else cd_LastTransitionTime c
       | None \<Rightarrow> cd_LastTransitionTime c)"
    by (simp add: merged_def split: option.splits)
  with getCondition_set_entry [OF assms, of c] show ?thesis
    using conditions.wf_put [OF assms] conditions.get_put_other [OF assms] by simp
qed

text \<open>Two sample conditions: one progressing, one available.\<close>

definition sample_progressing :: cond where
  "sample_progressing =
    \<lparr>cd_Type = ''Progressing'', cd_Status = ConditionTrue, cd_LastUpdateTime = 5,
     cd_LastTransitionTime = 5, cd_Reason = DeploySuccessReason, cd_Message = ''deployed''\<rparr>"

definition sample_available :: cond where
  "sample_available =
    \<lparr>cd_Type = ''Available'', cd_Status = ConditionTrue, cd_LastUpdateTime = 7,
     cd_LastTransitionTime = 7, cd_Reason = ComponentsAvailableReason, cd_Message = ''ok''\<rparr>"

theorem setCondition_spec_witness:
  "wf_conditions (setCondition [sample_progressing, sample_available]
     (sample_progressing\<lparr>cd_Reason := ''x'', cd_LastTransitionTime := 9\<rparr>))
   \<and> setCondition [sample_progressing, sample_available]
       (sample_progressing\<lparr>cd_Reason := ''x'', cd_LastTransitionTime := 9\<rparr>)
     = [sample_progressing\<lparr>cd_Reason := ''x''\<rparr>, sample_available]"
proof -
  have "wf_conditions [sample_progressing, sample_available]"
    by (simp add: wf_conditions_def sample_progressing_def sample_available_def)
  note spec = setCondition_spec [OF this]
  have "setCondition [sample_progressing, sample_available]
       (sample_progressing\<lparr>cd_Reason := ''x'', cd_LastTransitionTime := 9\<rparr>)
     = [sample_progressing\<lparr>cd_Reason := ''x''\<rparr>, sample_available]"
    by (simp add: setCondition_def getCondition_def filterOutCondition_def sample_progressing_def
        sample_available_def)
  with spec show ?thesis by blast
qed

text \<open>
  Setting a condition twice is setting it once.
\<close>

theorem setCondition_idempotent:
  "wf_conditions cs \<Longrightarrow> setCondition (setCondition cs c) c = setCondition cs c"
  by (rule conditions.put_idempotent)

theorem setCondition_idempotent_witness:
  "setCondition (setCondition [sample_progressing] sample_available) sample_available
    = setCondition [sample_progressing] sample_available"
  by (rule setCondition_idempotent) (simp add: wf_conditions_def)

lemma NewCondition_total:
  "stotal (\<lambda>c s'. cd_Type c = ty \<and> cond_core c = (st, rs, ms) \<and> ks_Trace s' = ks_Trace s)
    (NewCondition cl ty st rs ms s)"
  by (simp add: NewCondition_def api_Now_def cond_core_def split_beta)

lemma emits_NewCondition [emits_intro]:
  "ks_Trace s = t \<Longrightarrow> emits P t (NewCondition cl ty st rs ms s)"
  by (simp add: emits_def NewCondition_def api_Now_def split_beta)

end
