(* ===== verification/Status_Reporters.thy ===== *)
theory Status_Reporters
  imports Status_Conditions Sample_Cluster
begin

text \<open>
  The status reporters: \<open>pkg/status/generic.go\<close>, \<open>deployment.go\<close>, \<open>console.go\<close>,
  \<open>local_cluster.go\<close>, \<open>cluster_manager.go\<close> and the toggled-off reporter of
  \<open>pkg/toggle/toggle.go\<close>.  The interface \<open>StatusReporter\<close> is a datatype with one constructor
  per implementing struct; \<open>Status\<close> dispatches on it.  A reporter maps what it reads from the
  cluster to a component condition; \<open>cp_Available\<close> is the field the phase depends on.
\<close>

text \<open>The zero \<open>metav1.Time\<close>, in nanoseconds relative to the Unix epoch.\<close>

definition zero_time :: time where
  "zero_time = - 62135596800 * second"

type_synonym comp_cond = ComponentCondition

datatype StatusReporter =
    StaticStatus nn string comp_cond
  | DisabledStatus nn string "(gvk \<times> nn) list"
  | PresentStatus nn gvk
  | DeploymentStatus nn
  | ConsoleUnavailableStatus nn
  | LocalClusterStatus nn bool
  | ClusterManagerStatus nn
  | ManagedClusterAddOnStatus nn
  | ToggledOffStatus nn "(gvk \<times> nn) list"

primrec sr_nn :: "StatusReporter \<Rightarrow> nn" where
  "sr_nn (StaticStatus n k c) = n"
| "sr_nn (DisabledStatus n m rs) = n"
| "sr_nn (PresentStatus n g) = n"
| "sr_nn (DeploymentStatus n) = n"
| "sr_nn (ConsoleUnavailableStatus n) = n"
| "sr_nn (LocalClusterStatus n e) = n"
| "sr_nn (ClusterManagerStatus n) = n"
| "sr_nn (ManagedClusterAddOnStatus n) = n"
| "sr_nn (ToggledOffStatus n rs) = n"

definition GetName :: "StatusReporter \<Rightarrow> string" where
  "GetName sr = snd (sr_nn sr)"

text \<open>Only the cluster manager's reporter ignores its namespace.\<close>

definition GetNamespace :: "StatusReporter \<Rightarrow> string" where
  "GetNamespace sr = (case sr of ClusterManagerStatus n \<Rightarrow> '''' | _ \<Rightarrow> fst (sr_nn sr))"

primrec GetKind :: "StatusReporter \<Rightarrow> string" where
  "GetKind (StaticStatus n k c) = k"
| "GetKind (DisabledStatus n m rs) = ''Component''"
| "GetKind (PresentStatus n g) = gvk_Kind g"
| "GetKind (DeploymentStatus n) = ''Deployment''"
| "GetKind (ConsoleUnavailableStatus n) = ''Deployment''"
| "GetKind (LocalClusterStatus n e) = ''local-cluster''"
| "GetKind (ClusterManagerStatus n) = ''ClusterManager''"
| "GetKind (ManagedClusterAddOnStatus n) = ''ManagedClusterAddOn''"
| "GetKind (ToggledOffStatus n rs) = ''Component''"

section \<open>Condition literals\<close>

text \<open>A composite literal with both time stamps from \<open>metav1.Now()\<close>, and one with zero times.\<close>

definition cc_now ::
  "'w client \<Rightarrow> string \<Rightarrow> string \<Rightarrow> bool \<Rightarrow> string \<Rightarrow> string \<Rightarrow> string \<Rightarrow> string
    \<Rightarrow> (('w, 'z) kstate_scheme, comp_cond) go" where
  "cc_now cl name kind avail ty status reason message s = do {
     (t1, s) \<leftarrow> api_Now cl s;
     (t2, s) \<leftarrow> api_Now cl s;
     Some (\<lparr>cp_Name = name, cp_Kind = kind, cp_Available = avail, cp_Type = ty, cp_Status = status,
            cp_LastUpdateTime = t1, cp_LastTransitionTime = t2, cp_Reason = reason,
            cp_Message = message\<rparr>, s)
   }"

definition cc_zero :: "string \<Rightarrow> string \<Rightarrow> bool \<Rightarrow> string \<Rightarrow> string \<Rightarrow> string \<Rightarrow> string \<Rightarrow> comp_cond" where
  "cc_zero name kind avail ty status reason message =
    \<lparr>cp_Name = name, cp_Kind = kind, cp_Available = avail, cp_Type = ty, cp_Status = status,
     cp_LastUpdateTime = zero_time, cp_LastTransitionTime = zero_time, cp_Reason = reason,
     cp_Message = message\<rparr>"

definition unknownStatus :: "'w client \<Rightarrow> string \<Rightarrow> string \<Rightarrow> (('w, 'z) kstate_scheme, comp_cond) go" where
  "unknownStatus cl name kind s =
    cc_now cl name kind False ''Unknown'' ConditionUnknown ''No conditions available''
      ''No conditions available'' s"

text \<open>The answer of the reporters whose \<open>Get\<close> failed for another reason than absence.\<close>

definition error_status :: "'w client \<Rightarrow> string \<Rightarrow> string \<Rightarrow> (('w, 'z) kstate_scheme, comp_cond) go" where
  "error_status cl name kind s =
    cc_now cl name kind False ''Unknown'' ConditionUnknown ''Error checking status''
      ''Error getting resource'' s"

section \<open>Static, disabled, toggled-off and present\<close>

definition StaticStatus_Status :: "comp_cond \<Rightarrow> comp_cond" where
  "StaticStatus_Status c = (if cp_Kind c = '''' then c\<lparr>cp_Kind := ''Component''\<rparr> else c)"

text \<open>\<open>NewDisabledStatus\<close> and \<open>toggle.DisabledStatus\<close> keep kind, namespace and name of each
  resource.\<close>

definition removals :: "kobj list \<Rightarrow> (gvk \<times> nn) list" where
  "removals us = map (\<lambda>u. (ko_GVK u, ko_key u)) us"

definition NewDisabledStatus :: "nn \<Rightarrow> string \<Rightarrow> kobj list \<Rightarrow> StatusReporter" where
  "NewDisabledStatus n explanation us = DisabledStatus n explanation (removals us)"

definition toggle_DisabledStatus :: "nn \<Rightarrow> kobj list \<Rightarrow> StatusReporter" where
  "toggle_DisabledStatus n us = ToggledOffStatus n (removals us)"

definition toggle_EnabledStatus :: "nn \<Rightarrow> StatusReporter" where
  "toggle_EnabledStatus n = DeploymentStatus n"

text \<open>
  The loop over the resources that should be gone: \<^term>\<open>Inl ()\<close> when a read fails, otherwise
  the number of resources still present and their description.
\<close>

fun scan_present ::
  "'w client \<Rightarrow> (gvk \<times> nn) list \<Rightarrow> nat \<Rightarrow> string
    \<Rightarrow> (('w, 'z) kstate_scheme, unit + nat \<times> string) go" where
  "scan_present cl [] k str s = Some (Inr (k, str), s)"
| "scan_present cl ((g, ns, n) # rs) k str s = do {
     (r, s) \<leftarrow> api_Get cl g (ns, n) s;
     case r of
       Inl e \<Rightarrow> if IsNotFound e then scan_present cl rs k str s else Some (Inl (), s)
     | Inr u \<Rightarrow>
         (let resourceName = (if ko_Namespace u \<noteq> '''' then ko_Namespace u @ ''/'' @ ko_Name u
                              else ko_Name u)
          in scan_present cl rs (k + 1)
               (str @ '' <'' @ ko_Kind u @ '' '' @ resourceName @ ''>'') s)
   }"

definition DisabledStatus_Status ::
  "'w client \<Rightarrow> nn \<Rightarrow> string \<Rightarrow> (gvk \<times> nn) list \<Rightarrow> (('w, 'z) kstate_scheme, comp_cond) go" where
  "DisabledStatus_Status cl n message rs s = do {
     (r, s) \<leftarrow> scan_present cl rs 0 '''' s;
     case r of
       Inl _ \<Rightarrow> error_status cl (snd n) ''Component'' s
     | Inr (k, str) \<Rightarrow>
         if k = 0
         then Some (cc_zero (snd n) ''Component'' True ''NotPresent'' ConditionTrue
                ComponentDisabledReason message, s)
         else Some (cc_zero (snd n) ''Component'' False ''NotPresent'' ConditionFalse
                ''ResourcesPresent'' (message @ ''. The following resources remain:'' @ str), s)
   }"

definition ToggledOffStatus_Status ::
  "'w client \<Rightarrow> nn \<Rightarrow> (gvk \<times> nn) list \<Rightarrow> (('w, 'z) kstate_scheme, comp_cond) go" where
  "ToggledOffStatus_Status cl n rs s = do {
     (r, s) \<leftarrow> scan_present cl rs 0 '''' s;
     case r of
       Inl _ \<Rightarrow> error_status cl (snd n) ''Component'' s
     | Inr (k, str) \<Rightarrow>
         if k = 0
         then cc_now cl (snd n) ''Component'' True ''NotPresent'' ConditionTrue
                ''ComponentDisabled'' ''No resources present'' s
         else cc_now cl (snd n) ''Component'' False ''Uninstalled'' ConditionFalse
                ''ResourcesPresent'' (''The following resources remain:'' @ str) s
   }"

definition PresentStatus_Status ::
  "'w client \<Rightarrow> nn \<Rightarrow> gvk \<Rightarrow> (('w, 'z) kstate_scheme, comp_cond) go" where
  "PresentStatus_Status cl n g s = do {
     (r, s) \<leftarrow> api_Get cl g n s;
     case r of
       Inr _ \<Rightarrow> Some (cc_zero (snd n) (gvk_Kind g) True ''Present'' ConditionTrue
                  DeploySuccessReason ''Resource is present'', s)
     | Inl e \<Rightarrow>
         if IsNoMatchError e \<or> IsNotFound e
         then (let resourceName = (if fst n \<noteq> '''' then fst n @ ''/'' @ snd n else snd n)
               in Some (cc_zero (snd n) (gvk_Kind g) False ''Present'' ConditionFalse
                    DeployFailedReason
                    (''The following resource is missing: <'' @ gvk_Kind g @ '' '' @ resourceName
                     @ ''>''), s))
         else error_status cl (snd n) (gvk_Kind g) s
   }"

section \<open>Deployments\<close>

definition zero_deploy_condition :: deploy_condition where
  "zero_deploy_condition =
    \<lparr>dcn_Type = '''', dcn_Status = '''', dcn_LastUpdateTime = zero_time,
     dcn_LastTransitionTime = zero_time, dcn_Reason = '''', dcn_Message = ''''\<rparr>"

definition latestDeployCondition :: "deploy_condition list \<Rightarrow> deploy_condition" where
  "latestDeployCondition cs =
    (case cs of
       [] \<Rightarrow> zero_deploy_condition
     | c0 # _ \<Rightarrow>
         foldl (\<lambda>latest c. if dcn_LastTransitionTime c > dcn_LastTransitionTime latest then c
                           else latest) c0 cs)"

definition progressingDeployCondition :: "deploy_condition list \<Rightarrow> deploy_condition" where
  "progressingDeployCondition cs =
    foldl (\<lambda>p c. if dcn_Type c = ''Progressing'' then c else p) zero_deploy_condition cs"

definition successfulDeploy :: "deployment \<Rightarrow> bool" where
  "successfulDeploy d =
    (if list_ex (\<lambda>c. dcn_Type c = ''Available'' \<and> dcn_Status c = ConditionFalse) (dp_Conditions d)
     then False
     else dp_UnavailableReplicas d \<le> 0)"

definition cond_of_deploy :: "string \<Rightarrow> deploy_condition \<Rightarrow> comp_cond" where
  "cond_of_deploy name c =
    \<lparr>cp_Name = name, cp_Kind = ''Deployment'', cp_Available = False, cp_Type = dcn_Type c,
     cp_Status = dcn_Status c, cp_LastUpdateTime = dcn_LastUpdateTime c,
     cp_LastTransitionTime = dcn_LastTransitionTime c, cp_Reason = dcn_Reason c,
     cp_Message = dcn_Message c\<rparr>"

definition mapDeployment :: "'w client \<Rightarrow> deployment \<Rightarrow> (('w, 'z) kstate_scheme, comp_cond) go" where
  "mapDeployment cl d s =
    (if length (dp_Conditions d) < 1 then unknownStatus cl (dp_Name d) (dp_Kind d) s
     else
       (let dcs = latestDeployCondition (dp_Conditions d);
            ret = cond_of_deploy (dp_Name d) dcs;
            ret = (if successfulDeploy d
                   then ret\<lparr>cp_Available := True, cp_Message := ''Deployment is available''\<rparr>
                   else ret)
        in Some (if dcn_Type dcs = ''Available'' \<and> dcn_Status dcs = ConditionTrue
                    \<and> \<not> cp_Available ret
                 then cond_of_deploy (dp_Name d) (progressingDeployCondition (dp_Conditions d))
                 else ret, s)))"

definition DeploymentStatus_Status ::
  "'w client \<Rightarrow> nn \<Rightarrow> (('w, 'z) kstate_scheme, comp_cond) go" where
  "DeploymentStatus_Status cl n s = do {
     (r, s) \<leftarrow> api_GetDeployment cl n s;
     case r of
       Inl e \<Rightarrow> unknownStatus cl (snd n) ''Deployment'' s
     | Inr d \<Rightarrow> mapDeployment cl d s
   }"

definition mapConsoleDeployment ::
  "'w client \<Rightarrow> string \<Rightarrow> (('w, 'z) kstate_scheme, comp_cond) go" where
  "mapConsoleDeployment cl name s =
    cc_now cl name ''Deployment'' True ''Available'' ConditionFalse ''OCP Console missing''
      ''The OCP Console must be enabled before using ACM Console'' s"

definition ConsoleUnavailableStatus_Status ::
  "'w client \<Rightarrow> nn \<Rightarrow> (('w, 'z) kstate_scheme, comp_cond) go" where
  "ConsoleUnavailableStatus_Status cl n s = do {
     (r, s) \<leftarrow> api_GetDeployment cl n s;
     case r of
       Inl e \<Rightarrow> if \<not> IsNotFound e then unknownStatus cl (snd n) ''Deployment'' s
                else mapConsoleDeployment cl (snd n) s
     | Inr d \<Rightarrow> mapConsoleDeployment cl (snd n) s
   }"

section \<open>Cluster manager and add-ons\<close>

definition json_str :: "(string \<times> json) list \<Rightarrow> string \<Rightarrow> string" where
  "json_str m k = (case map_of m k of Some (JString v) \<Rightarrow> v | _ \<Rightarrow> '''')"

definition zero_comp_cond :: comp_cond where
  "zero_comp_cond = cc_zero '''' '''' False '''' '''' '''' ''''"

text \<open>\<open>unstructured.NestedSlice(content, "status", "conditions")\<close>: absent or of another type is
  \<^term>\<open>None\<close>.\<close>

definition status_conditions :: "kobj \<Rightarrow> json list option" where
  "status_conditions u =
    (case nested (ko_Content u) [''status'', ''conditions''] of
       Some (Some (JArray cs)) \<Rightarrow> Some cs
     | _ \<Rightarrow> None)"

text \<open>
  The loop of \<open>mapClusterManager\<close> and \<open>mapManagedClusterAddOn\<close>: the first condition of type
  \<open>want\<close> with status \<open>True\<close>, else the last one.
\<close>

fun scan_conditions ::
  "'w client \<Rightarrow> kobj \<Rightarrow> string \<Rightarrow> string \<Rightarrow> json list \<Rightarrow> comp_cond
    \<Rightarrow> (('w, 'z) kstate_scheme, comp_cond) go" where
  "scan_conditions cl u kind want [] acc s = Some (acc, s)"
| "scan_conditions cl u kind want (c # cs) acc s =
    (case c of
       JObject m \<Rightarrow>
         (let ty = json_str m ''type''; st = json_str m ''status'';
              ok = (ty = want \<and> st = ''True'')
          in do {
            (cc, s) \<leftarrow> cc_now cl (ko_Name u) kind ok ty st (json_str m ''reason'')
              (json_str m ''message'') s;
            if ok then Some (cc, s) else scan_conditions cl u kind want cs cc s
          })
     | _ \<Rightarrow> unknownStatus cl (ko_Name u) (ko_Kind u) s)"

definition mapClusterManager :: "'w client \<Rightarrow> kobj \<Rightarrow> (('w, 'z) kstate_scheme, comp_cond) go" where
  "mapClusterManager cl u s =
    (case status_conditions u of
       None \<Rightarrow> unknownStatus cl (ko_Name u) (ko_Kind u) s
     | Some cs \<Rightarrow> scan_conditions cl u ''ClusterManager'' ''Applied'' cs zero_comp_cond s)"

definition mapManagedClusterAddOn :: "'w client \<Rightarrow> kobj \<Rightarrow> (('w, 'z) kstate_scheme, comp_cond) go" where
  "mapManagedClusterAddOn cl u s =
    (case status_conditions u of
       None \<Rightarrow> unknownStatus cl (ko_Name u) (ko_Kind u) s
     | Some cs \<Rightarrow> scan_conditions cl u ''ManagedClusterAddOn'' ''Available'' cs zero_comp_cond s)"

definition clusterManagerGVK :: gvk where
  "clusterManagerGVK = mk_gvk ''operator.open-cluster-management.io'' ''v1'' ''ClusterManager''"

definition managedClusterAddOnGVK :: gvk where
  "managedClusterAddOnGVK =
    mk_gvk ''addon.open-cluster-management.io'' ''v1alpha1'' ''ManagedClusterAddOn''"

definition ClusterManagerStatus_Status ::
  "'w client \<Rightarrow> nn \<Rightarrow> (('w, 'z) kstate_scheme, comp_cond) go" where
  "ClusterManagerStatus_Status cl n s = do {
     (r, s) \<leftarrow> api_Get cl clusterManagerGVK n s;
     case r of
       Inl e \<Rightarrow> unknownStatus cl (snd n) ''ClusterManager'' s
     | Inr u \<Rightarrow> mapClusterManager cl u s
   }"

definition ManagedClusterAddOnStatus_Status ::
  "'w client \<Rightarrow> nn \<Rightarrow> (('w, 'z) kstate_scheme, comp_cond) go" where
  "ManagedClusterAddOnStatus_Status cl n s = do {
     (r, s) \<leftarrow> api_Get cl managedClusterAddOnGVK n s;
     case r of
       Inl e \<Rightarrow> unknownStatus cl (snd n) ''ManagedClusterAddOn'' s
     | Inr u \<Rightarrow> mapManagedClusterAddOn cl u s
   }"

section \<open>The local cluster\<close>

abbreviation Accepted :: string where "Accepted \<equiv> ''HubAcceptedManagedCluster''"
abbreviation Joined :: string where "Joined \<equiv> ''ManagedClusterJoined''"
abbreviation Available :: string where "Available \<equiv> ''ManagedClusterConditionAvailable''"
abbreviation MCDisabled :: string where "MCDisabled \<equiv> ''ManagedClusterDisabled''"
abbreviation MCImported :: string where "MCImported \<equiv> ''ManagedClusterImported''"
abbreviation lcsKind :: string where "lcsKind \<equiv> ''local-cluster''"

definition managedClusterGVK :: gvk where
  "managedClusterGVK = mk_gvk ''cluster.open-cluster-management.io'' ''v1'' ''ManagedCluster''"

text \<open>A type assertion \<open>m[k].(string)\<close>: it panics when the value is no string.\<close>

definition assert_str :: "(string \<times> json) list \<Rightarrow> string \<Rightarrow> string option" where
  "assert_str m k = (case map_of m k of Some (JString v) \<Rightarrow> Some v | _ \<Rightarrow> None)"

text \<open>
  The loop over the conditions: which of the three types occur and the last condition seen;
  \<^term>\<open>None\<close> when an element is no object.
\<close>

fun scan_cluster ::
  "json list \<Rightarrow> bool \<times> bool \<times> bool \<times> (string \<times> json) list
    \<Rightarrow> (bool \<times> bool \<times> bool \<times> (string \<times> json) list) option" where
  "scan_cluster [] acc = Some acc"
| "scan_cluster (JObject m # cs) (acc, joi, ava, latest) =
    (let ty = map_of m ''type''
     in scan_cluster cs
          (acc \<or> ty = Some (JString Accepted),
           joi \<or> ty = Some (JString Joined),
           ava \<or> ty = Some (JString Available), m))"
| "scan_cluster (_ # cs) acc = None"

definition cluster_conditions :: "kobj \<Rightarrow> json list option" where
  "cluster_conditions mc =
    (case map_of (ko_Content mc) ''status'' of
       Some (JObject st) \<Rightarrow>
         (case map_of st ''conditions'' of
            Some (JArray cs) \<Rightarrow> if cs = [] then None else Some cs
          | _ \<Rightarrow> None)
     | _ \<Rightarrow> None)"

definition LocalCluster_enabledStatus ::
  "'w client \<Rightarrow> nn \<Rightarrow> kobj option \<Rightarrow> (('w, 'z) kstate_scheme, comp_cond) go" where
  "LocalCluster_enabledStatus cl n mc s =
    (case mc of
       None \<Rightarrow> unknownStatus cl (snd n) lcsKind s
     | Some mc \<Rightarrow>
       (case cluster_conditions mc of
          None \<Rightarrow> unknownStatus cl (snd n) lcsKind s
        | Some cs \<Rightarrow>
          (case scan_cluster cs (False, False, False, []) of
             None \<Rightarrow> unknownStatus cl (snd n) lcsKind s
           | Some (acc, joi, ava, latest) \<Rightarrow>
               if \<not> (acc \<and> joi \<and> ava) then do {
                 ty \<leftarrow> assert_str latest ''type'';
                 st \<leftarrow> assert_str latest ''status'';
                 rs \<leftarrow> assert_str latest ''reason'';
                 ms \<leftarrow> assert_str latest ''message'';
                 cc_now cl (snd n) lcsKind False ty st rs ms s
               }
               else if ko_DeletionTimestamp mc \<noteq> None then do {
                 ty \<leftarrow> assert_str latest ''type'';
                 st \<leftarrow> assert_str latest ''status'';
                 rs \<leftarrow> assert_str latest ''reason'';
                 cc_now cl (snd n) lcsKind False ty st rs
                   ''Local-Cluster is currently being detached'' s
               }
               else cc_now cl (snd n) lcsKind True ''ManagedClusterImportSuccess'' ConditionTrue
                 MCImported ''ManagedCluster is accepted, joined, and available'' s)))"

definition LocalCluster_disabledStatus ::
  "'w client \<Rightarrow> nn \<Rightarrow> kobj option \<Rightarrow> (('w, 'z) kstate_scheme, comp_cond) go" where
  "LocalCluster_disabledStatus cl n mc s =
    (if mc = None
     then cc_now cl (snd n) lcsKind True ''NotPresent'' ConditionTrue MCDisabled
       ''ManagedCluster resource is not present'' s
     else cc_now cl (snd n) lcsKind False ''NotPresent'' ConditionFalse MCDisabled
       ''ManagedCluster resource is still present'' s)"

definition getManagedCluster ::
  "'w client \<Rightarrow> nn \<Rightarrow> (('w, 'z) kstate_scheme, kobj option resp) go" where
  "getManagedCluster cl n s = do {
     (r, s) \<leftarrow> api_Get cl managedClusterGVK n s;
     case r of
       Inl e \<Rightarrow> if IsNotFound e \<or> IsNoMatchError e then Some (Inr None, s) else Some (Inl e, s)
     | Inr mc \<Rightarrow> Some (Inr (Some mc), s)
   }"

definition LocalClusterStatus_Status ::
  "'w client \<Rightarrow> nn \<Rightarrow> bool \<Rightarrow> (('w, 'z) kstate_scheme, comp_cond) go" where
  "LocalClusterStatus_Status cl n enabled s = do {
     (r, s) \<leftarrow> getManagedCluster cl n s;
     case r of
       Inl e \<Rightarrow> unknownStatus cl (snd n) lcsKind s
     | Inr mc \<Rightarrow> if enabled then LocalCluster_enabledStatus cl n mc s
                 else LocalCluster_disabledStatus cl n mc s
   }"

section \<open>Dispatch\<close>

primrec Status :: "'w client \<Rightarrow> StatusReporter \<Rightarrow> (('w, 'z) kstate_scheme, comp_cond) go" where
  "Status cl (StaticStatus n k c) = (\<lambda>s. Some (StaticStatus_Status c, s))"
| "Status cl (DisabledStatus n m rs) = DisabledStatus_Status cl n m rs"
| "Status cl (PresentStatus n g) = PresentStatus_Status cl n g"
| "Status cl (DeploymentStatus n) = DeploymentStatus_Status cl n"
| "Status cl (ConsoleUnavailableStatus n) = ConsoleUnavailableStatus_Status cl n"
| "Status cl (LocalClusterStatus n e) = LocalClusterStatus_Status cl n e"
| "Status cl (ClusterManagerStatus n) = ClusterManagerStatus_Status cl n"
| "Status cl (ManagedClusterAddOnStatus n) = ManagedClusterAddOnStatus_Status cl n"
| "Status cl (ToggledOffStatus n rs) = ToggledOffStatus_Status cl n rs"

section \<open>Reporters only read\<close>

abbreviation read_only :: "api_call \<Rightarrow> bool" where
  "read_only c \<equiv> \<not> is_write c"

lemmas emits_read_only [emits_intro] = emits_reads [where P = read_only, simplified]

lemma emits_cc_now [emits_intro]:
  "ks_Trace s = t \<Longrightarrow> emits P t (cc_now cl n k a ty st rs ms s)"
  by (simp add: emits_def cc_now_def api_Now_def split_beta)

lemma emits_statuses [emits_intro]:
  "ks_Trace s = t \<Longrightarrow> emits P t (unknownStatus cl n k s)"
  "ks_Trace s = t \<Longrightarrow> emits P t (error_status cl n k s)"
  "ks_Trace s = t \<Longrightarrow> emits P t (mapConsoleDeployment cl n s)"
  by (simp_all add: unknownStatus_def error_status_def mapConsoleDeployment_def emits_cc_now)

lemma emits_scan_present [emits_intro]:
  "ks_Trace s = t \<Longrightarrow> emits read_only t (scan_present cl rs k str s)"
proof (induction rs arbitrary: k str s t)
  case (Cons r rs)
  then show ?case by (cases r) (auto simp: Let_def intro!: emits_intro)
qed (auto intro: emits_intro)

lemma emits_scan_conditions [emits_intro]:
  "ks_Trace s = t \<Longrightarrow> emits P t (scan_conditions cl u k w cs acc s)"
  by (induction cs arbitrary: acc s t) (auto simp: Let_def intro!: emits_intro split: json.splits)

lemma emits_mapDeployment [emits_intro]: "ks_Trace s = t \<Longrightarrow> emits P t (mapDeployment cl d s)"
  by (auto simp: mapDeployment_def Let_def intro!: emits_intro)

lemma emits_assert [emits_intro]:
  "(\<And>v. emits P t (f v)) \<Longrightarrow> emits P t (Option.bind (assert_str m k) f)"
  by (cases "assert_str m k") (auto intro: emits_intro)

lemma emits_local_cluster [emits_intro]:
  "ks_Trace s = t \<Longrightarrow> emits P t (LocalCluster_enabledStatus cl n mc s)"
  "ks_Trace s = t \<Longrightarrow> emits P t (LocalCluster_disabledStatus cl n mc s)"
  by (auto simp: LocalCluster_enabledStatus_def LocalCluster_disabledStatus_def intro!: emits_intro
      split: option.splits)

lemma emits_maps [emits_intro]:
  "ks_Trace s = t \<Longrightarrow> emits P t (mapClusterManager cl u s)"
  "ks_Trace s = t \<Longrightarrow> emits P t (mapManagedClusterAddOn cl u s)"
  by (auto simp: mapClusterManager_def mapManagedClusterAddOn_def intro!: emits_intro)

lemma emits_Status [emits_intro]: "ks_Trace s = t \<Longrightarrow> emits read_only t (Status cl sr s)"
  by (cases sr)
    (auto simp: DisabledStatus_Status_def PresentStatus_Status_def DeploymentStatus_Status_def
      ConsoleUnavailableStatus_Status_def LocalClusterStatus_Status_def getManagedCluster_def
      ClusterManagerStatus_Status_def ManagedClusterAddOnStatus_Status_def
      ToggledOffStatus_Status_def Let_def
      intro!: emits_intro)

section \<open>When a component counts as available\<close>

lemma stotal_cc_now [simp]:
  "(\<And>t1 t2 s'. Q \<lparr>cp_Name = n, cp_Kind = k, cp_Available = a, cp_Type = ty, cp_Status = st,
      cp_LastUpdateTime = t1, cp_LastTransitionTime = t2, cp_Reason = rs, cp_Message = ms\<rparr> s') \<Longrightarrow>
    stotal Q (cc_now cl n k a ty st rs ms s)"
  by (simp add: cc_now_def api_Now_def split_beta)

definition deployment_ready :: "deployment \<Rightarrow> bool" where
  "deployment_ready d =
    (dp_Conditions d \<noteq> [] \<and> dp_UnavailableReplicas d \<le> 0
     \<and> (\<forall>c \<in> set (dp_Conditions d). \<not> (dcn_Type c = ''Available'' \<and> dcn_Status c = ConditionFalse)))"

lemma mapDeployment_available:
  "stotal (\<lambda>c s'. cp_Available c = deployment_ready d) (mapDeployment cl d s)"
  by (auto simp: mapDeployment_def unknownStatus_def deployment_ready_def successfulDeploy_def
      cond_of_deploy_def list_ex_iff Let_def)

text \<open>
  A deployment reporter always answers, and reports the component available exactly when the
  deployment could be read, has at least one condition, none of them says \<open>Available\<close> is
  \<open>False\<close>, and no replica is unavailable.
\<close>

theorem DeploymentStatus_available:
  "stotal (\<lambda>c s'. cp_Available c \<longleftrightarrow>
      (\<exists>d. fst (cl_GetDeployment cl n (ks_World s)) = Inr d \<and> dp_Conditions d \<noteq> []
         \<and> dp_UnavailableReplicas d \<le> 0
         \<and> \<not> (\<exists>c \<in> set (dp_Conditions d). dcn_Type c = ''Available'' \<and> dcn_Status c = ConditionFalse)))
    (Status cl (DeploymentStatus n) s)"
proof (cases "fst (cl_GetDeployment cl n (ks_World s))")
  case (Inl e)
  then show ?thesis
    by (simp add: DeploymentStatus_Status_def api_eqs unknownStatus_def)
next
  case (Inr d)
  have "stotal (\<lambda>c s'. cp_Available c = deployment_ready d)
      (mapDeployment cl d (log_call (CGetDeployment n)
        (snd (cl_GetDeployment cl n (ks_World s))) s))"
    by (rule mapDeployment_available)
  then show ?thesis using Inr
    by (auto simp: DeploymentStatus_Status_def api_eqs deployment_ready_def elim!: stotal_mono)
qed

lemma foldl_latest:
  defines "f \<equiv> \<lambda>latest c. if dcn_LastTransitionTime c > dcn_LastTransitionTime latest then c
    else (latest :: deploy_condition)"
  shows "foldl f c0 cs \<in> insert c0 (set cs)
    \<and> (\<forall>c \<in> insert c0 (set cs). dcn_LastTransitionTime c \<le> dcn_LastTransitionTime (foldl f c0 cs))"
proof (induction cs arbitrary: c0)
  case (Cons c cs)
  have "dcn_LastTransitionTime c0 \<le> dcn_LastTransitionTime (f c0 c)"
    "dcn_LastTransitionTime c \<le> dcn_LastTransitionTime (f c0 c)" "f c0 c \<in> {c0, c}"
    by (auto simp: f_def)
  then show ?case using Cons [of "f c0 c"] by fastforce
qed simp

text \<open>
  The condition a deployment is reported with is one of its own conditions, and none of them
  changed later.
\<close>

theorem latestDeployCondition_max:
  assumes "cs \<noteq> []"
  shows "latestDeployCondition cs \<in> set cs
    \<and> (\<forall>c \<in> set cs. dcn_LastTransitionTime c
         \<le> dcn_LastTransitionTime (latestDeployCondition cs))"
proof -
  obtain c0 rest where "cs = c0 # rest" using assms by (cases cs) auto
  then show ?thesis using foldl_latest [of c0 cs] by (auto simp: latestDeployCondition_def)
qed

theorem latestDeployCondition_max_witness:
  "latestDeployCondition [zero_deploy_condition\<lparr>dcn_LastTransitionTime := 3\<rparr>,
     zero_deploy_condition\<lparr>dcn_LastTransitionTime := 8\<rparr>]
   = zero_deploy_condition\<lparr>dcn_LastTransitionTime := 8\<rparr>
   \<and> latestDeployCondition [zero_deploy_condition\<lparr>dcn_LastTransitionTime := 3\<rparr>]
     \<in> set [zero_deploy_condition\<lparr>dcn_LastTransitionTime := 3\<rparr>]"
  using latestDeployCondition_max [of "[zero_deploy_condition\<lparr>dcn_LastTransitionTime := 3\<rparr>]"]
  by (simp add: latestDeployCondition_def)

text \<open>The read of a resource answered that it does not exist.\<close>

definition seen_absent :: "'w client \<Rightarrow> gvk \<Rightarrow> nn \<Rightarrow> 'w \<Rightarrow> bool" where
  "seen_absent cl g n w = (\<exists>e. fst (cl_Get cl g n w) = Inl e \<and> IsNotFound e)"

lemma scan_present_spec:
  "stotal (\<lambda>r s'. \<forall>m str'. r = Inr (m, str') \<longrightarrow>
      k \<le> m \<and> (m = k \<longrightarrow> (\<forall>(g, n) \<in> set rs. \<exists>w. seen_absent cl g n w)))
    (scan_present cl rs k str s)"
proof (induction rs arbitrary: k str s)
  case (Cons r rs)
  obtain g ns n where r: "r = (g, ns, n)" by (cases r) auto
  show ?case
  proof (cases "fst (cl_Get cl g (ns, n) (ks_World s))")
    case (Inl e)
    show ?thesis
    proof (cases "IsNotFound e")
      case True
      then have "seen_absent cl g (ns, n) (ks_World s)" using Inl by (auto simp: seen_absent_def)
      with True Inl show ?thesis
        by (auto simp: r api_eqs intro!: stotal_mono [OF Cons.IH])
    qed (simp add: r api_eqs Inl)
  next
    case (Inr u)
    then show ?thesis
      by (fastforce simp: r api_eqs Let_def intro!: stotal_mono [OF Cons.IH])
  qed
qed simp

lemma scan_present_absent:
  assumes "\<And>g n w. (g, n) \<in> set rs \<Longrightarrow> seen_absent cl g n w"
  shows "stotal (\<lambda>r s'. r = Inr (k, str)) (scan_present cl rs k str s)"
  using assms
proof (induction rs arbitrary: s)
  case (Cons r rs)
  obtain g ns n where r: "r = (g, ns, n)" by (cases r) auto
  then obtain e where "fst (cl_Get cl g (ns, n) (ks_World s)) = Inl e" "IsNotFound e"
    using Cons.prems [of g "(ns, n)" "ks_World s"] by (auto simp: seen_absent_def)
  then show ?case using Cons by (simp add: r api_eqs)
qed simp

lemma scan_present_toggle:
  "stotal (\<lambda>r s'. (\<forall>str'. r = Inr (0, str') \<longrightarrow>
      (\<forall>(g, n) \<in> set rs. \<exists>w. seen_absent cl g n w))
      \<and> ((\<forall>(g, n) \<in> set rs. \<forall>w. seen_absent cl g n w) \<longrightarrow> r = Inr (0, '''')))
    (scan_present cl rs 0 '''' s)"
proof (cases "\<forall>(g, n) \<in> set rs. \<forall>w. seen_absent cl g n w")
  case True
  then have "\<And>g n w. (g, n) \<in> set rs \<Longrightarrow> seen_absent cl g n w" by auto
  then have "stotal (\<lambda>r s'. r = Inr (0, '''')) (scan_present cl rs 0 '''' s)"
    by (rule scan_present_absent)
  then show ?thesis by (rule stotal_mono) (use True in fastforce)
next
  case False
  then show ?thesis by (intro stotal_mono [OF scan_present_spec]) auto
qed

text \<open>
  A toggled-off component counts as available only if every one of its resources was read as
  absent, and it does when all reads answer that the resource does not exist.
\<close>

theorem ToggledOffStatus_available:
  "stotal (\<lambda>c s'. (cp_Available c \<longrightarrow> (\<forall>(g, r) \<in> set rs. \<exists>w. seen_absent cl g r w))
      \<and> ((\<forall>(g, r) \<in> set rs. \<forall>w. seen_absent cl g r w) \<longrightarrow> cp_Available c))
    (Status cl (ToggledOffStatus n rs) s)"
  by (auto simp: ToggledOffStatus_Status_def stotal_bind error_status_def
      intro!: stotal_mono [OF scan_present_toggle] stotal_cc_now split: sum.splits)

theorem ToggledOffStatus_available_witness:
  "\<exists>c s'. Status mem_client (ToggledOffStatus (''mce'', ''hive'')
        [(mk_gvk ''apps'' ''v1'' ''Deployment'', ''mce'', ''hive-operator'')]) (start empty_mem)
      = Some (c, s') \<and> cp_Available c
    \<and> (\<exists>w. seen_absent mem_client (mk_gvk ''apps'' ''v1'' ''Deployment'') (''mce'', ''hive-operator'') w)"
proof -
  let ?rs = "[(mk_gvk ''apps'' ''v1'' ''Deployment'', ''mce'', ''hive-operator'')]"
  let ?st = "Status mem_client (ToggledOffStatus (''mce'', ''hive'') ?rs) (start empty_mem)"
  have "stotal (\<lambda>c s'. cp_Available c) ?st"
    by (simp add: ToggledOffStatus_Status_def api_eqs mem_client_def mem_find_def start_def
        empty_mem_def IsNotFound_def cc_now_def api_Now_def split_beta)
  with ToggledOffStatus_available [where cl = mem_client and rs = ?rs and n = "(''mce'', ''hive'')"
      and s = "start empty_mem"]
  show ?thesis by (auto simp: stotal_iff)
qed

section \<open>The local cluster's readiness\<close>

definition has_type :: "string \<Rightarrow> json \<Rightarrow> bool" where
  "has_type ty c = (case c of JObject m \<Rightarrow> map_of m ''type'' = Some (JString ty) | _ \<Rightarrow> False)"

lemma scan_cluster_types:
  "scan_cluster cs (a, j, v, l) = Some (a', j', v', l') \<Longrightarrow>
    a' = (a \<or> list_ex (has_type Accepted) cs) \<and> j' = (j \<or> list_ex (has_type Joined) cs)
    \<and> v' = (v \<or> list_ex (has_type Available) cs)"
proof (induction cs arbitrary: a j v l)
  case (Cons c cs)
  then show ?case by (cases c) (auto simp: has_type_def Let_def)
qed simp

lemma scan_cluster_objects:
  "scan_cluster cs acc \<noteq> None \<longleftrightarrow> list_all (\<lambda>c. \<exists>m. c = JObject m) cs"
proof (induction cs arbitrary: acc)
  case (Cons c cs)
  then show ?case by (cases c; cases acc) (auto simp: Let_def)
qed simp

lemma spost_cc_now:
  "(\<And>t1 t2 s'. Q \<lparr>cp_Name = n, cp_Kind = k, cp_Available = a, cp_Type = ty, cp_Status = st,
      cp_LastUpdateTime = t1, cp_LastTransitionTime = t2, cp_Reason = rs, cp_Message = ms\<rparr> s') \<Longrightarrow>
    spost Q (cc_now cl n k a ty st rs ms s)"
  by (rule stotal_spost, rule stotal_cc_now)

lemma spost_assert_str:
  "(\<And>v. spost Q (f v)) \<Longrightarrow> spost Q (Option.bind (assert_str m k) f)"
  by (cases "assert_str m k") auto

text \<open>
  C30: The enabled local cluster is reported available only if its managed cluster exists, is not
  being deleted and lists conditions of the three types accepted, joined and available; and it is
  reported available whenever it does so, whatever the \<open>status\<close> fields of these conditions say.
\<close>

theorem LocalCluster_enabled_available:
  "spost (\<lambda>c s'. cp_Available c \<longleftrightarrow>
      (\<exists>u cs. mc = Some u \<and> cluster_conditions u = Some cs \<and> ko_DeletionTimestamp u = None
         \<and> list_all (\<lambda>c. \<exists>m. c = JObject m) cs
         \<and> list_ex (has_type Accepted) cs \<and> list_ex (has_type Joined) cs
         \<and> list_ex (has_type Available) cs))
    (LocalCluster_enabledStatus cl n mc s)"
proof -
  let ?init = "(False, False, False, [])"
  consider (none) "mc = None \<or> (\<exists>u. mc = Some u \<and> cluster_conditions u = None)"
    | (bad) u cs where "mc = Some u" "cluster_conditions u = Some cs" "scan_cluster cs ?init = None"
    | (ok) u cs a j v l where "mc = Some u" "cluster_conditions u = Some cs"
        "scan_cluster cs ?init = Some (a, j, v, l)"
    by (metis not_None_eq prod_cases4)
  then show ?thesis
  proof cases
    case none
    then show ?thesis
      by (auto simp: LocalCluster_enabledStatus_def unknownStatus_def intro!: spost_cc_now)
  next
    case bad
    then have "\<not> list_all (\<lambda>c. \<exists>m. c = JObject m) cs"
      using scan_cluster_objects [of cs ?init] by simp
    with bad show ?thesis
      by (auto simp: LocalCluster_enabledStatus_def unknownStatus_def intro!: spost_cc_now)
  next
    case ok
    then have "list_all (\<lambda>c. \<exists>m. c = JObject m) cs"
      using scan_cluster_objects [of cs ?init] by simp
    with ok scan_cluster_types [OF ok(3)] show ?thesis
      by (auto simp: LocalCluster_enabledStatus_def intro!: spost_cc_now spost_assert_str)
  qed
qed

end
