(* ===== verification/Status_Tracker.thy ===== *)
theory Status_Tracker
  imports Status_Reporters
begin

text \<open>
  The status tracker of \<open>pkg/status/status.go\<close>: the set of reporters that the last reconcile
  registered, the conditions, and the status it reports.  The map \<open>prevAvailability\<close> only decides
  what is logged and is left out.
\<close>

record StatusTracker =
  tr_UID :: string
  tr_Components :: "StatusReporter list"
  tr_Conditions :: "cond list"

definition Reset :: "string \<Rightarrow> StatusTracker \<Rightarrow> StatusTracker" where
  "Reset uid sm = sm\<lparr>tr_UID := uid, tr_Components := [], tr_Conditions := []\<rparr>"

section \<open>Tracked components\<close>

definition same_component :: "StatusReporter \<Rightarrow> StatusReporter \<Rightarrow> bool" where
  "same_component c sr =
    (GetName c = GetName sr \<and> GetNamespace c = GetNamespace sr \<and> GetKind c = GetKind sr)"

definition add_reporter :: "StatusReporter list \<Rightarrow> StatusReporter \<Rightarrow> StatusReporter list" where
  "add_reporter cs sr = (if list_ex (\<lambda>c. same_component c sr) cs then cs else cs @ [sr])"

fun remove_reporter :: "StatusReporter list \<Rightarrow> StatusReporter \<Rightarrow> StatusReporter list" where
  "remove_reporter [] sr = []"
| "remove_reporter (c # cs) sr = (if same_component c sr then cs else c # remove_reporter cs sr)"

definition AddComponent :: "StatusReporter \<Rightarrow> StatusTracker \<Rightarrow> StatusTracker" where
  "AddComponent sr sm = sm\<lparr>tr_Components := add_reporter (tr_Components sm) sr\<rparr>"

definition RemoveComponent :: "StatusReporter \<Rightarrow> StatusTracker \<Rightarrow> StatusTracker" where
  "RemoveComponent sr sm = sm\<lparr>tr_Components := remove_reporter (tr_Components sm) sr\<rparr>"

definition AddCondition :: "cond \<Rightarrow> StatusTracker \<Rightarrow> StatusTracker" where
  "AddCondition c sm = sm\<lparr>tr_Conditions := setCondition (tr_Conditions sm) c\<rparr>"

section \<open>Reporting\<close>

definition allComponentsReady :: "comp_cond list \<Rightarrow> bool" where
  "allComponentsReady cs = (if cs = [] then False else list_all cp_Available cs)"

definition reportPhase :: "MultiClusterEngine \<Rightarrow> comp_cond list \<Rightarrow> cond list \<Rightarrow> string" where
  "reportPhase mce components conditions =
    (let progress = getCondition conditions MultiClusterEngineProgressing
     in if list_ex (\<lambda>c. cd_Reason c = PausedReason) conditions then PhasePaused
        else if (case progress of None \<Rightarrow> False | Some p \<Rightarrow> cd_Status p = ConditionFalse)
        then PhaseError
        else if mce_DeletionTimestamp mce \<noteq> None then PhaseUninstalling
        else if components = [] then PhaseProgressing
        else if ConditionPresentWithSubstring conditions MultiClusterEngineComponentFailure
        then PhaseError
        else if \<not> allComponentsReady components then PhaseProgressing
        else PhaseAvailable)"

fun reportComponents ::
  "'w client \<Rightarrow> StatusReporter list \<Rightarrow> (('w, 'z) kstate_scheme, comp_cond list) go" where
  "reportComponents cl [] s = Some ([], s)"
| "reportComponents cl (c # cs) s = do {
     (cc, s) \<leftarrow> Status cl c s;
     (ccs, s) \<leftarrow> reportComponents cl cs s;
     Some (cc # ccs, s)
   }"

text \<open>\<open>version\<close> is \<open>version.Version\<close>, the version of the running operator.\<close>

definition ReportStatus ::
  "'w client \<Rightarrow> string \<Rightarrow> MultiClusterEngine \<Rightarrow> StatusTracker
    \<Rightarrow> (('w, 'z) kstate_scheme, MultiClusterEngineStatus \<times> StatusTracker) go" where
  "ReportStatus cl version mce sm s = do {
     (components, s) \<leftarrow> reportComponents cl (tr_Components sm) s;
     (c, s) \<leftarrow>
       (if allComponentsReady components
        then NewCondition cl MultiClusterEngineAvailable ConditionTrue ComponentsAvailableReason
               ''All components available'' s
        else NewCondition cl MultiClusterEngineAvailable ConditionFalse ComponentsUnavailableReason
               ''Not all components available'' s);
     let sm = AddCondition c sm;
     let conditions = tr_Conditions sm;
     let phase = reportPhase mce components conditions;
     let currentVersion = (if phase = PhaseAvailable then version
                           else ms_CurrentVersion (mce_Status mce));
     Some ((\<lparr>ms_Phase = phase, ms_Components = components, ms_Conditions = conditions,
             ms_CurrentVersion = currentVersion, ms_DesiredVersion = version\<rparr>, sm), s)
   }"

section \<open>The contract of the tracked set\<close>

text \<open>
  \<open>tracked\<close> looks a reporter up by its identity.  The toggling code relies on the last two lemmas:
  after \<open>RemoveComponent off; AddComponent on\<close> only the second is tracked.
\<close>

locale reporter_set =
  fixes key :: "'r \<Rightarrow> 'k"
    and tracked :: "'r list \<Rightarrow> 'k \<Rightarrow> 'r option"
    and add :: "'r list \<Rightarrow> 'r \<Rightarrow> 'r list"
    and rem :: "'r list \<Rightarrow> 'r \<Rightarrow> 'r list"
    and wf :: "'r list \<Rightarrow> bool"
  assumes wf_nil: "wf []"
    and wf_add: "wf cs \<Longrightarrow> wf (add cs r)"
    and wf_rem: "wf cs \<Longrightarrow> wf (rem cs r)"
    and tracked_add: "tracked (add cs r) k =
      (if tracked cs k = None \<and> k = key r then Some r else tracked cs k)"
    and tracked_rem: "wf cs \<Longrightarrow> tracked (rem cs r) k = (if k = key r then None else tracked cs k)"
begin

lemma wf_toggle: "wf cs \<Longrightarrow> wf (add (rem cs off) on)"
  by (simp add: wf_add wf_rem)

lemma tracked_toggle:
  assumes "wf cs" "key off \<noteq> key on" "tracked cs (key on) = None"
  shows "tracked (add (rem cs off) on) (key on) = Some on"
    and "tracked (add (rem cs off) on) (key off) = None"
  using assms by (simp_all add: tracked_add tracked_rem)

lemma tracked_toggle_other:
  assumes "wf cs" "k \<noteq> key off" "k \<noteq> key on"
  shows "tracked (add (rem cs off) on) k = tracked cs k"
  using assms by (simp add: tracked_add tracked_rem)

lemma add_twice: "tracked (add (add cs r) r') k = tracked (add cs r) k"
  if "key r = key r'"
  using that by (auto simp: tracked_add)

end

definition sr_key :: "StatusReporter \<Rightarrow> string \<times> string \<times> string" where
  "sr_key sr = (GetName sr, GetNamespace sr, GetKind sr)"

definition tracked_reporter ::
  "StatusReporter list \<Rightarrow> string \<times> string \<times> string \<Rightarrow> StatusReporter option" where
  "tracked_reporter cs k = List.find (\<lambda>c. sr_key c = k) cs"

definition wf_reporters :: "StatusReporter list \<Rightarrow> bool" where
  "wf_reporters cs = distinct (map sr_key cs)"

lemma same_component_key: "same_component c sr = (sr_key c = sr_key sr)"
  by (auto simp: same_component_def sr_key_def)

lemma tracked_None: "tracked_reporter cs k = None \<longleftrightarrow> k \<notin> sr_key ` set cs"
  by (auto simp: tracked_reporter_def find_None_iff)

lemma tracked_add_reporter:
  "tracked_reporter (add_reporter cs r) k =
    (if tracked_reporter cs k = None \<and> k = sr_key r then Some r else tracked_reporter cs k)"
proof (cases "sr_key r \<in> sr_key ` set cs")
  case True
  then have "add_reporter cs r = cs" by (auto simp: add_reporter_def same_component_key list_ex_iff)
  moreover have "tracked_reporter cs (sr_key r) \<noteq> None" using True by (simp add: tracked_None)
  ultimately show ?thesis by auto
next
  case False
  then have "add_reporter cs r = cs @ [r]"
    by (auto simp: add_reporter_def same_component_key list_ex_iff image_iff)
  then show ?thesis
    by (auto simp: tracked_reporter_def find_append split: option.splits)
qed

lemma set_remove_reporter: "set (remove_reporter cs sr) \<subseteq> set cs"
  by (induction cs) auto

lemma wf_remove_reporter: "wf_reporters cs \<Longrightarrow> wf_reporters (remove_reporter cs sr)"
proof (induction cs)
  case (Cons c cs)
  then show ?case using set_remove_reporter [of cs sr] by (auto simp: wf_reporters_def)
qed simp

lemma tracked_remove_reporter:
  "wf_reporters cs \<Longrightarrow>
    tracked_reporter (remove_reporter cs sr) k = (if k = sr_key sr then None else tracked_reporter cs k)"
proof (induction cs)
  case (Cons c cs)
  have "tracked_reporter cs k = None" if "k = sr_key c"
    using Cons.prems that by (simp add: tracked_None wf_reporters_def)
  then show ?case using Cons
    by (auto simp: tracked_reporter_def wf_reporters_def same_component_key)
qed (simp add: tracked_reporter_def)

interpretation reporters: reporter_set sr_key tracked_reporter add_reporter remove_reporter wf_reporters
proof (unfold_locales, goal_cases)
  case 1
  then show ?case by (simp add: wf_reporters_def)
next
  case (2 cs r)
  then show ?case
    by (auto simp: wf_reporters_def add_reporter_def same_component_key list_ex_iff)
next
  case (3 cs r)
  then show ?case by (rule wf_remove_reporter)
next
  case (4 cs r k)
  then show ?case by (rule tracked_add_reporter)
next
  case (5 cs r k)
  then show ?case by (rule tracked_remove_reporter)
qed

text \<open>The tracker invariant: distinct reporters, well-formed conditions.\<close>

definition wf_tracker :: "StatusTracker \<Rightarrow> bool" where
  "wf_tracker sm = (wf_reporters (tr_Components sm) \<and> wf_conditions (tr_Conditions sm))"

lemma wf_tracker_ops [simp]:
  "wf_tracker (Reset uid sm)"
  "wf_tracker sm \<Longrightarrow> wf_tracker (AddComponent sr sm)"
  "wf_tracker sm \<Longrightarrow> wf_tracker (RemoveComponent sr sm)"
  "wf_tracker sm \<Longrightarrow> wf_tracker (AddCondition c sm)"
  by (simp_all add: wf_tracker_def Reset_def AddComponent_def RemoveComponent_def AddCondition_def
      reporters.wf_nil reporters.wf_add reporters.wf_rem conditions.wf_empty conditions.wf_put)

section \<open>Properties\<close>

text \<open>
  C23: Switching a component's reporter, \<open>RemoveComponent off\<close> and then \<open>AddComponent on\<close>, in a tracker
  with distinct keys (name, namespace and kind): when the two reporters have different keys and nothing
  is tracked yet under the key of the new one, exactly the new reporter is left under its key, nothing
  under the key of the old one, and every other tracked reporter is kept, and so is the tracker
  invariant.  (\<open>AddComponent\<close> replaces nothing: a reporter already tracked under the key of the new one
  would stay.)
\<close>

theorem tracker_toggle:
  assumes "wf_tracker sm" "sr_key off \<noteq> sr_key on"
    and "tracked_reporter (tr_Components sm) (sr_key on) = None"
  defines "sm' \<equiv> AddComponent on (RemoveComponent off sm)"
  shows "wf_tracker sm' \<and> tracked_reporter (tr_Components sm') (sr_key on) = Some on
    \<and> tracked_reporter (tr_Components sm') (sr_key off) = None
    \<and> (\<forall>k. k \<noteq> sr_key off \<and> k \<noteq> sr_key on \<longrightarrow>
         tracked_reporter (tr_Components sm') k = tracked_reporter (tr_Components sm) k)"
  using assms reporters.tracked_toggle reporters.tracked_toggle_other
  by (simp add: wf_tracker_def AddComponent_def RemoveComponent_def reporters.wf_toggle)

theorem tracker_toggle_witness:
  "tracked_reporter (tr_Components (AddComponent (DeploymentStatus (''mce'', ''a''))
      (RemoveComponent (ToggledOffStatus (''mce'', ''a'') [])
        \<lparr>tr_UID = '''', tr_Components = [ToggledOffStatus (''mce'', ''a'') []], tr_Conditions = []\<rparr>)))
     (''a'', ''mce'', ''Deployment'') = Some (DeploymentStatus (''mce'', ''a''))"
  using tracker_toggle [where off = "ToggledOffStatus (''mce'', ''a'') []"
      and on = "DeploymentStatus (''mce'', ''a'')"
      and sm = "\<lparr>tr_UID = '''', tr_Components = [ToggledOffStatus (''mce'', ''a'') []],
        tr_Conditions = []\<rparr>"]
  by (simp add: wf_tracker_def wf_reporters_def wf_conditions_def sr_key_def GetName_def
      GetNamespace_def tracked_reporter_def)

lemma allComponentsReady_iff:
  "allComponentsReady cs \<longleftrightarrow> cs \<noteq> [] \<and> (\<forall>c \<in> set cs. cp_Available c)"
  by (simp add: allComponentsReady_def list_all_iff)

text \<open>
  C22: The phase \<open>Available\<close> is reported exactly when no condition has the reason \<open>Paused\<close>, the
  progressing condition is not \<open>False\<close>, the engine is not being deleted, no component failure is
  recorded, at least one component is tracked, and all tracked components are available.
\<close>

theorem reportPhase_available_iff:
  "reportPhase mce components conditions = PhaseAvailable \<longleftrightarrow>
    \<not> (\<exists>c \<in> set conditions. cd_Reason c = PausedReason)
    \<and> \<not> (\<exists>p. getCondition conditions MultiClusterEngineProgressing = Some p
           \<and> cd_Status p = ConditionFalse)
    \<and> mce_DeletionTimestamp mce = None
    \<and> \<not> (\<exists>c \<in> set conditions. \<exists>u v. cd_Type c = u @ ''ComponentFailure'' @ v)
    \<and> components \<noteq> [] \<and> list_all cp_Available components"
  by (auto simp: reportPhase_def list_ex_iff ConditionPresentWithSubstring_def Contains_iff
      allComponentsReady_def Let_def split: option.splits)

text \<open>
  Pausing wins over every other phase, a progressing condition that is \<open>False\<close> wins over
  deletion, and a deleted engine never shows \<open>Available\<close> or \<open>Progressing\<close>.
\<close>

theorem reportPhase_precedence:
  "((\<exists>c \<in> set conditions. cd_Reason c = PausedReason) \<longrightarrow>
      reportPhase mce components conditions = PhasePaused)
   \<and> (\<not> (\<exists>c \<in> set conditions. cd_Reason c = PausedReason)
      \<and> (\<exists>p. getCondition conditions MultiClusterEngineProgressing = Some p
             \<and> cd_Status p = ConditionFalse) \<longrightarrow>
      reportPhase mce components conditions = PhaseError)
   \<and> (mce_DeletionTimestamp mce \<noteq> None \<longrightarrow>
      reportPhase mce components conditions \<in> {PhasePaused, PhaseError, PhaseUninstalling})"
  by (auto simp: reportPhase_def list_ex_iff Let_def)

theorem reportPhase_precedence_witness:
  "reportPhase (sample_mce\<lparr>mce_DeletionTimestamp := Some 3\<rparr>) []
     [sample_progressing\<lparr>cd_Reason := PausedReason\<rparr>] = PhasePaused
   \<and> reportPhase (sample_mce\<lparr>mce_DeletionTimestamp := Some 3\<rparr>) [] [sample_progressing]
     \<in> {PhasePaused, PhaseError, PhaseUninstalling}"
  using reportPhase_precedence [where mce = "sample_mce\<lparr>mce_DeletionTimestamp := Some 3\<rparr>"
      and components = "[]" and conditions = "[sample_progressing\<lparr>cd_Reason := PausedReason\<rparr>]"]
    reportPhase_precedence [where mce = "sample_mce\<lparr>mce_DeletionTimestamp := Some 3\<rparr>"
      and components = "[]" and conditions = "[sample_progressing]"]
  by simp

lemma emits_reportComponents [emits_intro]:
  "ks_Trace s = t \<Longrightarrow> emits read_only t (reportComponents cl cs s)"
  by (induction cs arbitrary: s t) (auto intro!: emits_intro)

lemma emits_ReportStatus [emits_intro]:
  "ks_Trace s = t \<Longrightarrow> emits read_only t (ReportStatus cl v mce sm s)"
  by (auto simp: ReportStatus_def Let_def intro!: emits_intro)

lemma spost_reportComponents_length:
  "spost (\<lambda>ccs s'. length ccs = length cs) (reportComponents cl cs s)"
  by (induction cs arbitrary: s) (fastforce simp: spost_iff bind_eq_Some_conv)+

lemma spost_NewCondition:
  "(\<And>c s'. cd_Type c = ty \<Longrightarrow> cond_core c = (st, rs, ms) \<Longrightarrow> Q c s') \<Longrightarrow>
    spost Q (NewCondition cl ty st rs ms s)"
  by (simp add: NewCondition_def api_Now_def cond_core_def split_beta)

text \<open>What a reported status contains, in terms of the component conditions read.\<close>

definition status_ok ::
  "string \<Rightarrow> MultiClusterEngine \<Rightarrow> StatusTracker \<Rightarrow> MultiClusterEngineStatus \<Rightarrow> StatusTracker \<Rightarrow> bool" where
  "status_ok version mce sm st sm' =
    (wf_tracker sm' \<and> ms_Conditions st = tr_Conditions sm'
     \<and> ms_DesiredVersion st = version
     \<and> ms_CurrentVersion st = (if ms_Phase st = PhaseAvailable then version
                               else ms_CurrentVersion (mce_Status mce))
     \<and> ms_Phase st = reportPhase mce (ms_Components st) (ms_Conditions st)
     \<and> (\<exists>c. getCondition (ms_Conditions st) MultiClusterEngineAvailable = Some c
          \<and> (cd_Status c = ConditionTrue \<longleftrightarrow> allComponentsReady (ms_Components st))))"

lemma ReportStatus_ok:
  assumes "wf_tracker sm"
  shows "spost (\<lambda>(st, sm') s'. status_ok version mce sm st sm') (ReportStatus cl version mce sm s)"
proof -
  have entry: "\<exists>d. getCondition (setCondition (tr_Conditions sm) c) (cd_Type c) = Some d
      \<and> cd_Status d = cd_Status c" for c
    using getCondition_set_entry [of "tr_Conditions sm" c] assms
    by (auto simp: wf_tracker_def cond_core_def)
  have "status_ok version mce sm
      \<lparr>ms_Phase = reportPhase mce ccs (tr_Conditions (AddCondition c sm)), ms_Components = ccs,
       ms_Conditions = tr_Conditions (AddCondition c sm),
       ms_CurrentVersion = (if reportPhase mce ccs (tr_Conditions (AddCondition c sm)) = PhaseAvailable
         then version else ms_CurrentVersion (mce_Status mce)),
       ms_DesiredVersion = version\<rparr> (AddCondition c sm)"
    if "cd_Type c = MultiClusterEngineAvailable"
      "cd_Status c = (if allComponentsReady ccs then ConditionTrue else ConditionFalse)" for c ccs
    using that assms entry [of c]
    by (auto simp: status_ok_def AddCondition_def [of c sm] wf_tracker_def conditions.wf_put
        split: if_splits)
  then show ?thesis
    unfolding ReportStatus_def Let_def
    by (intro spost_bindI [where P = "\<lambda>ccs s'. True"] spost_bindI [where
          P = "\<lambda>c s'. cd_Type c = MultiClusterEngineAvailable
            \<and> cd_Status c = (if allComponentsReady _ then ConditionTrue else ConditionFalse)"])
      (auto simp: spost_iff cond_core_def NewCondition_def api_Now_def split_beta)
qed

text \<open>
  A reported status carries the operator's version as the desired one; the current version
  moves to it only when the reported phase is \<open>Available\<close> and is kept otherwise; the phase is the
  one computed from the reported components and conditions; and the \<open>Available\<close> condition is
  \<open>True\<close> exactly when all components are ready.
\<close>

theorem ReportStatus_versions:
  assumes "wf_tracker sm" "ReportStatus cl version mce sm s = Some ((st, sm'), s')"
  shows "ms_DesiredVersion st = version
    \<and> ms_CurrentVersion st = (if ms_Phase st = PhaseAvailable then version
                              else ms_CurrentVersion (mce_Status mce))
    \<and> ms_Phase st = reportPhase mce (ms_Components st) (ms_Conditions st)
    \<and> (\<exists>c. getCondition (ms_Conditions st) MultiClusterEngineAvailable = Some c
         \<and> (cd_Status c = ConditionTrue \<longleftrightarrow> allComponentsReady (ms_Components st)))
    \<and> wf_tracker sm'"
  using ReportStatus_ok [OF assms(1), of version mce cl s]
  unfolding assms(2) status_ok_def spost_Some split_conv by blast

theorem ReportStatus_versions_witness:
  "\<exists>st sm' s'. ReportStatus mem_client ''5.0.0'' sample_mce
      \<lparr>tr_UID = '''', tr_Components = [], tr_Conditions = []\<rparr> (start empty_mem)
        = Some ((st, sm'), s')
    \<and> ms_Phase st = PhaseProgressing \<and> ms_CurrentVersion st = '''' \<and> ms_DesiredVersion st = ''5.0.0''"
proof -
  let ?sm = "\<lparr>tr_UID = '''', tr_Components = [], tr_Conditions = []\<rparr> :: StatusTracker"
  have "wf_tracker ?sm" by (simp add: wf_tracker_def wf_reporters_def wf_conditions_def)
  note spec = ReportStatus_versions [OF this]
  obtain st sm' s' where run: "ReportStatus mem_client ''5.0.0'' sample_mce ?sm (start empty_mem)
      = Some ((st, sm'), s')" and phase: "ms_Phase st = PhaseProgressing"
    by (simp add: ReportStatus_def NewCondition_def api_Now_def allComponentsReady_def reportPhase_def
        AddCondition_def setCondition_def getCondition_def filterOutCondition_def Let_def
        mem_client_def start_def empty_mem_def sample_mce_def)
  have "ms_DesiredVersion st = ''5.0.0''" "ms_CurrentVersion st = ''''"
    using spec [OF run] phase by (simp_all add: sample_mce_def sample_status_def)
  with run phase show ?thesis by blast
qed

end
