(* ===== verification/Operator.thy ===== *)
theory Operator
  imports Image_Overrides Status_Tracker Tls
begin

text \<open>
  The surroundings of the reconciler: \<open>'w ctx\<close> collects the client, the constants of the running
  operator and the library functions the sources only call (JSON and YAML decoding, semantic
  versions, Helm, the template files on disk), and \<open>'w rstate\<close> is the mutable state of the
  reconciler process.
\<close>

section \<open>State\<close>

record CacheSpec =
  ca_ImageOverrides :: strmap
  ca_ImageOverridesCM :: string
  ca_ImageRepository :: string
  ca_TemplateOverrides :: strmap
  ca_TemplateOverridesCM :: string

text \<open>
  Besides the world and the trace: the status tracker, the process environment (which
  \<open>os.Setenv\<close> changes), the cache and the deprecated fields already reported.
\<close>

record 'w rstate = "'w kstate" +
  rs_Status :: StatusTracker
  rs_Env :: strmap
  rs_Cache :: CacheSpec
  rs_Deprecated :: "string list"

section \<open>Context\<close>

text \<open>The values handed to the Helm charts (\<open>Values\<close>, \<open>Global\<close>, \<open>HubConfig\<close>, \<open>ProbeConfig\<close>).\<close>

record ProbeConfig =
  pc_TimeoutSeconds :: "32 word option"
  pc_FailureThreshold :: "32 word option"
  pc_SuccessThreshold :: "32 word option"

record Global =
  gl_ImageOverrides :: strmap
  gl_Upgrading :: bool
  gl_EusUpgrading :: bool
  gl_TemplateOverrides :: strmap
  gl_PullPolicy :: string
  gl_PullSecret :: string
  gl_Namespace :: string
  gl_ConfigSecret :: string
  gl_DeployOnOCP :: bool
  gl_ServingCertCABundle :: string
  gl_NetworkPolicies :: bool

record HubConfig =
  hc_NodeSelector :: strmap
  hc_ProxyConfigs :: strmap
  hc_ReplicaCount :: int
  hc_Tolerations :: "Toleration list"
  hc_ProbeConfig :: "ProbeConfig option"
  hc_OCPVersion :: string
  hc_MCHNamespace :: string
  hc_ClusterIngressDomain :: string
  hc_HubType :: string
  hc_EnableFlightCtl :: bool
  hc_ConsoleURL :: string
  hc_LocalClusterName :: string

record Values =
  va_Global :: Global
  va_HubConfig :: HubConfig
  va_Org :: string
  va_EnableServiceProxy :: bool
  va_EnableKubeApiProxy :: bool
  va_EnableImpersonation :: bool

text \<open>
  What \<open>filepath.Walk\<close> reports: an error, a directory, or a file with its path, its base name and
  its content (\<^term>\<open>None\<close> when it cannot be read).
\<close>

datatype walk_event =
    WalkError go_error
  | WalkDir
  | WalkFile string string "string option"

text \<open>The specification of the \<open>ClusterManager\<close> resource that the operator fills in.\<close>

record ClusterManagerSpec =
  cms_RegistrationImagePullSpec :: string
  cms_WorkImagePullSpec :: string
  cms_PlacementImagePullSpec :: string
  cms_AddOnManagerImagePullSpec :: string
  cms_NodeSelector :: strmap
  cms_Tolerations :: "Toleration list"
  cms_DeployMode :: string
  cms_PlacementFeatureGates :: strmap
  cms_RegistrationFeatureGates :: strmap

record 'w ctx =
  cx_Client :: "'w client"
  cx_DeployOnOCP :: bool
  cx_Version :: string
  cx_OLMVersion :: string
  cx_SetUpgradeable :: "string \<Rightarrow> string \<Rightarrow> string \<Rightarrow> 'w \<Rightarrow> go_error option \<times> 'w"
  cx_Decoders :: decoders
  cx_UnmarshalStrings :: "string \<Rightarrow> string list resp"
  cx_NewVersion :: "string \<Rightarrow> go_error option"
  cx_NewConstraint :: "string \<Rightarrow> go_error option"
  cx_CheckVersion :: "string \<Rightarrow> string \<Rightarrow> bool"
  cx_Walk :: "string \<Rightarrow> walk_event list"
  cx_ReadDir :: "string \<Rightarrow> string list resp"
  cx_Yaml :: "string \<Rightarrow> kobj resp"
  cx_Helm :: "string \<Rightarrow> Values \<Rightarrow> (string \<times> string) list resp"
  cx_CABundle :: "string resp"
  cx_TLSProfiles :: "string \<Rightarrow> TLSProfileSpec option"
  cx_DecodeTLS :: "kobj \<Rightarrow> TLSSecurityProfile option"
  cx_RandomPassword :: "'w \<Rightarrow> string resp \<times> 'w"
  cx_SetControllerRef :: "MultiClusterEngine \<Rightarrow> kobj \<Rightarrow> owner_ref list resp"
  cx_RetrySteps :: nat
  cx_CreateOrUpdate :: "(kobj \<Rightarrow> kobj resp) \<Rightarrow> kobj \<Rightarrow> 'w \<Rightarrow> (api_call list \<times> go_error option) \<times> 'w"
  cx_EncodeClusterManager :: "ClusterManagerSpec \<Rightarrow> (string \<times> json) list"
  cx_MarshalSelector :: "strmap \<Rightarrow> string resp"
  cx_MarshalTolerations :: "Toleration list \<Rightarrow> string resp"

text \<open>
  \<open>cx_SetControllerRef\<close> is \<open>controllerutil.SetControllerReference\<close>: the owner references the object
  gets, or the error when another controller owns it.  \<open>cx_RetrySteps\<close> is the number of attempts of
  \<open>retry.DefaultRetry\<close>.  \<open>cx_CreateOrUpdate\<close> is \<open>controllerutil.CreateOrUpdate\<close> with its mutate
  function; it reports the requests it sent.  \<open>cx_EncodeClusterManager\<close> is the JSON encoding of the
  \<open>ClusterManager\<close> API type (whose field tags are not part of this repository), and the two
  \<open>Marshal\<close> functions are \<open>json.Marshal\<close> on a node selector and on tolerations.
\<close>

text \<open>The tracker operations on the reconciler's state.\<close>

definition add_component :: "StatusReporter \<Rightarrow> 'w rstate \<Rightarrow> 'w rstate" where
  "add_component sr s = s\<lparr>rs_Status := AddComponent sr (rs_Status s)\<rparr>"

definition remove_component :: "StatusReporter \<Rightarrow> 'w rstate \<Rightarrow> 'w rstate" where
  "remove_component sr s = s\<lparr>rs_Status := RemoveComponent sr (rs_Status s)\<rparr>"

definition add_condition :: "cond \<Rightarrow> 'w rstate \<Rightarrow> 'w rstate" where
  "add_condition c s = s\<lparr>rs_Status := AddCondition c (rs_Status s)\<rparr>"

text \<open>\<open>r.StatusManager.AddCondition(status.NewCondition(...))\<close>.\<close>

definition new_condition ::
  "'w ctx \<Rightarrow> string \<Rightarrow> string \<Rightarrow> string \<Rightarrow> string \<Rightarrow> ('w rstate, unit) go" where
  "new_condition cx ty st reason message s = do {
     (c, s) \<leftarrow> NewCondition (cx_Client cx) ty st reason message s;
     Some ((), add_condition c s)
   }"

lemma tracker_trace [simp]:
  "ks_Trace (add_component sr s) = ks_Trace s" "ks_Trace (remove_component sr s) = ks_Trace s"
  "ks_Trace (add_condition c s) = ks_Trace s"
  "ks_World (add_component sr s) = ks_World s" "ks_World (remove_component sr s) = ks_World s"
  "ks_World (add_condition c s) = ks_World s"
  by (simp_all add: add_component_def remove_component_def add_condition_def)

lemma emits_new_condition [emits_intro]:
  "ks_Trace s = t \<Longrightarrow> emits P t (new_condition cx ty st rs ms s)"
  by (auto simp: new_condition_def intro!: emits_intro)

section \<open>Version checks\<close>

abbreviation MinimumOCPVersion :: string where "MinimumOCPVersion \<equiv> ''4.10.0''"

definition ValidOCPVersion :: "'w ctx \<Rightarrow> strmap \<Rightarrow> string \<Rightarrow> go_error option" where
  "ValidOCPVersion cx env ocpVersion =
    (if sm_has env ''DISABLE_OCP_MIN_VERSION'' then None
     else
       (let c = ''>= '' @ MinimumOCPVersion @ ''-0''
        in case cx_NewConstraint cx c of
             Some e \<Rightarrow> Some e
           | None \<Rightarrow>
               (case cx_NewVersion cx ocpVersion of
                  Some e \<Rightarrow> Some e
                | None \<Rightarrow>
                    if \<not> cx_CheckVersion cx c ocpVersion
                    then Some (ErrorString (''OCP version '' @ ocpVersion
                      @ '' did not meet minimum version requirement of '' @ MinimumOCPVersion))
                    else None)))"

end
