(* ===== verification/Rendering.thy ===== *)
theory Rendering
  imports Operator
begin

text \<open>
  Rendering of the charts and CRDs, \<open>pkg/rendering/renderer.go\<close> and \<open>addon.go\<close>: the values
  injected into the charts, the labels and namespaces put on every rendered resource, and the CRD
  directories that are skipped.
\<close>

section \<open>Chart values\<close>

definition convertTolerations :: "Toleration list \<Rightarrow> Toleration list" where
  "convertTolerations tols =
    map (\<lambda>t. \<lparr>tol_Key = tol_Key t, tol_Operator = tol_Operator t, tol_Value = tol_Value t,
               tol_Effect = tol_Effect t, tol_TolerationSeconds = tol_TolerationSeconds t\<rparr>) tols"

text \<open>One probe annotation: absent, malformed, out of range and non-positive values are ignored.\<close>

definition probe_value :: "MultiClusterEngine \<Rightarrow> string \<Rightarrow> 32 word option" where
  "probe_value m key =
    (case map_of (mce_Annotations m) key of
       None \<Rightarrow> None
     | Some val \<Rightarrow>
         (case ParseInt 32 val of
            Inl e \<Rightarrow> None
          | Inr i \<Rightarrow> if i \<le> 0 then None else Some (word_of_int i)))"

definition parseProbeConfigFromAnnotations :: "MultiClusterEngine \<Rightarrow> ProbeConfig option" where
  "parseProbeConfigFromAnnotations m =
    (let timeout = probe_value m AnnotationProbeTimeoutSeconds;
         failure = probe_value m AnnotationProbeFailureThreshold;
         success = probe_value m AnnotationProbeSuccessThreshold
     in if timeout = None \<and> failure = None \<and> success = None then None
        else Some \<lparr>pc_TimeoutSeconds = timeout, pc_FailureThreshold = failure,
                   pc_SuccessThreshold = success\<rparr>)"

text \<open>The tolerations of the spec as a slice: a nil slice has no elements.\<close>

definition spec_tolerations :: "MultiClusterEngine \<Rightarrow> Toleration list" where
  "spec_tolerations m = (case sp_Tolerations (mce_Spec m) of None \<Rightarrow> [] | Some ts \<Rightarrow> ts)"

definition injectValuesOverrides ::
  "'w ctx \<Rightarrow> strmap \<Rightarrow> MultiClusterEngine \<Rightarrow> strmap \<Rightarrow> strmap \<Rightarrow> Values" where
  "injectValuesOverrides cx env m images templates =
    \<lparr>va_Global =
       \<lparr>gl_ImageOverrides = images,
        gl_Upgrading = IsUpgrading m,
        gl_EusUpgrading = IsEUSUpgrading m,
        gl_TemplateOverrides = templates,
        gl_PullPolicy = GetImagePullPolicy m,
        gl_PullSecret = sp_ImagePullSecret (mce_Spec m),
        gl_Namespace = sp_TargetNamespace (mce_Spec m),
        gl_ConfigSecret =
          (if IsInHostedMode m
           then (case GetHostedCredentialsSecret m of Inl _ \<Rightarrow> '''' | Inr n \<Rightarrow> snd n) else ''''),
        gl_DeployOnOCP = cx_DeployOnOCP cx,
        gl_ServingCertCABundle =
          (if cx_DeployOnOCP cx then ''''
           else (case cx_CABundle cx of Inl _ \<Rightarrow> '''' | Inr b \<Rightarrow> base64 b)),
        gl_NetworkPolicies =
          (case sp_NetworkPolicies (mce_Spec m) of None \<Rightarrow> True | Some np \<Rightarrow> np_Enabled np)\<rparr>,
     va_HubConfig =
       \<lparr>hc_NodeSelector = sp_NodeSelector (mce_Spec m),
        hc_ProxyConfigs =
          (if ProxyEnvVarsAreSet env
           then [(''HTTP_PROXY'', sm_get env ''HTTP_PROXY''),
                 (''HTTPS_PROXY'', sm_get env ''HTTPS_PROXY''),
                 (''NO_PROXY'', sm_get env ''NO_PROXY'')]
           else []),
        hc_ReplicaCount = DefaultReplicaCount m,
        hc_Tolerations =
          (if spec_tolerations m \<noteq> [] then convertTolerations (spec_tolerations m)
           else convertTolerations DefaultTolerations),
        hc_ProbeConfig = parseProbeConfigFromAnnotations m,
        hc_OCPVersion = sm_get env ''ACM_HUB_OCP_VERSION'',
        hc_MCHNamespace = GetMCHNamespace m,
        hc_ClusterIngressDomain = sm_get env ''ACM_CLUSTER_INGRESS_DOMAIN'',
        hc_HubType = GetHubType env m,
        hc_EnableFlightCtl = (GetEdgeManagerEnabled m = ''true''),
        hc_ConsoleURL = sm_get env ''ACM_HUB_CONSOLE_URL'',
        hc_LocalClusterName = sp_LocalClusterName (mce_Spec m)\<rparr>,
     va_Org = ''open-cluster-management'',
     va_EnableServiceProxy = True,
     va_EnableKubeApiProxy = False,
     va_EnableImpersonation = True\<rparr>"

section \<open>Charts\<close>

definition namespaced_kinds :: "string list" where
  "namespaced_kinds =
    [''Deployment'', ''ServiceAccount'', ''Role'', ''RoleBinding'', ''Service'', ''ConfigMap'',
     ''Route'', ''NetworkPolicy'']"

text \<open>What happens to one decoded template: its label, and the namespace of namespaced kinds.\<close>

definition finish_template :: "MultiClusterEngine \<Rightarrow> kobj \<Rightarrow> kobj" where
  "finish_template m u =
    (let u = AddBackplaneConfigLabels (mce_Name m) u
     in if ko_Kind u \<in> set namespaced_kinds
        then u\<lparr>ko_Namespace := sp_TargetNamespace (mce_Spec m)\<rparr> else u)"

fun convert_templates ::
  "'w ctx \<Rightarrow> MultiClusterEngine \<Rightarrow> (string \<times> string) list \<Rightarrow> kobj list resp" where
  "convert_templates cx m [] = Inr []"
| "convert_templates cx m ((fileName, templateFile) # rest) =
    (if templateFile = '''' then convert_templates cx m rest
     else case cx_Yaml cx templateFile of
       Inl e \<Rightarrow> Inl (ErrorString (''error converting file '' @ fileName @ '' to unstructured''))
     | Inr u \<Rightarrow>
         (if ko_Kind u = '''' then convert_templates cx m rest
          else (case convert_templates cx m rest of
                  Inl e \<Rightarrow> Inl e
                | Inr us \<Rightarrow> Inr (finish_template m u # us))))"

text \<open>
  The list of errors these functions return has at most one element.  \<open>strmap\<close> arguments are the
  environment, the image overrides and the template overrides.
\<close>

definition renderTemplates ::
  "'w ctx \<Rightarrow> strmap \<Rightarrow> string \<Rightarrow> MultiClusterEngine \<Rightarrow> strmap \<Rightarrow> strmap \<Rightarrow> kobj list resp" where
  "renderTemplates cx env chartPath m images templateOverrides =
    (case cx_Helm cx chartPath (injectValuesOverrides cx env m images templateOverrides) of
       Inl e \<Rightarrow> Inl e
     | Inr raw \<Rightarrow> convert_templates cx m raw)"

definition override_dir :: "strmap \<Rightarrow> string \<Rightarrow> string" where
  "override_dir env dir =
    (case map_of env ''DIRECTORY_OVERRIDE'' of None \<Rightarrow> dir | Some val \<Rightarrow> path_Join [val, dir])"

definition RenderChart ::
  "'w ctx \<Rightarrow> strmap \<Rightarrow> string \<Rightarrow> MultiClusterEngine \<Rightarrow> strmap \<Rightarrow> strmap \<Rightarrow> kobj list resp" where
  "RenderChart cx env chartPath m images templates =
    renderTemplates cx env (override_dir env chartPath) m images templates"

definition RenderChartWithNamespace ::
  "'w ctx \<Rightarrow> strmap \<Rightarrow> string \<Rightarrow> MultiClusterEngine \<Rightarrow> strmap \<Rightarrow> strmap \<Rightarrow> string \<Rightarrow> kobj list resp" where
  "RenderChartWithNamespace cx env chartPath m images templates namespace =
    RenderChart cx env chartPath (m\<lparr>mce_Spec := (mce_Spec m)\<lparr>sp_TargetNamespace := namespace\<rparr>\<rparr>)
      images templates"

fun render_all ::
  "'w ctx \<Rightarrow> strmap \<Rightarrow> string \<Rightarrow> string list \<Rightarrow> MultiClusterEngine \<Rightarrow> strmap \<Rightarrow> strmap \<Rightarrow> kobj list resp" where
  "render_all cx env dir [] m images templates = Inr []"
| "render_all cx env dir (c # cs) m images templates =
    (case renderTemplates cx env (path_Join [dir, c]) m images templates of
       Inl e \<Rightarrow> Inl e
     | Inr us \<Rightarrow>
         (case render_all cx env dir cs m images templates of
            Inl e \<Rightarrow> Inl e
          | Inr vs \<Rightarrow> Inr (us @ vs)))"

text \<open>A failing \<open>ReadDir\<close> leaves no charts; its error is recorded but not returned by the code.\<close>

definition RenderCharts ::
  "'w ctx \<Rightarrow> strmap \<Rightarrow> string \<Rightarrow> MultiClusterEngine \<Rightarrow> strmap \<Rightarrow> strmap \<Rightarrow> kobj list resp" where
  "RenderCharts cx env chartDir m images templateOverrides =
    (let dir = override_dir env chartDir;
         charts = (case cx_ReadDir cx dir of Inl e \<Rightarrow> [] | Inr cs \<Rightarrow> cs)
     in render_all cx env dir charts m images templateOverrides)"

section \<open>CRDs\<close>

abbreviation conversion_path :: "string list" where
  "conversion_path \<equiv> [''spec'', ''conversion'', ''webhook'', ''clientConfig'', ''service'']"

definition set_conversion_namespace :: "MultiClusterEngine \<Rightarrow> kobj \<Rightarrow> kobj" where
  "set_conversion_namespace m crd =
    (case nested (ko_Content crd) conversion_path of
       Some (Some (JObject _)) \<Rightarrow>
         (case set_nested (ko_Content crd) (conversion_path @ [''namespace''])
                 (JString (sp_TargetNamespace (mce_Spec m))) of
            Some c \<Rightarrow> crd\<lparr>ko_Content := c\<rparr>
          | None \<Rightarrow> crd)
     | _ \<Rightarrow> crd)"

definition empty_obj :: kobj where
  "empty_obj = mk_obj (mk_gvk '''' '''' '''') '''' ''''"

text \<open>
  Whether a file is to be skipped: the directory of its path relative to the CRD directory is one of the
  given ones.  A path that is not below the directory is not skipped.
\<close>

definition skipped_crd :: "string \<Rightarrow> string list \<Rightarrow> string \<Rightarrow> bool" where
  "skipped_crd crdDir skipDirs filePath =
    list_ex (\<lambda>skipDir.
      (case filepath_Rel crdDir filePath of
         Inl _ \<Rightarrow> False
       | Inr relPath \<Rightarrow> filepath_Dir relPath = skipDir)) skipDirs"

text \<open>
  The walk over the CRD files: \<^term>\<open>None\<close> is the panic of \<open>err.Error()\<close> on a nil error when a
  file cannot be read; a walk error stops the walk and is not reported; a file that is no YAML is
  reported and still contributes an empty object.
\<close>

fun walk_crds ::
  "'w ctx \<Rightarrow> MultiClusterEngine option \<Rightarrow> string \<Rightarrow> string list \<Rightarrow> walk_event list
    \<Rightarrow> kobj list \<times> go_error list \<Rightarrow> (kobj list \<times> go_error list) option" where
  "walk_crds cx m crdDir skipDirs [] acc = Some acc"
| "walk_crds cx m crdDir skipDirs (WalkError e # ws) acc = Some acc"
| "walk_crds cx m crdDir skipDirs (WalkDir # ws) acc = walk_crds cx m crdDir skipDirs ws acc"
| "walk_crds cx m crdDir skipDirs (WalkFile filePath name content # ws) (crds, errs) =
    (if skipped_crd crdDir skipDirs filePath then walk_crds cx m crdDir skipDirs ws (crds, errs)
     else case content of
       None \<Rightarrow> None
     | Some bytes \<Rightarrow>
         (let (crd, errs) =
            (case cx_Yaml cx bytes of
               Inl e \<Rightarrow> (empty_obj, errs @ [ErrorString (name
                          @ '' - error unmarshalling file to unstructured: '' @ err_msg e)])
             | Inr u \<Rightarrow> (u, errs));
            crd = (case m of None \<Rightarrow> crd | Some m \<Rightarrow> set_conversion_namespace m crd)
          in walk_crds cx m crdDir skipDirs ws (crds @ [crd], errs)))"

definition RenderCRDs ::
  "'w ctx \<Rightarrow> strmap \<Rightarrow> string \<Rightarrow> MultiClusterEngine option \<Rightarrow> string list
    \<Rightarrow> (kobj list \<times> go_error list) option" where
  "RenderCRDs cx env crdDir m skipDirs =
    (let crdDir = override_dir env crdDir
     in walk_crds cx m crdDir skipDirs (cx_Walk cx crdDir) ([], []))"

section \<open>The HyperShift add-on\<close>

definition RenderHypershiftAddon :: "MultiClusterEngine \<Rightarrow> kobj" where
  "RenderHypershiftAddon m =
    AddBackplaneConfigLabels (mce_Name m)
      ((mk_obj managedClusterAddOnGVK (sp_LocalClusterName (mce_Spec m)) ''hypershift-addon'')
         \<lparr>ko_Content := [(''spec'', JObject
            [(''installNamespace'', JString ''open-cluster-management-agent-addon'')])]\<rparr>)"

section \<open>Properties\<close>

lemma finish_template_simps [simp]:
  "ko_Kind (finish_template m u) = ko_Kind u"
  "sm_get (ko_Labels (finish_template m u)) ''backplaneconfig.name'' = mce_Name m"
  "ko_Kind u \<in> set namespaced_kinds \<Longrightarrow>
     ko_Namespace (finish_template m u) = sp_TargetNamespace (mce_Spec m)"
  by (simp_all add: finish_template_def AddBackplaneConfigLabels_def sm_get_put Let_def)

lemma convert_templates_set:
  "convert_templates cx m raw = Inr us \<Longrightarrow> u \<in> set us \<Longrightarrow>
    \<exists>v. u = finish_template m v \<and> ko_Kind v \<noteq> ''''"
  by (induction cx m raw arbitrary: us rule: convert_templates.induct)
    (auto split: if_splits sum.splits)

lemma RenderChart_set:
  "RenderChart cx env path m images templates = Inr us \<Longrightarrow> u \<in> set us \<Longrightarrow>
    \<exists>v. u = finish_template m v \<and> ko_Kind v \<noteq> ''''"
  by (auto simp: RenderChart_def renderTemplates_def split: sum.splits intro: convert_templates_set)

text \<open>
  C33: Every resource a chart renders to has a kind, carries the label with the engine's name, by which
  the operator later recognises what it owns, and lies in the target namespace if its kind is one of
  the namespaced kinds.
\<close>

theorem RenderChart_owned:
  assumes "RenderChart cx env path m images templates = Inr us" "u \<in> set us"
  shows "ko_Kind u \<noteq> '''' \<and> sm_get (ko_Labels u) ''backplaneconfig.name'' = mce_Name m
    \<and> (ko_Kind u \<in> set namespaced_kinds \<longrightarrow> ko_Namespace u = sp_TargetNamespace (mce_Spec m))"
  using RenderChart_set [OF assms] by auto

definition sample_ctx :: "mem ctx" where
  "sample_ctx =
    \<lparr>cx_Client = mem_client, cx_DeployOnOCP = True, cx_Version = ''5.0.0'', cx_OLMVersion = ''v0'',
     cx_SetUpgradeable = (\<lambda>_ _ _ w. (None, w)),
     cx_Decoders = sample_decoders,
     cx_UnmarshalStrings = (\<lambda>v. if v = ''x'' then Inr [Hive] else Inl (ErrorString ''bad json'')),
     cx_NewVersion = (\<lambda>_. None), cx_NewConstraint = (\<lambda>_. None), cx_CheckVersion = (\<lambda>_ _. True),
     cx_Walk = (\<lambda>_. [WalkDir, WalkFile ''pkg/templates/crds/hive-operator/a.yaml'' ''a.yaml'' (Some ''a''),
       WalkFile ''pkg/templates/crds/discovery-operator/b.yaml'' ''b.yaml'' (Some ''b'')]),
     cx_ReadDir = (\<lambda>_. Inl (ErrorString ''no such directory'')),
     cx_Yaml = (\<lambda>y. Inr (mk_obj (mk_gvk ''apps'' ''v1'' ''Deployment'') '''' y)),
     cx_Helm = (\<lambda>path vals. Inr [(''deploy.yaml'', ''web''), (''empty.yaml'', '''')]),
     cx_CABundle = Inr ''ca'',
     cx_TLSProfiles = (\<lambda>_. None), cx_DecodeTLS = (\<lambda>_. None),
     cx_RandomPassword = (\<lambda>w. (Inr ''pw'', w)),
     cx_SetControllerRef = (\<lambda>m u. Inr (ko_OwnerRefs u @
       [\<lparr>or_APIVersion = ''multicluster.openshift.io/v1'', or_Kind = ''MultiClusterEngine'',
         or_Name = mce_Name m, or_UID = mce_UID m, or_Controller = Some True,
         or_BlockOwnerDeletion = Some True\<rparr>])),
     cx_RetrySteps = 5,
     cx_CreateOrUpdate = (\<lambda>f u w. (case f u of Inl e \<Rightarrow> (([], Some e), w)
       | Inr v \<Rightarrow>
           if ko_GVK v = ko_GVK u \<and> ko_key v = ko_key u then (([CCreate v], None), w)
           else (([], Some (ErrorString ''mutate changed the key'')), w))),
     cx_EncodeClusterManager = (\<lambda>c. []),
     cx_MarshalSelector = (\<lambda>_. Inr ''{}''), cx_MarshalTolerations = (\<lambda>_. Inr ''[]'')\<rparr>"

theorem RenderChart_owned_witness:
  "\<exists>us u. RenderChart sample_ctx [] ''charts/x'' sample_mce [] [] = Inr us \<and> u \<in> set us
    \<and> ko_Kind u = ''Deployment'' \<and> ko_Namespace u = ''mce''
    \<and> sm_get (ko_Labels u) ''backplaneconfig.name'' = ''engine''"
proof -
  let ?u = "finish_template sample_mce (mk_obj (mk_gvk ''apps'' ''v1'' ''Deployment'') '''' ''web'')"
  have run: "RenderChart sample_ctx [] ''charts/x'' sample_mce [] [] = Inr [?u]"
    by (simp add: RenderChart_def renderTemplates_def sample_ctx_def override_dir_def mk_obj_def
        mk_gvk_def)
  have kind: "ko_Kind ?u = ''Deployment''" by (simp add: mk_obj_def mk_gvk_def)
  then have "ko_Kind ?u \<in> set namespaced_kinds" by (simp add: namespaced_kinds_def)
  with RenderChart_owned [OF run, of ?u] kind run show ?thesis
    by (auto simp: sample_mce_def sample_spec_def)
qed

text \<open>
  A tree of files as \<open>filepath.Walk\<close> reports it below a root: directories, and files by the directories
  that lead to them, their name and content.
\<close>

type_synonym crd_file = "string list \<times> string \<times> string option"

fun tree_event :: "string \<Rightarrow> crd_file option \<Rightarrow> walk_event" where
  "tree_event root None = WalkDir"
| "tree_event root (Some (dirs, name, content)) = WalkFile (root @ ''/'' @ join ''/'' (dirs @ [name])) name content"

definition plain_file :: "crd_file option \<Rightarrow> bool" where
  "plain_file f = (case f of None \<Rightarrow> True | Some (dirs, name, c) \<Rightarrow> list_all plain_name (dirs @ [name]))"

definition kept_file :: "string list \<Rightarrow> crd_file option \<Rightarrow> bool" where
  "kept_file skip f = (case f of None \<Rightarrow> True
     | Some (dirs, name, c) \<Rightarrow> (if dirs = [] then ''.'' else join ''/'' dirs) \<notin> set skip)"

lemma skipped_below:
  assumes "clean_dir root bs" "list_all plain_name (dirs @ [name])"
  shows "skipped_crd root skip (root @ ''/'' @ join ''/'' (dirs @ [name]))
    \<longleftrightarrow> (if dirs = [] then ''.'' else join ''/'' dirs) \<in> set skip"
  using Rel_below [OF assms] Dir_below [of dirs name] assms(2)
  by (auto simp: skipped_crd_def list_ex_iff)

lemma walk_crds_kept:
  assumes "clean_dir root bs" "list_all plain_file tree"
  shows "walk_crds cx m root skip (map (tree_event root) tree) acc =
    walk_crds cx m root [] (map (tree_event root) (filter (kept_file skip) tree)) acc"
  using assms(2)
proof (induction tree arbitrary: acc)
  case (Cons f tree)
  show ?case
  proof (cases f)
    case (Some x)
    obtain dirs name content crds errs where x: "x = (dirs, name, content)" "acc = (crds, errs)"
      by (metis prod_cases3 surj_pair)
    have "skipped_crd root skip (root @ ''/'' @ join ''/'' (dirs @ [name])) \<longleftrightarrow> \<not> kept_file skip f"
      using skipped_below [OF assms(1), of dirs name skip] Cons.prems Some x(1)
      by (simp add: plain_file_def kept_file_def)
    moreover have "\<not> skipped_crd root [] path" for path by (simp add: skipped_crd_def)
    ultimately show ?thesis
      using Cons Some x by (cases content) (auto simp: Let_def split_beta split: sum.splits)
  qed (use Cons in \<open>simp add: kept_file_def\<close>)
qed simp

text \<open>
  C34: Rendering the CRDs with a list of skipped directories is rendering the tree from which exactly those
  files were removed whose directory, as a path relative to the CRD directory, is in the list: such a
  file is not read, decoded or applied, and every other file is rendered as before, those in a
  subdirectory of a skipped directory and those in a directory of the same name elsewhere included.  The paths
  are computed as \<open>filepath.Rel\<close> and \<open>filepath.Dir\<close> do.  Holds for a CRD directory without empty, \<open>.\<close> and \<open>..\<close>
  elements, relative or absolute, below which \<open>filepath.Walk\<close> reports files by their joined path.
\<close>

theorem RenderCRDs_skip:
  assumes "clean_dir (override_dir env dir) bs" "list_all plain_file tree"
    and "cx_Walk cx (override_dir env dir) = map (tree_event (override_dir env dir)) tree"
  shows "RenderCRDs cx env dir m skip =
    RenderCRDs (cx\<lparr>cx_Walk := \<lambda>root. map (tree_event root) (filter (kept_file skip) tree)\<rparr>) env dir m []"
proof -
  have "walk_crds (cx\<lparr>cx_Walk := f\<rparr>) m d sk ws acc = walk_crds cx m d sk ws acc" for f d sk ws acc
  proof (induction cx m d sk ws acc rule: walk_crds.induct)
    case (4 cx m d skip path name content ws crds errs)
    then show ?case
      by (cases "skipped_crd d skip path"; cases content) (auto simp: Let_def split_beta split: sum.splits)
  qed auto
  then show ?thesis
    using walk_crds_kept [OF assms(1,2)] unfolding RenderCRDs_def Let_def by (simp add: assms(3))
qed

text \<open>The skipped directory \<open>hive-operator\<close>, beside a subdirectory of it.\<close>

abbreviation sample_tree :: "crd_file option list" where
  "sample_tree \<equiv> [None, Some ([''hive-operator''], ''a.yaml'', Some ''a''),
     Some ([''hive-operator'', ''old''], ''b.yaml'', Some ''b'')]"

theorem RenderCRDs_skip_witness:
  "RenderCRDs (sample_ctx\<lparr>cx_Walk := \<lambda>root. map (tree_event root) sample_tree\<rparr>) [] ''pkg/templates/crds'' None [''hive-operator'']
    = RenderCRDs (sample_ctx\<lparr>cx_Walk := \<lambda>root. map (tree_event root) [None, Some ([''hive-operator'', ''old''], ''b.yaml'', Some ''b'')]\<rparr>)
        [] ''pkg/templates/crds'' None []"
proof -
  let ?cx = "sample_ctx\<lparr>cx_Walk := \<lambda>root. map (tree_event root) sample_tree\<rparr>"
  have "clean_dir (override_dir [] ''pkg/templates/crds'') [''pkg'', ''templates'', ''crds'']"
    by (simp add: clean_dir_def override_dir_def plain_name_def)
  moreover have "list_all plain_file sample_tree" by (simp add: plain_file_def plain_name_def)
  ultimately have "RenderCRDs ?cx [] ''pkg/templates/crds'' None [''hive-operator'']
      = RenderCRDs (?cx\<lparr>cx_Walk := \<lambda>root. map (tree_event root) (filter (kept_file [''hive-operator'']) sample_tree)\<rparr>)
          [] ''pkg/templates/crds'' None []"
    by (rule RenderCRDs_skip) simp
  then show ?thesis by (simp add: kept_file_def)
qed

lemma probe_value_Some:
  assumes "probe_value m key = Some w"
  obtains val i where "map_of (mce_Annotations m) key = Some val" "ParseInt 32 val = Inr i"
    "0 < i" "i < 2 ^ 31" "w = word_of_int i"
  using assms ParseInt_range [of 32]
  by (fastforce simp: probe_value_def split: option.splits sum.splits if_splits)

text \<open>
  C40: A probe setting taken from an annotation is exactly the decimal number in the annotation, and is
  between 1 and the largest 32 bit signed integer: the conversion to \<open>int32\<close> never wraps.
\<close>

theorem probe_value_bounds:
  assumes "probe_value m key = Some w"
  shows "\<exists>val. map_of (mce_Annotations m) key = Some val \<and> ParseInt 32 val = Inr (sint w)
    \<and> 1 \<le> sint w \<and> sint w \<le> 2 ^ 31 - 1"
proof -
  obtain val i where *: "map_of (mce_Annotations m) key = Some val" "ParseInt 32 val = Inr i"
    "0 < i" "i < 2 ^ 31" "w = word_of_int i"
    using assms by (rule probe_value_Some)
  have "sint w = signed_take_bit 31 i" using *(5) by (simp add: sint_sbintrunc')
  also have "\<dots> = i" using *(3,4) by (intro signed_take_bit_int_eq_self) auto
  finally show ?thesis using * by auto
qed

theorem probe_value_bounds_witness:
  "probe_value (sample_mce\<lparr>mce_Annotations := [(''k'', ''30'')]\<rparr>) ''k'' = Some 30
   \<and> (\<exists>val. ParseInt 32 val = Inr (sint (30 :: 32 word)))"
proof -
  have "probe_value (sample_mce\<lparr>mce_Annotations := [(''k'', ''30'')]\<rparr>) ''k'' = Some 30"
    by (simp add: probe_value_def ParseInt_def parse_digits_def is_digit_def digit_val_def Let_def)
  with probe_value_bounds [OF this] show ?thesis by blast
qed

lemma RenderCharts_missing_dir:
  assumes "cx_ReadDir cx (override_dir env dir) = Inl e"
  shows "RenderCharts cx env dir m images templates = Inr []"
  using assms by (simp add: RenderCharts_def Let_def)

end
