(* ===== verification/Component_Config.thy ===== *)
theory Component_Config
  imports Rendering
begin

text \<open>
  Per-component configuration in \<open>controllers/backplaneconfig_controller.go\<close>: lookup of component and
  deployment overrides, externally managed components, the CRD directories to skip, the chart of a
  component, and the environment overrides injected into deployments.
\<close>

section \<open>Lookups\<close>

definition getComponentConfig :: "ComponentConfig list \<Rightarrow> string \<Rightarrow> ComponentConfig option" where
  "getComponentConfig components componentName =
    List.find (\<lambda>c. cc_Name c = componentName) components"

definition getDeploymentConfig :: "DeploymentConfig list \<Rightarrow> string \<Rightarrow> DeploymentConfig option" where
  "getDeploymentConfig deployments deploymentName =
    List.find (\<lambda>d. dc_Name d = deploymentName) deployments"

section \<open>Externally managed components\<close>

text \<open>
  The list in the annotation: \<^term>\<open>None\<close> when the annotation is absent, empty or no JSON array of
  strings.
\<close>

definition externally_managed :: "'w ctx \<Rightarrow> MultiClusterEngine \<Rightarrow> string list option" where
  "externally_managed cx m =
    (case map_of (mce_Annotations m) AnnotationExternallyManaged of
       None \<Rightarrow> None
     | Some managedComponents \<Rightarrow>
         if managedComponents = '''' then None
         else (case cx_UnmarshalStrings cx managedComponents of Inl e \<Rightarrow> None | Inr cs \<Rightarrow> Some cs))"

definition isComponentExternallyManaged :: "'w ctx \<Rightarrow> MultiClusterEngine \<Rightarrow> string \<Rightarrow> bool" where
  "isComponentExternallyManaged cx m componentName =
    (case externally_managed cx m of None \<Rightarrow> False | Some cs \<Rightarrow> list_ex (\<lambda>c. c = componentName) cs)"

text \<open>The loop that appends the CRD directories of some components, each directory once.\<close>

fun add_dirs :: "string list \<Rightarrow> string list \<Rightarrow> string list" where
  "add_dirs skipDirs [] = skipDirs"
| "add_dirs skipDirs (d # ds) =
    (if d \<in> set skipDirs then add_dirs skipDirs ds else add_dirs (skipDirs @ [d]) ds)"

fun collect_dirs :: "string list \<Rightarrow> string list \<Rightarrow> string list" where
  "collect_dirs skipDirs [] = skipDirs"
| "collect_dirs skipDirs (c # cs) =
    collect_dirs (add_dirs skipDirs (ComponentCRDDirectories c)) cs"

definition getExternallyManagedCRDSkipDirectories :: "'w ctx \<Rightarrow> MultiClusterEngine \<Rightarrow> string list" where
  "getExternallyManagedCRDSkipDirectories cx m =
    (case externally_managed cx m of None \<Rightarrow> [] | Some cs \<Rightarrow> collect_dirs [] cs)"

definition capi_components :: "string list" where
  "capi_components =
    [ClusterAPI, ClusterAPIProviderAWS, ClusterAPIProviderAzurePreview, ClusterAPIProviderMetal,
     ClusterAPIProviderOA]"

definition getDisabledComponentCRDSkipDirectories :: "'w ctx \<Rightarrow> MultiClusterEngine \<Rightarrow> string list" where
  "getDisabledComponentCRDSkipDirectories cx m =
    collect_dirs []
      (filter (\<lambda>c. \<not> (Enabled m c \<or> isComponentExternallyManaged cx m c)) capi_components)"

definition getPlatformSpecificCRDSkipDirectories :: "'w ctx \<Rightarrow> string list" where
  "getPlatformSpecificCRDSkipDirectories cx =
    (if cx_DeployOnOCP cx
     then [ClusterAPIK8SCRDDir, ClusterAPIProviderMetalK8SCRDDir, ClusterAPIProviderOAK8SCRDDir,
           ClusterAPIProviderAzureK8SCRDDir]
     else [ClusterAPICRDDir, ClusterAPIProviderMetalCRDDir, ClusterAPIProviderOACRDDir,
           ClusterAPIProviderAzureCRDDir])"

text \<open>The merged list of \<open>Reconcile\<close> (a map, hence no duplicates and no order).\<close>

definition mergedSkipCRDDirs :: "'w ctx \<Rightarrow> MultiClusterEngine \<Rightarrow> string list" where
  "mergedSkipCRDDirs cx m =
    remdups (getExternallyManagedCRDSkipDirectories cx m
      @ getDisabledComponentCRDSkipDirectories cx m @ getPlatformSpecificCRDSkipDirectories cx)"

definition isValidComponent :: "string \<Rightarrow> bool" where
  "isValidComponent componentName = (componentName \<in> set AllComponents)"

text \<open>\<open>checkExternallyManagedComponents\<close>: the condition is dropped or set.\<close>

definition drop_external_condition :: "'w rstate \<Rightarrow> 'w rstate" where
  "drop_external_condition s =
    s\<lparr>rs_Status := (rs_Status s)\<lparr>tr_Conditions :=
        FilterOutConditionWithSubString (tr_Conditions (rs_Status s))
          MultiClusterEngineComponentsExternallyManaged\<rparr>\<rparr>"

definition external_message :: "string list \<Rightarrow> string list \<Rightarrow> string" where
  "external_message valid invalid =
    ''The following components are externally managed and will not be reconciled by MCE: ''
    @ join '', '' valid @ ''. To allow MCE to manage these components again, remove them from the ''
    @ [CHR 0x22] @ AnnotationExternallyManaged @ [CHR 0x22] @ '' annotation.''
    @ (if invalid \<noteq> []
       then '' Note: The following invalid component names were ignored: '' @ join '', '' invalid @ ''.''
       else '''')"

definition checkExternallyManagedComponents ::
  "'w ctx \<Rightarrow> MultiClusterEngine \<Rightarrow> ('w rstate, unit) go" where
  "checkExternallyManagedComponents cx m s =
    (case externally_managed cx m of
       None \<Rightarrow> Some ((), drop_external_condition s)
     | Some components \<Rightarrow>
         (let valid = filter isValidComponent components;
              invalid = filter (\<lambda>c. \<not> isValidComponent c) components
          in if components = [] \<or> valid = [] then Some ((), drop_external_condition s)
             else new_condition cx MultiClusterEngineComponentsExternallyManaged ConditionTrue
               ExternalManagementReason (external_message valid invalid) s))"

section \<open>Charts\<close>

abbreviation toggle_dir :: "string \<Rightarrow> string" where
  "toggle_dir c \<equiv> ''pkg/templates/charts/toggle/'' @ c"

definition chartDirs :: "bool \<Rightarrow> strmap" where
  "chartDirs deployOnOCP =
    [(AssistedService, toggle_dir ''assisted-service''),
     (ClusterAPI, toggle_dir (if deployOnOCP then ''cluster-api'' else ''cluster-api-k8s'')),
     (ClusterAPIProviderAWS, toggle_dir ''cluster-api-provider-aws''),
     (ClusterAPIProviderAzurePreview, toggle_dir (if deployOnOCP then ''cluster-api-provider-azure''
        else ''cluster-api-provider-azure-k8s'')),
     (ClusterAPIProviderMetal, toggle_dir (if deployOnOCP then ''cluster-api-provider-metal3''
        else ''cluster-api-provider-metal3-k8s'')),
     (ClusterAPIProviderOA, toggle_dir (if deployOnOCP then ''cluster-api-provider-openshift-assisted''
        else ''cluster-api-provider-openshift-assisted-k8s'')),
     (ClusterLifecycle, toggle_dir ''cluster-lifecycle''),
     (ClusterManager, toggle_dir ''cluster-manager''),
     (ClusterPermission, toggle_dir ''cluster-permission''),
     (ClusterProxyAddon, toggle_dir ''cluster-proxy-addon''),
     (ConsoleMCE, toggle_dir ''console-mce''),
     (Discovery, toggle_dir ''discovery-operator''),
     (FleetNavigation, toggle_dir ''fleet-navigation''),
     (Hive, toggle_dir ''hive-operator''),
     (HyperShift, toggle_dir ''hypershift''),
     (ImageBasedInstallOperator, toggle_dir ''image-based-install-operator''),
     (ManagedServiceAccount, toggle_dir ''managed-serviceaccount''),
     (ServerFoundation, toggle_dir ''server-foundation''),
     (MaestroPreview, toggle_dir ''maestro'')]"

definition fetchChartOrCRDPath :: "'w ctx \<Rightarrow> string \<Rightarrow> string" where
  "fetchChartOrCRDPath cx c =
    (case map_of (chartDirs (cx_DeployOnOCP cx)) c of
       Some dir \<Rightarrow> dir
     | None \<Rightarrow> ''/chart/toggle/'' @ c)"

section \<open>Deployment overrides\<close>

abbreviation containers_path :: "string list" where
  "containers_path \<equiv> [''spec'', ''template'', ''spec'', ''containers'']"

definition env_json :: "EnvConfig \<Rightarrow> json" where
  "env_json e = JObject [(''name'', JString (ec_Name e)), (''value'', JString (ec_Value e))]"

text \<open>
  The loop over the containers: the first one of that name gets the variables appended to its
  \<open>env\<close> list.  A container before it that is no object makes the type assertion panic.
\<close>

definition append_env :: "EnvConfig list \<Rightarrow> (string \<times> json) list \<Rightarrow> (string \<times> json) list" where
  "append_env envs c =
    AList.update ''env''
      (JArray ((case map_of c ''env'' of Some (JArray es) \<Rightarrow> es | _ \<Rightarrow> []) @ map env_json envs)) c"

fun update_container :: "string \<Rightarrow> EnvConfig list \<Rightarrow> json list \<Rightarrow> json list option" where
  "update_container name envs [] = Some []"
| "update_container name envs (JObject c # cs) =
    (if map_of c ''name'' = Some (JString name) then Some (JObject (append_env envs c) # cs)
     else map_option (\<lambda>cs. JObject c # cs) (update_container name envs cs))"
| "update_container name envs (_ # cs) = None"

text \<open>A missing containers list is left alone; one of another type is an error.\<close>

definition applyEnvConfig :: "kobj \<Rightarrow> string \<Rightarrow> EnvConfig list \<Rightarrow> kobj resp option" where
  "applyEnvConfig template containerName envConfigs =
    (case nested (ko_Content template) containers_path of
       None \<Rightarrow> Some (Inr template)
     | Some (Some (JArray containers)) \<Rightarrow> do {
         cs \<leftarrow> update_container containerName envConfigs containers;
         case set_nested (ko_Content template) containers_path (JArray cs) of
           None \<Rightarrow> Some (Inl (ErrorString ''value cannot be set''))
         | Some content \<Rightarrow> Some (Inr (template\<lparr>ko_Content := content\<rparr>))
       }
     | Some _ \<Rightarrow> Some (Inl (ErrorString ''accessor error'')))"

fun apply_containers :: "kobj \<Rightarrow> ContainerConfig list \<Rightarrow> kobj resp option" where
  "apply_containers template [] = Some (Inr template)"
| "apply_containers template (c # cs) = do {
     r \<leftarrow> applyEnvConfig template (ct_Name c) (ct_Env c);
     case r of Inl e \<Rightarrow> Some (Inl e) | Inr template \<Rightarrow> apply_containers template cs
   }"

fun override_templates :: "ComponentConfig \<Rightarrow> kobj list \<Rightarrow> kobj list resp option" where
  "override_templates config [] = Some (Inr [])"
| "override_templates config (template # rest) = do {
     r \<leftarrow>
       (if ko_Kind template \<noteq> ''Deployment'' then Some (Inr template)
        else case getDeploymentConfig (co_Deployments (cc_ConfigOverrides config)) (ko_Name template) of
          None \<Rightarrow> Some (Inr template)
        | Some d \<Rightarrow> apply_containers template (dc_Containers d));
     case r of
       Inl e \<Rightarrow> Some (Inl e)
     | Inr template \<Rightarrow> do {
         rs \<leftarrow> override_templates config rest;
         Some (case rs of Inl e \<Rightarrow> Inl e | Inr rest \<Rightarrow> Inr (template # rest))
       }
   }"

text \<open>
  \<open>applyComponentDeploymentOverrides\<close> dereferences \<open>Spec.Overrides\<close>: it panics when the engine has no
  overrides.  The templates are updated in place; the result has the updated list.
\<close>

definition applyComponentDeploymentOverrides ::
  "MultiClusterEngine \<Rightarrow> kobj list \<Rightarrow> string \<Rightarrow> kobj list resp option" where
  "applyComponentDeploymentOverrides m templates c = do {
     ov \<leftarrow> sp_Overrides (mce_Spec m);
     case getComponentConfig (ov_Components ov) c of
       None \<Rightarrow> Some (Inr templates)
     | Some config \<Rightarrow> override_templates config templates
   }"

section \<open>Which CRD directories are skipped\<close>

lemma set_add_dirs [simp]: "set (add_dirs s ds) = set s \<union> set ds"
  by (induction s ds rule: add_dirs.induct) auto

lemma distinct_add_dirs [simp]: "distinct s \<Longrightarrow> distinct (add_dirs s ds)"
  by (induction s ds rule: add_dirs.induct) auto

lemma set_collect_dirs [simp]:
  "set (collect_dirs s cs) = set s \<union> (\<Union>c \<in> set cs. set (ComponentCRDDirectories c))"
  by (induction s cs rule: collect_dirs.induct) auto

lemma distinct_collect_dirs [simp]: "distinct s \<Longrightarrow> distinct (collect_dirs s cs)"
  by (induction s cs rule: collect_dirs.induct) auto

lemma external_iff:
  "isComponentExternallyManaged cx m c \<longleftrightarrow> (\<exists>cs. externally_managed cx m = Some cs \<and> c \<in> set cs)"
  by (auto simp: isComponentExternallyManaged_def list_ex_iff split: option.splits)

lemma set_external_dirs:
  "set (getExternallyManagedCRDSkipDirectories cx m) =
    (\<Union>c \<in> {c. isComponentExternallyManaged cx m c}. set (ComponentCRDDirectories c))"
  by (cases "externally_managed cx m")
    (auto simp: getExternallyManagedCRDSkipDirectories_def external_iff)

text \<open>The component that a directory's CRDs belong to, for every component name.\<close>

definition crd_component :: "string \<Rightarrow> string" where
  "crd_component e = (if e = ClusterAPIProviderAzure then ClusterAPIProviderAzurePreview
                      else stable_name e)"

lemma crd_owner_dirs:
  assumes "d \<in> set (ComponentCRDDirectories e)"
  shows "map_of crd_owner d = Some (crd_component e)"
proof -
  have "ComponentCRDDirectories e = []" if "e \<notin> set (ClusterAPIProviderAzure # AllComponents)"
    using that by (simp add: ComponentCRDDirectories_def AllComponents_def)
  with assms have "e \<in> set (ClusterAPIProviderAzure # AllComponents)" by fastforce
  then consider "e = ClusterAPIProviderAzure" | "e \<in> set AllComponents" "e \<noteq> ClusterAPIProviderAzure"
    by auto
  then show ?thesis
  proof cases
    case 1
    have dirs: "ComponentCRDDirectories ClusterAPIProviderAzure
        = [ClusterAPIProviderAzureCRDDir, ClusterAPIProviderAzureK8SCRDDir]"
      by (simp add: ComponentCRDDirectories_def)
    have "map_of crd_owner ClusterAPIProviderAzureCRDDir = Some ClusterAPIProviderAzurePreview"
      "map_of crd_owner ClusterAPIProviderAzureK8SCRDDir = Some ClusterAPIProviderAzurePreview"
      by (simp_all add: crd_owner_def)
    moreover have "d = ClusterAPIProviderAzureCRDDir \<or> d = ClusterAPIProviderAzureK8SCRDDir"
      using assms unfolding 1 dirs by simp
    ultimately show ?thesis unfolding 1 crd_component_def by fastforce
  next
    case 2
    have "map_of crd_owner d = Some (stable_name e)"
      using crd_owner_all 2(1) assms unfolding list_all_iff by blast
    with 2(2) show ?thesis by (simp add: crd_component_def)
  qed
qed

lemma capi_crd_component: "c \<in> set capi_components \<Longrightarrow> crd_component c = c"
proof -
  have "list_all (\<lambda>c. crd_component c = c) capi_components" by code_simp
  then show "c \<in> set capi_components \<Longrightarrow> crd_component c = c" by (simp only: list_all_iff)
qed

text \<open>
  A CRD directory is skipped exactly when it belongs to an externally managed component, to a
  Cluster API component that is neither enabled nor externally managed, or to the variant of the other
  platform; and the merged list has no duplicates.
\<close>

theorem mergedSkipCRDDirs_iff:
  "(d \<in> set (mergedSkipCRDDirs cx m) \<longleftrightarrow>
      (\<exists>c. isComponentExternallyManaged cx m c \<and> d \<in> set (ComponentCRDDirectories c))
      \<or> (\<exists>c \<in> set capi_components. \<not> Enabled m c \<and> \<not> isComponentExternallyManaged cx m c
           \<and> d \<in> set (ComponentCRDDirectories c))
      \<or> d \<in> set (getPlatformSpecificCRDSkipDirectories cx))
   \<and> distinct (mergedSkipCRDDirs cx m)"
  by (auto simp: mergedSkipCRDDirs_def set_external_dirs getDisabledComponentCRDSkipDirectories_def)

text \<open>
  The CRDs of a component that the engine manages are rendered: if no externally managed name
  stands for the component, and a Cluster API component is enabled, then each of its directories that
  fits the platform is not skipped.
\<close>

theorem managed_crds_rendered:
  assumes "\<And>e. isComponentExternallyManaged cx m e \<Longrightarrow> crd_component e \<noteq> crd_component c"
    and "crd_component c \<in> set capi_components \<Longrightarrow> Enabled m (crd_component c)"
    and "d \<in> set (ComponentCRDDirectories c)" "d \<notin> set (getPlatformSpecificCRDSkipDirectories cx)"
  shows "d \<notin> set (mergedSkipCRDDirs cx m)"
proof
  assume "d \<in> set (mergedSkipCRDDirs cx m)"
  then obtain e where e: "d \<in> set (ComponentCRDDirectories e)"
    "isComponentExternallyManaged cx m e \<or> e \<in> set capi_components \<and> \<not> Enabled m e"
    using assms(4)
    by (auto simp: mergedSkipCRDDirs_def set_external_dirs getDisabledComponentCRDSkipDirectories_def)
  then have "crd_component e = crd_component c"
    using crd_owner_dirs [OF e(1)] crd_owner_dirs [OF assms(3)] by simp
  then show False using e(2) assms(1,2) capi_crd_component by auto
qed

theorem managed_crds_rendered_witness:
  "HiveCRDDir \<notin> set (mergedSkipCRDDirs sample_ctx sample_mce)"
  by (rule managed_crds_rendered [where c = Hive])
    (simp_all add: isComponentExternallyManaged_def externally_managed_def sample_mce_def
      crd_component_def stable_name_def PreviewToStable_def capi_components_def
      ComponentCRDDirectories_def getPlatformSpecificCRDSkipDirectories_def)

section \<open>Deployment overrides keep the identity of templates\<close>

definition same_identity :: "kobj \<Rightarrow> kobj \<Rightarrow> bool" where
  "same_identity u v = (\<exists>c. v = u\<lparr>ko_Content := c\<rparr>)"

lemma same_identity_refl [simp]: "same_identity u u"
  unfolding same_identity_def by (rule exI [of _ "ko_Content u"]) simp

lemma same_identity_trans: "same_identity u v \<Longrightarrow> same_identity v w \<Longrightarrow> same_identity u w"
  by (auto simp: same_identity_def)

lemma same_identity_fields:
  "same_identity u v \<Longrightarrow> ko_GVK v = ko_GVK u \<and> ko_Name v = ko_Name u \<and> ko_Namespace v = ko_Namespace u
    \<and> ko_Labels v = ko_Labels u \<and> ko_Annotations v = ko_Annotations u"
  by (auto simp: same_identity_def)

lemma applyEnvConfig_identity:
  "applyEnvConfig u n envs = Some (Inr v) \<Longrightarrow> same_identity u v"
  by (auto simp: applyEnvConfig_def same_identity_def bind_eq_Some_conv
      split: option.splits json.splits)
    (metis kobj.surjective kobj.update_convs(11))+

lemma apply_containers_identity:
  "apply_containers u cs = Some (Inr v) \<Longrightarrow> same_identity u v"
proof (induction cs arbitrary: u)
  case (Cons c cs)
  then obtain w where "applyEnvConfig u (ct_Name c) (ct_Env c) = Some (Inr w)"
    "apply_containers w cs = Some (Inr v)"
    by (auto simp: bind_Inr_conv)
  then show ?case using Cons.IH applyEnvConfig_identity same_identity_trans by blast
qed simp

lemma override_templates_identity:
  "override_templates cfg ts = Some (Inr ts') \<Longrightarrow>
    list_all2 (\<lambda>u v. same_identity u v \<and> (ko_Kind u \<noteq> ''Deployment'' \<longrightarrow> v = u)) ts ts'"
proof (induction ts arbitrary: ts')
  case (Cons t ts)
  then obtain t' rest where t': "(if ko_Kind t \<noteq> ''Deployment'' then Some (Inr t)
        else case getDeploymentConfig (co_Deployments (cc_ConfigOverrides cfg)) (ko_Name t) of
          None \<Rightarrow> Some (Inr t) | Some d \<Rightarrow> apply_containers t (dc_Containers d)) = Some (Inr t')"
    and "override_templates cfg ts = Some (Inr rest)" "ts' = t' # rest"
    by (auto simp: bind_Inr_conv bind_map_Inr_conv)
  moreover have "same_identity t t' \<and> (ko_Kind t \<noteq> ''Deployment'' \<longrightarrow> t' = t)"
    using t' by (auto split: if_splits option.splits intro: apply_containers_identity)
  ultimately show ?case using Cons.IH by simp
qed simp

text \<open>
  Applying the configured deployment overrides changes at most the content of deployments: every
  template keeps its kind, name, namespace, labels and annotations, and templates that are no
  deployments are not touched.
\<close>

theorem deployment_overrides_identity:
  assumes "applyComponentDeploymentOverrides m ts c = Some (Inr ts')"
  shows "list_all2 (\<lambda>u v. (\<exists>content. v = u\<lparr>ko_Content := content\<rparr>)
    \<and> (ko_Kind u \<noteq> ''Deployment'' \<longrightarrow> v = u)) ts ts'"
proof (cases "override_templates (the (getComponentConfig (mce_components m) c)) ts = Some (Inr ts')")
  case True
  then show ?thesis using override_templates_identity by (fastforce simp: same_identity_def)
next
  case False
  then have "ts' = ts" using assms
    by (auto simp: applyComponentDeploymentOverrides_def mce_components_def bind_eq_Some_conv
        split: option.splits)
  then show ?thesis using same_identity_refl
    by (auto simp: list_all2_same same_identity_def [symmetric])
qed

definition sample_deployment_obj :: kobj where
  "sample_deployment_obj =
    (mk_obj (mk_gvk ''apps'' ''v1'' ''Deployment'') ''mce'' ''hive-operator'')\<lparr>ko_Content :=
      [(''spec'', JObject [(''template'', JObject [(''spec'', JObject [(''containers'',
         JArray [JObject [(''name'', JString ''manager'')]])])])])]\<rparr>"

definition sample_override :: ComponentConfig where
  "sample_override =
    \<lparr>cc_Enabled = True, cc_Name = Hive, cc_ConfigOverrides = \<lparr>co_Deployments =
       [\<lparr>dc_Name = ''hive-operator'', dc_Containers =
          [\<lparr>ct_Name = ''manager'', ct_Env = [\<lparr>ec_Name = ''LOG'', ec_Value = ''debug''\<rparr>]\<rparr>]\<rparr>]\<rparr>\<rparr>"

theorem deployment_overrides_identity_witness:
  "\<exists>v. applyComponentDeploymentOverrides (with_components [sample_override] sample_mce)
        [sample_deployment_obj] Hive = Some (Inr [v])
    \<and> (\<exists>content. v = sample_deployment_obj\<lparr>ko_Content := content\<rparr>) \<and> v \<noteq> sample_deployment_obj"
proof -
  obtain v where run: "applyComponentDeploymentOverrides (with_components [sample_override] sample_mce)
      [sample_deployment_obj] Hive = Some (Inr [v])" and ne: "v \<noteq> sample_deployment_obj"
    by (simp add: applyComponentDeploymentOverrides_def with_components_def sample_override_def
        sample_deployment_obj_def getComponentConfig_def getDeploymentConfig_def mk_obj_def mk_gvk_def
        applyEnvConfig_def append_env_def env_json_def)
  from deployment_overrides_identity [OF run] ne run show ?thesis by auto
qed

end
