(* ===== verification/Apply.thy ===== *)
theory Apply
  imports Component_Config
begin

text \<open>
  Applying and deleting rendered resources, \<open>controllers/backplaneconfig_controller.go\<close>: ownership
  by label, the adoption policy, \<open>applyTemplate\<close>, \<open>deleteTemplate\<close> and
  \<open>ensureUnstructuredResource\<close>.  The lemmas say which requests these operations may send: nothing
  is patched or deleted that the operator did not just read as its own.
\<close>

section \<open>Ownership\<close>

definition getAdoptionPolicy :: "MultiClusterEngine \<Rightarrow> string" where
  "getAdoptionPolicy m =
    (case map_of (mce_Annotations m) AnnotationResourceAdoptionPolicy of
       None \<Rightarrow> ''Strict''
     | Some policy \<Rightarrow>
         if policy = '''' then ''Strict''
         else if policy = ''Strict'' then ''Strict''
         else if policy = ''Adopt'' then ''Adopt''
         else ''Strict'')"

text \<open>The decision and the template, which gets the label when a resource is adopted.\<close>

definition ensureResourceOwnership :: "kobj \<Rightarrow> kobj \<Rightarrow> MultiClusterEngine \<Rightarrow> bool \<times> kobj" where
  "ensureResourceOwnership existing template m =
    (let owner = sm_get (ko_Labels existing) ''backplaneconfig.name''
     in if owner = mce_Name m then (True, template)
        else if owner \<noteq> '''' then (False, template)
        else if getAdoptionPolicy m = ''Adopt''
        then (True, template\<lparr>ko_Labels := sm_put (ko_Labels template) ''backplaneconfig.name'' (mce_Name m)\<rparr>)
        else (False, template))"

definition ApplyControllerReference :: "'w ctx \<Rightarrow> MultiClusterEngine \<Rightarrow> kobj \<Rightarrow> kobj resp" where
  "ApplyControllerReference cx m template =
    (case cx_SetControllerRef cx m template of
       Inl e \<Rightarrow> Inl e
     | Inr refs \<Rightarrow> Inr (template\<lparr>ko_OwnerRefs := refs\<rparr>))"

definition ensureResourceVersionAlignment :: "kobj \<Rightarrow> string \<Rightarrow> bool" where
  "ensureResourceVersionAlignment u desiredVersion =
    (if desiredVersion = '''' then False
     else case map_of (ko_Annotations u) AnnotationReleaseVersion of
       None \<Rightarrow> False
     | Some currentVersion \<Rightarrow> currentVersion = desiredVersion)"

section \<open>Apply\<close>

text \<open>The message names the resource's name as its kind and vice versa, as the code does.\<close>

definition logAndSetCondition ::
  "'w ctx \<Rightarrow> go_error \<Rightarrow> string \<Rightarrow> kobj \<Rightarrow> ('w rstate, reconcile_result) go" where
  "logAndSetCondition cx err message template s = do {
     let wrapped = PkgWrap (message @ '' Kind: '' @ ko_Name template @ '' Name: '' @ ko_Kind template) err;
     let condType = MultiClusterEngineComponentFailure @ '': '' @ ko_Name template @ '' (Kind:''
           @ ko_Kind template @ '')'';
     (u, s) \<leftarrow> new_condition cx condType ConditionTrue ApplyFailedReason (err_msg wrapped) s;
     Some ((no_requeue, Some wrapped), s)
   }"

definition ensureUnstructuredResource ::
  "'w ctx \<Rightarrow> MultiClusterEngine \<Rightarrow> kobj \<Rightarrow> ('w rstate, reconcile_result) go" where
  "ensureUnstructuredResource cx m u s = do {
     let u = AddBackplaneConfigLabels (mce_Name m) u;
     (r, s) \<leftarrow> api_Get (cx_Client cx) (ko_GVK u) (ko_key u) s;
     case r of
       Inr _ \<Rightarrow> Some (ok_result, s)
     | Inl e \<Rightarrow>
         if IsNotFound e
         then (case ApplyControllerReference cx m u of
                 Inl e \<Rightarrow> Some ((no_requeue, Some e), s)
               | Inr u \<Rightarrow> do {
                   (r, s) \<leftarrow> api_Create (cx_Client cx) u s;
                   Some ((no_requeue, case r of Inl e \<Rightarrow> Some e | Inr _ \<Rightarrow> None), s)
                 })
         else Some ((no_requeue, Some e), s)
   }"

text \<open>The branch of \<open>applyTemplate\<close> for a resource that does not exist yet.\<close>

definition create_template ::
  "'w ctx \<Rightarrow> MultiClusterEngine \<Rightarrow> kobj \<Rightarrow> ('w rstate, reconcile_result) go" where
  "create_template cx m template s =
    (case (if ko_Name template = ''hypershift-addon'' \<and> ko_Kind template = ''ManagedClusterAddOn''
           then Inr template else ApplyControllerReference cx m template) of
       Inl e \<Rightarrow> Some ((no_requeue, Some e), s)
     | Inr template \<Rightarrow> do {
         (r, s) \<leftarrow> api_Create (cx_Client cx) template s;
         case r of
           Inr _ \<Rightarrow> Some (ok_result, s)
         | Inl e \<Rightarrow>
             if IsNotFound e
             then logAndSetCondition cx e ''failed to create resource -- CRD not installed'' template s
             else if \<not> IsAlreadyExists e
             then logAndSetCondition cx e ''failed to create resource -- Template already exists'' template s
             else Some (ok_result, s)
       })"

text \<open>The branch for a resource that exists.\<close>

definition update_template ::
  "'w ctx \<Rightarrow> MultiClusterEngine \<Rightarrow> kobj \<Rightarrow> kobj \<Rightarrow> ('w rstate, reconcile_result) go" where
  "update_template cx m existing template s =
    (case ensureResourceOwnership existing template m of
       (False, _) \<Rightarrow> Some (ok_result, s)
     | (True, template) \<Rightarrow> do {
         let desiredVersion = sm_get (rs_Env s) ''OPERATOR_VERSION'';
         (u, s) \<leftarrow>
           (if \<not> ensureResourceVersionAlignment existing desiredVersion
            then new_condition cx MultiClusterEngineProgressing ConditionTrue ComponentsUpdatingReason
                   (''Updating '' @ ko_Kind template @ ''/'' @ ko_Name template
                    @ '' to target version: '' @ desiredVersion @ ''.'') s
            else Some ((), s));
         if \<not> IsTemplateAnnotationTrue template AnnotationEditable
         then do {
           (r, s) \<leftarrow> api_Patch (cx_Client cx) template s;
           case r of
             Inr _ \<Rightarrow> Some (ok_result, s)
           | Inl e \<Rightarrow> logAndSetCondition cx e ''failed to update resource'' template s
         }
         else Some (ok_result, s)
       })"

definition applyTemplate ::
  "'w ctx \<Rightarrow> MultiClusterEngine \<Rightarrow> kobj \<Rightarrow> ('w rstate, reconcile_result) go" where
  "applyTemplate cx m template s =
    (if ko_Kind template = ''APIService'' then ensureUnstructuredResource cx m template s
     else do {
       (stop, s) \<leftarrow>
         (if ko_Namespace template \<noteq> sp_TargetNamespace (mce_Spec m) \<and> ko_Namespace template \<noteq> ''''
          then do {
            (r, s) \<leftarrow> api_Get (cx_Client cx) namespaceGVK ('''', ko_Namespace template) s;
            Some (case r of
                    Inr _ \<Rightarrow> None
                  | Inl e \<Rightarrow> Some (no_requeue, if IsNotFound e then None else Some e), s)
          }
          else Some (None, s));
       case stop of
         Some result \<Rightarrow> Some (result, s)
       | None \<Rightarrow> do {
           (r, s) \<leftarrow> api_Get (cx_Client cx) (ko_GVK template) (ko_key template) s;
           case r of
             Inr existing \<Rightarrow> update_template cx m existing template s
           | Inl e \<Rightarrow>
               if IsNotFound e then create_template cx m template s
               else logAndSetCondition cx e ''failed to get resource'' template s
         }
     })"

section \<open>Delete\<close>

definition deleteTemplate ::
  "'w ctx \<Rightarrow> MultiClusterEngine \<Rightarrow> kobj \<Rightarrow> ('w rstate, reconcile_result) go" where
  "deleteTemplate cx m template s = do {
     (r, s) \<leftarrow> api_Get (cx_Client cx) (ko_GVK template) (ko_key template) s;
     case r of
       Inl e \<Rightarrow>
         if IsNotFound e \<or> IsNoMatchError e then Some (ok_result, s) else Some ((no_requeue, Some e), s)
     | Inr existing \<Rightarrow>
         (case ensureResourceOwnership existing existing m of
            (False, _) \<Rightarrow> Some (ok_result, s)
          | (True, existing) \<Rightarrow> do {
              (e, s) \<leftarrow> api_Delete (cx_Client cx) existing s;
              case e of
                Some e \<Rightarrow> if IsNotFound e then Some (ok_result, s) else Some ((no_requeue, Some e), s)
              | None \<Rightarrow> Some (ok_result, s)
            })
   }"

abbreviation OpenShiftClusterMonitoringLabel :: string where
  "OpenShiftClusterMonitoringLabel \<equiv> ''openshift.io/cluster-monitoring''"

definition ensureOpenShiftNamespaceLabel ::
  "'w ctx \<Rightarrow> MultiClusterEngine \<Rightarrow> ('w rstate, reconcile_result) go" where
  "ensureOpenShiftNamespaceLabel cx m s = do {
     (r, s) \<leftarrow> api_Get (cx_Client cx) namespaceGVK ('''', sp_TargetNamespace (mce_Spec m)) s;
     case r of
       Inl e \<Rightarrow> Some ((no_requeue, Some e), s)
     | Inr ns \<Rightarrow>
         if \<not> sm_has (ko_Labels ns) OpenShiftClusterMonitoringLabel
         then do {
           (r, s) \<leftarrow> api_Update (cx_Client cx)
             (ns\<lparr>ko_Labels := sm_put (ko_Labels ns) OpenShiftClusterMonitoringLabel ''true''\<rparr>) s;
           Some ((no_requeue, case r of Inl e \<Rightarrow> Some e | Inr _ \<Rightarrow> None), s)
         }
         else Some (ok_result, s)
   }"

section \<open>What may be written\<close>

text \<open>The resources the engine \<open>m\<close> may change: labelled with its name, or unlabelled under the
  \<open>Adopt\<close> policy.\<close>

definition manages :: "MultiClusterEngine \<Rightarrow> kobj \<Rightarrow> bool" where
  "manages m existing =
    (sm_get (ko_Labels existing) ''backplaneconfig.name'' = mce_Name m
     \<or> sm_get (ko_Labels existing) ''backplaneconfig.name'' = '''' \<and> getAdoptionPolicy m = ''Adopt'')"

definition same_target :: "kobj \<Rightarrow> kobj \<Rightarrow> bool" where
  "same_target t u = (ko_GVK u = ko_GVK t \<and> ko_key u = ko_key t)"

lemma ownership_manages:
  "ensureResourceOwnership existing template m = (b, template') \<Longrightarrow>
    b = manages m existing \<and> same_target template template'
    \<and> ko_Annotations template' = ko_Annotations template
    \<and> (b \<longrightarrow> sm_get (ko_Labels template) ''backplaneconfig.name'' = mce_Name m \<longrightarrow>
         sm_get (ko_Labels template') ''backplaneconfig.name'' = mce_Name m)"
  by (auto simp: ensureResourceOwnership_def manages_def same_target_def Let_def sm_get_put
      split: if_splits)

lemma spost_new_condition:
  "(\<And>s1. ks_Trace s1 = ks_Trace s \<Longrightarrow> rs_Env s1 = rs_Env s \<Longrightarrow> rs_Cache s1 = rs_Cache s \<Longrightarrow> Q () s1) \<Longrightarrow>
    spost Q (new_condition cx ty st rs ms s)"
  by (simp add: new_condition_def NewCondition_def api_Now_def split_beta add_condition_def)

lemma spost_logAndSetCondition:
  "(\<And>s1 e'. ks_Trace s1 = ks_Trace s \<Longrightarrow> Q (no_requeue, Some e') s1) \<Longrightarrow>
    spost Q (logAndSetCondition cx err ms t s)"
  by (auto simp: logAndSetCondition_def spost_bind Let_def intro!: spost_new_condition)

text \<open>\<open>appends t Q m\<close>: the calls that the outcome \<open>m\<close> adds to the trace \<open>t\<close> satisfy \<open>Q\<close>.\<close>

definition appends ::
  "api_call list \<Rightarrow> (api_call list \<Rightarrow> bool) \<Rightarrow> ('a \<times> ('w, 'z) kstate_scheme) option \<Rightarrow> bool" where
  "appends t Q m = spost (\<lambda>r s. \<exists>es. ks_Trace s = t @ es \<and> Q es) m"

text \<open>
  The writes of an apply: a creation of the template's resource after it was read as missing, or a
  patch of it after it was read as managed by the engine and when the template is not editable.
\<close>

definition guarded_apply :: "MultiClusterEngine \<Rightarrow> kobj \<Rightarrow> api_call list \<Rightarrow> bool" where
  "guarded_apply m t es =
    (\<forall>c \<in> set es. is_write c \<longrightarrow>
      (\<exists>u. same_target t u \<and>
        (c = CCreate u \<and> (\<exists>e. CGet (ko_GVK t) (ko_key t) (Inl e) \<in> set es \<and> IsNotFound e)
         \<or> c = CPatch u \<and> \<not> IsTemplateAnnotationTrue t AnnotationEditable
           \<and> (\<exists>x. CGet (ko_GVK t) (ko_key t) (Inr x) \<in> set es \<and> manages m x))))"

lemma controller_reference_target:
  "ApplyControllerReference cx m t = Inr u \<Longrightarrow> same_target t u"
  by (auto simp: ApplyControllerReference_def same_target_def split: sum.splits)

lemma appends_ensureUnstructured:
  "appends (ks_Trace s) (guarded_apply m t) (ensureUnstructuredResource cx m t s)"
  by (auto simp: ensureUnstructuredResource_def appends_def spost_bind api_eqs Let_def
      guarded_apply_def AddBackplaneConfigLabels_def
      split: sum.splits dest!: controller_reference_target)
    (auto simp: same_target_def)

lemma appends_create_template:
  "appends (ks_Trace s) (\<lambda>es. (\<exists>u. es = [CCreate u] \<and> same_target t u) \<or> es = [])
    (create_template cx m t s)"
  by (auto simp: create_template_def appends_def spost_bind api_eqs same_target_def
      intro!: spost_logAndSetCondition split: sum.splits
      dest!: controller_reference_target)

lemma appends_update_template:
  "appends (ks_Trace s) (\<lambda>es. (\<exists>u. es = [CPatch u] \<and> same_target t u \<and> manages m x
      \<and> \<not> IsTemplateAnnotationTrue t AnnotationEditable) \<or> es = [])
    (update_template cx m x t s)"
proof -
  obtain b t' where own: "ensureResourceOwnership x t m = (b, t')" by (cases "ensureResourceOwnership x t m")
  note facts = ownership_manages [OF own]
  have editable: "IsTemplateAnnotationTrue t' AnnotationEditable = IsTemplateAnnotationTrue t AnnotationEditable"
    using facts by (simp add: IsTemplateAnnotationTrue_def)
  show ?thesis
  proof (cases b)
    case True
    then show ?thesis using own facts editable
      by (auto simp: update_template_def appends_def spost_bind api_eqs Let_def
          intro!: spost_new_condition spost_logAndSetCondition split: sum.splits)
  qed (auto simp: update_template_def appends_def own)
qed

lemma appends_bind:
  assumes "appends t Q m"
    and "\<And>r s es. ks_Trace s = t @ es \<Longrightarrow> Q es \<Longrightarrow>
      appends (ks_Trace s) (\<lambda>es'. R (es @ es')) (f (r, s))"
  shows "appends t R (Option.bind m f)"
proof (cases m)
  case (Some rs)
  obtain r s where rs: "rs = (r, s)" by (cases rs)
  obtain es where es: "ks_Trace s = t @ es" "Q es" using assms(1) Some rs by (auto simp: appends_def)
  have "spost (\<lambda>r s'. \<exists>es'. ks_Trace s' = ks_Trace s @ es' \<and> R (es @ es')) (f (r, s))"
    using assms(2) [OF es] by (simp add: appends_def)
  then show ?thesis using Some rs es(1) by (auto simp: appends_def elim!: spost_mono)
qed (simp add: appends_def)

lemma appends_mono: "appends t P m \<Longrightarrow> (\<And>es. P es \<Longrightarrow> Q es) \<Longrightarrow> appends t Q m"
  unfolding appends_def by (erule spost_mono) blast

lemma appends_emits: "appends t Q m \<Longrightarrow> (\<And>es. Q es \<Longrightarrow> list_all P es) \<Longrightarrow> emits P t m"
  unfolding appends_def emits_def by (erule spost_mono) blast

lemma appends_Get:
  "appends (ks_Trace s) (\<lambda>es. es = [CGet g n (fst (cl_Get cl g n (ks_World s)))]) (api_Get cl g n s)"
  by (simp add: appends_def api_eqs)

text \<open>The second half of \<open>applyTemplate\<close>, after the check of the namespace.\<close>

lemma appends_apply_body:
  "appends (ks_Trace s) (guarded_apply m t)
    (do {
       (r, s) \<leftarrow> api_Get cl (ko_GVK t) (ko_key t) s;
       case r of
         Inr existing \<Rightarrow> update_template cx m existing t s
       | Inl e \<Rightarrow>
           if IsNotFound e then create_template cx m t s
           else logAndSetCondition cx e ''failed to get resource'' t s
     })"
proof (cases "fst (cl_Get cl (ko_GVK t) (ko_key t) (ks_World s))")
  case (Inr x)
  then show ?thesis
    by (auto simp: appends_def api_eqs
        intro!: spost_mono [OF appends_update_template [unfolded appends_def]])
      (auto simp: guarded_apply_def)
next
  case (Inl e)
  show ?thesis
  proof (cases "IsNotFound e")
    case True
    then show ?thesis using Inl
      by (auto simp: appends_def api_eqs
          intro!: spost_mono [OF appends_create_template [unfolded appends_def]])
        (auto simp: guarded_apply_def)
  next
    case False
    then show ?thesis using Inl
      by (auto simp: appends_def api_eqs guarded_apply_def intro!: spost_logAndSetCondition)
  qed
qed

lemma guarded_apply_read: "guarded_apply m t es \<Longrightarrow> guarded_apply m t (CGet g n r # es)"
  by (simp add: guarded_apply_def) blast

lemma appends_applyTemplate:
  "appends (ks_Trace s) (guarded_apply m t) (applyTemplate cx m t s)"
proof (cases "ko_Kind t = ''APIService''")
  case True
  then show ?thesis using appends_ensureUnstructured by (simp add: applyTemplate_def)
next
  case False
  let ?check = "ko_Namespace t \<noteq> sp_TargetNamespace (mce_Spec m) \<and> ko_Namespace t \<noteq> ''''"
  let ?pre = "\<lambda>s. (if ?check then do {
      (r, s) \<leftarrow> api_Get (cx_Client cx) namespaceGVK ('''', ko_Namespace t) s;
      Some (case r of Inr _ \<Rightarrow> None
        | Inl e \<Rightarrow> Some (no_requeue, if IsNotFound e then None else Some e), s) }
    else Some (None, s))"
  have pre: "appends (ks_Trace s) (\<lambda>es. es = [] \<or> (\<exists>g n r. es = [CGet g n r])) (?pre s)"
    by (auto simp: appends_def api_eqs)
  show ?thesis
    unfolding applyTemplate_def if_not_P [OF False]
  proof (rule appends_bind [OF pre], goal_cases)
    case (1 stop s1 es)
    have "appends (ks_Trace s1) (\<lambda>es'. guarded_apply m t (es @ es')) (Some (result, s1))"
      for result :: reconcile_result
      using 1 by (auto simp: appends_def guarded_apply_def)
    moreover have "appends (ks_Trace s1) (\<lambda>es'. guarded_apply m t (es @ es'))
      (do {
         (r, s) \<leftarrow> api_Get (cx_Client cx) (ko_GVK t) (ko_key t) s1;
         case r of
           Inr existing \<Rightarrow> update_template cx m existing t s
         | Inl e \<Rightarrow>
             if IsNotFound e then create_template cx m t s
             else logAndSetCondition cx e ''failed to get resource'' t s
       })"
      using 1 by (intro appends_mono [OF appends_apply_body]) (auto intro: guarded_apply_read)
    ultimately show ?case by (simp split: option.splits)
  qed
qed

text \<open>
  C15: Applying a template sends at most writes of the template's own resource: a creation only after
  the resource was read as missing, a server-side apply only after it was read as labelled with this
  engine's name (or unlabelled under the \<open>Adopt\<close> policy) and only if the template is not marked
  editable.  A resource of another engine is never written, whatever the cluster answers.
\<close>

theorem applyTemplate_guarded:
  assumes "applyTemplate cx m t s = Some (r, s')"
  shows "\<exists>es. ks_Trace s' = ks_Trace s @ es \<and>
    (\<forall>c \<in> set es. is_write c \<longrightarrow>
      (\<exists>u. same_target t u \<and>
        (c = CCreate u \<and> (\<exists>e. CGet (ko_GVK t) (ko_key t) (Inl e) \<in> set es \<and> IsNotFound e)
         \<or> c = CPatch u \<and> \<not> IsTemplateAnnotationTrue t AnnotationEditable
           \<and> (\<exists>x. CGet (ko_GVK t) (ko_key t) (Inr x) \<in> set es \<and> manages m x))))"
  using appends_applyTemplate [of s m t cx] assms by (simp add: appends_def guarded_apply_def)

definition sample_rstate :: "mem \<Rightarrow> mem rstate" where
  "sample_rstate w =
    \<lparr>ks_World = w, ks_Trace = [],
     rs_Status = \<lparr>tr_UID = '''', tr_Components = [], tr_Conditions = []\<rparr>,
     rs_Env = [(''POD_NAMESPACE'', ''operator''), (''OPERATOR_VERSION'', ''5.0.0'')],
     rs_Cache = \<lparr>ca_ImageOverrides = [], ca_ImageOverridesCM = '''', ca_ImageRepository = '''',
       ca_TemplateOverrides = [], ca_TemplateOverridesCM = ''''\<rparr>,
     rs_Deprecated = []\<rparr>"

text \<open>A deployment in the sample cluster that belongs to another engine.\<close>

definition foreign_obj :: kobj where
  "foreign_obj = sample_deployment_obj\<lparr>ko_Labels := [(''backplaneconfig.name'', ''other'')]\<rparr>"

lemmas run_defs =
  sample_ctx_def sample_rstate_def mem_client_def mem_find_def empty_mem_def sample_mce_def
  sample_spec_def sample_deployment_obj_def foreign_obj_def mk_obj_def mk_gvk_def

theorem applyTemplate_guarded_witness:
  "\<exists>s'. applyTemplate sample_ctx sample_mce sample_deployment_obj
      (sample_rstate (empty_mem\<lparr>mem_Objs := [foreign_obj]\<rparr>)) = Some (ok_result, s')
    \<and> (\<forall>c \<in> set (ks_Trace s'). \<not> is_write c)"
proof -
  let ?s = "sample_rstate (empty_mem\<lparr>mem_Objs := [foreign_obj]\<rparr>)"
  obtain s' where run: "applyTemplate sample_ctx sample_mce sample_deployment_obj ?s = Some (ok_result, s')"
    and trace: "ks_Trace s' = [CGet (ko_GVK foreign_obj) (ko_key foreign_obj) (Inr foreign_obj)]"
    by (simp add: applyTemplate_def api_eqs update_template_def ensureResourceOwnership_def
        getAdoptionPolicy_def sm_get_def run_defs log_call_def)
  then show ?thesis using applyTemplate_guarded [OF run] by auto
qed

lemma appends_deleteTemplate:
  "appends (ks_Trace s) (\<lambda>es. \<forall>c \<in> set es. is_write c \<longrightarrow>
      (\<exists>x u. c = CDelete u \<and> CGet (ko_GVK t) (ko_key t) (Inr x) \<in> set es \<and> manages m x
         \<and> same_target x u))
    (deleteTemplate cx m t s)"
proof (cases "fst (cl_Get (cx_Client cx) (ko_GVK t) (ko_key t) (ks_World s))")
  case (Inr x)
  obtain b x' where own: "ensureResourceOwnership x x m = (b, x')" by (cases "ensureResourceOwnership x x m")
  note facts = ownership_manages [OF own]
  show ?thesis
  proof (cases b)
    case True
    then show ?thesis using Inr own facts
      by (auto simp: deleteTemplate_def appends_def api_eqs split: option.splits)
  qed (auto simp: deleteTemplate_def appends_def api_eqs own Inr)
qed (auto simp: deleteTemplate_def appends_def api_eqs)

text \<open>
  C16: Deleting a template sends at most a deletion of the object just read, and only if that object is
  labelled with this engine's name, or unlabelled under the \<open>Adopt\<close> policy.
\<close>

theorem deleteTemplate_guarded:
  assumes "deleteTemplate cx m t s = Some (r, s')"
  shows "\<exists>es. ks_Trace s' = ks_Trace s @ es \<and>
    (\<forall>c \<in> set es. is_write c \<longrightarrow>
      (\<exists>x u. c = CDelete u \<and> CGet (ko_GVK t) (ko_key t) (Inr x) \<in> set es \<and> manages m x
         \<and> same_target x u))"
  using appends_deleteTemplate [of s t m cx] assms by (simp add: appends_def)

theorem deleteTemplate_guarded_witness:
  "\<exists>s'. deleteTemplate sample_ctx sample_mce sample_deployment_obj
      (sample_rstate (empty_mem\<lparr>mem_Objs := [foreign_obj]\<rparr>)) = Some (ok_result, s')
    \<and> (\<forall>c \<in> set (ks_Trace s'). \<not> is_write c)"
proof -
  let ?s = "sample_rstate (empty_mem\<lparr>mem_Objs := [foreign_obj]\<rparr>)"
  obtain s' where run: "deleteTemplate sample_ctx sample_mce sample_deployment_obj ?s = Some (ok_result, s')"
    and trace: "ks_Trace s' = [CGet (ko_GVK foreign_obj) (ko_key foreign_obj) (Inr foreign_obj)]"
    by (simp add: deleteTemplate_def api_eqs ensureResourceOwnership_def
        getAdoptionPolicy_def sm_get_def run_defs log_call_def)
  then show ?thesis using deleteTemplate_guarded [OF run] by auto
qed

end
