(* ===== verification/Toggle_Base.thy ===== *)
theory Toggle_Base
  imports Apply
begin

text \<open>
  The pieces shared by the functions of \<open>controllers/toggle_components.go\<close>: the
  \<open>InternalEngineComponent\<close> resource that marks an enabled component, switching the status reporter
  of a component, and the loops that apply or delete the rendered templates.
\<close>

section \<open>Constants\<close>

abbreviation requeuePeriod :: int where "requeuePeriod \<equiv> 15 * second"

definition clusterManagementAddOnGVK :: gvk where
  "clusterManagementAddOnGVK =
    mk_gvk ''addon.open-cluster-management.io'' ''v1alpha1'' ''ClusterManagementAddOn''"

definition internalEngineComponentGVK :: gvk where
  "internalEngineComponentGVK = mk_gvk ''multicluster.openshift.io'' ''v1'' ''InternalEngineComponent''"

definition crdGVK :: gvk where
  "crdGVK = mk_gvk ''apiextensions.k8s.io'' ''v1'' ''CustomResourceDefinition''"

abbreviation target_nn :: "MultiClusterEngine \<Rightarrow> string \<Rightarrow> nn" where
  "target_nn m name \<equiv> (sp_TargetNamespace (mce_Spec m), name)"

section \<open>The internal engine component\<close>

definition ensureInternalEngineComponent ::
  "'w ctx \<Rightarrow> MultiClusterEngine \<Rightarrow> string \<Rightarrow> ('w rstate, reconcile_result) go" where
  "ensureInternalEngineComponent cx m c s =
    (if isComponentExternallyManaged cx m c then Some (ok_result, s)
     else do {
       let iec = mk_obj internalEngineComponentGVK (sp_TargetNamespace (mce_Spec m)) c;
       (r, s) \<leftarrow> api_Get (cx_Client cx) internalEngineComponentGVK (ko_key iec) s;
       case r of
         Inr _ \<Rightarrow> Some (ok_result, s)
       | Inl e \<Rightarrow>
           if IsNotFound e
           then do {
             (r, s) \<leftarrow> api_Create (cx_Client cx) iec s;
             case r of
               Inr _ \<Rightarrow> Some (ok_result, s)
             | Inl e \<Rightarrow> Some ((no_requeue, Some (ErrorString
                 (''failed to create InternalEngineComponent CR: '' @ ko_Namespace iec @ ''/''
                  @ ko_Name iec @ '': '' @ err_msg e))), s)
           }
           else Some ((no_requeue, Some (ErrorString
             (''failed to get InternalEngineComponent CR: '' @ ko_Namespace iec @ ''/''
              @ ko_Name iec @ '': '' @ err_msg e))), s)
     })"

text \<open>
  Removal: ok once the resource is gone, requeue while it is being deleted.  The second read checks
  that the deletion has taken effect.
\<close>

definition refetch_iec :: "'w ctx \<Rightarrow> kobj \<Rightarrow> ('w rstate, reconcile_result) go" where
  "refetch_iec cx iec s = do {
     (r, s) \<leftarrow> api_Get (cx_Client cx) internalEngineComponentGVK (ko_key iec) s;
     case r of
       Inl e \<Rightarrow>
         if IsNotFound e then Some (ok_result, s)
         else Some ((no_requeue, Some (ErrorString (''failed to get InternalEngineComponent ''
                @ ko_Namespace iec @ ''/'' @ ko_Name iec @ '': '' @ err_msg e))), s)
     | Inr _ \<Rightarrow> Some ((requeue_in requeuePeriod, None), s)
   }"

definition ensureNoInternalEngineComponent ::
  "'w ctx \<Rightarrow> MultiClusterEngine \<Rightarrow> string \<Rightarrow> ('w rstate, reconcile_result) go" where
  "ensureNoInternalEngineComponent cx m c s = do {
     let mceNS = sp_TargetNamespace (mce_Spec m);
     (r, s) \<leftarrow> api_Get (cx_Client cx) internalEngineComponentGVK (mceNS, c) s;
     case r of
       Inl e \<Rightarrow>
         if IsNotFound e then Some (ok_result, s)
         else Some ((no_requeue, Some (ErrorString (''failed to get InternalEngineComponent: ''
                @ mceNS @ ''/'' @ c @ '': '' @ err_msg e))), s)
     | Inr iec \<Rightarrow>
         if ko_DeletionTimestamp iec \<noteq> None then Some ((requeue_in requeuePeriod, None), s)
         else do {
           (e, s) \<leftarrow> api_Delete (cx_Client cx) iec s;
           case e of
             Some e \<Rightarrow>
               if \<not> IsNotFound e
               then Some ((no_requeue, Some (ErrorString
                      (''failed to delete InternalEngineComponent CR: '' @ ko_Namespace iec @ ''/''
                       @ ko_Name iec @ '': '' @ err_msg e))), s)
               else refetch_iec cx iec s
           | None \<Rightarrow> refetch_iec cx iec s
         }
   }"

section \<open>Status reporters\<close>

text \<open>\<open>RemoveComponent(toggle.DisabledStatus)\<close> and \<open>AddComponent(toggle.EnabledStatus)\<close>, and back.\<close>

definition switch_on :: "nn \<Rightarrow> 'w rstate \<Rightarrow> 'w rstate" where
  "switch_on n s = add_component (toggle_EnabledStatus n) (remove_component (toggle_DisabledStatus n []) s)"

definition switch_off :: "nn \<Rightarrow> 'w rstate \<Rightarrow> 'w rstate" where
  "switch_off n s = add_component (toggle_DisabledStatus n []) (remove_component (toggle_EnabledStatus n) s)"

text \<open>The reporters for a resource the component waits for.\<close>

definition waiting_status ::
  "nn \<Rightarrow> string \<Rightarrow> string \<Rightarrow> string \<Rightarrow> string \<Rightarrow> string \<Rightarrow> StatusReporter" where
  "waiting_status n kind name ty st message =
    StaticStatus n kind (cc_zero name kind False ty st WaitingForResourceReason message)"

definition clusterManagementAddOnNotFoundStatus :: "string \<Rightarrow> string \<Rightarrow> StatusReporter" where
  "clusterManagementAddOnNotFoundStatus name namespace =
    waiting_status (namespace, name) ''Component'' name ''Available'' ConditionFalse
      ''Waiting for ClusterManagementAddOn CRD to be available''"

section \<open>Applying and deleting the templates of a chart\<close>

definition applyReleaseVersionAnnotation :: "'w ctx \<Rightarrow> kobj \<Rightarrow> kobj" where
  "applyReleaseVersionAnnotation cx template =
    template\<lparr>ko_Annotations := sm_put (ko_Annotations template) AnnotationReleaseVersion (cx_Version cx)\<rparr>"

text \<open>
  The apply loop.  The flag says whether the loop has the guard that leaves network policies to
  \<open>ensureNetworkPolicies\<close>.
\<close>

fun apply_templates ::
  "'w ctx \<Rightarrow> MultiClusterEngine \<Rightarrow> bool \<Rightarrow> kobj list \<Rightarrow> ('w rstate, reconcile_result) go" where
  "apply_templates cx m skipNP [] s = Some (ok_result, s)"
| "apply_templates cx m skipNP (template # rest) s =
    (if skipNP \<and> ko_Kind template = ''NetworkPolicy'' then apply_templates cx m skipNP rest s
     else do {
       (r, s) \<leftarrow> applyTemplate cx m (applyReleaseVersionAnnotation cx template) s;
       if snd r \<noteq> None then Some (r, s) else apply_templates cx m skipNP rest s
     })"

text \<open>
  The apply loop of the add-on components: an error that means a missing CRD replaces the status of
  the component and the loop goes on; at the end the component is requeued.
\<close>

fun apply_addon_templates ::
  "'w ctx \<Rightarrow> MultiClusterEngine \<Rightarrow> bool \<Rightarrow> (go_error \<Rightarrow> bool) \<Rightarrow> StatusReporter \<Rightarrow> kobj list \<Rightarrow> bool
    \<Rightarrow> ('w rstate, reconcile_result) go" where
  "apply_addon_templates cx m skipNP missing sr [] missingCRD s =
    Some ((if missingCRD then requeue_in requeuePeriod else no_requeue, None), s)"
| "apply_addon_templates cx m skipNP missing sr (template # rest) missingCRD s =
    (if skipNP \<and> ko_Kind template = ''NetworkPolicy''
     then apply_addon_templates cx m skipNP missing sr rest missingCRD s
     else do {
       (r, s) \<leftarrow> applyTemplate cx m (applyReleaseVersionAnnotation cx template) s;
       case snd r of
         None \<Rightarrow> apply_addon_templates cx m skipNP missing sr rest missingCRD s
       | Some e \<Rightarrow>
           if missing e
           then apply_addon_templates cx m skipNP missing sr rest True (add_component sr s)
           else Some (r, s)
     })"

text \<open>
  \<open>errors.Unwrap\<close>: the stack layer of \<open>errors.Wrap\<close> is peeled off, the classification functions
  look through the message layer below it.
\<close>

primrec err_unwrap :: "go_error \<Rightarrow> go_error option" where
  "err_unwrap (ErrorString m) = None"
| "err_unwrap (Sentinel m) = None"
| "err_unwrap (WrapError m e) = Some e"
| "err_unwrap (PkgWrap m e) = Some e"
| "err_unwrap (StatusError r m) = None"
| "err_unwrap (NoMatchError m) = None"

definition unwrapped :: "(go_error \<Rightarrow> bool) \<Rightarrow> go_error \<Rightarrow> bool" where
  "unwrapped p e = (case err_unwrap e of None \<Rightarrow> False | Some e' \<Rightarrow> p e')"

definition missing_crd :: "go_error \<Rightarrow> bool" where
  "missing_crd e = (unwrapped IsNoMatchError e \<or> IsNotFound e)"

definition missing_crd_unwrapped :: "go_error \<Rightarrow> bool" where
  "missing_crd_unwrapped e = (unwrapped IsNoMatchError e \<or> unwrapped IsNotFound e)"

definition CanInstallAddons :: "'w client \<Rightarrow> (('w, 'z) kstate_scheme, bool) go" where
  "CanInstallAddons cl s = do {
     (r, s) \<leftarrow> api_Get cl crdGVK ('''', ''clustermanagementaddons.addon.open-cluster-management.io'') s;
     Some (case r of Inl _ \<Rightarrow> False | Inr _ \<Rightarrow> True, s)
   }"

text \<open>
  The delete loop; the flags are the guard for network policies and the guard that leaves a
  \<open>ClusterManagementAddOn\<close> alone when its CRD is not installed.
\<close>

fun delete_templates ::
  "'w ctx \<Rightarrow> MultiClusterEngine \<Rightarrow> bool \<Rightarrow> bool \<Rightarrow> kobj list \<Rightarrow> ('w rstate, reconcile_result) go" where
  "delete_templates cx m skipNP addonGuard [] s = Some (ok_result, s)"
| "delete_templates cx m skipNP addonGuard (template # rest) s =
    (if skipNP \<and> ko_Kind template = ''NetworkPolicy'' then delete_templates cx m skipNP addonGuard rest s
     else do {
       (present, s) \<leftarrow>
         (if addonGuard \<and> ko_Kind template = ''ClusterManagementAddOn''
          then CanInstallAddons (cx_Client cx) s else Some (True, s));
       if \<not> present then delete_templates cx m skipNP addonGuard rest s
       else do {
         (r, s) \<leftarrow> deleteTemplate cx m template s;
         if snd r \<noteq> None then Some (r, s) else delete_templates cx m skipNP addonGuard rest s
       }
     })"

section \<open>The common course of a component\<close>

text \<open>
  The early returns that every function shares, each followed by the rest of the function: creating
  or removing the internal engine component, rendering the chart (in the namespace given), and the
  deployment overrides.
\<close>

definition internal_then ::
  "'w ctx \<Rightarrow> MultiClusterEngine \<Rightarrow> string \<Rightarrow> ('w rstate, reconcile_result) go
    \<Rightarrow> ('w rstate, reconcile_result) go" where
  "internal_then cx m c k s = do {
     (r, s) \<leftarrow> ensureInternalEngineComponent cx m c s;
     if snd r \<noteq> None then Some (r, s) else k s
   }"

definition no_internal_then ::
  "'w ctx \<Rightarrow> MultiClusterEngine \<Rightarrow> string \<Rightarrow> ('w rstate, reconcile_result) go
    \<Rightarrow> ('w rstate, reconcile_result) go" where
  "no_internal_then cx m c k s = do {
     (r, s) \<leftarrow> ensureNoInternalEngineComponent cx m c s;
     if fst r \<noteq> no_requeue \<or> snd r \<noteq> None then Some (r, s) else k s
   }"

definition render_in_then ::
  "'w ctx \<Rightarrow> MultiClusterEngine \<Rightarrow> string \<Rightarrow> string \<Rightarrow> (kobj list \<Rightarrow> ('w rstate, reconcile_result) go)
    \<Rightarrow> ('w rstate, reconcile_result) go" where
  "render_in_then cx m c namespace k s =
    (case RenderChartWithNamespace cx (rs_Env s) (fetchChartOrCRDPath cx c) m
            (ca_ImageOverrides (rs_Cache s)) (ca_TemplateOverrides (rs_Cache s)) namespace of
       Inl e \<Rightarrow> Some ((requeue_in requeuePeriod, None), s)
     | Inr templates \<Rightarrow> k templates s)"

definition render_then ::
  "'w ctx \<Rightarrow> MultiClusterEngine \<Rightarrow> string \<Rightarrow> (kobj list \<Rightarrow> ('w rstate, reconcile_result) go)
    \<Rightarrow> ('w rstate, reconcile_result) go" where
  "render_then cx m c k s =
    (case RenderChart cx (rs_Env s) (fetchChartOrCRDPath cx c) m
            (ca_ImageOverrides (rs_Cache s)) (ca_TemplateOverrides (rs_Cache s)) of
       Inl e \<Rightarrow> Some ((requeue_in requeuePeriod, None), s)
     | Inr templates \<Rightarrow> k templates s)"

definition overrides_then ::
  "MultiClusterEngine \<Rightarrow> string \<Rightarrow> (kobj list \<Rightarrow> ('w rstate, reconcile_result) go) \<Rightarrow> kobj list
    \<Rightarrow> ('w rstate, reconcile_result) go" where
  "overrides_then m c k templates s = do {
     r \<leftarrow> applyComponentDeploymentOverrides m templates c;
     case r of Inl e \<Rightarrow> Some ((no_requeue, Some e), s) | Inr templates \<Rightarrow> k templates s
   }"

text \<open>Most components do exactly this.\<close>

definition deploy_component ::
  "'w ctx \<Rightarrow> MultiClusterEngine \<Rightarrow> string \<Rightarrow> ('w rstate, reconcile_result) go" where
  "deploy_component cx m c s =
    internal_then cx m c
      (render_then cx m c (overrides_then m c (apply_templates cx m True))) s"

definition undeploy_component ::
  "'w ctx \<Rightarrow> MultiClusterEngine \<Rightarrow> string \<Rightarrow> ('w rstate \<Rightarrow> 'w rstate)
    \<Rightarrow> ('w rstate, reconcile_result) go" where
  "undeploy_component cx m c switch s =
    no_internal_then cx m c
      (render_then cx m c (\<lambda>templates s. delete_templates cx m True False templates (switch s))) s"

end
