(* ===== verification/Toggle_Components.thy ===== *)
theory Toggle_Components
  imports Toggle_Base
begin

text \<open>
  The functions of \<open>controllers/toggle_components.go\<close> that enable and disable one component each,
  except Maestro and the local cluster, and what they use of \<open>pkg/hive\<close> and \<open>pkg/foundation\<close>.
  They follow the order of the source.
\<close>

section \<open>Console\<close>

definition consoleGVK :: gvk where
  "consoleGVK = mk_gvk ''operator.openshift.io'' ''v1'' ''Console''"

text \<open>\<open>console.Spec.Plugins\<close> of the typed object; the typed client guarantees its shape.\<close>

definition console_plugins :: "kobj \<Rightarrow> string list" where
  "console_plugins u =
    (case nested (ko_Content u) [''spec'', ''plugins''] of
       Some (Some (JArray js)) \<Rightarrow> [p. JString p \<leftarrow> js]
     | _ \<Rightarrow> [])"

definition set_console_plugins :: "string list \<Rightarrow> kobj \<Rightarrow> kobj" where
  "set_console_plugins ps u =
    (case set_nested (ko_Content u) [''spec'', ''plugins''] (JArray (map JString ps)) of
       Some content \<Rightarrow> u\<lparr>ko_Content := content\<rparr>
     | None \<Rightarrow> u)"

definition addPluginToConsoleResource :: "'w ctx \<Rightarrow> ('w rstate, reconcile_result) go" where
  "addPluginToConsoleResource cx s = do {
     (r, s) \<leftarrow> api_Get (cx_Client cx) consoleGVK ('''', ''cluster'') s;
     case r of
       Inl e \<Rightarrow> Some ((no_requeue, Some e), s)
     | Inr console \<Rightarrow>
         if \<not> list_Contains (console_plugins console) ''mce''
         then do {
           (r, s) \<leftarrow> api_Update (cx_Client cx)
             (set_console_plugins (console_plugins console @ [''mce'']) console) s;
           case r of Inl e \<Rightarrow> Some ((no_requeue, Some e), s) | Inr _ \<Rightarrow> Some (ok_result, s)
         }
         else Some (ok_result, s)
   }"

definition removePluginFromConsoleResource :: "'w ctx \<Rightarrow> ('w rstate, reconcile_result) go" where
  "removePluginFromConsoleResource cx s =
    (if map_of (rs_Env s) ''UNIT_TEST'' = Some ''true'' then Some (ok_result, s)
     else do {
       (r, s) \<leftarrow> api_Get (cx_Client cx) consoleGVK ('''', ''cluster'') s;
       case r of
         Inl e \<Rightarrow> Some ((no_requeue, Some e), s)
       | Inr console \<Rightarrow>
           if list_Contains (console_plugins console) ''mce''
           then do {
             (r, s) \<leftarrow> api_Update (cx_Client cx)
               (set_console_plugins (Remove (console_plugins console) ''mce'') console) s;
             case r of Inl e \<Rightarrow> Some ((no_requeue, Some e), s) | Inr _ \<Rightarrow> Some (ok_result, s)
           }
           else Some (ok_result, s)
     })"

text \<open>The check of the console's deployment after its templates were applied.\<close>

definition enable_console_plugin :: "'w ctx \<Rightarrow> nn \<Rightarrow> ('w rstate, reconcile_result) go" where
  "enable_console_plugin cx n s = do {
     (r, s) \<leftarrow> api_GetDeployment (cx_Client cx) n s;
     case r of
       Inl e \<Rightarrow> Some ((requeue_in requeuePeriod, None), s)
     | Inr d \<Rightarrow>
         if list_ex (\<lambda>dc. dcn_Type dc = ''Available'' \<and> dcn_Status dc = ConditionTrue) (dp_Conditions d)
         then addPluginToConsoleResource cx s
         else Some ((requeue_in requeuePeriod, None), s)
   }"

definition ensureConsoleMCE ::
  "'w ctx \<Rightarrow> MultiClusterEngine \<Rightarrow> ('w rstate, reconcile_result) go" where
  "ensureConsoleMCE cx m s =
    (let n = target_nn m ''console-mce-console''
     in internal_then cx m ConsoleMCE
          (render_then cx m ConsoleMCE (overrides_then m ConsoleMCE (\<lambda>templates s. do {
             (r, s) \<leftarrow> apply_templates cx m True templates s;
             if snd r \<noteq> None then Some (r, s) else enable_console_plugin cx n s
           })))
          (switch_on n s))"

definition ensureNoConsoleMCE ::
  "'w ctx \<Rightarrow> MultiClusterEngine \<Rightarrow> bool \<Rightarrow> ('w rstate, reconcile_result) go" where
  "ensureNoConsoleMCE cx m ocpConsole s =
    (let n = target_nn m ''console-mce-console''
     in no_internal_then cx m ConsoleMCE (\<lambda>s.
          if \<not> ocpConsole then Some (ok_result, add_component (ConsoleUnavailableStatus n) s)
          else do {
            (r, s) \<leftarrow> removePluginFromConsoleResource cx (add_component (toggle_DisabledStatus n []) s);
            if snd r \<noteq> None then Some (r, s)
            else render_then cx m ConsoleMCE (delete_templates cx m True False) s
          })
        (remove_component (toggle_EnabledStatus n) s))"

section \<open>Managed service account and fleet navigation\<close>

definition ensureManagedServiceAccount ::
  "'w ctx \<Rightarrow> MultiClusterEngine \<Rightarrow> ('w rstate, reconcile_result) go" where
  "ensureManagedServiceAccount cx m s =
    internal_then cx m ManagedServiceAccount
      (render_then cx m ManagedServiceAccount (overrides_then m ManagedServiceAccount
        (\<lambda>templates. apply_addon_templates cx m False missing_crd
           (clusterManagementAddOnNotFoundStatus ''managed-serviceaccount''
              (sp_TargetNamespace (mce_Spec m))) templates False)))
      (add_component (PresentStatus ('''', ''managed-serviceaccount'') clusterManagementAddOnGVK)
        (remove_component (toggle_DisabledStatus (target_nn m ''managedservice'') []) s))"

definition ensureNoManagedServiceAccount ::
  "'w ctx \<Rightarrow> MultiClusterEngine \<Rightarrow> ('w rstate, reconcile_result) go" where
  "ensureNoManagedServiceAccount cx m s =
    no_internal_then cx m ManagedServiceAccount
      (render_then cx m ManagedServiceAccount (\<lambda>templates s.
         delete_templates cx m True True templates
           (add_component (toggle_DisabledStatus (target_nn m ''managedservice'') []) s))) s"

definition ensureFleetNavigation ::
  "'w ctx \<Rightarrow> MultiClusterEngine \<Rightarrow> ('w rstate, reconcile_result) go" where
  "ensureFleetNavigation cx m s =
    internal_then cx m FleetNavigation
      (render_then cx m FleetNavigation
        (\<lambda>templates. apply_addon_templates cx m False missing_crd
           (clusterManagementAddOnNotFoundStatus FleetNavigation (sp_TargetNamespace (mce_Spec m)))
           templates False))
      (add_component (PresentStatus ('''', FleetNavigation) clusterManagementAddOnGVK)
        (remove_component (toggle_DisabledStatus (target_nn m FleetNavigation) []) s))"

definition ensureNoFleetNavigation ::
  "'w ctx \<Rightarrow> MultiClusterEngine \<Rightarrow> ('w rstate, reconcile_result) go" where
  "ensureNoFleetNavigation cx m s =
    no_internal_then cx m FleetNavigation
      (render_then cx m FleetNavigation (\<lambda>templates s.
         delete_templates cx m False True templates
           (add_component (toggle_DisabledStatus (target_nn m FleetNavigation) []) s))) s"

section \<open>Discovery and Cluster API\<close>

definition ensureDiscovery :: "'w ctx \<Rightarrow> MultiClusterEngine \<Rightarrow> ('w rstate, reconcile_result) go" where
  "ensureDiscovery cx m s =
    deploy_component cx m Discovery (switch_on (target_nn m ''discovery-operator'') s)"

definition ensureNoDiscovery :: "'w ctx \<Rightarrow> MultiClusterEngine \<Rightarrow> ('w rstate, reconcile_result) go" where
  "ensureNoDiscovery cx m s =
    undeploy_component cx m Discovery (switch_off (target_nn m ''discovery-operator'')) s"

definition ensureClusterAPI :: "'w ctx \<Rightarrow> MultiClusterEngine \<Rightarrow> ('w rstate, reconcile_result) go" where
  "ensureClusterAPI cx m s =
    deploy_component cx m ClusterAPI (switch_on (target_nn m ''capi-controller-manager'') s)"

definition ensureNoClusterAPI :: "'w ctx \<Rightarrow> MultiClusterEngine \<Rightarrow> ('w rstate, reconcile_result) go" where
  "ensureNoClusterAPI cx m s =
    undeploy_component cx m ClusterAPI (switch_off (target_nn m ''capi-controller-manager'')) s"

definition ensureClusterAPIProviderAWS ::
  "'w ctx \<Rightarrow> MultiClusterEngine \<Rightarrow> ('w rstate, reconcile_result) go" where
  "ensureClusterAPIProviderAWS cx m s =
    deploy_component cx m ClusterAPIProviderAWS (switch_on (target_nn m ''capa-controller-manager'') s)"

definition ensureNoClusterAPIProviderAWS ::
  "'w ctx \<Rightarrow> MultiClusterEngine \<Rightarrow> ('w rstate, reconcile_result) go" where
  "ensureNoClusterAPIProviderAWS cx m s =
    undeploy_component cx m ClusterAPIProviderAWS
      (switch_off (target_nn m ''capa-controller-manager'')) s"

definition ensureClusterAPIProviderAzure ::
  "'w ctx \<Rightarrow> MultiClusterEngine \<Rightarrow> ('w rstate, reconcile_result) go" where
  "ensureClusterAPIProviderAzure cx m s =
    deploy_component cx m ClusterAPIProviderAzurePreview
      (switch_on (target_nn m ''capz-controller-manager'')
        (switch_on (target_nn m ''azureserviceoperator-controller-manager'') s))"

text \<open>Both reporters are switched at the start, the second one again after rendering.\<close>

definition ensureNoClusterAPIProviderAzure ::
  "'w ctx \<Rightarrow> MultiClusterEngine \<Rightarrow> ('w rstate, reconcile_result) go" where
  "ensureNoClusterAPIProviderAzure cx m s =
    undeploy_component cx m ClusterAPIProviderAzurePreview
      (switch_off (target_nn m ''capz-controller-manager''))
      (switch_off (target_nn m ''capz-controller-manager'')
        (switch_off (target_nn m ''azureserviceoperator-controller-manager'') s))"

definition ensureClusterAPIProviderMetal ::
  "'w ctx \<Rightarrow> MultiClusterEngine \<Rightarrow> ('w rstate, reconcile_result) go" where
  "ensureClusterAPIProviderMetal cx m s =
    deploy_component cx m ClusterAPIProviderMetal
      (switch_on (target_nn m ''mce-capm3-controller-manager'') s)"

definition ensureNoClusterAPIProviderMetal ::
  "'w ctx \<Rightarrow> MultiClusterEngine \<Rightarrow> ('w rstate, reconcile_result) go" where
  "ensureNoClusterAPIProviderMetal cx m s =
    undeploy_component cx m ClusterAPIProviderMetal
      (switch_off (target_nn m ''mce-capm3-controller-manager'')) s"

definition ensureClusterAPIProviderOA ::
  "'w ctx \<Rightarrow> MultiClusterEngine \<Rightarrow> ('w rstate, reconcile_result) go" where
  "ensureClusterAPIProviderOA cx m s =
    deploy_component cx m ClusterAPIProviderOA
      (switch_on (target_nn m ''capoa-controlplane-controller-manager'')
        (switch_on (target_nn m ''capoa-bootstrap-controller-manager'') s))"

definition ensureNoClusterAPIProviderOA ::
  "'w ctx \<Rightarrow> MultiClusterEngine \<Rightarrow> ('w rstate, reconcile_result) go" where
  "ensureNoClusterAPIProviderOA cx m s =
    undeploy_component cx m ClusterAPIProviderOA (\<lambda>s. s)
      (switch_off (target_nn m ''capoa-controlplane-controller-manager'')
        (switch_off (target_nn m ''capoa-bootstrap-controller-manager'') s))"

section \<open>Hive and the assisted service\<close>

definition hiveConfigGVK :: gvk where
  "hiveConfigGVK = mk_gvk ''hive.openshift.io'' ''v1'' ''HiveConfig''"

definition HiveConfig :: "MultiClusterEngine \<Rightarrow> kobj" where
  "HiveConfig m =
    AddBackplaneConfigLabels (mce_Name m)
      ((mk_obj hiveConfigGVK '''' ''hive'')\<lparr>ko_Content := [(''spec'', JObject [])]\<rparr>)"

definition ensureHive :: "'w ctx \<Rightarrow> MultiClusterEngine \<Rightarrow> ('w rstate, reconcile_result) go" where
  "ensureHive cx m s =
    internal_then cx m Hive
      (render_then cx m Hive (overrides_then m Hive (\<lambda>templates s. do {
         (r, s) \<leftarrow> apply_templates cx m True templates s;
         if snd r \<noteq> None then Some (r, s) else ensureUnstructuredResource cx m (HiveConfig m) s
       })))
      (switch_on (target_nn m ''hive-operator'') s)"

definition ensureNoHive :: "'w ctx \<Rightarrow> MultiClusterEngine \<Rightarrow> ('w rstate, reconcile_result) go" where
  "ensureNoHive cx m s =
    no_internal_then cx m Hive
      (render_then cx m Hive (\<lambda>templates s. do {
         let s = switch_off (target_nn m ''hive-operator'') s;
         (r, s) \<leftarrow> api_Get (cx_Client cx) hiveConfigGVK ('''', ''hive'') s;
         case r of
           Inr hiveConfig \<Rightarrow> do {
             (e, s) \<leftarrow> api_Delete (cx_Client cx) hiveConfig s;
             case e of
               None \<Rightarrow> delete_templates cx m True False templates s
             | Some e \<Rightarrow>
                 if \<not> IsNotFound e then Some ((no_requeue, Some e), s)
                 else delete_templates cx m True False templates s
           }
         | Inl e \<Rightarrow>
             if \<not> IsNotFound e then Some ((requeue_in requeuePeriod, None), s)
             else delete_templates cx m True False templates s
       })) s"

definition assisted_namespace :: "MultiClusterEngine \<Rightarrow> string" where
  "assisted_namespace m =
    (case sp_Overrides (mce_Spec m) of
       None \<Rightarrow> sp_TargetNamespace (mce_Spec m)
     | Some ov \<Rightarrow>
         if ov_InfrastructureCustomNamespace ov \<noteq> '''' then ov_InfrastructureCustomNamespace ov
         else sp_TargetNamespace (mce_Spec m))"

definition ensureAssistedService ::
  "'w ctx \<Rightarrow> MultiClusterEngine \<Rightarrow> ('w rstate, reconcile_result) go" where
  "ensureAssistedService cx m s =
    internal_then cx m AssistedService
      (render_in_then cx m AssistedService (assisted_namespace m)
        (overrides_then m AssistedService (apply_templates cx m True)))
      (switch_on (assisted_namespace m, ''infrastructure-operator'') s)"

definition ensureNoAssistedService ::
  "'w ctx \<Rightarrow> MultiClusterEngine \<Rightarrow> ('w rstate, reconcile_result) go" where
  "ensureNoAssistedService cx m s =
    no_internal_then cx m AssistedService
      (render_in_then cx m AssistedService (assisted_namespace m) (\<lambda>templates s.
         delete_templates cx m True False templates
           (switch_off (assisted_namespace m, ''infrastructure-operator'') s))) s"

section \<open>Server foundation, image based install, cluster lifecycle\<close>

definition ensureServerFoundation ::
  "'w ctx \<Rightarrow> MultiClusterEngine \<Rightarrow> ('w rstate, reconcile_result) go" where
  "ensureServerFoundation cx m s =
    (let s = switch_on (target_nn m ''ocm-controller'') s;
         s = (if cx_DeployOnOCP cx then switch_on (target_nn m ''ocm-proxyserver'') s else s);
         s = switch_on (target_nn m ''ocm-webhook'') s
     in deploy_component cx m ServerFoundation s)"

definition ensureNoServerFoundation ::
  "'w ctx \<Rightarrow> MultiClusterEngine \<Rightarrow> ('w rstate, reconcile_result) go" where
  "ensureNoServerFoundation cx m s =
    undeploy_component cx m ServerFoundation
      (\<lambda>s. let s = switch_off (target_nn m ''ocm-controller'') s;
               s = (if cx_DeployOnOCP cx then switch_off (target_nn m ''ocm-proxyserver'') s else s)
           in switch_off (target_nn m ''ocm-webhook'') s) s"

definition ensureImageBasedInstallOperator ::
  "'w ctx \<Rightarrow> MultiClusterEngine \<Rightarrow> ('w rstate, reconcile_result) go" where
  "ensureImageBasedInstallOperator cx m s =
    deploy_component cx m ImageBasedInstallOperator
      (switch_on (target_nn m ''image-based-install-operator'') s)"

definition ensureNoImageBasedInstallOperator ::
  "'w ctx \<Rightarrow> MultiClusterEngine \<Rightarrow> ('w rstate, reconcile_result) go" where
  "ensureNoImageBasedInstallOperator cx m s =
    undeploy_component cx m ImageBasedInstallOperator
      (switch_off (target_nn m ''image-based-install-operator'')) s"

definition lifecycle_controllers :: "string list" where
  "lifecycle_controllers =
    [''cluster-curator-controller'', ''clusterclaims-controller'', ''provider-credential-controller'',
     ''cluster-image-set-controller'']"

definition ensureClusterLifecycle ::
  "'w ctx \<Rightarrow> MultiClusterEngine \<Rightarrow> ('w rstate, reconcile_result) go" where
  "ensureClusterLifecycle cx m s =
    (let s = (if cx_DeployOnOCP cx
              then fold (\<lambda>n. switch_on (target_nn m n)) lifecycle_controllers s else s)
     in deploy_component cx m ClusterLifecycle
          (switch_on (target_nn m ''clusterlifecycle-state-metrics-v2'') s))"

text \<open>The reporter of \<open>clusterlifecycle-state-metrics-v2\<close> is not switched off.\<close>

definition ensureNoClusterLifecycle ::
  "'w ctx \<Rightarrow> MultiClusterEngine \<Rightarrow> ('w rstate, reconcile_result) go" where
  "ensureNoClusterLifecycle cx m s =
    undeploy_component cx m ClusterLifecycle
      (\<lambda>s. if cx_DeployOnOCP cx
           then fold (\<lambda>n. switch_off (target_nn m n)) lifecycle_controllers s else s) s"

section \<open>Cluster manager\<close>

definition foundation_ClusterManager :: "'w ctx \<Rightarrow> MultiClusterEngine \<Rightarrow> strmap \<Rightarrow> kobj" where
  "foundation_ClusterManager cx m overrides =
    (let cmTolerations = (case sp_Tolerations (mce_Spec m) of None \<Rightarrow> DefaultTolerations | Some ts \<Rightarrow> ts);
         networkPoliciesMode =
           (case sp_NetworkPolicies (mce_Spec m) of
              Some np \<Rightarrow> if \<not> np_Enabled np then ''Disable'' else ''Enable''
            | None \<Rightarrow> ''Enable'');
         spec = \<lparr>cms_RegistrationImagePullSpec = sm_get overrides ''registration'',
                 cms_WorkImagePullSpec = sm_get overrides ''work'',
                 cms_PlacementImagePullSpec = sm_get overrides ''placement'',
                 cms_AddOnManagerImagePullSpec = sm_get overrides ''addon_manager'',
                 cms_NodeSelector = sp_NodeSelector (mce_Spec m),
                 cms_Tolerations = cmTolerations,
                 cms_DeployMode = ''Default'',
                 cms_PlacementFeatureGates = [(''PlacementDebugServer'', ''Enable'')],
                 cms_RegistrationFeatureGates = [(''NetworkPolicies'', networkPoliciesMode)]\<rparr>
     in AddBackplaneConfigLabels (mce_Name m)
          ((mk_obj clusterManagerGVK '''' ''cluster-manager'')
             \<lparr>ko_Content := cx_EncodeClusterManager cx spec\<rparr>))"

text \<open>
  The TLS profile config maps (\<open>pkg/rendering/renderer.go\<close>).  A nil profile makes the code panic.
\<close>

definition api_CreateOrUpdate ::
  "'w ctx \<Rightarrow> (kobj \<Rightarrow> kobj resp) \<Rightarrow> kobj \<Rightarrow> ('w rstate, go_error option) go" where
  "api_CreateOrUpdate cx f u s =
    (case cx_CreateOrUpdate cx f u (ks_World s) of
       ((calls, e), w) \<Rightarrow> Some (e, s\<lparr>ks_World := w, ks_Trace := ks_Trace s @ calls\<rparr>))"

definition tls_configmap :: "string \<Rightarrow> kobj" where
  "tls_configmap namespace = mk_obj configMapGVK namespace ''ocm-tls-profile''"

definition tls_mutate ::
  "'w ctx \<Rightarrow> MultiClusterEngine \<Rightarrow> TLSProfileSpec \<Rightarrow> string list \<Rightarrow> kobj \<Rightarrow> kobj resp" where
  "tls_mutate cx m profile ianaCiphers u =
    (let u = u\<lparr>ko_Content := AList.update ''data''
           (strmap_json [(''minTLSVersion'', tp_MinTLSVersion profile),
                         (''cipherSuites'', join '','' ianaCiphers)]) (ko_Content u)\<rparr>
     in case ApplyControllerReference cx m u of
          Inl e \<Rightarrow> Inl (WrapError (''failed to set controller reference: '' @ err_msg e) e)
        | Inr u \<Rightarrow> Inr u)"

fun ensure_tls_configmaps ::
  "'w ctx \<Rightarrow> MultiClusterEngine \<Rightarrow> TLSProfileSpec \<Rightarrow> string list \<Rightarrow> string list
    \<Rightarrow> ('w rstate, go_error option) go" where
  "ensure_tls_configmaps cx m profile ianaCiphers [] s = Some (None, s)"
| "ensure_tls_configmaps cx m profile ianaCiphers (namespace # rest) s = do {
     (e, s) \<leftarrow> api_CreateOrUpdate cx (tls_mutate cx m profile ianaCiphers) (tls_configmap namespace) s;
     case e of
       Some e \<Rightarrow> Some (Some (WrapError (''failed to create or update TLS profile ConfigMap in namespace ''
                   @ namespace @ '': '' @ err_msg e) e), s)
     | None \<Rightarrow> ensure_tls_configmaps cx m profile ianaCiphers rest s
   }"

definition EnsureTLSProfileConfigMaps ::
  "'w ctx \<Rightarrow> MultiClusterEngine \<Rightarrow> string list \<Rightarrow> ('w rstate, go_error option) go" where
  "EnsureTLSProfileConfigMaps cx m namespaces s = do {
     (r, s) \<leftarrow> GetAPIServerTLSProfile (cx_Client cx) (rs_Env s) (cx_DeployOnOCP cx) (cx_TLSProfiles cx)
                (cx_DecodeTLS cx) s;
     case r of
       Inl e \<Rightarrow> Some (Some (WrapError (''failed to get APIServer TLS profile: '' @ err_msg e) e), s)
     | Inr None \<Rightarrow> None
     | Inr (Some tlsProfile) \<Rightarrow>
         (case ConvertCipherSuitesToIANA (tp_Ciphers tlsProfile) of
            Inl e \<Rightarrow> Some (Some (WrapError
              (''failed to convert cipher suites to IANA format: '' @ err_msg e) e), s)
          | Inr ianaCiphers \<Rightarrow> ensure_tls_configmaps cx m tlsProfile ianaCiphers namespaces s)
   }"

definition apply_cluster_manager ::
  "'w ctx \<Rightarrow> MultiClusterEngine \<Rightarrow> ('w rstate, reconcile_result) go" where
  "apply_cluster_manager cx m s =
    (let cmTemplate = foundation_ClusterManager cx m (ca_ImageOverrides (rs_Cache s))
     in case ApplyControllerReference cx m cmTemplate of
          Inl e \<Rightarrow> Some ((no_requeue, Some (PkgWrap
            (''Error setting controller reference on resource '' @ ko_Name cmTemplate) e)), s)
        | Inr cmTemplate \<Rightarrow> do {
            (r, s) \<leftarrow> api_Patch (cx_Client cx) cmTemplate s;
            case r of
              Inl e \<Rightarrow> Some ((no_requeue, Some (PkgWrap (''error applying object Name: ''
                @ ko_Name cmTemplate @ '' Kind: '' @ ko_Kind cmTemplate) e)), s)
            | Inr _ \<Rightarrow> do {
                (e, s) \<leftarrow> EnsureTLSProfileConfigMaps cx m [sp_TargetNamespace (mce_Spec m)] s;
                Some ((no_requeue, e), s)
              }
          })"

definition ensureClusterManager ::
  "'w ctx \<Rightarrow> MultiClusterEngine \<Rightarrow> ('w rstate, reconcile_result) go" where
  "ensureClusterManager cx m s =
    internal_then cx m ClusterManager
      (render_then cx m ClusterManager (overrides_then m ClusterManager (\<lambda>templates s. do {
         (r, s) \<leftarrow> apply_templates cx m True templates s;
         if snd r \<noteq> None then Some (r, s) else apply_cluster_manager cx m s
       })))
      (add_component (ClusterManagerStatus ('''', ''cluster-manager''))
        (switch_on (target_nn m ''cluster-manager'') s))"

text \<open>The templates are deleted only after the hub namespace of the cluster manager is gone.\<close>

definition await_hub_namespace ::
  "'w ctx \<Rightarrow> MultiClusterEngine \<Rightarrow> kobj list \<Rightarrow> ('w rstate, reconcile_result) go" where
  "await_hub_namespace cx m templates s = do {
     (r, s) \<leftarrow> api_Get (cx_Client cx) namespaceGVK ('''', ''open-cluster-management-hub'') s;
     case r of
       Inr _ \<Rightarrow> Some ((no_requeue, Some (ErrorString
         (''waiting for '' @ [CHR 0x27] @ ''open-cluster-management-hub'' @ [CHR 0x27] @ '' namespace to be terminated ''
          @ ''before proceeding with clustermanager cleanup''))), s)
     | Inl e \<Rightarrow>
         if \<not> IsNotFound e then Some ((no_requeue, Some e), s)
         else delete_templates cx m True False templates s
   }"

definition ensureNoClusterManager ::
  "'w ctx \<Rightarrow> MultiClusterEngine \<Rightarrow> ('w rstate, reconcile_result) go" where
  "ensureNoClusterManager cx m s =
    no_internal_then cx m ClusterManager
      (render_then cx m ClusterManager (\<lambda>templates s. do {
         let s = remove_component (ClusterManagerStatus ('''', ''cluster-manager''))
                   (switch_off (target_nn m ''cluster-manager'') s);
         (r, s) \<leftarrow> api_Get (cx_Client cx) clusterManagerGVK ('''', ''cluster-manager'') s;
         case r of
           Inr clusterManager \<Rightarrow> do {
             (e, s) \<leftarrow> api_Delete (cx_Client cx) clusterManager s;
             case e of
               Some e \<Rightarrow> Some ((no_requeue, Some e), s)
             | None \<Rightarrow> await_hub_namespace cx m templates s
           }
         | Inl e \<Rightarrow>
             if \<not> IsNotFound e then Some ((no_requeue, Some e), s)
             else await_hub_namespace cx m templates s
       })) s"

definition ensureClusterPermission ::
  "'w ctx \<Rightarrow> MultiClusterEngine \<Rightarrow> ('w rstate, reconcile_result) go" where
  "ensureClusterPermission cx m s =
    deploy_component cx m ClusterPermission (switch_on (target_nn m ''cluster-permission'') s)"

definition ensureNoClusterPermission ::
  "'w ctx \<Rightarrow> MultiClusterEngine \<Rightarrow> ('w rstate, reconcile_result) go" where
  "ensureNoClusterPermission cx m s =
    undeploy_component cx m ClusterPermission (switch_off (target_nn m ''cluster-permission'')) s"

section \<open>HyperShift\<close>

definition ensureHyperShift ::
  "'w ctx \<Rightarrow> MultiClusterEngine \<Rightarrow> ('w rstate, reconcile_result) go" where
  "ensureHyperShift cx m s =
    internal_then cx m HyperShift
      (render_then cx m HyperShift (overrides_then m HyperShift
        (\<lambda>templates. apply_addon_templates cx m True missing_crd_unwrapped
           (clusterManagementAddOnNotFoundStatus ''hypershift'' (sp_TargetNamespace (mce_Spec m)))
           templates False)))
      (add_component (PresentStatus ('''', ''hypershift-addon'') clusterManagementAddOnGVK)
        (switch_on (target_nn m ''hypershift-addon-manager'') s))"

definition ensureNoHyperShift ::
  "'w ctx \<Rightarrow> MultiClusterEngine \<Rightarrow> ('w rstate, reconcile_result) go" where
  "ensureNoHyperShift cx m s =
    (let n = target_nn m ''hypershift-addon-manager'';
         waiting = waiting_status n ''Component'' ''hypershift'' ''Uninstalled'' ConditionFalse
           (''Waiting for '' @ [CHR 0x27] @ ''hypershift-addon'' @ [CHR 0x27]
            @ '' ManagedClusterAddOn to be removed'');
         addon = RenderHypershiftAddon m
     in no_internal_then cx m HyperShift (\<lambda>s. do {
          (r, s) \<leftarrow> api_Get (cx_Client cx) (ko_GVK addon) (ko_key addon) s;
          if (case r of Inr _ \<Rightarrow> True | Inl e \<Rightarrow> \<not> (IsNotFound e \<or> IsNoMatchError e))
          then Some ((requeue_in requeuePeriod, None), add_component waiting s)
          else render_then cx m HyperShift (delete_templates cx m True False)
                 (add_component (toggle_DisabledStatus n []) s)
        }) s)"

definition removeHypershiftLocalHosting ::
  "'w ctx \<Rightarrow> MultiClusterEngine \<Rightarrow> ('w rstate, reconcile_result) go" where
  "removeHypershiftLocalHosting cx m s = do {
     (r, s) \<leftarrow> deleteTemplate cx m (RenderHypershiftAddon m) s;
     if snd r \<noteq> None then Some (r, s) else Some (ok_result, s)
   }"

text \<open>The add-on's reporter is replaced by one that waits, with a status and a message.\<close>

definition await_addon :: "kobj \<Rightarrow> string \<Rightarrow> string \<Rightarrow> 'w rstate \<Rightarrow> 'w rstate" where
  "await_addon addon st message s =
    add_component (waiting_status (ko_key addon) (ko_Kind addon) (ko_Name addon) ''Available'' st message)
      (remove_component (ManagedClusterAddOnStatus (ko_key addon)) s)"

definition applyHypershiftLocalHosting ::
  "'w ctx \<Rightarrow> MultiClusterEngine \<Rightarrow> ('w rstate, reconcile_result) go" where
  "applyHypershiftLocalHosting cx m s = do {
     let addon = applyReleaseVersionAnnotation cx (RenderHypershiftAddon m);
     (r, s) \<leftarrow> applyTemplate cx m addon s;
     case snd r of
       None \<Rightarrow> Some (ok_result, s)
     | Some e \<Rightarrow>
         if missing_crd_unwrapped e
         then Some ((requeue_in requeuePeriod, None),
                await_addon addon ConditionFalse ''Waiting for ManagedClusterAddOn CRD to be available'' s)
         else if unwrapped IsInternalError e
         then Some ((requeue_in requeuePeriod, None), await_addon addon ConditionUnknown (err_msg e) s)
         else Some (r, s)
   }"

definition reconcileHypershiftLocalHosting ::
  "'w ctx \<Rightarrow> MultiClusterEngine \<Rightarrow> ('w rstate, reconcile_result) go" where
  "reconcileHypershiftLocalHosting cx m s =
    (let addon = RenderHypershiftAddon m;
         disable = (\<lambda>explanation. removeHypershiftLocalHosting cx m
           (add_component (NewDisabledStatus (ko_key addon) explanation [addon]) s))
     in if \<not> Enabled m HypershiftLocalHosting then disable ''Component is disabled''
        else if \<not> Enabled m HyperShift
        then disable ''Local hosting only available when hypershift is enabled''
        else if \<not> Enabled m LocalCluster
        then disable ''Local hosting only available when local-cluster is enabled''
        else do {
          (r, s) \<leftarrow> api_Get (cx_Client cx) namespaceGVK ('''', sp_LocalClusterName (mce_Spec m)) s;
          if (case r of Inl e \<Rightarrow> IsNotFound e | Inr _ \<Rightarrow> False)
          then Some ((requeue_in requeuePeriod, None),
                 add_component (waiting_status (ko_key addon) (ko_Kind addon) (ko_Name addon)
                   ''Available'' ConditionFalse (''Waiting for namespace '' @ [CHR 0x27]
                    @ sp_LocalClusterName (mce_Spec m) @ [CHR 0x27])) s)
          else applyHypershiftLocalHosting cx m (add_component (ManagedClusterAddOnStatus (ko_key addon)) s)
        })"

section \<open>Cluster proxy\<close>

text \<open>Here the enabled reporter is added before the disabled one is removed.\<close>

definition switch_on_reversed :: "nn \<Rightarrow> 'w rstate \<Rightarrow> 'w rstate" where
  "switch_on_reversed n s =
    remove_component (toggle_DisabledStatus n []) (add_component (toggle_EnabledStatus n) s)"

definition proxy_deployments :: "string list" where
  "proxy_deployments = [''cluster-proxy-addon-manager'', ''cluster-proxy-addon-user'', ''cluster-proxy'']"

definition ensureClusterProxyAddon ::
  "'w ctx \<Rightarrow> MultiClusterEngine \<Rightarrow> ('w rstate, reconcile_result) go" where
  "ensureClusterProxyAddon cx m s =
    internal_then cx m ClusterProxyAddon
      (render_then cx m ClusterProxyAddon (overrides_then m ClusterProxyAddon
        (\<lambda>templates. apply_addon_templates cx m False missing_crd_unwrapped
           (clusterManagementAddOnNotFoundStatus ''cluster-proxy-addon'' (sp_TargetNamespace (mce_Spec m)))
           templates False)))
      (fold (\<lambda>n. switch_on_reversed (target_nn m n)) proxy_deployments s)"

definition ensureNoClusterProxyAddon ::
  "'w ctx \<Rightarrow> MultiClusterEngine \<Rightarrow> ('w rstate, reconcile_result) go" where
  "ensureNoClusterProxyAddon cx m s =
    undeploy_component cx m ClusterProxyAddon (\<lambda>s. s)
      (fold (\<lambda>n. switch_off (target_nn m n)) proxy_deployments s)"

end
