(* ===== verification/Local_Cluster.thy ===== *)
theory Local_Cluster
  imports Toggle_Base
begin

text \<open>
  The hub as a managed cluster of itself: \<open>ensureLocalCluster\<close>, \<open>annotateManagedCluster\<close> and
  \<open>ensureNoLocalCluster\<close> of \<open>controllers/toggle_components.go\<close> with \<open>pkg/utils/local_cluster.go\<close>.
\<close>

abbreviation AnnotationNodeSelector :: string where
  "AnnotationNodeSelector \<equiv> ''open-cluster-management/nodeSelector''"

abbreviation AnnotationTolerations :: string where
  "AnnotationTolerations \<equiv> ''open-cluster-management/tolerations''"

definition NewManagedCluster :: "string \<Rightarrow> kobj" where
  "NewManagedCluster name =
    (mk_obj managedClusterGVK '''' name)
      \<lparr>ko_Labels := [(''local-cluster'', ''true''), (''cloud'', ''auto-detect''),
                     (''vendor'', ''auto-detect''), (''velero.io/exclude-from-backup'', ''true'')],
       ko_Content := [(''spec'', JObject [(''hubAcceptsClient'', JBool True)])]\<rparr>"

definition NewLocalNamespace :: "string \<Rightarrow> kobj" where
  "NewLocalNamespace name = mk_obj namespaceGVK '''' name"

text \<open>The annotations that carry the node selector and the tolerations of the engine.\<close>

definition annotateManagedCluster :: "'w ctx \<Rightarrow> MultiClusterEngine \<Rightarrow> strmap \<Rightarrow> strmap resp" where
  "annotateManagedCluster cx m annotations =
    (case (if sp_NodeSelector (mce_Spec m) \<noteq> []
           then (case cx_MarshalSelector cx (sp_NodeSelector (mce_Spec m)) of
                   Inl e \<Rightarrow> Inl e
                 | Inr v \<Rightarrow> Inr (sm_put annotations AnnotationNodeSelector v))
           else Inr (AList.delete AnnotationNodeSelector annotations)) of
       Inl e \<Rightarrow> Inl e
     | Inr annotations \<Rightarrow>
         (if spec_tolerations m \<noteq> []
          then (case cx_MarshalTolerations cx (spec_tolerations m) of
                  Inl e \<Rightarrow> Inl e
                | Inr v \<Rightarrow> Inr (sm_put annotations AnnotationTolerations v))
          else Inr (AList.delete AnnotationTolerations annotations)))"

text \<open>The local cluster's reporter is replaced by one that waits.\<close>

definition await_local_cluster :: "MultiClusterEngine \<Rightarrow> string \<Rightarrow> 'w rstate \<Rightarrow> 'w rstate" where
  "await_local_cluster m message s =
    (let name = sp_LocalClusterName (mce_Spec m)
     in add_component (waiting_status (target_nn m name) ''local-cluster'' name ''Available''
            ConditionFalse message)
          (remove_component (LocalClusterStatus (target_nn m name) True) s))"

text \<open>The end of \<open>ensureLocalCluster\<close>: the annotations are set and the resource is updated.\<close>

definition update_managed_cluster ::
  "'w ctx \<Rightarrow> MultiClusterEngine \<Rightarrow> kobj \<Rightarrow> ('w rstate, reconcile_result) go" where
  "update_managed_cluster cx m managedCluster s =
    (case annotateManagedCluster cx m (ko_Annotations managedCluster) of
       Inl e \<Rightarrow> Some ((no_requeue, Some e), s)
     | Inr annotations \<Rightarrow> do {
         (r, s) \<leftarrow> api_Update (cx_Client cx)
           (applyReleaseVersionAnnotation cx (managedCluster\<lparr>ko_Annotations := annotations\<rparr>)) s;
         Some ((no_requeue, case r of Inl e \<Rightarrow> Some e | Inr _ \<Rightarrow> None), s)
       })"

text \<open>
  The branch for a missing \<open>ManagedCluster\<close>: it is created once its namespace is gone.  The object
  that \<open>Create\<close> returns is the one that gets updated.
\<close>

definition create_managed_cluster ::
  "'w ctx \<Rightarrow> MultiClusterEngine \<Rightarrow> ('w rstate, reconcile_result) go" where
  "create_managed_cluster cx m s = do {
     let name = sp_LocalClusterName (mce_Spec m);
     (r, s) \<leftarrow> api_Get (cx_Client cx) namespaceGVK ('''', name) s;
     case r of
       Inr _ \<Rightarrow> Some ((requeue_in requeuePeriod, None), s)
     | Inl e \<Rightarrow>
         if IsNotFound e
         then do {
           (r, s) \<leftarrow> api_Create (cx_Client cx) (NewManagedCluster name) s;
           case r of
             Inr managedCluster \<Rightarrow> update_managed_cluster cx m managedCluster s
           | Inl e \<Rightarrow>
               if IsInternalError e
               then Some ((requeue_in requeuePeriod, None),
                      await_local_cluster m ''Waiting for ManagedCluster webhook'' s)
               else if IsNoMatchError e \<or> IsNotFound e
               then Some ((requeue_in requeuePeriod, None), s)
               else Some ((no_requeue, Some e), s)
         }
         else Some ((no_requeue, Some e), s)
   }"

definition ensureLocalCluster :: "'w ctx \<Rightarrow> MultiClusterEngine \<Rightarrow> ('w rstate, reconcile_result) go" where
  "ensureLocalCluster cx m s =
    (if IsUnitTest (rs_Env s) then Some (ok_result, s)
     else do {
       let name = sp_LocalClusterName (mce_Spec m);
       let lcs = LocalClusterStatus (target_nn m name) True;
       let s = add_component lcs (remove_component lcs s);
       (r, s) \<leftarrow> api_Get (cx_Client cx) managedClusterGVK ('''', name) s;
       case r of
         Inr managedCluster \<Rightarrow> update_managed_cluster cx m managedCluster s
       | Inl e \<Rightarrow>
           if IsNotFound e then create_managed_cluster cx m s
           else if IsNoMatchError e
           then Some ((requeue_in requeuePeriod, None),
                  await_local_cluster m ''Waiting for ManagedCluster CRD to be available'' s)
           else if IsInternalError e
           then Some ((requeue_in requeuePeriod, None),
                  await_local_cluster m ''Waiting for ManagedCluster webhook'' s)
           else Some ((no_requeue, Some e), s)
     })"

text \<open>The second half of the removal: the namespace of the cluster.\<close>

definition remove_local_namespace ::
  "'w ctx \<Rightarrow> MultiClusterEngine \<Rightarrow> ('w rstate, reconcile_result) go" where
  "remove_local_namespace cx m s = do {
     let name = sp_LocalClusterName (mce_Spec m);
     (r, s) \<leftarrow> api_Get (cx_Client cx) namespaceGVK ('''', name) s;
     case r of
       Inl e \<Rightarrow> if IsNotFound e then Some (ok_result, s) else Some ((no_requeue, Some e), s)
     | Inr _ \<Rightarrow> do {
         (e, s) \<leftarrow> api_Delete (cx_Client cx) (NewLocalNamespace name) s;
         if (case e of Some e \<Rightarrow> \<not> IsNotFound e | None \<Rightarrow> False) then Some ((no_requeue, e), s)
         else do {
           (u, s) \<leftarrow> new_condition cx MultiClusterEngineProgressing ConditionTrue
             NamespaceTerminatingReason ''Waiting for local managed cluster namespace to terminate.'' s;
           Some ((requeue_in requeuePeriod, None), s)
         }
       }
   }"

definition ensureNoLocalCluster ::
  "'w ctx \<Rightarrow> MultiClusterEngine \<Rightarrow> ('w rstate, reconcile_result) go" where
  "ensureNoLocalCluster cx m s =
    (if IsUnitTest (rs_Env s) then Some (ok_result, s)
     else do {
       let name = sp_LocalClusterName (mce_Spec m);
       let lcs = LocalClusterStatus (target_nn m name) False;
       let s = add_component lcs (remove_component lcs s);
       (r, s) \<leftarrow> api_Get (cx_Client cx) managedClusterGVK ('''', name) s;
       case r of
         Inl e \<Rightarrow>
           if IsNotFound e \<or> IsNoMatchError e then remove_local_namespace cx m s
           else Some ((no_requeue, Some e), s)
       | Inr _ \<Rightarrow> do {
           (e, s) \<leftarrow> api_Delete (cx_Client cx)
             (AddBackplaneConfigLabels (mce_Name m) (NewManagedCluster name)) s;
           if (case e of Some e \<Rightarrow> \<not> IsNotFound e | None \<Rightarrow> False) then Some ((no_requeue, e), s)
           else do {
             (u, s) \<leftarrow> new_condition cx MultiClusterEngineProgressing ConditionTrue
               ManagedClusterTerminatingReason ''Waiting for local managed cluster to terminate.'' s;
             Some ((requeue_in requeuePeriod, None), s)
           }
         }
     })"

end
