(* ===== verification/Cluster_Info.thy ===== *)
theory Cluster_Info
  imports Toggle_Base
begin

text \<open>
  What the operator reads about the cluster it runs on: the OpenShift version, the console URL, the
  ingress domain (\<open>controllers/backplaneconfig_controller.go\<close>) and whether the OpenShift console is
  enabled (\<open>CheckConsole\<close> of \<open>controllers/toggle_components.go\<close>).
\<close>

definition clusterVersionGVK :: gvk where
  "clusterVersionGVK = mk_gvk ''config.openshift.io'' ''v1'' ''ClusterVersion''"

definition configConsoleGVK :: gvk where
  "configConsoleGVK = mk_gvk ''config.openshift.io'' ''v1'' ''Console''"

definition ingressGVK :: gvk where
  "ingressGVK = mk_gvk ''config.openshift.io'' ''v1'' ''Ingress''"

text \<open>String fields and lists of a typed object; an absent field has its zero value.\<close>

definition string_field :: "kobj \<Rightarrow> string list \<Rightarrow> string" where
  "string_field u path = (case nested (ko_Content u) path of Some (Some (JString v)) \<Rightarrow> v | _ \<Rightarrow> '''')"

definition list_field :: "kobj \<Rightarrow> string list \<Rightarrow> json list" where
  "list_field u path = (case nested (ko_Content u) path of Some (Some (JArray js)) \<Rightarrow> js | _ \<Rightarrow> [])"

definition entry_version :: "json \<Rightarrow> string" where
  "entry_version j =
    (case j of
       JObject h \<Rightarrow> (case map_of h ''version'' of Some (JString v) \<Rightarrow> v | _ \<Rightarrow> '''')
     | _ \<Rightarrow> '''')"

text \<open>An empty history gives the empty version and no error.\<close>

definition getClusterVersion :: "'w ctx \<Rightarrow> ('w rstate, string resp) go" where
  "getClusterVersion cx s =
    (if map_of (rs_Env s) ''UNIT_TEST'' = Some ''true''
     then Some (Inr (case map_of (rs_Env s) ''ACM_HUB_OCP_VERSION'' of
                       Some v \<Rightarrow> v | None \<Rightarrow> ''4.99.99''), s)
     else do {
       (r, s) \<leftarrow> api_Get (cx_Client cx) clusterVersionGVK ('''', ''version'') s;
       case r of
         Inl e \<Rightarrow> Some (Inl e, s)
       | Inr clusterVersion \<Rightarrow>
           (case list_field clusterVersion [''status'', ''history''] of
              [] \<Rightarrow> Some (Inr '''', s)
            | h # _ \<Rightarrow> Some (Inr (entry_version h), s))
     })"

definition getConsoleURL :: "'w ctx \<Rightarrow> ('w rstate, string resp) go" where
  "getConsoleURL cx s =
    (if map_of (rs_Env s) ''UNIT_TEST'' = Some ''true''
     then Some (Inr (''https://console-openshift-console.apps.installer-test-cluster.dev00.red-chesterfield.com''), s)
     else do {
       (r, s) \<leftarrow> api_Get (cx_Client cx) configConsoleGVK ('''', ''cluster'') s;
       case r of
         Inl e \<Rightarrow> Some (Inl e, s)
       | Inr console \<Rightarrow>
           if string_field console [''status'', ''consoleURL''] = ''''
           then Some (Inl (ErrorString ''consoleURL not found or empty in Console config''), s)
           else Some (Inr (string_field console [''status'', ''consoleURL'']), s)
     })"

definition getClusterIngressDomain :: "'w ctx \<Rightarrow> ('w rstate, string resp) go" where
  "getClusterIngressDomain cx s =
    (if map_of (rs_Env s) ''UNIT_TEST'' = Some ''true''
     then Some (Inr ''apps.installer-test-cluster.dev00.red-chesterfield.com'', s)
     else do {
       (r, s) \<leftarrow> api_Get (cx_Client cx) ingressGVK ('''', ''cluster'') s;
       case r of
         Inl e \<Rightarrow> Some (Inl e, s)
       | Inr clusterIngress \<Rightarrow>
           if string_field clusterIngress [''spec'', ''domain''] = ''''
           then Some (Inl (ErrorString ''Domain not found or empty in Ingress''), s)
           else Some (Inr (string_field clusterIngress [''spec'', ''domain'']), s)
     })"

definition CheckConsole :: "'w ctx \<Rightarrow> ('w rstate, bool resp) go" where
  "CheckConsole cx s = do {
     (r, s) \<leftarrow> api_Get (cx_Client cx) clusterVersionGVK ('''', ''version'') s;
     case r of
       Inl e \<Rightarrow> Some (Inl e, s)
     | Inr versionStatus \<Rightarrow> do {
         (r, s) \<leftarrow> getClusterVersion cx s;
         case r of
           Inl e \<Rightarrow> Some (Inl e, s)
         | Inr detected \<Rightarrow>
             (let ocpVersion = (case map_of (rs_Env s) ''ACM_HUB_OCP_VERSION'' of
                                  Some v \<Rightarrow> v | None \<Rightarrow> detected);
                  c = ''>= 4.12.0-0''
              in case cx_NewVersion cx ocpVersion of
                   Some e \<Rightarrow> Some (Inl (WrapError
                     (''failed to convert ocp version to semver compatible value: '' @ err_msg e) e), s)
                 | None \<Rightarrow>
                     (case cx_NewConstraint cx c of
                        Some e \<Rightarrow> Some (Inl (WrapError
                          (''failed to set ocp version constraint: '' @ err_msg e) e), s)
                      | None \<Rightarrow>
                          if \<not> cx_CheckVersion cx c ocpVersion then Some (Inr True, s)
                          else Some (Inr (JString ''Console'' \<in> set (list_field versionStatus
                                 [''status'', ''capabilities'', ''enabledCapabilities''])), s)))
       }
   }"

end
