(* ===== verification/Maestro.thy ===== *)
theory Maestro
  imports Cluster_Info
begin

text \<open>
  The Maestro component of \<open>controllers/toggle_components.go\<close>: its namespace, database secret and
  chart, and the gRPC server of the cluster manager (a config map, a route and a part of the
  \<open>ClusterManager\<close> specification).
\<close>

abbreviation ocmHubNS :: string where "ocmHubNS \<equiv> ''open-cluster-management-hub''"

definition secretGVK :: gvk where
  "secretGVK = mk_gvk '''' ''v1'' ''Secret''"

definition routeGVK :: gvk where
  "routeGVK = mk_gvk ''route.openshift.io'' ''v1'' ''Route''"

section \<open>Namespace, secret, config map and route\<close>

definition ensure_maestro_namespace :: "'w ctx \<Rightarrow> ('w rstate, go_error option) go" where
  "ensure_maestro_namespace cx s = do {
     (r, s) \<leftarrow> api_Get (cx_Client cx) namespaceGVK ('''', ''maestro'') s;
     case r of
       Inr _ \<Rightarrow> Some (None, s)
     | Inl e \<Rightarrow>
         if IsNotFound e
         then do {
           (r, s) \<leftarrow> api_Create (cx_Client cx) (mk_obj namespaceGVK '''' ''maestro'') s;
           case r of
             Inl e \<Rightarrow> if \<not> IsAlreadyExists e
                      then Some (Some (PkgWrap ''failed to create maestro namespace'' e), s)
                      else Some (None, s)
           | Inr _ \<Rightarrow> Some (None, s)
         }
         else Some (Some (PkgWrap ''failed to get maestro namespace'' e), s)
   }"

text \<open>
  The password of an existing secret (its \<open>data\<close> as the typed client returns it, decoded), or a new
  random one.
\<close>

definition ensureMaestroDatabaseSecret ::
  "'w ctx \<Rightarrow> MultiClusterEngine \<Rightarrow> string \<Rightarrow> string \<Rightarrow> ('w rstate, string resp) go" where
  "ensureMaestroDatabaseSecret cx m namespace name s = do {
     (r, s) \<leftarrow> api_Get (cx_Client cx) secretGVK (namespace, name) s;
     case r of
       Inr secret \<Rightarrow> Some (Inr (sm_get (data_of secret) ''password''), s)
     | Inl e \<Rightarrow>
         if \<not> IsNotFound e then Some (Inl (PkgWrap ''failed to get maestro database secret'' e), s)
         else
           (case cx_RandomPassword cx (ks_World s) of
              (Inl e, w) \<Rightarrow>
                Some (Inl (PkgWrap ''failed to generate maestro database password'' e), s\<lparr>ks_World := w\<rparr>)
            | (Inr password, w) \<Rightarrow>
                (let s = s\<lparr>ks_World := w\<rparr>;
                     secret = (mk_obj secretGVK ''maestro'' name)\<lparr>ko_Content :=
                       [(''stringData'', strmap_json
                          [(''host'', ''maestro-db.maestro''), (''port'', ''5432''),
                           (''name'', ''maestro''), (''user'', ''maestro''),
                           (''password'', password)])]\<rparr>
                 in case ApplyControllerReference cx m secret of
                      Inl e \<Rightarrow> Some (Inl (PkgWrap
                        ''failed to set controller reference on maestro database secret'' e), s)
                    | Inr secret \<Rightarrow> do {
                        (r, s) \<leftarrow> api_Create (cx_Client cx) secret s;
                        case r of
                          Inl e \<Rightarrow> Some (Inl (PkgWrap ''failed to create maestro database secret'' e), s)
                        | Inr _ \<Rightarrow> Some (Inr password, s)
                      }))
   }"

definition grpc_config :: "string \<Rightarrow> string" where
  "grpc_config dbPassword = join [CHR 0x0A]
    [''grpc_config:'',
     ''  tls_cert_file: /var/run/secrets/hub/grpc/serving-cert/tls.crt'',
     ''  tls_key_file: /var/run/secrets/hub/grpc/serving-cert/tls.key'',
     ''  client_ca_file: /var/run/secrets/hub/grpc/ca/ca-bundle.crt'',
     ''db_config:'',
     ''  host: maestro-db.maestro'',
     ''  port: 5432'',
     ''  name: maestro'',
     ''  username: maestro'',
     ''  password: '' @ dbPassword,
     ''  sslmode: disable'']"

definition with_data :: "strmap \<Rightarrow> kobj \<Rightarrow> kobj" where
  "with_data d u = u\<lparr>ko_Content := AList.update ''data'' (strmap_json d) (ko_Content u)\<rparr>"

definition ensureClusterManagerGRPCServerConfigMap ::
  "'w ctx \<Rightarrow> MultiClusterEngine \<Rightarrow> string \<Rightarrow> string \<Rightarrow> string \<Rightarrow> ('w rstate, go_error option) go" where
  "ensureClusterManagerGRPCServerConfigMap cx m namespace name dbPassword s =
    (let configData = grpc_config dbPassword;
         configMap = with_data [(''config.yaml'', configData)] (mk_obj configMapGVK namespace name)
     in case ApplyControllerReference cx m configMap of
          Inl e \<Rightarrow> Some (Some (PkgWrap
            ''failed to set controller reference on cluster-manager gRPC server ConfigMap'' e), s)
        | Inr configMap \<Rightarrow> do {
            (r, s) \<leftarrow> api_Get (cx_Client cx) configMapGVK (namespace, name) s;
            case r of
              Inl e \<Rightarrow>
                if IsNotFound e
                then do {
                  (r, s) \<leftarrow> api_Create (cx_Client cx) configMap s;
                  case r of
                    Inl e \<Rightarrow> Some (Some (PkgWrap
                      ''failed to create cluster-manager gRPC server ConfigMap'' e), s)
                  | Inr _ \<Rightarrow> Some (None, s)
                }
                else Some (Some (PkgWrap ''failed to get cluster-manager gRPC server ConfigMap'' e), s)
            | Inr existing \<Rightarrow>
                if map_of (data_of existing) ''config.yaml'' = Some configData then Some (None, s)
                else do {
                  (r, s) \<leftarrow> api_Update (cx_Client cx)
                    (with_data (sm_put (data_of existing) ''config.yaml'' configData) existing) s;
                  case r of
                    Inl e \<Rightarrow> Some (Some (PkgWrap
                      ''failed to update cluster-manager gRPC server ConfigMap'' e), s)
                  | Inr _ \<Rightarrow> Some (None, s)
                }
          })"

definition grpc_route :: "string \<Rightarrow> string \<Rightarrow> kobj" where
  "grpc_route namespace name = (mk_obj routeGVK namespace name)\<lparr>ko_Content :=
    [(''spec'', JObject
       [(''to'', JObject [(''kind'', JString ''Service''), (''name'', JString ''cluster-manager-grpc-server'')]),
        (''port'', JObject [(''targetPort'', JInt 8090)]),
        (''tls'', JObject [(''termination'', JString ''passthrough''),
                          (''insecureEdgeTerminationPolicy'', JString ''None'')])])]\<rparr>"

definition ensureClusterManagerGRPCServerRoute ::
  "'w ctx \<Rightarrow> MultiClusterEngine \<Rightarrow> string \<Rightarrow> string \<Rightarrow> ('w rstate, go_error option) go" where
  "ensureClusterManagerGRPCServerRoute cx m namespace name s =
    (case ApplyControllerReference cx m (grpc_route namespace name) of
       Inl e \<Rightarrow> Some (Some (PkgWrap
         ''failed to set controller reference on cluster-manager gRPC server Route'' e), s)
     | Inr route \<Rightarrow> do {
         (r, s) \<leftarrow> api_Get (cx_Client cx) routeGVK (namespace, name) s;
         case r of
           Inr _ \<Rightarrow> Some (None, s)
         | Inl e \<Rightarrow>
             if IsNotFound e
             then do {
               (r, s) \<leftarrow> api_Create (cx_Client cx) route s;
               case r of
                 Inl e \<Rightarrow> Some (Some (PkgWrap ''failed to create cluster-manager gRPC server Route'' e), s)
               | Inr _ \<Rightarrow> Some (None, s)
             }
             else Some (Some (PkgWrap ''failed to get cluster-manager gRPC server Route'' e), s)
       })"

section \<open>The gRPC server of the cluster manager\<close>

definition auth_type :: "json \<Rightarrow> json option" where
  "auth_type j =
    (case j of
       JObject d \<Rightarrow> Some (case map_of d ''authType'' of None \<Rightarrow> JNull | Some v \<Rightarrow> v)
     | _ \<Rightarrow> None)"

definition driversMatch :: "json list \<Rightarrow> json list \<Rightarrow> bool" where
  "driversMatch actual expected =
    (length actual = length expected \<and>
     list_all (\<lambda>e. auth_type e \<noteq> None \<and> list_ex (\<lambda>a. auth_type a = auth_type e) actual) expected)"

definition expectedDrivers :: "json list" where
  "expectedDrivers =
    [JObject [(''authType'', JString ''csr'')], JObject [(''authType'', JString ''grpc'')]]"

definition obj_field :: "json option \<Rightarrow> string \<Rightarrow> json option" where
  "obj_field j k = (case j of Some (JObject ob) \<Rightarrow> map_of ob k | _ \<Rightarrow> None)"

text \<open>The host of the first exposed endpoint, empty when any part of the path is missing.\<close>

definition current_host :: "kobj \<Rightarrow> string" where
  "current_host u =
    (case list_field u [''spec'', ''serverConfiguration'', ''endpointsExposure''] of
       [] \<Rightarrow> ''''
     | endpoint # _ \<Rightarrow>
         (case obj_field (obj_field (obj_field (Some endpoint) ''grpc'') ''hostname'') ''host'' of
            Some (JString h) \<Rightarrow> h
          | _ \<Rightarrow> ''''))"

definition server_configuration :: "string \<Rightarrow> string \<Rightarrow> json" where
  "server_configuration host conductorImage = JObject
    [(''endpointsExposure'', JArray [JObject
        [(''protocol'', JString ''grpc''),
         (''grpc'', JObject [(''type'', JString ''hostname''),
                            (''hostname'', JObject [(''host'', JString host)])])]]),
     (''imagePullSpec'', JString conductorImage)]"

definition grpc_configured :: "string \<Rightarrow> string \<Rightarrow> kobj \<Rightarrow> bool" where
  "grpc_configured host conductorImage u =
    (driversMatch (list_field u [''spec'', ''registrationConfiguration'', ''registrationDrivers''])
        expectedDrivers
     \<and> string_field u [''spec'', ''serverConfiguration'', ''imagePullSpec''] = conductorImage
     \<and> current_host u = host)"

text \<open>The specification is merged: the drivers and the server configuration are set, everything
  else is kept.\<close>

definition spec_of :: "kobj \<Rightarrow> (string \<times> json) list" where
  "spec_of u = (case map_of (ko_Content u) ''spec'' of Some (JObject ob) \<Rightarrow> ob | _ \<Rightarrow> [])"

definition set_grpc_server :: "string \<Rightarrow> string \<Rightarrow> kobj \<Rightarrow> kobj" where
  "set_grpc_server host conductorImage u =
    (let spec = spec_of u;
         regConfig = (case map_of spec ''registrationConfiguration'' of Some (JObject ob) \<Rightarrow> ob | _ \<Rightarrow> []);
         regConfig = AList.update ''registrationDrivers'' (JArray expectedDrivers) regConfig;
         spec = AList.update ''registrationConfiguration'' (JObject regConfig) spec;
         spec = AList.update ''serverConfiguration'' (server_configuration host conductorImage) spec
     in u\<lparr>ko_Content := AList.update ''spec'' (JObject spec) (ko_Content u)\<rparr>)"

definition enableClusterManagerGRPCServer :: "'w ctx \<Rightarrow> ('w rstate, go_error option) go" where
  "enableClusterManagerGRPCServer cx s = do {
     (r, s) \<leftarrow> getClusterIngressDomain cx s;
     case r of
       Inl e \<Rightarrow> Some (Some (PkgWrap ''failed to get cluster ingress domain'' e), s)
     | Inr domain \<Rightarrow>
         (let host = ''grpc-server-open-cluster-management-hub.'' @ domain
          in case map_of (ca_ImageOverrides (rs_Cache s)) ''cloudevents_conductor'' of
               None \<Rightarrow> Some (Some (ErrorString
                 ''cloudevents_conductor image not found in image overrides''), s)
             | Some conductorImage \<Rightarrow> do {
                 (r, s) \<leftarrow> api_Get (cx_Client cx) clusterManagerGVK ('''', ''cluster-manager'') s;
                 case r of
                   Inl e \<Rightarrow> Some (Some (PkgWrap ''failed to get ClusterManager'' e), s)
                 | Inr u \<Rightarrow>
                     if grpc_configured host conductorImage u then Some (None, s)
                     else do {
                       (r, s) \<leftarrow> api_Update (cx_Client cx) (set_grpc_server host conductorImage u) s;
                       case r of
                         Inl e \<Rightarrow> Some (Some (PkgWrap ''failed to update ClusterManager'' e), s)
                       | Inr _ \<Rightarrow> Some (None, s)
                     }
               })
   }"

text \<open>Taking the configuration out again: the new specification, if something was removed.\<close>

definition unset_grpc_server :: "(string \<times> json) list \<Rightarrow> (string \<times> json) list option" where
  "unset_grpc_server spec =
    (let (spec, modified) =
           (case map_of spec ''registrationConfiguration'' of
              Some (JObject ob) \<Rightarrow>
                (let hasDrivers = (map_of ob ''registrationDrivers'' \<noteq> None);
                     ob' = AList.delete ''registrationDrivers'' ob
                 in (if ob' = [] then AList.delete ''registrationConfiguration'' spec
                     else AList.update ''registrationConfiguration'' (JObject ob') spec, hasDrivers))
            | _ \<Rightarrow> (spec, False));
         hasServer = (map_of spec ''serverConfiguration'' \<noteq> None);
         spec = AList.delete ''serverConfiguration'' spec
     in if modified \<or> hasServer then Some spec else None)"

definition disableClusterManagerGRPCServer :: "'w ctx \<Rightarrow> ('w rstate, go_error option) go" where
  "disableClusterManagerGRPCServer cx s = do {
     (r, s) \<leftarrow> api_Get (cx_Client cx) clusterManagerGVK ('''', ''cluster-manager'') s;
     case r of
       Inl e \<Rightarrow>
         if IsNotFound e \<or> IsNoMatchError e then Some (None, s)
         else Some (Some (PkgWrap ''failed to get ClusterManager'' e), s)
     | Inr u \<Rightarrow>
         (case map_of (ko_Content u) ''spec'' of
            None \<Rightarrow> Some (None, s)
          | Some (JObject spec) \<Rightarrow>
              (case unset_grpc_server spec of
                 None \<Rightarrow> Some (None, s)
               | Some spec \<Rightarrow> do {
                   (r, s) \<leftarrow> api_Update (cx_Client cx)
                     (u\<lparr>ko_Content := AList.update ''spec'' (JObject spec) (ko_Content u)\<rparr>) s;
                   case r of
                     Inl e \<Rightarrow> Some (Some (PkgWrap ''failed to update ClusterManager'' e), s)
                   | Inr _ \<Rightarrow> Some (None, s)
                 })
          | Some _ \<Rightarrow> Some (Some (PkgWrap ''failed to get spec from ClusterManager''
                        (ErrorString ''accessor error'')), s))
   }"

section \<open>Enabling and disabling\<close>

text \<open>The error is wrapped by the caller's message when there is one.\<close>

definition wrap_result :: "string \<Rightarrow> reconcile_result \<Rightarrow> reconcile_result" where
  "wrap_result message r = (fst r, map_option (PkgWrap message) (snd r))"

definition finish_maestro ::
  "'w ctx \<Rightarrow> MultiClusterEngine \<Rightarrow> string \<Rightarrow> ('w rstate, reconcile_result) go" where
  "finish_maestro cx m dbPassword s = do {
     (e, s) \<leftarrow> ensureClusterManagerGRPCServerConfigMap cx m ocmHubNS ''grpc-server-config'' dbPassword s;
     if e \<noteq> None then Some ((no_requeue, e), s)
     else do {
       (e, s) \<leftarrow> ensureClusterManagerGRPCServerRoute cx m ocmHubNS ''grpc-server'' s;
       if e \<noteq> None then Some ((no_requeue, e), s)
       else do {
         (e, s) \<leftarrow> enableClusterManagerGRPCServer cx s;
         Some ((no_requeue, e), s)
       }
     }
   }"

definition ensureMaestro :: "'w ctx \<Rightarrow> MultiClusterEngine \<Rightarrow> ('w rstate, reconcile_result) go" where
  "ensureMaestro cx m s = do {
     let n = (''maestro'', ''maestro'');
     let s = remove_component (toggle_DisabledStatus n []) (add_component (toggle_EnabledStatus n) s);
     (e, s) \<leftarrow> ensure_maestro_namespace cx s;
     if e \<noteq> None then Some ((no_requeue, e), s)
     else do {
       (p, s) \<leftarrow> ensureMaestroDatabaseSecret cx m ''maestro'' ''maestro-db-config'' s;
       case p of
         Inl e \<Rightarrow> Some ((no_requeue, Some e), s)
       | Inr dbPassword \<Rightarrow>
           internal_then cx m MaestroPreview
             (render_in_then cx m MaestroPreview ''maestro'' (\<lambda>templates s. do {
                r \<leftarrow> applyComponentDeploymentOverrides m templates MaestroPreview;
                case r of
                  Inl e \<Rightarrow> Some ((no_requeue, Some (PkgWrap
                    ''failed to apply deployment config overrides for maestro'' e)), s)
                | Inr templates \<Rightarrow> do {
                    (r, s) \<leftarrow> apply_templates cx m False templates s;
                    if snd r \<noteq> None then Some (wrap_result ''failed to apply maestro charts'' r, s)
                    else finish_maestro cx m dbPassword s
                  }
              })) s
     }
   }"

definition delete_ignoring_absent :: "'w ctx \<Rightarrow> kobj \<Rightarrow> ('w rstate, go_error option) go" where
  "delete_ignoring_absent cx u s = do {
     (e, s) \<leftarrow> api_Delete (cx_Client cx) u s;
     Some (case e of Some e \<Rightarrow> if \<not> IsNotFound e then Some e else None | None \<Rightarrow> None, s)
   }"

definition deleteMaestroNamespace :: "'w ctx \<Rightarrow> ('w rstate, go_error option) go" where
  "deleteMaestroNamespace cx s = delete_ignoring_absent cx (mk_obj namespaceGVK '''' ''maestro'') s"

definition ensureNoMaestro :: "'w ctx \<Rightarrow> MultiClusterEngine \<Rightarrow> ('w rstate, reconcile_result) go" where
  "ensureNoMaestro cx m s =
    no_internal_then cx m MaestroPreview (\<lambda>s. do {
       (e, s) \<leftarrow> delete_ignoring_absent cx (mk_obj configMapGVK ocmHubNS ''grpc-server-config'') s;
       if e \<noteq> None then Some ((no_requeue, e), s)
       else do {
         (e, s) \<leftarrow> delete_ignoring_absent cx (mk_obj routeGVK ocmHubNS ''grpc-server'') s;
         if e \<noteq> None then Some ((no_requeue, e), s)
         else do {
           (e, s) \<leftarrow> deleteMaestroNamespace cx s;
           if e \<noteq> None then Some ((no_requeue, e), s)
           else do {
             (e, s) \<leftarrow> disableClusterManagerGRPCServer cx s;
             Some ((no_requeue, e), s)
           }
         }
       }
     })
     (switch_off (''maestro'', ''maestro'') s)"

end
