(* ===== verification/Toggle_All.thy ===== *)
theory Toggle_All
  imports Toggle_Components Local_Cluster Maestro
begin

text \<open>
  The drivers of the components: \<open>ensureToggleableComponents\<close> of
  \<open>controllers/backplaneconfig_controller.go\<close>, \<open>ensureNetworkPolicies\<close> of
  \<open>controllers/networkpolicy.go\<close> and the removal of resources of earlier releases,
  \<open>controllers/uninstall.go\<close>.
\<close>

section \<open>Toggleable components\<close>

text \<open>
  The errors by component and the requeue flag.  The source keeps the errors in a map; the model
  keeps them in the order they occur, which is one of the orders the map may be iterated in.
\<close>

type_synonym toggle_acc = "(string \<times> go_error) list \<times> bool"

definition note_result :: "string \<Rightarrow> reconcile_result \<Rightarrow> toggle_acc \<Rightarrow> toggle_acc" where
  "note_result c r acc =
    ((case snd r of Some e \<Rightarrow> fst acc @ [(c, e)] | None \<Rightarrow> fst acc), snd acc \<or> fst r \<noteq> no_requeue)"

text \<open>
  One block of the function: the component's name, whether it also needs the add-on CRD, and the two
  functions that ensure its presence and its absence.
\<close>

type_synonym 'w toggle_step =
  "string \<times> bool \<times> ('w ctx \<Rightarrow> MultiClusterEngine \<Rightarrow> ('w rstate, reconcile_result) go)
    \<times> ('w ctx \<Rightarrow> MultiClusterEngine \<Rightarrow> ('w rstate, reconcile_result) go)"

fun run_toggles ::
  "'w ctx \<Rightarrow> MultiClusterEngine \<Rightarrow> 'w toggle_step list \<Rightarrow> toggle_acc \<Rightarrow> ('w rstate, toggle_acc) go" where
  "run_toggles cx m [] acc s = Some (acc, s)"
| "run_toggles cx m ((c, addon, on, off) # rest) acc s =
    (if isComponentExternallyManaged cx m c then run_toggles cx m rest acc s
     else do {
       (enabled, s) \<leftarrow>
         (if Enabled m c then (if addon then CanInstallAddons (cx_Client cx) s else Some (True, s))
          else Some (False, s));
       (r, s) \<leftarrow> (if enabled then on cx m s else off cx m s);
       run_toggles cx m rest (note_result c r acc) s
     })"

definition addon_toggles :: "'w toggle_step list" where
  "addon_toggles =
    [(ManagedServiceAccount, True, ensureManagedServiceAccount, ensureNoManagedServiceAccount),
     (FleetNavigation, True, ensureFleetNavigation, ensureNoFleetNavigation),
     (ImageBasedInstallOperator, False, ensureImageBasedInstallOperator,
        ensureNoImageBasedInstallOperator),
     (HyperShift, True, ensureHyperShift, ensureNoHyperShift)]"

definition base_toggles :: "'w toggle_step list" where
  "base_toggles =
    [(Discovery, False, ensureDiscovery, ensureNoDiscovery),
     (Hive, False, ensureHive, ensureNoHive),
     (AssistedService, False, ensureAssistedService, ensureNoAssistedService),
     (ClusterLifecycle, False, ensureClusterLifecycle, ensureNoClusterLifecycle),
     (ClusterManager, False, ensureClusterManager, ensureNoClusterManager)]"

definition server_toggles :: "'w toggle_step list" where
  "server_toggles =
    [(ClusterPermission, False, ensureClusterPermission, ensureNoClusterPermission),
     (ServerFoundation, False, ensureServerFoundation, ensureNoServerFoundation),
     (ClusterProxyAddon, True, ensureClusterProxyAddon, ensureNoClusterProxyAddon)]"

definition capi_toggles :: "'w toggle_step list" where
  "capi_toggles =
    [(ClusterAPI, False, ensureClusterAPI, ensureNoClusterAPI),
     (ClusterAPIProviderAWS, False, ensureClusterAPIProviderAWS, ensureNoClusterAPIProviderAWS),
     (ClusterAPIProviderAzurePreview, False, ensureClusterAPIProviderAzure,
        ensureNoClusterAPIProviderAzure),
     (ClusterAPIProviderMetal, False, ensureClusterAPIProviderMetal, ensureNoClusterAPIProviderMetal),
     (ClusterAPIProviderOA, False, ensureClusterAPIProviderOA, ensureNoClusterAPIProviderOA)]"

text \<open>The console: it also needs the OpenShift console, whose absence changes the removal.\<close>

definition toggle_console ::
  "'w ctx \<Rightarrow> MultiClusterEngine \<Rightarrow> bool \<Rightarrow> toggle_acc \<Rightarrow> ('w rstate, toggle_acc) go" where
  "toggle_console cx m ocpConsole acc s =
    (if isComponentExternallyManaged cx m ConsoleMCE then Some (acc, s)
     else do {
       (r, s) \<leftarrow> (if Enabled m ConsoleMCE \<and> ocpConsole then ensureConsoleMCE cx m s
                 else ensureNoConsoleMCE cx m ocpConsole s);
       Some (note_result ConsoleMCE r acc, s)
     })"

definition toggle_maestro ::
  "'w ctx \<Rightarrow> MultiClusterEngine \<Rightarrow> toggle_acc \<Rightarrow> ('w rstate, toggle_acc) go" where
  "toggle_maestro cx m acc s =
    (if cx_DeployOnOCP cx \<and> \<not> isComponentExternallyManaged cx m MaestroPreview
        \<and> \<not> isComponentExternallyManaged cx m ClusterManager
     then do {
       (r, s) \<leftarrow> (if Enabled m MaestroPreview then ensureMaestro cx m s else ensureNoMaestro cx m s);
       Some (note_result MaestroPreview r acc, s)
     }
     else Some (acc, s))"

definition toggle_local_cluster ::
  "'w ctx \<Rightarrow> MultiClusterEngine \<Rightarrow> toggle_acc \<Rightarrow> ('w rstate, toggle_acc) go" where
  "toggle_local_cluster cx m acc s = do {
     (r, s) \<leftarrow> (if Enabled m LocalCluster then ensureLocalCluster cx m s else ensureNoLocalCluster cx m s);
     Some (note_result LocalCluster r acc, s)
   }"

definition combined_error :: "(string \<times> go_error) list \<Rightarrow> go_error" where
  "combined_error errs =
    ErrorString ('': '' @ join ''; '' (map (\<lambda>(k, e). ''error ensuring '' @ k @ '': '' @ err_msg e) errs))"

definition toggle_result :: "toggle_acc \<Rightarrow> reconcile_result" where
  "toggle_result acc =
    (if fst acc \<noteq> [] then (no_requeue, Some (combined_error (fst acc)))
     else if snd acc then (requeue_in requeuePeriod, None) else ok_result)"

text \<open>The part after the console, which is reached only if the check of the console succeeds.\<close>

definition toggle_rest ::
  "'w ctx \<Rightarrow> MultiClusterEngine \<Rightarrow> toggle_acc \<Rightarrow> ('w rstate, reconcile_result) go" where
  "toggle_rest cx m acc s = do {
     (acc, s) \<leftarrow> run_toggles cx m (base_toggles @ server_toggles @ capi_toggles) acc s;
     (acc, s) \<leftarrow> toggle_maestro cx m acc s;
     (acc, s) \<leftarrow> toggle_local_cluster cx m acc s;
     Some (toggle_result acc, s)
   }"

definition ensureToggleableComponents ::
  "'w ctx \<Rightarrow> MultiClusterEngine \<Rightarrow> ('w rstate, reconcile_result) go" where
  "ensureToggleableComponents cx m s = do {
     (acc, s) \<leftarrow> run_toggles cx m addon_toggles ([], False) s;
     (r, s) \<leftarrow> reconcileHypershiftLocalHosting cx m s;
     let acc = note_result HypershiftLocalHosting r acc;
     if cx_DeployOnOCP cx
     then do {
       (ocpConsole, s) \<leftarrow> CheckConsole cx s;
       case ocpConsole of
         Inl e \<Rightarrow> Some ((no_requeue, Some e), s)
       | Inr ocpConsole \<Rightarrow> do {
           (acc, s) \<leftarrow> toggle_console cx m ocpConsole acc s;
           toggle_rest cx m acc s
         }
     }
     else toggle_rest cx m acc s
   }"

section \<open>Network policies\<close>

definition networkPolicyGVK :: gvk where
  "networkPolicyGVK = mk_gvk ''networking.k8s.io'' ''v1'' ''NetworkPolicy''"

definition networkPolicyListGVK :: gvk where
  "networkPolicyListGVK = mk_gvk ''networking.k8s.io'' ''v1'' ''NetworkPolicyList''"

fun delete_policies :: "'w ctx \<Rightarrow> kobj list \<Rightarrow> ('w rstate, reconcile_result) go" where
  "delete_policies cx [] s = Some (ok_result, s)"
| "delete_policies cx (np # nps) s = do {
     (e, s) \<leftarrow> api_Delete (cx_Client cx) np s;
     case e of
       None \<Rightarrow> delete_policies cx nps s
     | Some e \<Rightarrow>
         if \<not> IsNotFound e
         then Some ((no_requeue, Some (WrapError (''failed to delete NetworkPolicy '' @ ko_Namespace np
                @ ''/'' @ ko_Name np @ '': '' @ err_msg e) e)), s)
         else delete_policies cx nps s
   }"

text \<open>The policies of one component: the missing ones are created, the existing ones left alone.\<close>

fun create_policies :: "'w ctx \<Rightarrow> kobj list \<Rightarrow> ('w rstate, go_error option) go" where
  "create_policies cx [] s = Some (None, s)"
| "create_policies cx (npTemplate # rest) s = do {
     (r, s) \<leftarrow> api_Get (cx_Client cx) networkPolicyGVK (ko_key npTemplate) s;
     case r of
       Inr _ \<Rightarrow> create_policies cx rest s
     | Inl e \<Rightarrow>
         if IsNotFound e
         then do {
           (r, s) \<leftarrow> api_Create (cx_Client cx) (applyReleaseVersionAnnotation cx npTemplate) s;
           case r of
             Inl e \<Rightarrow> Some (Some (WrapError (''failed to create NetworkPolicy ''
                 @ ko_Namespace npTemplate @ ''/'' @ ko_Name npTemplate @ '': '' @ err_msg e) e), s)
           | Inr _ \<Rightarrow> create_policies cx rest s
         }
         else Some (Some (WrapError (''failed to get NetworkPolicy '' @ ko_Name npTemplate @ '': ''
                @ err_msg e) e), s)
   }"

fun policies_of_components ::
  "'w ctx \<Rightarrow> MultiClusterEngine \<Rightarrow> string list \<Rightarrow> ('w rstate, reconcile_result) go" where
  "policies_of_components cx m [] s = Some (ok_result, s)"
| "policies_of_components cx m (c # cs) s =
    (if \<not> Enabled m c \<or> c = HypershiftLocalHosting \<or> isComponentExternallyManaged cx m c
        \<or> fetchChartOrCRDPath cx c = ''''
     then policies_of_components cx m cs s
     else case RenderChart cx (rs_Env s) (fetchChartOrCRDPath cx c) m
                 (ca_ImageOverrides (rs_Cache s)) (ca_TemplateOverrides (rs_Cache s)) of
       Inl e \<Rightarrow> policies_of_components cx m cs s
     | Inr templates \<Rightarrow> do {
         (e, s) \<leftarrow> create_policies cx (filter (\<lambda>t. ko_Kind t = ''NetworkPolicy'') templates) s;
         if e \<noteq> None then Some ((no_requeue, e), s) else policies_of_components cx m cs s
       })"

definition ensureNetworkPolicies ::
  "'w ctx \<Rightarrow> MultiClusterEngine \<Rightarrow> ('w rstate, reconcile_result) go" where
  "ensureNetworkPolicies cx m s =
    (let networkPoliciesEnabled =
       (case sp_NetworkPolicies (mce_Spec m) of None \<Rightarrow> True | Some np \<Rightarrow> np_Enabled np)
     in if \<not> networkPoliciesEnabled
        then do {
          (r, s) \<leftarrow> api_List (cx_Client cx) networkPolicyListGVK (sp_TargetNamespace (mce_Spec m))
                     [(''backplaneconfig.name'', mce_Name m)] s;
          case r of
            Inl e \<Rightarrow> Some ((no_requeue, Some (WrapError (''failed to list NetworkPolicies: ''
                @ err_msg e) e)), s)
          | Inr items \<Rightarrow> delete_policies cx items s
        }
        else policies_of_components cx m MCEComponents s)"

section \<open>Resources of earlier releases\<close>

definition newUnstructured :: "nn \<Rightarrow> gvk \<Rightarrow> kobj" where
  "newUnstructured n g = mk_obj g (fst n) (snd n)"

definition uninstallList :: "MultiClusterEngine \<Rightarrow> kobj list" where
  "uninstallList m =
    [newUnstructured (target_nn m ''hypershift-deployment'') (mk_gvk '''' ''v1'' ''ServiceAccount''),
     newUnstructured (target_nn m ''hypershift-deployment-controller'') (mk_gvk ''apps'' ''v1'' ''Deployment''),
     newUnstructured (target_nn m
         ''open-cluster-management:hypershift-preview:hypershiftDeployment-leader-election'')
       (mk_gvk ''rbac.authorization.k8s.io'' ''v1'' ''Role''),
     newUnstructured (target_nn m
         ''open-cluster-management:hypershift-preview:hypershiftDeployment-leader-election'')
       (mk_gvk ''rbac.authorization.k8s.io'' ''v1'' ''RoleBinding''),
     newUnstructured ('''',
         ''open-cluster-management:hypershift-preview:hypershift-deployment-controller'')
       (mk_gvk ''rbac.authorization.k8s.io'' ''v1'' ''ClusterRole''),
     newUnstructured ('''',
         ''open-cluster-management:hypershift-preview:hypershift-deployment-controller'')
       (mk_gvk ''rbac.authorization.k8s.io'' ''v1'' ''ClusterRoleBinding''),
     newUnstructured (target_nn m ''managed-serviceaccount-addon-deploy-config'')
       (mk_gvk ''addon.open-cluster-management.io'' ''v1alpha1'' ''AddOnDeploymentConfig'')]"

text \<open>\<open>uninstall\<close>: true once the resource does not exist.\<close>

definition uninstall :: "'w ctx \<Rightarrow> kobj \<Rightarrow> ('w rstate, bool resp) go" where
  "uninstall cx u s = do {
     (r, s) \<leftarrow> api_Get (cx_Client cx) (ko_GVK u) (ko_key u) s;
     case r of
       Inl e \<Rightarrow> if IsNotFound e then Some (Inr True, s) else Some (Inl e, s)
     | Inr u \<Rightarrow>
         if ko_DeletionTimestamp u \<noteq> None then Some (Inr False, s)
         else do {
           (e, s) \<leftarrow> api_Delete (cx_Client cx) u s;
           Some (case e of Some e \<Rightarrow> Inl e | None \<Rightarrow> Inr False, s)
         }
   }"

fun uninstall_all :: "'w ctx \<Rightarrow> kobj list \<Rightarrow> bool \<Rightarrow> ('w rstate, reconcile_result) go" where
  "uninstall_all cx [] allResourcesDeleted s =
    Some ((if \<not> allResourcesDeleted then requeue_in requeuePeriod else no_requeue, None), s)"
| "uninstall_all cx (u # us) allResourcesDeleted s = do {
     (r, s) \<leftarrow> uninstall cx u s;
     case r of
       Inl e \<Rightarrow> Some ((no_requeue, Some e), s)
     | Inr gone \<Rightarrow> uninstall_all cx us (allResourcesDeleted \<and> gone) s
   }"

definition ensureRemovalsGone ::
  "'w ctx \<Rightarrow> MultiClusterEngine \<Rightarrow> ('w rstate, reconcile_result) go" where
  "ensureRemovalsGone cx m s =
    uninstall_all cx (uninstallList m) True
      (add_component (toggle_DisabledStatus (target_nn m ''hypershift-removals'') (uninstallList m)) s)"

end
