(* ===== verification/Finalize.thy ===== *)
theory Finalize
  imports Toggle_All
begin

text \<open>
  Uninstallation: \<open>ensureNoAllInternalEngineComponents\<close> and \<open>finalizeBackplaneConfig\<close> of
  \<open>controllers/backplaneconfig_controller.go\<close>.
\<close>

definition internal_components :: "string list" where
  "internal_components =
    [AssistedService, ClusterAPI, ClusterAPIProviderAWS, ClusterAPIProviderAzurePreview,
     ClusterAPIProviderMetal, ClusterAPIProviderOA, ClusterLifecycle, ClusterManager,
     ClusterPermission, ClusterProxyAddon, ConsoleMCE, Discovery, FleetNavigation, Hive, HyperShift,
     ImageBasedInstallOperator, LocalCluster, ManagedServiceAccount, ServerFoundation, MaestroPreview]"

fun remove_internal ::
  "'w ctx \<Rightarrow> MultiClusterEngine \<Rightarrow> string list \<Rightarrow> toggle_acc \<Rightarrow> ('w rstate, toggle_acc) go" where
  "remove_internal cx m [] acc s = Some (acc, s)"
| "remove_internal cx m (c # cs) acc s = do {
     (r, s) \<leftarrow> ensureNoInternalEngineComponent cx m c s;
     remove_internal cx m cs (note_result c r acc) s
   }"

definition ensureNoAllInternalEngineComponents ::
  "'w ctx \<Rightarrow> MultiClusterEngine \<Rightarrow> ('w rstate, reconcile_result) go" where
  "ensureNoAllInternalEngineComponents cx m s = do {
     (acc, s) \<leftarrow> remove_internal cx m internal_components ([], False) s;
     Some (toggle_result acc, s)
   }"

section \<open>The finalizer\<close>

abbreviation minute :: int where "minute \<equiv> 60 * second"

text \<open>
  \<open>time.Since(DeletionTimestamp)\<close> decides between a waiting and a failing condition.  A nil
  timestamp would make the code panic.
\<close>

definition terminating_condition ::
  "'w ctx \<Rightarrow> MultiClusterEngine \<Rightarrow> int \<Rightarrow> string \<Rightarrow> string \<Rightarrow> ('w rstate, unit) go" where
  "terminating_condition cx m limit waiting failed s = do {
     t \<leftarrow> mce_DeletionTimestamp m;
     (now, s) \<leftarrow> api_Now (cx_Client cx) s;
     if now - t < limit
     then new_condition cx MultiClusterEngineProgressing ConditionTrue WaitingForResourceReason waiting s
     else new_condition cx MultiClusterEngineProgressing ConditionFalse WaitingForResourceReason failed s
   }"

definition waiting_error :: "string \<Rightarrow> string \<Rightarrow> go_error" where
  "waiting_error name what =
    ErrorString (''waiting for '' @ [CHR 0x27] @ name @ [CHR 0x27] @ '' '' @ what
      @ '' to be terminated before proceeding with uninstallation'')"

text \<open>
  The steps; each one ends with an error while its resource is there, and continues with the next
  one otherwise.  They are defined from the last to the first.
\<close>

definition finalize_local_namespace ::
  "'w ctx \<Rightarrow> MultiClusterEngine \<Rightarrow> ('w rstate, reconcile_result) go" where
  "finalize_local_namespace cx m s = do {
     let name = sp_LocalClusterName (mce_Spec m);
     (r, s) \<leftarrow> api_Get (cx_Client cx) namespaceGVK ('''', name) s;
     case r of
       Inr _ \<Rightarrow> do {
         (u, s) \<leftarrow>
           (case mce_DeletionTimestamp m of
              Some t \<Rightarrow> do {
                (now, s) \<leftarrow> api_Now (cx_Client cx) s;
                if now - t < 10 * minute
                then new_condition cx MultiClusterEngineProgressing ConditionTrue
                       WaitingForResourceReason (''Waiting for namespace '' @ name @ '' to terminate.'') s
                else Some ((), s)
              }
            | None \<Rightarrow> new_condition cx MultiClusterEngineProgressing ConditionFalse
                       WaitingForResourceReason (''Namespace '' @ name @ '' still exists.'') s);
         Some ((no_requeue, Some (waiting_error name ''namespace'')), s)
       }
     | Inl e \<Rightarrow> if \<not> IsNotFound e then Some ((no_requeue, Some e), s) else Some (ok_result, s)
   }"

definition finalize_global_set ::
  "'w ctx \<Rightarrow> MultiClusterEngine \<Rightarrow> ('w rstate, reconcile_result) go" where
  "finalize_global_set cx m s = do {
     (r, s) \<leftarrow> api_Get (cx_Client cx) namespaceGVK ('''', ''open-cluster-management-global-set'') s;
     case r of
       Inr ns \<Rightarrow> do {
         (e, s) \<leftarrow> api_Delete (cx_Client cx) ns s;
         if e \<noteq> None then Some ((no_requeue, e), s) else finalize_local_namespace cx m s
       }
     | Inl e \<Rightarrow> if \<not> IsNotFound e then Some ((no_requeue, Some e), s) else finalize_local_namespace cx m s
   }"

definition finalize_hub_namespace ::
  "'w ctx \<Rightarrow> MultiClusterEngine \<Rightarrow> ('w rstate, reconcile_result) go" where
  "finalize_hub_namespace cx m s = do {
     (r, s) \<leftarrow> api_Get (cx_Client cx) namespaceGVK ('''', ''open-cluster-management-hub'') s;
     case r of
       Inr _ \<Rightarrow> do {
         (u, s) \<leftarrow> terminating_condition cx m (10 * minute)
           ''Waiting for namespace open-cluster-management-hub to terminate.''
           ''Namespace open-cluster-management-hub still exists.'' s;
         Some ((no_requeue, Some (waiting_error ''open-cluster-management-hub'' ''namespace'')), s)
       }
     | Inl e \<Rightarrow> if \<not> IsNotFound e then Some ((no_requeue, Some e), s) else finalize_global_set cx m s
   }"

definition finalize_cluster_manager ::
  "'w ctx \<Rightarrow> MultiClusterEngine \<Rightarrow> ('w rstate, reconcile_result) go" where
  "finalize_cluster_manager cx m s = do {
     (r, s) \<leftarrow> api_Get (cx_Client cx) clusterManagerGVK ('''', ''cluster-manager'') s;
     case r of
       Inr u \<Rightarrow> do {
         (e, s) \<leftarrow> api_Delete (cx_Client cx) u s;
         if e \<noteq> None then Some ((no_requeue, e), s)
         else do {
           (u, s) \<leftarrow> terminating_condition cx m (10 * minute)
             ''Waiting for ClusterManager cluster-manager to terminate.''
             ''ClusterManager cluster-manager still exists.'' s;
           Some ((no_requeue, Some (waiting_error ''cluster-manager'' ''ClusterManager'')), s)
         }
       }
     | Inl e \<Rightarrow> if \<not> IsNotFound e then Some ((no_requeue, Some e), s) else finalize_hub_namespace cx m s
   }"

text \<open>
  \<open>errors.Is(err, errors.New(...))\<close> compares with a fresh error value and is never true, so an
  unregistered \<open>ManagedCluster\<close> kind ends the finalization with an error.
\<close>

definition finalize_local_cluster ::
  "'w ctx \<Rightarrow> MultiClusterEngine \<Rightarrow> ('w rstate, reconcile_result) go" where
  "finalize_local_cluster cx m s = do {
     let name = sp_LocalClusterName (mce_Spec m);
     (r, s) \<leftarrow> api_Get (cx_Client cx) managedClusterGVK ('''', name) s;
     case r of
       Inr u \<Rightarrow> do {
         (e, s) \<leftarrow> api_Delete (cx_Client cx) u s;
         if e \<noteq> None then Some ((no_requeue, e), s)
         else do {
           (u, s) \<leftarrow> terminating_condition cx m (10 * minute)
             (''Waiting for ManagedCluster '' @ name @ '' to terminate.'')
             (''ManagedCluster '' @ name @ '' still exists.'') s;
           Some ((no_requeue, Some (waiting_error name ''ManagedCluster'')), s)
         }
       }
     | Inl e \<Rightarrow> if \<not> IsNotFound e then Some ((no_requeue, Some e), s) else finalize_cluster_manager cx m s
   }"

definition finalize_hypershift_addon ::
  "'w ctx \<Rightarrow> MultiClusterEngine \<Rightarrow> ('w rstate, reconcile_result) go" where
  "finalize_hypershift_addon cx m s = do {
     let addon = RenderHypershiftAddon m;
     (r, s) \<leftarrow> api_Get (cx_Client cx) (ko_GVK addon) (ko_key addon) s;
     case r of
       Inr u \<Rightarrow> do {
         (e, s) \<leftarrow> api_Delete (cx_Client cx) u s;
         if e \<noteq> None then Some ((no_requeue, e), s)
         else do {
           (u, s) \<leftarrow> terminating_condition cx m (3 * minute)
             ''Waiting for ManagedClusterAddOn hypershift-addon to terminate.''
             ''ManagedClusterAddOn hypershift-addon still exists.'' s;
           Some ((no_requeue, Some (waiting_error ''hypershift-addon'' ''ManagedClusterAddOn'')), s)
         }
       }
     | Inl e \<Rightarrow>
         if \<not> (IsNotFound e \<or> IsNoMatchError e) then Some ((no_requeue, Some e), s)
         else finalize_local_cluster cx m s
   }"

definition finalize_console :: "'w ctx \<Rightarrow> ('w rstate, go_error option) go" where
  "finalize_console cx s =
    (if cx_DeployOnOCP cx
     then do {
       (r, s) \<leftarrow> CheckConsole cx s;
       case r of
         Inl e \<Rightarrow> Some (Some e, s)
       | Inr ocpConsole \<Rightarrow>
           if ocpConsole
           then do {
             (r, s) \<leftarrow> removePluginFromConsoleResource cx s;
             Some (snd r, s)
           }
           else Some (None, s)
     }
     else Some (None, s))"

definition finalizeBackplaneConfig ::
  "'w ctx \<Rightarrow> MultiClusterEngine \<Rightarrow> ('w rstate, reconcile_result) go" where
  "finalizeBackplaneConfig cx m s = do {
     (r, s) \<leftarrow> ensureNoAllInternalEngineComponents cx m s;
     if snd r \<noteq> None then Some ((no_requeue, snd r), s)
     else if fst r \<noteq> no_requeue then Some ((fst r, None), s)
     else do {
       (e, s) \<leftarrow> finalize_console cx s;
       if e \<noteq> None then Some ((no_requeue, e), s)
       else finalize_hypershift_addon cx m s
     }
   }"

end
