(* ===== verification/Defaults.thy ===== *)
theory Defaults
  imports Cluster_Info
begin

text \<open>
  Defaulting in \<open>controllers/backplaneconfig_controller.go\<close>: \<open>setDefaultAnnotations\<close> and
  \<open>setDefaults\<close>.  The functions change the engine in place; the model returns the changed engine.
\<close>

definition defaultAnnotations :: strmap where
  "defaultAnnotations = [(AnnotationResourceAdoptionPolicy, ''Strict'')]"

fun add_missing :: "strmap \<Rightarrow> strmap \<Rightarrow> bool \<times> strmap" where
  "add_missing [] annotations = (False, annotations)"
| "add_missing ((k, v) # ds) annotations =
    (if sm_has annotations k then add_missing ds annotations
     else (True, snd (add_missing ds (sm_put annotations k v))))"

definition setDefaultAnnotations :: "MultiClusterEngine \<Rightarrow> bool \<times> MultiClusterEngine" where
  "setDefaultAnnotations m =
    (let (updated, annotations) = add_missing defaultAnnotations (mce_Annotations m)
     in (updated, if updated then m\<lparr>mce_Annotations := annotations\<rparr> else m))"

text \<open>The three fields of the spec that have a fixed default.\<close>

definition default_spec :: "MultiClusterEngine \<Rightarrow> bool \<times> MultiClusterEngine" where
  "default_spec m =
    (let sp = mce_Spec m;
         (u1, sp) = (if \<not> AvailabilityConfigIsValid (sp_AvailabilityConfig sp)
                     then (True, sp\<lparr>sp_AvailabilityConfig := HAHigh\<rparr>) else (False, sp));
         (u2, sp) = (if sp_TargetNamespace sp = ''''
                     then (True, sp\<lparr>sp_TargetNamespace := DefaultTargetNamespace\<rparr>) else (u1, sp));
         (u3, sp) = (if sp_NetworkPolicies sp = None
                     then (True, sp\<lparr>sp_NetworkPolicies := Some \<lparr>np_Enabled = True\<rparr>\<rparr>) else (u2, sp))
     in (u3, m\<lparr>mce_Spec := sp\<rparr>))"

text \<open>
  The part of \<open>setDefaults\<close> that looks at nothing but the engine: spec fields, components,
  annotations, and the replacement of preview components.  Enabling the stable component of a preview
  is followed by pruning the preview, which sets the flag.
\<close>

definition static_defaults :: "MultiClusterEngine \<Rightarrow> bool \<times> MultiClusterEngine" where
  "static_defaults m =
    (let (u1, m) = default_spec m;
         (u2, m) = SetDefaultComponents m;
         (u3, m) = setDefaultAnnotations m;
         (u4, m) = migrate_all Enabled Enable Prune PreviewToStable PreviewComponents m
     in (u1 \<or> u2 \<or> u3 \<or> u4, m))"

text \<open>\<open>os.Setenv\<close>, which cannot fail for these keys.\<close>

definition set_env :: "string \<Rightarrow> string \<Rightarrow> 'w rstate \<Rightarrow> 'w rstate" where
  "set_env k v s = s\<lparr>rs_Env := sm_put (rs_Env s) k v\<rparr>"

text \<open>The console component follows the OpenShift version: the flag and the engine.\<close>

definition default_console :: "bool \<Rightarrow> MultiClusterEngine \<Rightarrow> bool \<times> MultiClusterEngine" where
  "default_console supported m =
    (if supported
     then (if \<not> ComponentPresent m ConsoleMCE then (True, Enable m ConsoleMCE) else (False, m))
     else (if Enabled m ConsoleMCE then (True, Disable m ConsoleMCE) else (False, m)))"

text \<open>The part for OpenShift: an error, or the flag and the engine.\<close>

definition ocp_defaults ::
  "'w ctx \<Rightarrow> MultiClusterEngine \<Rightarrow> ('w rstate, (bool \<times> MultiClusterEngine) resp) go" where
  "ocp_defaults cx m s = do {
     (r, s) \<leftarrow> getClusterIngressDomain cx s;
     case r of
       Inl e \<Rightarrow> Some (Inl (PkgWrap ''failed to detect cluster ingress domain'' e), s)
     | Inr domain \<Rightarrow> do {
         let s = set_env ''ACM_CLUSTER_INGRESS_DOMAIN'' domain s;
         (r, s) \<leftarrow> getConsoleURL cx s;
         let s = (case r of Inl _ \<Rightarrow> s | Inr url \<Rightarrow> set_env ''ACM_HUB_CONSOLE_URL'' url s);
         (r, s) \<leftarrow> getClusterVersion cx s;
         case r of
           Inl e \<Rightarrow> Some (Inl (PkgWrap ''failed to detect clusterversion'' e), s)
         | Inr v \<Rightarrow>
             (let s = set_env ''ACM_HUB_OCP_VERSION'' v s
              in case cx_NewVersion cx v of
                   Some e \<Rightarrow> Some (Inl e, s)
                 | None \<Rightarrow>
                     (case cx_NewConstraint cx ''>= 4.10.0-0'' of
                        Some e \<Rightarrow> Some (Inl e, s)
                      | None \<Rightarrow> Some (Inr (default_console (cx_CheckVersion cx ''>= 4.10.0-0'' v) m), s)))
       }
   }"

text \<open>
  The engine afterwards and the result.  A successful update makes the client fill in the engine
  with the server's answer.
\<close>

definition apply_defaults ::
  "'w ctx \<Rightarrow> bool \<Rightarrow> MultiClusterEngine \<Rightarrow> ('w rstate, MultiClusterEngine \<times> reconcile_result) go" where
  "apply_defaults cx updateNecessary m s =
    (if updateNecessary
     then do {
       (r, s) \<leftarrow> api_UpdateMCE (cx_Client cx) m s;
       case r of
         Inl e \<Rightarrow> Some ((m, no_requeue, Some e), s)
       | Inr m \<Rightarrow> Some ((m, requeue_now, None), s)
     }
     else Some ((m, ok_result), s))"

definition setDefaults ::
  "'w ctx \<Rightarrow> MultiClusterEngine \<Rightarrow> ('w rstate, MultiClusterEngine \<times> reconcile_result) go" where
  "setDefaults cx m s =
    (let (updateNecessary, m) = static_defaults m
     in if cx_DeployOnOCP cx
        then do {
          (r, s) \<leftarrow> ocp_defaults cx m s;
          case r of
            Inl e \<Rightarrow> Some ((m, no_requeue, Some e), s)
          | Inr (u, m) \<Rightarrow> apply_defaults cx (updateNecessary \<or> u) m s
        }
        else apply_defaults cx updateNecessary m s)"

section \<open>Convergence\<close>

lemma default_spec_fields:
  "sp_Overrides (mce_Spec (snd (default_spec m))) = sp_Overrides (mce_Spec m)"
  "AvailabilityConfigIsValid (sp_AvailabilityConfig (mce_Spec (snd (default_spec m))))"
  "sp_TargetNamespace (mce_Spec (snd (default_spec m))) \<noteq> ''''"
  "sp_NetworkPolicies (mce_Spec (snd (default_spec m))) \<noteq> None"
  by (cases "AvailabilityConfigIsValid (sp_AvailabilityConfig (mce_Spec m))";
      cases "sp_TargetNamespace (mce_Spec m) = ''''"; cases "sp_NetworkPolicies (mce_Spec m)";
      simp add: default_spec_def Let_def AvailabilityConfigIsValid_def)+

lemma default_spec_unchanged:
  "AvailabilityConfigIsValid (sp_AvailabilityConfig (mce_Spec m)) \<Longrightarrow>
    sp_TargetNamespace (mce_Spec m) \<noteq> '''' \<Longrightarrow> sp_NetworkPolicies (mce_Spec m) \<noteq> None \<Longrightarrow>
    default_spec m = (False, m)"
  by (simp add: default_spec_def Let_def)

lemma flag_overrides:
  "sp_Overrides (mce_Spec m) = sp_Overrides (mce_Spec n) \<Longrightarrow> component_flag m c = component_flag n c"
  by (simp add: component_flag_def mce_components_def)

lemma flag_setDefaultAnnotations [simp]:
  "component_flag (snd (setDefaultAnnotations m)) c = component_flag m c"
  by (rule flag_overrides) (simp add: setDefaultAnnotations_def split_beta Let_def)

lemma flag_default_spec [simp]: "component_flag (snd (default_spec m)) c = component_flag m c"
  by (rule flag_overrides) (rule default_spec_fields)

text \<open>What the component operations leave alone.\<close>

definition spec_core :: "MultiClusterEngine \<Rightarrow> string \<times> string \<times> NetworkPoliciesConfig option" where
  "spec_core m =
    (sp_AvailabilityConfig (mce_Spec m), sp_TargetNamespace (mce_Spec m), sp_NetworkPolicies (mce_Spec m))"

lemma core_set_components [simp]:
  "spec_core (set_mce_components f m) = spec_core m"
  "mce_Annotations (set_mce_components f m) = mce_Annotations m"
  by (simp_all add: spec_core_def set_mce_components_def Let_def)

lemma core_component_ops [simp]:
  "spec_core (Enable m c) = spec_core m" "mce_Annotations (Enable m c) = mce_Annotations m"
  "spec_core (Disable m c) = spec_core m" "mce_Annotations (Disable m c) = mce_Annotations m"
  "spec_core (snd (Prune m c)) = spec_core m" "mce_Annotations (snd (Prune m c)) = mce_Annotations m"
  by (auto simp: Enable_def Disable_def Prune_def split: option.splits)

lemma defaults_for_keeps:
  "(\<And>m c. P (put m c) = P m) \<Longrightarrow> P (snd (defaults_for present put cs m)) = P m"
  by (induction cs arbitrary: m) auto

lemma migrate_all_keeps:
  assumes "\<And>m c. P (enable m c) = P m" "\<And>m c. P (snd (prune m c)) = P m"
  shows "P (snd (migrate_all enabled enable prune repl ps m)) = P m"
  by (induction ps arbitrary: m) (simp_all add: assms Let_def split_beta split: option.split)

lemma static_defaults_core:
  "spec_core (snd (static_defaults m)) = spec_core (snd (default_spec m))"
  "mce_Annotations (snd (static_defaults m)) =
    snd (add_missing defaultAnnotations (mce_Annotations m))"
proof -
  have spec: "mce_Annotations (snd (default_spec m)) = mce_Annotations m"
    by (simp add: default_spec_def Let_def split_beta)
  have annotations: "mce_Annotations (snd (setDefaultAnnotations m))
      = snd (add_missing defaultAnnotations (mce_Annotations m))"
    "spec_core (snd (setDefaultAnnotations m)) = spec_core m" for m
    by (simp_all add: setDefaultAnnotations_def defaultAnnotations_def spec_core_def)
  show "spec_core (snd (static_defaults m)) = spec_core (snd (default_spec m))"
    "mce_Annotations (snd (static_defaults m)) =
      snd (add_missing defaultAnnotations (mce_Annotations m))"
    by (simp_all add: static_defaults_def split_beta migrate_all_keeps annotations spec
        SetDefaultComponents_def defaults_for_keeps [of spec_core] defaults_for_keeps [of mce_Annotations])
qed

lemma preview_tables:
  "distinct PreviewComponents" "map_of PreviewToStable p = Some q \<Longrightarrow> q \<notin> set PreviewComponents"
  "set (onComponents @ offComponents) \<inter> set PreviewComponents = {}" "ConsoleMCE \<notin> set PreviewComponents"
  by (auto simp: PreviewComponents_def PreviewToStable_def onComponents_def offComponents_def
      split: if_splits)

lemmas flag_migrated =
  overrides.flag_migrate_all [OF preview_tables(1) preview_tables(2)]

lemma flag_static_defaults:
  "component_flag (snd (static_defaults m)) c =
    (if c \<in> set PreviewComponents then None
     else if \<exists>p \<in> set PreviewComponents. component_flag m p = Some True \<and> map_of PreviewToStable p = Some c
     then Some True
     else if component_flag m c \<noteq> None then component_flag m c
     else if c \<in> set onComponents then Some True
     else if c \<in> set offComponents then Some False
     else None)"
proof -
  have "component_flag (snd (SetDefaultComponents (snd (default_spec m)))) p = component_flag m p"
    if "p \<in> set PreviewComponents" for p
    using that preview_tables(3) by (auto simp: flag_SetDefaultComponents)
  then show ?thesis
    by (auto simp: static_defaults_def split_beta flag_migrated flag_SetDefaultComponents)
qed

lemma add_missing_unchanged:
  "list_all (\<lambda>(k, v). sm_has a k) ds \<Longrightarrow> add_missing ds a = (False, a)"
  by (induction ds) auto

text \<open>An engine on which defaulting does nothing, and that defaulting produces one.\<close>

definition defaulted :: "MultiClusterEngine \<Rightarrow> bool" where
  "defaulted m =
    (AvailabilityConfigIsValid (fst (spec_core m)) \<and> fst (snd (spec_core m)) \<noteq> ''''
     \<and> snd (snd (spec_core m)) \<noteq> None
     \<and> list_all (\<lambda>(k, v). sm_has (mce_Annotations m) k) defaultAnnotations
     \<and> list_all (ComponentPresent m) (onComponents @ offComponents)
     \<and> list_all (\<lambda>p. \<not> ComponentPresent m p) PreviewComponents)"

lemma defaulted_fixed:
  assumes "defaulted m"
  shows "static_defaults m = (False, m)"
proof -
  have "default_spec m = (False, m)"
    using assms by (intro default_spec_unchanged) (auto simp: defaulted_def spec_core_def)
  moreover have "SetDefaultComponents m = (False, m)"
    using assms by (intro SetDefaultComponents_unchanged) (auto simp: defaulted_def list_all_iff)
  moreover have "setDefaultAnnotations m = (False, m)"
    using assms by (simp add: setDefaultAnnotations_def add_missing_unchanged defaulted_def)
  moreover have "migrate_all Enabled Enable Prune PreviewToStable PreviewComponents m = (False, m)"
    using assms by (intro overrides.migrate_all_unchanged) (auto simp: defaulted_def list_all_iff)
  ultimately show ?thesis by (simp add: static_defaults_def)
qed

lemma static_defaults_defaulted: "defaulted (snd (static_defaults m))"
proof -
  have "list_all (ComponentPresent (snd (static_defaults m))) (onComponents @ offComponents)"
    using preview_tables(3) by (auto simp: ComponentPresent_flag flag_static_defaults list_all_iff)
  moreover have "list_all (\<lambda>p. \<not> ComponentPresent (snd (static_defaults m)) p) PreviewComponents"
    by (auto simp: ComponentPresent_flag flag_static_defaults list_all_iff)
  moreover have "list_all (\<lambda>(k, v). sm_has (mce_Annotations (snd (static_defaults m))) k) defaultAnnotations"
    by (simp add: static_defaults_core defaultAnnotations_def sm_has_def)
  ultimately show ?thesis
    using default_spec_fields [of m]
    unfolding defaulted_def static_defaults_core(1) by (simp add: spec_core_def)
qed

lemma defaulted_console: "defaulted m \<Longrightarrow> defaulted (snd (default_console b m))"
  using preview_tables(4)
  by (auto simp: default_console_def defaulted_def ComponentPresent_flag component_flag_Enable
      component_flag_Disable list_all_iff)

lemma default_console_fixed:
  "default_console b (snd (default_console b m)) = (False, snd (default_console b m))"
  by (auto simp: default_console_def ComponentPresent_flag Enabled_flag component_flag_Enable
      component_flag_Disable)

text \<open>
  C24: Defaulting converges after one step.  The engine that the static part and the console part of
  \<open>setDefaults\<close> produce is left as it is by a second run, which asks for no update, and outside
  OpenShift the whole function then sends no request.  In the produced engine every component with a
  default is present, every preview component is gone, its stable successor is enabled where the preview was, and
  what the user had set for any other component is kept.
\<close>

theorem setDefaults_converges:
  "static_defaults (snd (default_console b (snd (static_defaults m))))
      = (False, snd (default_console b (snd (static_defaults m))))
    \<and> default_console b (snd (default_console b (snd (static_defaults m))))
      = (False, snd (default_console b (snd (static_defaults m))))
    \<and> setDefaults (cx\<lparr>cx_DeployOnOCP := False\<rparr>) (snd (static_defaults m)) s
      = Some ((snd (static_defaults m), ok_result), s)
    \<and> component_flag (snd (static_defaults m)) c =
      (if c \<in> set PreviewComponents then None
       else if \<exists>p \<in> set PreviewComponents. Enabled m p \<and> map_of PreviewToStable p = Some c then Some True
       else if component_flag m c \<noteq> None then component_flag m c
       else if c \<in> set onComponents then Some True
       else if c \<in> set offComponents then Some False
       else None)"
proof (intro conjI)
  show "static_defaults (snd (default_console b (snd (static_defaults m))))
      = (False, snd (default_console b (snd (static_defaults m))))"
    by (intro defaulted_fixed defaulted_console static_defaults_defaulted)
  show "setDefaults (cx\<lparr>cx_DeployOnOCP := False\<rparr>) (snd (static_defaults m)) s
      = Some ((snd (static_defaults m), ok_result), s)"
    by (simp add: setDefaults_def apply_defaults_def defaulted_fixed static_defaults_defaulted)
qed (simp_all only: default_console_fixed flag_static_defaults Enabled_flag)

end
