(* ===== verification/Reconcile_Steps.thy ===== *)
theory Reconcile_Steps
  imports Finalize Defaults
begin

text \<open>
  The steps of \<open>Reconcile\<close> in \<open>controllers/backplaneconfig_controller.go\<close> other than the
  components: deprecated fields and resources, the checks of the namespace and the pull secret, the
  CRDs, the resources that are always deployed, and the operator's own config map and metrics
  resources.
\<close>

section \<open>Upgrade condition and deprecated fields\<close>

definition setOperatorUpgradeableStatus ::
  "'w ctx \<Rightarrow> MultiClusterEngine \<Rightarrow> ('w rstate, bool \<times> go_error option) go" where
  "setOperatorUpgradeableStatus cx m s = do {
     let parts1 = split_on CHR ''.'' (ms_CurrentVersion (mce_Status m));
     let parts2 = split_on CHR ''.'' (cx_Version cx);
     upgradeable \<leftarrow>
       (if hd parts1 = hd parts2
        then (if 1 < length parts1 \<and> 1 < length parts2 then Some (parts1 ! 1 = parts2 ! 1) else None)
        else Some False);
     let (st, reason, msg) =
       (if upgradeable then (ConditionTrue, ''Upgradeable'', '''')
        else (ConditionFalse, ''AlreadyPerformingUpgrade'', ''Upgrading the mce operator''));
     if cx_OLMVersion cx = ''v0''
     then (case cx_SetUpgradeable cx st reason msg (ks_World s) of
             (Some e, w) \<Rightarrow> Some ((True, Some e), s\<lparr>ks_World := w\<rparr>)
           | (None, w) \<Rightarrow> Some ((\<not> upgradeable, None), s\<lparr>ks_World := w\<rparr>))
     else Some ((\<not> upgradeable, None), s)
   }"

definition deprecated_annotations :: "string list" where
  "deprecated_annotations =
    [DeprecatedAnnotationIgnoreOCPVersion, DeprecatedAnnotationImageOverridesCM,
     DeprecatedAnnotationImageRepo, DeprecatedAnnotationKubeconfig, DeprecatedAnnotationMCEPause]"

definition CheckDeprecatedFieldUsage :: "MultiClusterEngine \<Rightarrow> 'w rstate \<Rightarrow> 'w rstate" where
  "CheckDeprecatedFieldUsage m s =
    s\<lparr>rs_Deprecated := fold (\<lambda>f d. if sm_get (mce_Annotations m) f \<noteq> '''' \<and> f \<notin> set d then d @ [f] else d)
        deprecated_annotations (rs_Deprecated s)\<rparr>"

section \<open>Deprecated resources\<close>

definition rbacGVK :: "string \<Rightarrow> gvk" where
  "rbacGVK kind = mk_gvk ''rbac.authorization.k8s.io'' ''v1'' kind"

definition GetDeprecatedResources :: "MultiClusterEngine \<Rightarrow> kobj list" where
  "GetDeprecatedResources m =
    (let ns = sp_TargetNamespace (mce_Spec m);
         hypershift = ''open-cluster-management:hypershift-preview:hypershift-addon-manager'';
         proxy = ''open-cluster-management:cluster-proxy-addon:addon-manager''
     in [mk_obj (mk_gvk '''' ''v1'' ''Service'') ns ''webhook-service'',
         mk_obj (rbacGVK ''ClusterRoleBinding'') '''' hypershift,
         mk_obj (rbacGVK ''ClusterRole'') '''' hypershift,
         mk_obj (rbacGVK ''ClusterRole'') '''' proxy,
         mk_obj (rbacGVK ''ClusterRoleBinding'') '''' proxy,
         mk_obj (rbacGVK ''Role'') ns proxy,
         mk_obj (rbacGVK ''RoleBinding'') ns proxy])"

abbreviation FastRefreshInterval :: int where "FastRefreshInterval \<equiv> minute"
abbreviation ShortRefreshInterval :: int where "ShortRefreshInterval \<equiv> 5 * minute"

text \<open>The deletion timestamp that is checked is the one of the argument, not of the object read.\<close>

definition EnsureDeprecatedResourceCleanup ::
  "'w ctx \<Rightarrow> kobj \<Rightarrow> ('w rstate, reconcile_result) go" where
  "EnsureDeprecatedResourceCleanup cx obj s = do {
     (r, s) \<leftarrow> api_Get (cx_Client cx) (ko_GVK obj) (ko_key obj) s;
     case r of
       Inl e \<Rightarrow> if IsNotFound e then Some (ok_result, s) else Some ((no_requeue, Some e), s)
     | Inr resource \<Rightarrow>
         if ko_DeletionTimestamp obj \<noteq> None then Some ((requeue_in FastRefreshInterval, None), s)
         else do {
           (e, s) \<leftarrow> api_Delete (cx_Client cx) resource s;
           Some ((no_requeue, e), s)
         }
   }"

fun cleanup_deprecated :: "'w ctx \<Rightarrow> kobj list \<Rightarrow> ('w rstate, reconcile_result) go" where
  "cleanup_deprecated cx [] s = Some (ok_result, s)"
| "cleanup_deprecated cx (obj # objs) s = do {
     (r, s) \<leftarrow> EnsureDeprecatedResourceCleanup cx obj s;
     if fst r \<noteq> no_requeue \<or> snd r \<noteq> None then Some (r, s) else cleanup_deprecated cx objs s
   }"

definition addOnTemplateListGVK :: gvk where
  "addOnTemplateListGVK = mk_gvk ''addon.open-cluster-management.io'' ''v1alpha1'' ''AddOnTemplateList''"

text \<open>The regular expression \<open>^managed-serviceaccount-2\.\d+$\<close>.\<close>

definition versionedPattern :: "string \<Rightarrow> bool" where
  "versionedPattern name =
    (let prefix = ''managed-serviceaccount-2.''; rest = drop (length prefix) name
     in HasPrefix name prefix \<and> rest \<noteq> '''' \<and> list_all is_digit rest)"

definition owned_by_engine :: "MultiClusterEngine \<Rightarrow> kobj \<Rightarrow> bool" where
  "owned_by_engine m u =
    list_ex (\<lambda>ow. or_Kind ow = ''MultiClusterEngine'' \<and> or_Name ow = mce_Name m) (ko_OwnerRefs u)"

fun delete_versioned :: "'w ctx \<Rightarrow> MultiClusterEngine \<Rightarrow> kobj list \<Rightarrow> ('w rstate, reconcile_result) go" where
  "delete_versioned cx m [] s = Some (ok_result, s)"
| "delete_versioned cx m (template # rest) s =
    (if versionedPattern (ko_Name template) \<and> ko_DeletionTimestamp template = None
        \<and> owned_by_engine m template
     then do {
       (e, s) \<leftarrow> api_Delete (cx_Client cx) template s;
       if e \<noteq> None then Some ((no_requeue, e), s) else delete_versioned cx m rest s
     }
     else delete_versioned cx m rest s)"

definition CleanupVersionedAddOnTemplates ::
  "'w ctx \<Rightarrow> MultiClusterEngine \<Rightarrow> ('w rstate, reconcile_result) go" where
  "CleanupVersionedAddOnTemplates cx m s = do {
     (r, s) \<leftarrow> api_List (cx_Client cx) addOnTemplateListGVK '''' [] s;
     case r of
       Inl e \<Rightarrow> if IsNoMatchError e then Some (ok_result, s) else Some ((no_requeue, Some e), s)
     | Inr items \<Rightarrow> delete_versioned cx m items s
   }"

section \<open>Namespace and pull secret\<close>

definition validateNamespace ::
  "'w ctx \<Rightarrow> MultiClusterEngine \<Rightarrow> ('w rstate, reconcile_result) go" where
  "validateNamespace cx m s = do {
     let name = sp_TargetNamespace (mce_Spec m);
     (r, s) \<leftarrow> api_Get (cx_Client cx) namespaceGVK ('''', name) s;
     case r of
       Inr _ \<Rightarrow> Some (ok_result, s)
     | Inl e \<Rightarrow>
         if IsNotFound e
         then (case ApplyControllerReference cx m (mk_obj namespaceGVK '''' name) of
                 Inl e \<Rightarrow> Some ((no_requeue, Some (PkgWrap
                   (''Error setting controller reference on resource '' @ name) e)), s)
               | Inr newNs \<Rightarrow> do {
                   (r, s) \<leftarrow> api_Create (cx_Client cx) newNs s;
                   case r of
                     Inl e \<Rightarrow> Some ((no_requeue, Some e), s)
                   | Inr _ \<Rightarrow> Some ((requeue_now, None), s)
                 })
         else Some ((no_requeue, Some e), s)
   }"

definition validateImagePullSecret ::
  "'w ctx \<Rightarrow> MultiClusterEngine \<Rightarrow> ('w rstate, reconcile_result) go" where
  "validateImagePullSecret cx m s =
    (let secret = sp_ImagePullSecret (mce_Spec m); ns = sp_TargetNamespace (mce_Spec m)
     in if secret = '''' then Some (ok_result, s)
        else do {
          (r, s) \<leftarrow> api_Get (cx_Client cx) secretGVK (ns, secret) s;
          case r of
            Inr _ \<Rightarrow> Some (ok_result, s)
          | Inl e \<Rightarrow>
              if IsNotFound e
              then do {
                (u, s) \<leftarrow> new_condition cx MultiClusterEngineProgressing ConditionFalse
                  RequirementsNotMetReason (''Could not find imagePullSecret '' @ secret
                    @ '' in namespace '' @ ns) s;
                Some ((no_requeue, Some e), s)
              }
              else Some ((no_requeue, Some e), s)
        })"

section \<open>CRDs\<close>

abbreviation caBundle_path :: "string list" where
  "caBundle_path \<equiv> [''spec'', ''conversion'', ''webhook'', ''clientConfig'', ''caBundle'']"

definition crd_error :: "string \<Rightarrow> kobj \<Rightarrow> go_error \<Rightarrow> go_error" where
  "crd_error what crd e =
    WrapError (''error '' @ what @ '' CRD '' @ [CHR 0x27] @ ko_Name crd @ [CHR 0x27] @ '': '' @ err_msg e) e"

text \<open>The CA bundle that was injected into the existing CRD is carried over.\<close>

definition preserve_caBundle :: "kobj \<Rightarrow> kobj \<Rightarrow> kobj resp" where
  "preserve_caBundle existing crd =
    (case nested (ko_Content existing) caBundle_path of
       Some (Some (JString ca)) \<Rightarrow>
         if ca = '''' then Inr crd
         else (case set_nested (ko_Content crd) caBundle_path (JString ca) of
                 None \<Rightarrow> Inl (crd_error ''preserving caBundle in'' crd (ErrorString ''value cannot be set''))
               | Some content \<Rightarrow> Inr (crd\<lparr>ko_Content := content\<rparr>))
     | _ \<Rightarrow> Inr crd)"

text \<open>The error and the CRD, which keeps the changes for the next attempt.\<close>

definition EnsureCRD :: "'w client \<Rightarrow> kobj \<Rightarrow> (('w, 'z) kstate_scheme, go_error option \<times> kobj) go" where
  "EnsureCRD cl crd s = do {
     (r, s) \<leftarrow> api_Get cl (ko_GVK crd) ('''', ko_Name crd) s;
     case r of
       Inl e \<Rightarrow>
         if IsNotFound e
         then do {
           (r, s) \<leftarrow> api_Create cl crd s;
           case r of
             Inl e \<Rightarrow> Some ((Some (crd_error ''creating'' crd e), crd), s)
           | Inr _ \<Rightarrow> Some ((None, crd), s)
         }
         else Some ((Some (crd_error ''getting'' crd e), crd), s)
     | Inr existing \<Rightarrow>
         if AnnotationPresent AnnotationMCEIgnore existing then Some ((None, crd), s)
         else (case preserve_caBundle existing crd of
                 Inl e \<Rightarrow> Some ((Some e, crd), s)
               | Inr crd \<Rightarrow> do {
                   let crd = crd\<lparr>ko_ResourceVersion := ko_ResourceVersion existing\<rparr>;
                   (r, s) \<leftarrow> api_Update cl crd s;
                   case r of
                     Inl e \<Rightarrow> Some ((Some (crd_error ''updating'' crd e), crd), s)
                   | Inr _ \<Rightarrow> Some ((None, crd), s)
                 })
   }"

text \<open>
  \<open>retry.RetryOnConflict\<close>: the attempts stop at the first result that is no conflict, or with the
  last conflict when they are used up.
\<close>

fun retry_crd :: "'w client \<Rightarrow> nat \<Rightarrow> kobj \<Rightarrow> (('w, 'z) kstate_scheme, go_error option) go" where
  "retry_crd cl 0 crd s = Some (None, s)"
| "retry_crd cl (Suc n) crd s = do {
     ((e, crd), s) \<leftarrow> EnsureCRD cl crd s;
     case e of
       None \<Rightarrow> Some (None, s)
     | Some e \<Rightarrow> if IsConflict e \<and> 0 < n then retry_crd cl n crd s else Some (Some e, s)
   }"

fun apply_crds :: "'w ctx \<Rightarrow> kobj list \<Rightarrow> ('w rstate, go_error option) go" where
  "apply_crds cx [] s = Some (None, s)"
| "apply_crds cx (crd # crds) s = do {
     (e, s) \<leftarrow> retry_crd (cx_Client cx) (cx_RetrySteps cx) crd s;
     if e \<noteq> None then Some (e, s) else apply_crds cx crds s
   }"

section \<open>Always deployed\<close>

abbreviation AlwaysChartsDir :: string where
  "AlwaysChartsDir \<equiv> ''pkg/templates/charts/always''"

text \<open>The add-on templates on disk; every failure ends the walk with an error.\<close>

fun walk_addons :: "'w ctx \<Rightarrow> walk_event list \<Rightarrow> kobj list resp" where
  "walk_addons cx [] = Inr []"
| "walk_addons cx (WalkError e # ws) = Inl e"
| "walk_addons cx (WalkDir # ws) = walk_addons cx ws"
| "walk_addons cx (WalkFile path name content # ws) =
    (case content of
       None \<Rightarrow> Inl (ErrorString (''open '' @ name))
     | Some bytes \<Rightarrow>
         (case cx_Yaml cx bytes of
            Inl e \<Rightarrow> Inl e
          | Inr u \<Rightarrow>
              (case walk_addons cx ws of Inl e \<Rightarrow> Inl e | Inr us \<Rightarrow> Inr (u # us))))"

definition GetAddons :: "'w ctx \<Rightarrow> strmap \<Rightarrow> kobj list resp" where
  "GetAddons cx env =
    walk_addons cx (cx_Walk cx (override_dir env ''pkg/templates/clustermanagementaddons/''))"

fun apply_addons :: "'w ctx \<Rightarrow> MultiClusterEngine \<Rightarrow> kobj list \<Rightarrow> ('w rstate, reconcile_result) go" where
  "apply_addons cx m [] s = Some (ok_result, s)"
| "apply_addons cx m (addon # rest) s =
    (case ApplyControllerReference cx m (addon\<lparr>ko_Namespace := sp_TargetNamespace (mce_Spec m)\<rparr>) of
       Inl e \<Rightarrow> Some ((no_requeue, Some (PkgWrap
         (''Error setting controller reference on resource '' @ ko_Name addon) e)), s)
     | Inr addon \<Rightarrow> do {
         (r, s) \<leftarrow> api_Patch (cx_Client cx) addon s;
         case r of
           Inl e \<Rightarrow> Some ((no_requeue, Some (PkgWrap (''error applying object Name: '' @ ko_Name addon
             @ '' Kind: '' @ ko_Kind addon) e)), s)
         | Inr _ \<Rightarrow> apply_addons cx m rest s
       })"

definition ensureCustomResources ::
  "'w ctx \<Rightarrow> MultiClusterEngine \<Rightarrow> ('w rstate, reconcile_result) go" where
  "ensureCustomResources cx m s = do {
     (can, s) \<leftarrow> CanInstallAddons (cx_Client cx) s;
     if can
     then (case GetAddons cx (rs_Env s) of
             Inl e \<Rightarrow> Some ((no_requeue, Some e), s)
           | Inr addons \<Rightarrow> apply_addons cx m addons s)
     else Some ((requeue_in requeuePeriod, None), s)
   }"

fun apply_always :: "'w ctx \<Rightarrow> MultiClusterEngine \<Rightarrow> kobj list \<Rightarrow> ('w rstate, reconcile_result) go" where
  "apply_always cx m [] s = Some (ok_result, s)"
| "apply_always cx m (template # rest) s = do {
     let template = applyReleaseVersionAnnotation cx template;
     let s = (if ko_Kind template = ''Deployment''
              then add_component (DeploymentStatus (ko_key template)) s else s);
     (r, s) \<leftarrow> applyTemplate cx m template s;
     if snd r \<noteq> None then Some (r, s) else apply_always cx m rest s
   }"

definition DeployAlwaysSubcomponents ::
  "'w ctx \<Rightarrow> MultiClusterEngine \<Rightarrow> ('w rstate, reconcile_result) go" where
  "DeployAlwaysSubcomponents cx m s =
    (case RenderCharts cx (rs_Env s) AlwaysChartsDir m (ca_ImageOverrides (rs_Cache s))
            (ca_TemplateOverrides (rs_Cache s)) of
       Inl e \<Rightarrow> Some ((requeue_in requeuePeriod, None), s)
     | Inr templates \<Rightarrow> do {
         (r, s) \<leftarrow> apply_always cx m templates s;
         if snd r \<noteq> None then Some (r, s)
         else do {
           (r, s) \<leftarrow> ensureCustomResources cx m s;
           if snd r \<noteq> None then Some (r, s) else Some (ok_result, s)
         }
       })"

section \<open>Config map and metrics\<close>

text \<open>The common course of these three functions: an existing resource is left alone, a missing one
  is created with the engine as its controller.\<close>

definition create_missing ::
  "'w ctx \<Rightarrow> MultiClusterEngine \<Rightarrow> kobj \<Rightarrow> string \<Rightarrow> ('w rstate, reconcile_result) go" where
  "create_missing cx m u message s = do {
     (r, s) \<leftarrow> api_Get (cx_Client cx) (ko_GVK u) (ko_key u) s;
     case r of
       Inr _ \<Rightarrow> Some (ok_result, s)
     | Inl e \<Rightarrow>
         if \<not> IsNotFound e then Some ((no_requeue, Some e), s)
         else (case ApplyControllerReference cx m u of
                 Inl e \<Rightarrow> Some ((no_requeue, Some (PkgWrap (message @ ko_Name u) e)), s)
               | Inr u \<Rightarrow> do {
                   (r, s) \<leftarrow> api_Create (cx_Client cx) u s;
                   case r of
                     Inl e \<Rightarrow> Some ((no_requeue, Some e), s)
                   | Inr _ \<Rightarrow> Some (ok_result, s)
                 })
   }"

definition createTrustBundleConfigmap ::
  "'w ctx \<Rightarrow> MultiClusterEngine \<Rightarrow> ('w rstate, reconcile_result) go" where
  "createTrustBundleConfigmap cx m s =
    (let name = (case map_of (rs_Env s) ''TRUSTED_CA_BUNDLE'' of
                   Some n \<Rightarrow> if n \<noteq> '''' then n else ''trusted-ca-bundle''
                 | None \<Rightarrow> ''trusted-ca-bundle'')
     in create_missing cx m ((mk_obj configMapGVK (sp_TargetNamespace (mce_Spec m)) name)
          \<lparr>ko_Labels := [(''config.openshift.io/inject-trusted-cabundle'', ''true'')]\<rparr>)
          ''Error setting controller reference on trust bundle configmap '' s)"

abbreviation metrics_name :: string where
  "metrics_name \<equiv> ''multicluster-engine-operator-metrics''"

definition control_plane :: strmap where
  "control_plane = [(''control-plane'', ''backplane-operator'')]"

definition createMetricsService ::
  "'w ctx \<Rightarrow> MultiClusterEngine \<Rightarrow> ('w rstate, reconcile_result) go" where
  "createMetricsService cx m s =
    create_missing cx m
      ((mk_obj (mk_gvk '''' ''v1'' ''Service'') (sp_TargetNamespace (mce_Spec m)) metrics_name)
        \<lparr>ko_Labels := control_plane,
         ko_Content := [(''spec'', JObject
           [(''ports'', JArray [JObject [(''name'', JString ''metrics''), (''port'', JInt 8080),
               (''protocol'', JString ''TCP''), (''targetPort'', JInt 8080)]]),
            (''selector'', strmap_json control_plane)])]\<rparr>)
      ''error setting controller reference on metrics service: '' s"

definition createMetricsServiceMonitor ::
  "'w ctx \<Rightarrow> MultiClusterEngine \<Rightarrow> ('w rstate, reconcile_result) go" where
  "createMetricsServiceMonitor cx m s =
    create_missing cx m
      ((mk_obj (mk_gvk ''monitoring.coreos.com'' ''v1'' ''ServiceMonitor'')
          (sp_TargetNamespace (mce_Spec m)) metrics_name)
        \<lparr>ko_Labels := control_plane,
         ko_Content := [(''spec'', JObject
           [(''endpoints'', JArray [JObject
               [(''bearerTokenFile'', JString ''/var/run/secrets/kubernetes.io/serviceaccount/token''),
                (''bearerTokenSecret'', JObject [(''key'', JString '''')]),
                (''port'', JString ''metrics'')]]),
            (''namespaceSelector'', JObject
               [(''matchNames'', JArray [JString (sp_TargetNamespace (mce_Spec m))])]),
            (''selector'', JObject [(''matchLabels'', strmap_json control_plane)])])]\<rparr>)
      ''error setting controller reference on multicluster-engine metrics servicemonitor: '' s"

section \<open>Updates of a CRD\<close>

definition injected_bundle :: "kobj \<Rightarrow> string option" where
  "injected_bundle u =
    (case nested (ko_Content u) caBundle_path of
       Some (Some (JString ca)) \<Rightarrow> if ca = '''' then None else Some ca
     | _ \<Rightarrow> None)"

lemma preserve_caBundle_injected:
  "preserve_caBundle existing crd =
    (case injected_bundle existing of
       None \<Rightarrow> Inr crd
     | Some ca \<Rightarrow>
         (case set_nested (ko_Content crd) caBundle_path (JString ca) of
            None \<Rightarrow> Inl (crd_error ''preserving caBundle in'' crd (ErrorString ''value cannot be set''))
          | Some content \<Rightarrow> Inr (crd\<lparr>ko_Content := content\<rparr>)))"
proof (cases "nested (ko_Content existing) caBundle_path")
  case (Some v)
  show ?thesis
  proof (cases v)
    case (Some j)
    with \<open>nested _ _ = Some v\<close> show ?thesis
      by (cases j) (simp_all add: preserve_caBundle_def injected_bundle_def del: set_nested.simps)
  qed (use Some in \<open>simp add: preserve_caBundle_def injected_bundle_def\<close>)
qed (simp add: preserve_caBundle_def injected_bundle_def)

lemma preserve_caBundle_spec:
  assumes "preserve_caBundle existing crd = Inr u"
  shows "u = crd\<lparr>ko_Content := ko_Content u\<rparr> \<and>
    (case injected_bundle existing of
       None \<Rightarrow> ko_Content u = ko_Content crd
     | Some ca \<Rightarrow> nested (ko_Content u) caBundle_path = Some (Some (JString ca)))"
proof (cases "injected_bundle existing")
  case (Some ca)
  then obtain content where "set_nested (ko_Content crd) caBundle_path (JString ca) = Some content"
    and u: "u = crd\<lparr>ko_Content := content\<rparr>"
    using assms
    by (simp add: preserve_caBundle_injected del: set_nested.simps split: option.splits)
  then have "nested content caBundle_path = Some (Some (JString ca))"
    by (intro nested_set_nested) simp_all
  then show ?thesis using Some u by (simp del: nested.simps)
qed (use assms in \<open>simp add: preserve_caBundle_injected del: set_nested.simps\<close>)

text \<open>
  C25: One attempt to apply a CRD always ends, reads the CRD first and sends at most one write.  A
  missing CRD is created as rendered.  A CRD with the ignore annotation is left alone.  Any other
  existing CRD is updated under its own resource version: without an injected CA bundle with the rendered
  content, with one with the rendered content in which only the bundle is set at its path.  The update is
  left out, with an error, exactly when there is a bundle and the rendered CRD has something on the way to
  it that is no object.  Apart from that the result is an error exactly when the API server refused the
  write, or the read for another reason than not-found.
\<close>

theorem EnsureCRD_update:
  "\<exists>e crd' s' r w. cl_Get cl (ko_GVK crd) ('''', ko_Name crd) (ks_World s) = (r, w)
    \<and> EnsureCRD cl crd s = Some ((e, crd'), s')
    \<and> (\<exists>ws. ks_Trace s' = ks_Trace s @ CGet (ko_GVK crd) ('''', ko_Name crd) r # ws
    \<and> (case r of
         Inl err \<Rightarrow>
           if IsNotFound err then ws = [CCreate crd] \<and> (e = None \<longleftrightarrow> (\<exists>v. fst (cl_Create cl crd w) = Inr v))
           else ws = [] \<and> e \<noteq> None
       | Inr x \<Rightarrow>
           if AnnotationPresent AnnotationMCEIgnore x then ws = [] \<and> e = None
           else if injected_bundle x \<noteq> None \<and> \<not> has_place (ko_Content crd) caBundle_path then ws = [] \<and> e \<noteq> None
           else \<exists>u. ws = [CUpdate u] \<and> (e = None \<longleftrightarrow> (\<exists>v. fst (cl_Update cl u w) = Inr v))
             \<and> ko_ResourceVersion u = ko_ResourceVersion x
             \<and> crd\<lparr>ko_Content := ko_Content u, ko_ResourceVersion := ko_ResourceVersion x\<rparr> = u
             \<and> (case injected_bundle x of
                  None \<Rightarrow> ko_Content u = ko_Content crd
                | Some ca \<Rightarrow> nested (ko_Content u) caBundle_path = Some (Some (JString ca))
                    \<and> set_nested (ko_Content crd) caBundle_path (JString ca) = Some (ko_Content u))))"
proof -
  obtain r w where read: "cl_Get cl (ko_GVK crd) ('''', ko_Name crd) (ks_World s) = (r, w)" by fastforce
  show ?thesis
  proof (cases r)
    case (Inl err)
    with read show ?thesis by (auto simp: EnsureCRD_def api_eqs split: sum.split)
  next
    case (Inr x)
    have place: "set_nested (ko_Content crd) caBundle_path v = None \<longleftrightarrow> \<not> has_place (ko_Content crd) caBundle_path" for v
      by (rule set_nested_None) simp
    show ?thesis
    proof (cases "AnnotationPresent AnnotationMCEIgnore x")
      case False
      show ?thesis
      proof (cases "preserve_caBundle x crd")
        case fail: (Inl e)
        then have "injected_bundle x \<noteq> None \<and> \<not> has_place (ko_Content crd) caBundle_path"
          using place
          by (cases "injected_bundle x") (auto simp: preserve_caBundle_injected simp del: set_nested.simps split: option.splits)
        then show ?thesis using read Inr False fail by (auto simp: EnsureCRD_def api_eqs)
      next
        case ok: (Inr u)
        let ?u = "u\<lparr>ko_ResourceVersion := ko_ResourceVersion x\<rparr>"
        have free: "\<not> (injected_bundle x \<noteq> None \<and> \<not> has_place (ko_Content crd) caBundle_path)"
          using ok place
          by (auto simp: preserve_caBundle_injected simp del: set_nested.simps split: option.splits) (metis option.distinct(1))
        have shape: "crd\<lparr>ko_Content := ko_Content ?u, ko_ResourceVersion := ko_ResourceVersion x\<rparr> = ?u"
        proof -
          obtain content where "u = crd\<lparr>ko_Content := content\<rparr>" using preserve_caBundle_spec [OF ok] by blast
          then show ?thesis by simp
        qed
        have content: "case injected_bundle x of
              None \<Rightarrow> ko_Content ?u = ko_Content crd
            | Some ca \<Rightarrow> nested (ko_Content ?u) caBundle_path = Some (Some (JString ca))
                \<and> set_nested (ko_Content crd) caBundle_path (JString ca) = Some (ko_Content ?u)"
          using preserve_caBundle_spec [OF ok] ok
          by (auto simp: preserve_caBundle_injected simp del: set_nested.simps nested.simps split: option.splits)
        obtain e crd' s' where run: "EnsureCRD cl crd s = Some ((e, crd'), s')"
          and trace: "ks_Trace s' = ks_Trace s @ CGet (ko_GVK crd) ('''', ko_Name crd) r # [CUpdate ?u]"
          and err: "e = None \<longleftrightarrow> (\<exists>v. fst (cl_Update cl ?u w) = Inr v)"
        proof (cases "fst (cl_Update cl ?u w)")
          case (Inl e)
          then show ?thesis using read Inr ok False that by (simp add: EnsureCRD_def api_eqs Let_def)
        next
          case upd: (Inr v)
          then show ?thesis using read Inr ok False that by (simp add: EnsureCRD_def api_eqs Let_def)
        qed
        show ?thesis
          unfolding Inr [symmetric]
          by (intro exI conjI, rule read, rule run, rule trace)
            (simp only: Inr sum.case False free if_False, intro exI conjI, rule refl, rule err, simp, rule shape, rule content)
      qed
    qed (use read Inr in \<open>auto simp: EnsureCRD_def api_eqs\<close>)
  qed
qed

end
