(* ===== verification/Reconcile.thy ===== *)
theory Reconcile
  imports Reconcile_Steps
begin

text \<open>
  \<open>MultiClusterEngineReconciler.Reconcile\<close> of \<open>controllers/backplaneconfig_controller.go\<close>: the part
  before the deferred status update is registered, the body, and the deferred function.  A stage of
  the body gives \<^term>\<open>None\<close> to continue, or the result that the function returns there.
\<close>

type_synonym stage = "reconcile_result option"

definition then_stage ::
  "('w rstate, stage) go \<Rightarrow> ('w rstate, reconcile_result) go \<Rightarrow> ('w rstate, reconcile_result) go" where
  "then_stage a k s = do {
     (r, s) \<leftarrow> a s;
     case r of Some result \<Rightarrow> Some (result, s) | None \<Rightarrow> k s
   }"

text \<open>The three ways the code treats the result of a step.\<close>

definition return_any :: "('w rstate, reconcile_result) go \<Rightarrow> ('w rstate, stage) go" where
  "return_any a s = do {
     (r, s) \<leftarrow> a s;
     Some (if fst r \<noteq> no_requeue \<or> snd r \<noteq> None then Some r else None, s)
   }"

definition return_error :: "('w rstate, reconcile_result) go \<Rightarrow> ('w rstate, stage) go" where
  "return_error a s = do {
     (r, s) \<leftarrow> a s;
     Some (if snd r \<noteq> None then Some r else None, s)
   }"

definition return_stripped :: "('w rstate, reconcile_result) go \<Rightarrow> ('w rstate, stage) go" where
  "return_stripped a s = do {
     (r, s) \<leftarrow> a s;
     Some (if fst r \<noteq> no_requeue \<or> snd r \<noteq> None then Some (no_requeue, snd r) else None, s)
   }"

section \<open>Stages\<close>

definition check_ocp_version :: "'w ctx \<Rightarrow> MultiClusterEngine \<Rightarrow> ('w rstate, stage) go" where
  "check_ocp_version cx m s =
    (if \<not> ShouldIgnoreOCPVersion m \<and> cx_DeployOnOCP cx
     then do {
       (r, s) \<leftarrow> getClusterVersion cx s;
       case r of
         Inl e \<Rightarrow> Some (Some (no_requeue, Some (WrapError
           (''failed to detect clusterversion: '' @ err_msg e) e)), s)
       | Inr v \<Rightarrow>
           (case ValidOCPVersion cx (rs_Env s) v of
              None \<Rightarrow> Some (None, s)
            | Some e \<Rightarrow> do {
                (u, s) \<leftarrow> new_condition cx MultiClusterEngineProgressing ConditionFalse
                  RequirementsNotMetReason (err_msg e) s;
                Some (Some (no_requeue, Some e), s)
              })
     }
     else Some (None, s))"

definition env_image_overrides :: "strmap \<Rightarrow> strmap" where
  "env_image_overrides env =
    (let imageOverrides = GetOverridesFromEnv (environ env) OperandImagePrefix
     in if imageOverrides = [] then GetOverridesFromEnv (environ env) OSBSImagePrefix
        else imageOverrides)"

definition image_overrides_stage :: "'w ctx \<Rightarrow> MultiClusterEngine \<Rightarrow> ('w rstate, stage) go" where
  "image_overrides_stage cx m s =
    (let imageOverrides = env_image_overrides (rs_Env s)
     in if imageOverrides = []
        then do {
          (u, s) \<leftarrow> new_condition cx MultiClusterEngineProgressing ConditionFalse
            RequirementsNotMetReason ''No image references defined in deployment'' s;
          Some (Some (no_requeue, Some (ErrorString
            ''no image references exist. images must be defined as environment variables'')), s)
        }
        else do {
          imageOverrides \<leftarrow>
            (if GetImageRepository m \<noteq> ''''
             then OverrideImageRepository imageOverrides (GetImageRepository m)
             else Some imageOverrides);
          let cmName = GetImageOverridesConfigmapName m;
          ((e, imageOverrides), s) \<leftarrow>
            (if cmName \<noteq> ''''
             then do {
               ns \<leftarrow> OperatorNamespace (rs_Env s);
               GetOverridesFromConfigmap (cx_Client cx) (cx_Decoders cx) imageOverrides ns cmName False s
             }
             else Some ((None, imageOverrides), s));
          case e of
            Some e \<Rightarrow> do {
              (u, s) \<leftarrow> new_condition cx MultiClusterEngineProgressing ConditionFalse
                RequirementsNotMetReason (''Issue building image references: '' @ err_msg e) s;
              Some (Some (no_requeue, Some e), s)
            }
          | None \<Rightarrow> Some (None, s\<lparr>rs_Cache := (rs_Cache s)\<lparr>ca_ImageOverrides := imageOverrides,
                ca_ImageRepository := GetImageRepository m, ca_ImageOverridesCM := cmName\<rparr>\<rparr>)
        })"

definition template_overrides_stage :: "'w ctx \<Rightarrow> MultiClusterEngine \<Rightarrow> ('w rstate, stage) go" where
  "template_overrides_stage cx m s = do {
     let templateOverrides = GetOverridesFromEnv (environ (rs_Env s)) TemplateOverridePrefix;
     let cmName = GetTemplateOverridesConfigmapName m;
     ((e, templateOverrides), s) \<leftarrow>
       (if cmName \<noteq> ''''
        then do {
          ns \<leftarrow> OperatorNamespace (rs_Env s);
          GetOverridesFromConfigmap (cx_Client cx) (cx_Decoders cx) templateOverrides ns cmName True s
        }
        else Some ((None, templateOverrides), s));
     case e of
       Some e \<Rightarrow> Some (Some (no_requeue, Some e), s)
     | None \<Rightarrow> Some (None, s\<lparr>rs_Cache := (rs_Cache s)\<lparr>ca_TemplateOverrides := templateOverrides,
           ca_TemplateOverridesCM := cmName\<rparr>\<rparr>)
   }"

definition paused_stage :: "'w ctx \<Rightarrow> MultiClusterEngine \<Rightarrow> ('w rstate, stage) go" where
  "paused_stage cx m s =
    (if IsPaused m
     then do {
       (u, s) \<leftarrow> new_condition cx MultiClusterEngineProgressing ConditionUnknown PausedReason
         ''Multiclusterengine is paused'' s;
       Some (Some ok_result, s)
     }
     else Some (None, s))"

definition crd_stage :: "'w ctx \<Rightarrow> MultiClusterEngine \<Rightarrow> ('w rstate, stage) go" where
  "crd_stage cx m s = do {
     let crdsDir = (if map_of (rs_Env s) ''UNIT_TEST'' = Some ''true'' then ''test/unit-test-crds''
                    else ''pkg/templates/crds'');
     (crds, errs) \<leftarrow> RenderCRDs cx (rs_Env s) crdsDir (Some m) (mergedSkipCRDDirs cx m);
     case errs of
       e # _ \<Rightarrow> Some (Some (no_requeue, Some e), s)
     | [] \<Rightarrow> do {
         (e, s) \<leftarrow> apply_crds cx crds s;
         Some (case e of Some e \<Rightarrow> Some (no_requeue, Some e) | None \<Rightarrow> None, s)
       }
   }"

definition always_stage :: "'w ctx \<Rightarrow> MultiClusterEngine \<Rightarrow> ('w rstate, stage) go" where
  "always_stage cx m s = do {
     (r, s) \<leftarrow> DeployAlwaysSubcomponents cx m s;
     case snd r of
       None \<Rightarrow> Some (None, s)
     | Some e \<Rightarrow> do {
         (u, s) \<leftarrow> new_condition cx MultiClusterEngineProgressing ConditionUnknown DeployFailedReason
           (err_msg e) s;
         Some (Some r, s)
       }
   }"

definition metrics_stage :: "'w ctx \<Rightarrow> MultiClusterEngine \<Rightarrow> ('w rstate, stage) go" where
  "metrics_stage cx m s =
    (if cx_DeployOnOCP cx
     then do {
       (r, s) \<leftarrow> createMetricsService cx m s;
       if snd r \<noteq> None then Some (Some r, s) else return_error (createMetricsServiceMonitor cx m) s
     }
     else Some (None, s))"

section \<open>The body\<close>

text \<open>After the pause: CRDs, charts, components, network policies and the operator's resources.\<close>

definition deploy_stages ::
  "'w ctx \<Rightarrow> MultiClusterEngine \<Rightarrow> bool \<Rightarrow> ('w rstate, reconcile_result) go" where
  "deploy_stages cx m upgrade =
    then_stage (crd_stage cx m) (
    then_stage (always_stage cx m) (
    then_stage (return_error (ensureToggleableComponents cx m)) (
    then_stage (return_any (ensureNetworkPolicies cx m)) (
    then_stage (return_error (createTrustBundleConfigmap cx m)) (
    then_stage (metrics_stage cx m) (
    then_stage (return_error (ensureRemovalsGone cx m)) (\<lambda>s.
      if upgrade then Some ((requeue_now, None), s)
      else do {
        (u, s) \<leftarrow> new_condition cx MultiClusterEngineProgressing ConditionTrue DeploySuccessReason
          ''All components deployed'' s;
        Some ((requeue_in ShortRefreshInterval, None), s)
      })))))))"

text \<open>Between defaulting and the pause.\<close>

definition prepare_stages ::
  "'w ctx \<Rightarrow> MultiClusterEngine \<Rightarrow> ('w rstate, reconcile_result) go \<Rightarrow> ('w rstate, reconcile_result) go" where
  "prepare_stages cx m k =
    then_stage (return_any (cleanup_deprecated cx (GetDeprecatedResources m))) (
    then_stage (return_any (CleanupVersionedAddOnTemplates cx m)) (
    then_stage (check_ocp_version cx m) (
    then_stage (return_stripped (validateNamespace cx m)) (
    then_stage (return_error (\<lambda>s. do {
        (r, s) \<leftarrow> ensureOpenShiftNamespaceLabel cx m s; Some ((no_requeue, snd r), s) })) (
    then_stage (return_stripped (validateImagePullSecret cx m)) (
    then_stage (image_overrides_stage cx m) (
    then_stage (template_overrides_stage cx m) (
    then_stage (paused_stage cx m) k))))))))"

abbreviation backplaneFinalizer :: string where
  "backplaneFinalizer \<equiv> ''finalizer.multicluster.openshift.io''"

text \<open>\<open>controllerutil.ContainsFinalizer\<close>, \<open>AddFinalizer\<close> and \<open>RemoveFinalizer\<close>.\<close>

definition add_finalizer :: "MultiClusterEngine \<Rightarrow> MultiClusterEngine" where
  "add_finalizer m =
    (if backplaneFinalizer \<in> set (mce_Finalizers m) then m
     else m\<lparr>mce_Finalizers := mce_Finalizers m @ [backplaneFinalizer]\<rparr>)"

definition remove_finalizer :: "MultiClusterEngine \<Rightarrow> MultiClusterEngine" where
  "remove_finalizer m =
    m\<lparr>mce_Finalizers := filter (\<lambda>f. f \<noteq> backplaneFinalizer) (mce_Finalizers m)\<rparr>"

text \<open>An engine that is being deleted; the engine afterwards is what the deferred function sees.\<close>

definition reconcile_deletion ::
  "'w ctx \<Rightarrow> MultiClusterEngine \<Rightarrow> ('w rstate, MultiClusterEngine \<times> reconcile_result) go" where
  "reconcile_deletion cx m s =
    (if backplaneFinalizer \<in> set (mce_Finalizers m)
     then do {
       (r, s) \<leftarrow> finalizeBackplaneConfig cx m s;
       if snd r \<noteq> None then Some ((m, requeue_in (5 * second), None), s)
       else if fst r \<noteq> no_requeue then Some ((m, fst r, None), s)
       else do {
         let m = remove_finalizer m;
         (r, s) \<leftarrow> api_UpdateMCE (cx_Client cx) m s;
         case r of
           Inl e \<Rightarrow> Some ((m, no_requeue, Some e), s)
         | Inr m \<Rightarrow>
             if isComponentExternallyManaged cx m MaestroPreview then Some ((m, ok_result), s)
             else do {
               (e, s) \<leftarrow> deleteMaestroNamespace cx s;
               Some ((m, no_requeue, e), s)
             }
       }
     }
     else Some ((m, ok_result), s))"

definition reconcile_body ::
  "'w ctx \<Rightarrow> MultiClusterEngine \<Rightarrow> bool \<Rightarrow> ('w rstate, MultiClusterEngine \<times> reconcile_result) go" where
  "reconcile_body cx m upgrade s =
    (if mce_DeletionTimestamp m \<noteq> None then reconcile_deletion cx m s
     else do {
       (r, s) \<leftarrow>
         (if backplaneFinalizer \<notin> set (mce_Finalizers m)
          then api_UpdateMCE (cx_Client cx) (add_finalizer m) s else Some (Inr m, s));
       case r of
         Inl e \<Rightarrow> Some ((add_finalizer m, no_requeue, Some e), s)
       | Inr m \<Rightarrow> do {
           ((m, r), s) \<leftarrow> setDefaults cx m s;
           if fst r \<noteq> no_requeue \<or> snd r \<noteq> None then Some ((m, no_requeue, snd r), s)
           else do {
             (r, s) \<leftarrow> prepare_stages cx m (deploy_stages cx m upgrade) s;
             Some ((m, r), s)
           }
         }
     })"

section \<open>The deferred status update\<close>

definition report_status ::
  "'w ctx \<Rightarrow> MultiClusterEngine \<Rightarrow> reconcile_result \<Rightarrow> ('w rstate, reconcile_result) go" where
  "report_status cx m r s = do {
     ((st, sm), s) \<leftarrow> ReportStatus (cx_Client cx) (cx_Version cx) m (rs_Status s) s;
     let s = s\<lparr>rs_Status := sm\<rparr>;
     let m = m\<lparr>mce_Status := st\<rparr>;
     (u, s) \<leftarrow> api_StatusUpdateMCE (cx_Client cx) m s;
     let m = (case u of Inl _ \<Rightarrow> m | Inr m' \<Rightarrow> m');
     let retRes = (if ms_Phase (mce_Status m) \<noteq> PhaseAvailable \<and> \<not> IsPaused m
                   then requeue_in requeuePeriod else fst r);
     Some ((case u of
              Inl e \<Rightarrow> if IsConflict e then (requeue_in requeuePeriod, snd r) else (retRes, Some e)
            | Inr _ \<Rightarrow> (retRes, snd r)), s)
   }"

section \<open>Reconcile\<close>

text \<open>The tracker starts again from the conditions of the engine.\<close>

definition reset_status :: "MultiClusterEngine \<Rightarrow> 'w rstate \<Rightarrow> 'w rstate" where
  "reset_status m s =
    s\<lparr>rs_Status := fold AddCondition (ms_Conditions (mce_Status m)) (Reset '''' (rs_Status s))\<rparr>"

definition check_upgrade :: "'w ctx \<Rightarrow> MultiClusterEngine \<Rightarrow> ('w rstate, bool) go" where
  "check_upgrade cx m s =
    (if cx_DeployOnOCP cx
     then do {
       ((upgrade, e), s) \<leftarrow> setOperatorUpgradeableStatus cx m s;
       case e of
         None \<Rightarrow> Some (upgrade, s)
       | Some e \<Rightarrow> do {
           (u, s) \<leftarrow> new_condition cx MultiClusterEngineProgressing ConditionFalse
             RequirementsNotMetReason (err_msg e) s;
           Some (upgrade, s)
         }
     }
     else Some (False, s))"

definition drop_failures :: "MultiClusterEngine \<Rightarrow> MultiClusterEngine" where
  "drop_failures m =
    m\<lparr>mce_Status := (mce_Status m)\<lparr>ms_Conditions :=
        FilterOutConditionWithSubString (ms_Conditions (mce_Status m)) MultiClusterEngineComponentFailure\<rparr>\<rparr>"

text \<open>The engine was found.\<close>

definition reconcile_engine :: "'w ctx \<Rightarrow> MultiClusterEngine \<Rightarrow> ('w rstate, reconcile_result) go" where
  "reconcile_engine cx m s = do {
     let m = drop_failures m;
     let s = CheckDeprecatedFieldUsage m s;
     if Enabled m MaestroPreview
     then do {
       (r, s) \<leftarrow> api_UpdateMCE (cx_Client cx) (Disable m MaestroPreview) s;
       case r of
         Inl e \<Rightarrow> Some ((no_requeue, Some e), s)
       | Inr _ \<Rightarrow> Some ((requeue_now, None), s)
     }
     else do {
       (u, s) \<leftarrow> checkExternallyManagedComponents cx m (reset_status m s);
       (u, s) \<leftarrow> new_condition cx MultiClusterEngineProgressing ConditionTrue
         WaitingForResourceReason ''Setting the operator'' s;
       (upgrade, s) \<leftarrow> check_upgrade cx m s;
       ((m, r), s) \<leftarrow> reconcile_body cx m upgrade s;
       report_status cx m r s
     }
   }"

text \<open>\<open>getBackplaneConfig\<close>: both of its error branches hand the error on.\<close>

definition getBackplaneConfig :: "'w ctx \<Rightarrow> string \<Rightarrow> ('w rstate, MultiClusterEngine resp) go" where
  "getBackplaneConfig cx name s = do {
     (r, s) \<leftarrow> api_GetMCE (cx_Client cx) name s;
     case r of
       Inl e \<Rightarrow> if IsNotFound e then Some (Inl e, s) else Some (Inl e, s)
     | Inr backplaneConfig \<Rightarrow> Some (Inr backplaneConfig, s)
   }"

definition Reconcile :: "'w ctx \<Rightarrow> string \<Rightarrow> ('w rstate, reconcile_result) go" where
  "Reconcile cx name s = do {
     (r, s) \<leftarrow> getBackplaneConfig cx name s;
     case r of
       Inl e \<Rightarrow> if \<not> IsNotFound e then Some ((no_requeue, Some e), s) else Some (ok_result, s)
     | Inr m \<Rightarrow> reconcile_engine cx m s
   }"

lemma getBackplaneConfig_eq [simp]: "getBackplaneConfig cx name s = api_GetMCE (cx_Client cx) name s"
  by (auto simp: getBackplaneConfig_def api_eqs split: sum.split)

end
