(* ===== verification/Trace_Logic.thy ===== *)
theory Trace_Logic
  imports Reconcile
begin

text \<open>
  Which requests the components send.  \<open>trace_closed\<close> is the interface of a property of request
  sequences that is closed under concatenation, with the rules that carry it through the code;
  \<open>component_trace\<close> adds what a component relies on (applying and deleting a template, the internal
  engine component) and proves the property for the loops and for every component that only uses
  those.  The interpretations are ownership of the written resources and the absence of writes to
  network policies.
\<close>

section \<open>Properties of request sequences\<close>

locale trace_closed =
  fixes J :: "api_call list \<Rightarrow> bool"
  assumes J_Nil: "J []"
    and J_append: "J es \<Longrightarrow> J es' \<Longrightarrow> J (es @ es')"
    and J_read: "\<not> is_write c \<Longrightarrow> J [c]"
begin

lemma ret: "ks_Trace s = t \<Longrightarrow> appends t J (Some (r, s))"
  using J_Nil by (simp add: appends_def)

lemma panic: "appends t J None"
  by (simp add: appends_def)

lemma bind:
  "appends t J a \<Longrightarrow> (\<And>r s. appends (ks_Trace s) J (f (r, s))) \<Longrightarrow> appends t J (Option.bind a f)"
proof (rule appends_bind, assumption, goal_cases)
  case (1 r s es)
  show ?case by (rule appends_mono [OF 1(2)]) (rule J_append [OF 1(4)])
qed

lemma extend:
  assumes "J es" "appends (t @ es) J a"
  shows "appends t J a"
proof -
  have "appends (t @ es) (\<lambda>es'. J (es @ es')) a"
    by (rule appends_mono [OF assms(2)]) (rule J_append [OF assms(1)])
  then show ?thesis by (auto simp: appends_def elim!: spost_mono)
qed

lemma pure_bind: "(\<And>x. a = Some x \<Longrightarrow> appends t J (f x)) \<Longrightarrow> appends t J (Option.bind a f)"
  by (cases a) (auto simp: panic)

lemma cond: "(b \<Longrightarrow> appends t J a) \<Longrightarrow> (\<not> b \<Longrightarrow> appends t J a') \<Longrightarrow> appends t J (if b then a else a')"
  by simp

lemma opt: "(x = None \<Longrightarrow> appends t J a) \<Longrightarrow> (\<And>y. x = Some y \<Longrightarrow> appends t J (f y)) \<Longrightarrow>
    appends t J (case x of None \<Rightarrow> a | Some y \<Rightarrow> f y)"
  by (cases x) auto

lemma sum: "(\<And>y. x = Inl y \<Longrightarrow> appends t J (f y)) \<Longrightarrow> (\<And>y. x = Inr y \<Longrightarrow> appends t J (g y)) \<Longrightarrow>
    appends t J (case x of Inl y \<Rightarrow> f y | Inr y \<Rightarrow> g y)"
  by (cases x) auto

lemma prod: "(\<And>y z. x = (y, z) \<Longrightarrow> appends t J (f y z)) \<Longrightarrow> appends t J (case x of (y, z) \<Rightarrow> f y z)"
  by (cases x) auto

lemma bound: "(\<And>x. x = v \<Longrightarrow> appends t J (f x)) \<Longrightarrow> appends t J (Let v f)"
  by simp

lemmas steps = ret panic bind cond opt sum prod bound

lemma reads:
  "ks_Trace s = t \<Longrightarrow> appends t J (api_Get cl g n s)"
  "ks_Trace s = t \<Longrightarrow> appends t J (api_GetDeployment cl n s)"
  "ks_Trace s = t \<Longrightarrow> appends t J (api_List cl g ns ls s)"
  using J_read by (simp_all add: appends_def api_eqs)

lemma clock: "ks_Trace s = t \<Longrightarrow> appends t J (api_Now cl s)"
  using J_Nil by (simp add: appends_def api_Now_def split_beta)

lemma condition: "ks_Trace s = t \<Longrightarrow> appends t J (new_condition cx ty st rs ms s)"
  using J_Nil by (auto simp: appends_def intro!: spost_new_condition)

lemma creates: "J [CCreate u] \<Longrightarrow> ks_Trace s = t \<Longrightarrow> appends t J (api_Create cl u s)"
  by (simp add: appends_def api_eqs)

lemma patches: "J [CPatch u] \<Longrightarrow> ks_Trace s = t \<Longrightarrow> appends t J (api_Patch cl u s)"
  by (simp add: appends_def api_eqs)

lemma deletes: "J [CDelete u] \<Longrightarrow> ks_Trace s = t \<Longrightarrow> appends t J (api_Delete cl u s)"
  by (simp add: appends_def api_eqs)

lemma addons_installable: "ks_Trace s = t \<Longrightarrow> appends t J (CanInstallAddons cl s)"
  unfolding CanInstallAddons_def by (intro steps reads refl) auto

text \<open>
  A read whose answer decides about a write: after the answer \<open>x\<close> the rest of the code appends
  \<open>es\<close> such that the read followed by \<open>es\<close> has the property.
\<close>

lemma read_then:
  assumes "ks_Trace s = t"
    and "\<And>e s'. appends (ks_Trace s') J (f (Inl e, s'))"
    and "\<And>x s'. appends (ks_Trace s') (\<lambda>es. J (CGet g n (Inr x) # es)) (f (Inr x, s'))"
  shows "appends t J (Option.bind (api_Get cl g n s) f)"
proof -
  let ?r = "fst (cl_Get cl g n (ks_World s))"
  let ?s = "log_call (CGet g n ?r) (snd (cl_Get cl g n (ks_World s))) s"
  have run: "Option.bind (api_Get cl g n s) f = f (?r, ?s)" by (simp add: api_eqs)
  show ?thesis
  proof (cases ?r)
    case (Inl e)
    have "appends (ks_Trace ?s) (\<lambda>es. J ([CGet g n (Inl e)] @ es)) (f (Inl e, ?s))"
      by (rule appends_mono [OF assms(2)]) (intro J_append J_read, auto)
    then show ?thesis using Inl assms(1) unfolding run
      by (auto simp: appends_def elim!: spost_mono)
  next
    case (Inr x)
    then show ?thesis using assms(3) [of ?s x] assms(1) unfolding run
      by (auto simp: appends_def elim!: spost_mono)
  qed
qed

lemma list_then:
  assumes "ks_Trace s = t"
    and "\<And>e s'. appends (ks_Trace s') J (f (Inl e, s'))"
    and "\<And>us s'. fst (cl_List cl g ns ls (ks_World s)) = Inr us \<Longrightarrow> appends (ks_Trace s') J (f (Inr us, s'))"
  shows "appends t J (Option.bind (api_List cl g ns ls s) f)"
proof -
  let ?r = "cl_List cl g ns ls (ks_World s)" and ?s = "log_call (CList g ns ls) (snd (cl_List cl g ns ls (ks_World s))) s"
  have run: "Option.bind (api_List cl g ns ls s) f = f (fst ?r, ?s)" by (simp add: api_eqs)
  have "appends (ks_Trace ?s) J (f (fst ?r, ?s))" 
    by (cases "fst ?r") (simp_all only: assms(2,3))
  then show ?thesis unfolding run by (intro extend [of "[CList g ns ls]" t]) (use assms(1) J_read in auto)
qed

lemma after_read:
  assumes "J [c]" "appends t J a"
  shows "appends t (\<lambda>es. J (c # es)) a"
  using assms J_append [of "[c]"] by (auto intro!: appends_mono [OF assms(2)])

lemma after_read_delete:
  assumes "J [c, CDelete u]" "\<And>e s'. appends (ks_Trace s') J (f (e, s'))" "ks_Trace s = t"
  shows "appends t (\<lambda>es. J (c # es)) (Option.bind (api_Delete cl u s) f)"
proof (rule appends_bind [where Q = "\<lambda>es. es = [CDelete u]"], goal_cases)
  case (2 e s' es)
  have "appends (ks_Trace s') (\<lambda>es'. J ([c, CDelete u] @ es')) (f (e, s'))"
    by (rule appends_mono [OF assms(2)]) (rule J_append [OF assms(1)])
  with 2 show ?case by simp
qed (use assms(3) in \<open>simp add: appends_def api_eqs\<close>)

lemma after_read_update:
  assumes "J [c, CUpdate u]" "\<And>e s'. appends (ks_Trace s') J (f (e, s'))" "ks_Trace s = t"
  shows "appends t (\<lambda>es. J (c # es)) (Option.bind (api_Update cl u s) f)"
proof (rule appends_bind [where Q = "\<lambda>es. es = [CUpdate u]"], goal_cases)
  case (2 e s' es)
  have "appends (ks_Trace s') (\<lambda>es'. J ([c, CUpdate u] @ es')) (f (e, s'))"
    by (rule appends_mono [OF assms(2)]) (rule J_append [OF assms(1)])
  with 2 show ?case by simp
qed (use assms(3) in \<open>simp add: appends_def api_eqs\<close>)

lemma create_then:
  assumes "J [CCreate u]" "ks_Trace s = t"
    and "\<And>s'. appends (ks_Trace s') J (f (fst (cl_Create cl u (ks_World s)), s'))"
  shows "appends t J (Option.bind (api_Create cl u s) f)"
proof -
  let ?s = "log_call (CCreate u) (snd (cl_Create cl u (ks_World s))) s"
  have run: "Option.bind (api_Create cl u s) f = f (fst (cl_Create cl u (ks_World s)), ?s)"
    by (simp add: api_eqs)
  show ?thesis
    using after_read [OF assms(1) assms(3) [of ?s]] assms(2) unfolding run
    by (auto simp: appends_def elim!: spost_mono)
qed

text \<open>The same through a branch, and when nothing more is written.\<close>

lemma after_cond:
  "(b \<Longrightarrow> appends t (\<lambda>es. J (c # es)) a) \<Longrightarrow> (\<not> b \<Longrightarrow> appends t (\<lambda>es. J (c # es)) a') \<Longrightarrow>
    appends t (\<lambda>es. J (c # es)) (if b then a else a')"
  by simp

lemma after_ret: "\<not> is_write c \<Longrightarrow> ks_Trace s = t \<Longrightarrow> appends t (\<lambda>es. J (c # es)) (Some (r, s))"
  using J_read by (auto simp: appends_def)

lemmas after = after_cond after_ret after_read_delete after_read_update

lemma updates: "J [CUpdate u] \<Longrightarrow> ks_Trace s = t \<Longrightarrow> appends t J (api_Update cl u s)"
  by (simp add: appends_def api_eqs)

end

section \<open>Components\<close>

lemma switch_trace [simp]:
  "ks_Trace (switch_on n s) = ks_Trace s" "ks_Trace (switch_off n s) = ks_Trace s"
  "ks_Trace (switch_on_reversed n s) = ks_Trace s"
  by (simp_all add: switch_on_def switch_off_def switch_on_reversed_def)

lemma fold_switch_trace [simp]:
  "ks_Trace (fold (\<lambda>n. switch_on (f n)) ns s) = ks_Trace s"
  "ks_Trace (fold (\<lambda>n. switch_off (f n)) ns s) = ks_Trace s"
  "ks_Trace (fold (\<lambda>n. switch_on_reversed (f n)) ns s) = ks_Trace s"
  by (induction ns arbitrary: s) simp_all

text \<open>
  \<open>ok\<close> is the set of templates a component may apply or delete.  Every template that is no network
  policy is in it.
\<close>

locale component_trace = trace_closed J
  for J :: "api_call list \<Rightarrow> bool" +
  fixes cx :: "'w ctx" and m :: MultiClusterEngine and ok :: "kobj \<Rightarrow> bool"
  assumes ok_kind: "ko_Kind t \<noteq> ''NetworkPolicy'' \<Longrightarrow> ok t"
    and ok_annotated: "ok t \<Longrightarrow> ok (applyReleaseVersionAnnotation cx t)"
    and applied: "ok t \<Longrightarrow> appends (ks_Trace s) J (applyTemplate cx m t s)"
    and deleted: "ok t \<Longrightarrow> appends (ks_Trace s) J (deleteTemplate cx m t s)"
    and internal: "appends (ks_Trace s) J (ensureInternalEngineComponent cx m c s)"
    and no_internal: "appends (ks_Trace s) J (ensureNoInternalEngineComponent cx m c s)"
begin

lemma applied_at: "ok t \<Longrightarrow> ks_Trace s = tr \<Longrightarrow> appends tr J (applyTemplate cx m t s)"
  using applied by blast

lemma deleted_at: "ok t \<Longrightarrow> ks_Trace s = tr \<Longrightarrow> appends tr J (deleteTemplate cx m t s)"
  using deleted by blast

text \<open>The loops, with the guard for network policies or for templates that are allowed anyway.\<close>

lemma apply_loop:
  "(\<And>t. t \<in> set ts \<Longrightarrow> ok t \<or> g) \<Longrightarrow> ks_Trace s = tr \<Longrightarrow> appends tr J (apply_templates cx m g ts s)"
proof (induction ts arbitrary: s tr)
  case (Cons t ts)
  show ?case
    unfolding apply_templates.simps
    by (intro steps applied_at ok_annotated Cons.IH) (use Cons.prems ok_kind in auto)
qed (simp add: ret)

lemma addon_loop:
  "(\<And>t. t \<in> set ts \<Longrightarrow> ok t \<or> g) \<Longrightarrow> ks_Trace s = tr \<Longrightarrow>
    appends tr J (apply_addon_templates cx m g missing sr ts b s)"
proof (induction ts arbitrary: s b tr)
  case (Cons t ts)
  show ?case
    unfolding apply_addon_templates.simps
    by (intro steps applied_at ok_annotated Cons.IH) (use Cons.prems ok_kind in auto)
qed (simp add: ret)

lemma delete_loop:
  "(\<And>t. t \<in> set ts \<Longrightarrow> ok t \<or> g) \<Longrightarrow> ks_Trace s = tr \<Longrightarrow>
    appends tr J (delete_templates cx m g a ts s)"
proof (induction ts arbitrary: s tr)
  case (Cons t ts)
  show ?case
    unfolding delete_templates.simps
    by (intro steps deleted_at addons_installable Cons.IH) (use Cons.prems ok_kind in auto)
qed (simp add: ret)

lemma internal_seq:
  "ks_Trace s = t \<Longrightarrow> (\<And>s'. appends (ks_Trace s') J (k s')) \<Longrightarrow> appends t J (internal_then cx m c k s)"
  unfolding internal_then_def by (intro steps) (use internal in auto)

lemma no_internal_seq:
  "ks_Trace s = t \<Longrightarrow> (\<And>s'. appends (ks_Trace s') J (k s')) \<Longrightarrow> appends t J (no_internal_then cx m c k s)"
  unfolding no_internal_then_def by (intro steps) (use no_internal in auto)

lemma render_seq:
  "ks_Trace s = t \<Longrightarrow> (\<And>ts s'. appends (ks_Trace s') J (k ts s')) \<Longrightarrow> appends t J (render_then cx m c k s)"
  unfolding render_then_def by (intro steps) auto

lemma render_in_seq:
  "ks_Trace s = t \<Longrightarrow> (\<And>ts s'. appends (ks_Trace s') J (k ts s')) \<Longrightarrow>
    appends t J (render_in_then cx m c ns k s)"
  unfolding render_in_then_def by (intro steps) auto

lemma overrides_seq:
  "ks_Trace s = t \<Longrightarrow> (\<And>ts s'. appends (ks_Trace s') J (k ts s')) \<Longrightarrow>
    appends t J (overrides_then m c k ts s)"
  unfolding overrides_then_def by (intro pure_bind sum ret) auto

lemmas seqs = internal_seq no_internal_seq render_seq render_in_seq overrides_seq

lemma deploys: "ks_Trace s = t \<Longrightarrow> appends t J (deploy_component cx m c s)"
  unfolding deploy_component_def by (intro seqs apply_loop) auto

lemma undeploys:
  "ks_Trace s = t \<Longrightarrow> (\<And>s. ks_Trace (switch s) = ks_Trace s) \<Longrightarrow>
    appends t J (undeploy_component cx m c switch s)"
  unfolding undeploy_component_def by (intro seqs delete_loop) auto

text \<open>The components that only use these pieces.\<close>

lemma simple_on:
  "ks_Trace s = t \<Longrightarrow> appends t J (ensureDiscovery cx m s)"
  "ks_Trace s = t \<Longrightarrow> appends t J (ensureImageBasedInstallOperator cx m s)"
  "ks_Trace s = t \<Longrightarrow> appends t J (ensureClusterPermission cx m s)"
  "ks_Trace s = t \<Longrightarrow> appends t J (ensureServerFoundation cx m s)"
  "ks_Trace s = t \<Longrightarrow> appends t J (ensureClusterLifecycle cx m s)"
  "ks_Trace s = t \<Longrightarrow> appends t J (ensureClusterAPI cx m s)"
  "ks_Trace s = t \<Longrightarrow> appends t J (ensureClusterAPIProviderAWS cx m s)"
  "ks_Trace s = t \<Longrightarrow> appends t J (ensureClusterAPIProviderAzure cx m s)"
  "ks_Trace s = t \<Longrightarrow> appends t J (ensureClusterAPIProviderMetal cx m s)"
  "ks_Trace s = t \<Longrightarrow> appends t J (ensureClusterAPIProviderOA cx m s)"
  unfolding ensureDiscovery_def ensureImageBasedInstallOperator_def ensureClusterPermission_def
    ensureServerFoundation_def ensureClusterLifecycle_def ensureClusterAPI_def
    ensureClusterAPIProviderAWS_def ensureClusterAPIProviderAzure_def
    ensureClusterAPIProviderMetal_def ensureClusterAPIProviderOA_def Let_def
  by (intro deploys; simp)+

lemma simple_off:
  "ks_Trace s = t \<Longrightarrow> appends t J (ensureNoDiscovery cx m s)"
  "ks_Trace s = t \<Longrightarrow> appends t J (ensureNoImageBasedInstallOperator cx m s)"
  "ks_Trace s = t \<Longrightarrow> appends t J (ensureNoClusterPermission cx m s)"
  "ks_Trace s = t \<Longrightarrow> appends t J (ensureNoServerFoundation cx m s)"
  "ks_Trace s = t \<Longrightarrow> appends t J (ensureNoClusterLifecycle cx m s)"
  "ks_Trace s = t \<Longrightarrow> appends t J (ensureNoClusterAPI cx m s)"
  "ks_Trace s = t \<Longrightarrow> appends t J (ensureNoClusterAPIProviderAWS cx m s)"
  "ks_Trace s = t \<Longrightarrow> appends t J (ensureNoClusterAPIProviderAzure cx m s)"
  "ks_Trace s = t \<Longrightarrow> appends t J (ensureNoClusterAPIProviderMetal cx m s)"
  "ks_Trace s = t \<Longrightarrow> appends t J (ensureNoClusterAPIProviderOA cx m s)"
  "ks_Trace s = t \<Longrightarrow> appends t J (ensureNoClusterProxyAddon cx m s)"
  unfolding ensureNoDiscovery_def ensureNoImageBasedInstallOperator_def ensureNoClusterPermission_def
    ensureNoServerFoundation_def ensureNoClusterLifecycle_def ensureNoClusterAPI_def
    ensureNoClusterAPIProviderAWS_def ensureNoClusterAPIProviderAzure_def
    ensureNoClusterAPIProviderMetal_def ensureNoClusterAPIProviderOA_def
    ensureNoClusterProxyAddon_def Let_def
  by (intro undeploys; simp)+

lemma assisted:
  "ks_Trace s = t \<Longrightarrow> appends t J (ensureAssistedService cx m s)"
  "ks_Trace s = t \<Longrightarrow> appends t J (ensureNoAssistedService cx m s)"
  unfolding ensureAssistedService_def ensureNoAssistedService_def
  by (intro seqs apply_loop delete_loop; simp)+

lemma hypershift:
  "ks_Trace s = t \<Longrightarrow> appends t J (ensureHyperShift cx m s)"
  "ks_Trace s = t \<Longrightarrow> appends t J (ensureNoHyperShift cx m s)"
  unfolding ensureHyperShift_def ensureNoHyperShift_def Let_def
  by (intro seqs steps reads addon_loop delete_loop; simp)+

lemma service_account_off: "ks_Trace s = t \<Longrightarrow> appends t J (ensureNoManagedServiceAccount cx m s)"
  unfolding ensureNoManagedServiceAccount_def by (intro seqs delete_loop; simp)

end

section \<open>Ownership of what is written\<close>

text \<open>
  Besides the rendered resources the components handle a few resources by name.  Any other resource
  that is updated, patched or deleted must have been read before as managed by the engine.
\<close>

definition fixed_targets :: "MultiClusterEngine \<Rightarrow> (gvk \<times> nn) list" where
  "fixed_targets m =
    [(hiveConfigGVK, ('''', ''hive'')),
     (clusterManagerGVK, ('''', ''cluster-manager'')),
     (consoleGVK, ('''', ''cluster'')),
     (managedClusterGVK, ('''', sp_LocalClusterName (mce_Spec m))),
     (namespaceGVK, ('''', sp_LocalClusterName (mce_Spec m))),
     (configMapGVK, target_nn m ''ocm-tls-profile''),
     (namespaceGVK, ('''', ''maestro'')),
     (configMapGVK, (ocmHubNS, ''grpc-server-config'')),
     (routeGVK, (ocmHubNS, ''grpc-server''))]"

definition by_name :: "MultiClusterEngine \<Rightarrow> gvk \<Rightarrow> nn \<Rightarrow> bool" where
  "by_name m g n = (g = internalEngineComponentGVK \<or> (g, n) \<in> set (fixed_targets m))"

text \<open>
  A write of \<open>u\<close> is justified by the requests \<open>es\<close>: its target is one of those, or \<open>es\<close> has a read
  of the same target, or one that answered the same object, where the answer is managed by the engine
  or was read by name.
\<close>

definition justified :: "MultiClusterEngine \<Rightarrow> api_call list \<Rightarrow> kobj \<Rightarrow> bool" where
  "justified m es u =
    (by_name m (ko_GVK u) (ko_key u)
     \<or> (\<exists>g n x. CGet g n (Inr x) \<in> set es \<and> (same_target x u \<or> ko_GVK u = g \<and> ko_key u = n)
          \<and> (manages m x \<or> by_name m g n)))"

definition own_writes :: "MultiClusterEngine \<Rightarrow> api_call list \<Rightarrow> bool" where
  "own_writes m es =
    (\<forall>c \<in> set es. is_write c \<longrightarrow>
      (\<exists>u. c = CCreate u) \<or> (\<exists>u. write_target c = Some u \<and> justified m es u))"

lemma justified_mono: "justified m es u \<Longrightarrow> set es \<subseteq> set es' \<Longrightarrow> justified m es' u"
  unfolding justified_def by blast

lemma own_writes_append: "own_writes m es \<Longrightarrow> own_writes m es' \<Longrightarrow> own_writes m (es @ es')"
  unfolding own_writes_def using justified_mono by (fastforce simp del: fst_conv)

interpretation own: trace_closed "own_writes m" for m
proof (unfold_locales, goal_cases)
  case (2 es es')
  then show ?case by (rule own_writes_append)
qed (auto simp: own_writes_def)

lemma own_create: "own_writes m [CCreate u]"
  by (simp add: own_writes_def)

lemma own_guarded_apply: "guarded_apply m t es \<Longrightarrow> own_writes m es"
  unfolding guarded_apply_def own_writes_def justified_def same_target_def by fastforce

lemma own_read_delete: "by_name m g n \<Longrightarrow> own_writes m [CGet g n (Inr x), CDelete x]"
  by (auto simp: own_writes_def justified_def same_target_def)

lemma own_read_update:
  "by_name m g n \<Longrightarrow> same_target x u \<Longrightarrow> own_writes m [CGet g n (Inr x), CUpdate u]"
  by (auto simp: own_writes_def justified_def)

lemma own_by_name:
  "by_name m (ko_GVK u) (ko_key u) \<Longrightarrow> own_writes m [CDelete u]"
  "by_name m (ko_GVK u) (ko_key u) \<Longrightarrow> own_writes m [CPatch u]"
  "by_name m (ko_GVK u) (ko_key u) \<Longrightarrow> own_writes m [CUpdate u]"
  by (auto simp: own_writes_def justified_def)

lemma own_applyTemplate: "appends (ks_Trace s) (own_writes m) (applyTemplate cx m t s)"
  by (rule appends_mono [OF appends_applyTemplate own_guarded_apply])

lemma own_deleteTemplate: "appends (ks_Trace s) (own_writes m) (deleteTemplate cx m t s)"
  by (rule appends_mono [OF appends_deleteTemplate])
    (fastforce simp: own_writes_def justified_def)

lemma own_internal: "appends (ks_Trace s) (own_writes m) (ensureInternalEngineComponent cx m c s)"
  unfolding ensureInternalEngineComponent_def
  by (intro own.steps own.reads own.creates own_create refl) auto

lemma own_refetch: "ks_Trace s = t \<Longrightarrow> appends t (own_writes m) (refetch_iec cx x s)"
  unfolding refetch_iec_def by (intro own.steps own.reads) auto

lemma own_no_internal: "appends (ks_Trace s) (own_writes m) (ensureNoInternalEngineComponent cx m c s)"
  unfolding ensureNoInternalEngineComponent_def Let_def
proof (rule own.read_then, goal_cases)
  case (3 x s')
  show ?case
    by (simp only: sum.case prod.case)
      (intro own.after own.steps own_read_delete own_refetch, simp_all add: by_name_def)
qed (auto intro!: own.steps)

interpretation owned: component_trace "own_writes m" cx m "\<lambda>_. True" for cx :: "'w ctx" and m
  by unfold_locales (rule TrueI own_applyTemplate own_deleteTemplate own_internal own_no_internal)+

section \<open>Network policies are left alone\<close>

definition keeps_policies :: "api_call \<Rightarrow> bool" where
  "keeps_policies c =
    (\<forall>u. c = CCreate u \<or> c = CPatch u \<or> c = CUpdate u \<longrightarrow> ko_Kind u \<noteq> ''NetworkPolicy'')"

interpretation policies: trace_closed "list_all keeps_policies"
proof (unfold_locales, goal_cases)
  case (3 c)
  then show ?case by (cases c) (auto simp: keeps_policies_def)
qed simp_all

lemma policies_guarded_apply:
  "ko_Kind t \<noteq> ''NetworkPolicy'' \<Longrightarrow> guarded_apply m t es \<Longrightarrow> list_all keeps_policies es"
  by (fastforce simp: guarded_apply_def list_all_iff keeps_policies_def same_target_def)

lemma policies_internal:
  "appends (ks_Trace s) (list_all keeps_policies) (ensureInternalEngineComponent cx m c s)"
  unfolding ensureInternalEngineComponent_def
  by (intro policies.steps policies.reads policies.creates refl)
    (auto simp: keeps_policies_def mk_obj_def internalEngineComponentGVK_def mk_gvk_def)

lemma policies_no_internal:
  "appends (ks_Trace s) (list_all keeps_policies) (ensureNoInternalEngineComponent cx m c s)"
  unfolding ensureNoInternalEngineComponent_def refetch_iec_def
  by (intro policies.steps policies.reads policies.deletes refl) (auto simp: keeps_policies_def)

lemma policies_applyTemplate:
  "ko_Kind t \<noteq> ''NetworkPolicy'' \<Longrightarrow>
    appends (ks_Trace s) (list_all keeps_policies) (applyTemplate cx m t s)"
  by (rule appends_mono [OF appends_applyTemplate policies_guarded_apply])

lemma policies_deleteTemplate:
  "appends (ks_Trace s) (list_all keeps_policies) (deleteTemplate cx m t s)"
  by (rule appends_mono [OF appends_deleteTemplate])
    (fastforce simp: list_all_iff keeps_policies_def)

interpretation guarded: component_trace "list_all keeps_policies" cx m "\<lambda>t. ko_Kind t \<noteq> ''NetworkPolicy''"
  for cx :: "'w ctx" and m
  by unfold_locales
    (auto simp: applyReleaseVersionAnnotation_def
      intro: policies_applyTemplate policies_deleteTemplate policies_internal policies_no_internal)

end
