(* ===== verification/Network_Policies.thy ===== *)
theory Network_Policies
  imports Trace_Logic
begin

text \<open>
  The create-once pattern of \<open>controllers/networkpolicy.go\<close>: which requests \<open>ensureNetworkPolicies\<close>
  sends, when the policies are enabled and when they are not.
\<close>

section \<open>Enabled\<close>

text \<open>
  Every creation is one of a network policy of the engine, and the request right before it is a read of
  the same policy that was answered with not-found.  Nothing else is written.
\<close>

definition create_once :: "MultiClusterEngine \<Rightarrow> api_call list \<Rightarrow> bool" where
  "create_once m es =
    ((\<forall>c \<in> set es. is_write c \<longrightarrow> (\<exists>u. c = CCreate u \<and> ko_Kind u = ''NetworkPolicy''
        \<and> sm_get (ko_Labels u) ''backplaneconfig.name'' = mce_Name m)) \<and>
     (\<forall>before u after. es = before @ CCreate u # after \<longrightarrow>
        (\<exists>front e. before = front @ [CGet networkPolicyGVK (ko_key u) (Inl e)] \<and> IsNotFound e)))"

lemma create_once_append:
  assumes "create_once m es" "create_once m es'"
  shows "create_once m (es @ es')"
  unfolding create_once_def
proof (intro conjI allI impI)
  show "\<forall>c \<in> set (es @ es'). is_write c \<longrightarrow> (\<exists>u. c = CCreate u \<and> ko_Kind u = ''NetworkPolicy''
        \<and> sm_get (ko_Labels u) ''backplaneconfig.name'' = mce_Name m)"
    using assms unfolding create_once_def by (simp add: ball_Un)
next
  fix before u after assume eq: "es @ es' = before @ CCreate u # after"
  consider us where "es = before @ CCreate u # us" | b where "before = es @ b" "es' = b @ CCreate u # after"
    using eq by (auto simp: append_eq_append_conv2 append_eq_Cons_conv)
  then show "\<exists>front e. before = front @ [CGet networkPolicyGVK (ko_key u) (Inl e)] \<and> IsNotFound e"
  proof cases
    case 1
    then show ?thesis using assms(1) unfolding create_once_def by blast
  next
    case (2 b)
    then obtain front e where "b = front @ [CGet networkPolicyGVK (ko_key u) (Inl e)]" "IsNotFound e"
      using assms(2) unfolding create_once_def by blast
    then show ?thesis using 2(1) by (intro exI [of _ "es @ front"] exI [of _ e]) simp
  qed
qed

interpretation once: trace_closed "create_once m" for m
proof (unfold_locales, goal_cases)
  case (3 c)
  then show ?case by (cases c) (auto simp: create_once_def append_eq_Cons_conv Cons_eq_append_conv)
qed (auto simp: create_once_def [of _ "[]"] intro: create_once_append)

lemma create_once_read_create:
  assumes "ko_Kind u = ''NetworkPolicy''" "sm_get (ko_Labels u) ''backplaneconfig.name'' = mce_Name m" "IsNotFound e"
  shows "create_once m [CGet networkPolicyGVK (ko_key u) (Inl e), CCreate u]"
  using assms by (auto simp: create_once_def Cons_eq_append_conv)


text \<open>The loops.\<close>

lemma once_policies:
  assumes "\<And>t. t \<in> set ts \<Longrightarrow> ko_Kind t = ''NetworkPolicy'' \<and> sm_get (ko_Labels t) ''backplaneconfig.name'' = mce_Name m"
    and "ks_Trace s = tr"
  shows "appends tr (create_once m) (create_policies cx ts s)"
  using assms
proof (induction ts arbitrary: s tr)
  case (Cons t ts)
  let ?t = "applyReleaseVersionAnnotation cx t" and ?cl = "cx_Client cx"
  let ?r = "fst (cl_Get ?cl networkPolicyGVK (ko_key t) (ks_World s))"
  have rest: "appends tr (create_once m) (create_policies cx ts s)" if "ks_Trace s = tr" for s tr
    using Cons.IH [OF _ that] Cons.prems(1) by simp
  have pair: "create_once m [CGet networkPolicyGVK (ko_key t) (Inl e), CCreate ?t]" if "IsNotFound e" for e
    using create_once_read_create [of ?t m e] Cons.prems(1) [of t] that
    by (simp add: applyReleaseVersionAnnotation_def)
  have after: "appends tr (create_once m) (create_policies cx ts s)"
    if "create_once m es" "ks_Trace s = tr @ es" for s tr es
    by (rule once.extend [OF that(1) rest [OF that(2)]])
  have read: "create_once m [CGet networkPolicyGVK (ko_key t) r]" for r by (rule once.J_read) simp
  show ?case
  proof (cases ?r)
    case (Inr x)
    then show ?thesis using Cons.prems(2) by (auto simp: api_eqs intro!: after [OF read])
  next
    case (Inl e)
    show ?thesis
    proof (cases "IsNotFound e")
      case True
      then show ?thesis
        using Cons.prems(2) Inl pair [OF True] read [of "Inl e"]
        by (auto simp: api_eqs appends_def [of _ _ "Some _"] intro!: after [OF pair [OF True]] split: sum.split)
    next
      case False
      then show ?thesis using Cons.prems(2) Inl read [of "Inl e"] by (simp add: api_eqs appends_def)
    qed
  qed
qed (simp add: once.ret)

lemma once_components:
  "ks_Trace s = tr \<Longrightarrow> appends tr (create_once m) (policies_of_components cx m cs s)"
proof (induction cs arbitrary: s tr)
  case (Cons c cs)
  show ?case
    unfolding policies_of_components.simps
    by (intro once.steps once_policies Cons.IH)
      (use Cons.prems in \<open>auto dest!: RenderChart_set\<close>)
qed (simp add: once.ret)

section \<open>Disabled\<close>

lemma delete_policies_prefix:
  "spost (\<lambda>r s'. \<exists>n. ks_Trace s' = ks_Trace s @ map CDelete (take n nps) \<and> (r = ok_result \<longrightarrow> take n nps = nps))
    (delete_policies cx nps s)"
proof (induction nps arbitrary: s)
  case (Cons np nps)
  let ?s = "log_call (CDelete np) (snd (cl_Delete (cx_Client cx) np (ks_World s))) s"
  have rest: "spost (\<lambda>r s'. \<exists>n. ks_Trace s' = ks_Trace s @ map CDelete (take n (np # nps))
      \<and> (r = ok_result \<longrightarrow> take n (np # nps) = np # nps)) (delete_policies cx nps ?s)"
    by (rule spost_mono [OF Cons.IH [of ?s]], elim exE) (rule_tac x = "Suc n" in exI, simp)
  have stop: "\<exists>n. [CDelete np] = map CDelete (take n (np # nps))" by (rule exI [of _ 1]) simp
  show ?case using rest by (auto simp: api_eqs stop split: option.split)
qed simp

section \<open>The whole step\<close>

definition policies_enabled :: "MultiClusterEngine \<Rightarrow> bool" where
  "policies_enabled m = (case sp_NetworkPolicies (mce_Spec m) of None \<Rightarrow> True | Some np \<Rightarrow> np_Enabled np)"

text \<open>
  C12: Network policies are created once and never changed.  When they are enabled, the only writes are
  creations of network policies with the engine's label, each right after a read that was answered
  with not-found; in particular nothing is deleted then, so the policy of a component that is switched
  off stays (the comment above the function says that it is deleted).  When they are disabled, the engine's policies are listed and exactly the listed ones
  are deleted, in order; unless an error ends the step, all of them.
\<close>

theorem network_policies_create_once:
  assumes "ensureNetworkPolicies cx m s = Some (r, s')"
  shows "\<exists>es. ks_Trace s' = ks_Trace s @ es \<and>
    (if policies_enabled m then create_once m es
     else \<exists>nps n. es = CList networkPolicyListGVK (sp_TargetNamespace (mce_Spec m))
              [(''backplaneconfig.name'', mce_Name m)] # map CDelete (take n nps)
          \<and> (r = ok_result \<longrightarrow> take n nps = nps \<and> fst (cl_List (cx_Client cx) networkPolicyListGVK
              (sp_TargetNamespace (mce_Spec m)) [(''backplaneconfig.name'', mce_Name m)] (ks_World s)) = Inr nps))"
proof (cases "policies_enabled m")
  case True
  then show ?thesis
    using once_components [OF refl, of s m cx MCEComponents] assms
    by (simp add: ensureNetworkPolicies_def policies_enabled_def appends_def)
next
  case False
  let ?l = "cl_List (cx_Client cx) networkPolicyListGVK (sp_TargetNamespace (mce_Spec m))
    [(''backplaneconfig.name'', mce_Name m)] (ks_World s)"
  let ?c = "CList networkPolicyListGVK (sp_TargetNamespace (mce_Spec m)) [(''backplaneconfig.name'', mce_Name m)]"
  have run: "ensureNetworkPolicies cx m s = (case fst ?l of
      Inl e \<Rightarrow> Some ((no_requeue, Some (WrapError (''failed to list NetworkPolicies: '' @ err_msg e) e)), log_call ?c (snd ?l) s)
    | Inr nps \<Rightarrow> delete_policies cx nps (log_call ?c (snd ?l) s))"
    using False by (simp add: ensureNetworkPolicies_def policies_enabled_def api_eqs)
  show ?thesis
  proof (cases "fst ?l")
    case (Inl e)
    then show ?thesis using assms False run by auto
  next
    case (Inr nps)
    then show ?thesis
      using assms False run delete_policies_prefix [of "log_call ?c (snd ?l) s" nps cx] by auto
  qed
qed

definition policy_ctx :: "mem ctx" where
  "policy_ctx = sample_ctx\<lparr>cx_Yaml := (\<lambda>y. Inr (mk_obj networkPolicyGVK ''mce'' y))\<rparr>"

definition policy_mce :: "bool \<Rightarrow> MultiClusterEngine" where
  "policy_mce b = (with_components [mk_component Discovery True] sample_mce)
     \<lparr>mce_Spec := (mce_Spec (with_components [mk_component Discovery True] sample_mce))
        \<lparr>sp_NetworkPolicies := Some \<lparr>np_Enabled = b\<rparr>\<rparr>\<rparr>"

abbreviation policy_state :: "mem rstate" where
  "policy_state \<equiv> sample_rstate (empty_mem\<lparr>mem_Objs :=
     [AddBackplaneConfigLabels ''engine'' (mk_obj networkPolicyGVK ''mce'' ''web'')]\<rparr>)"

lemma policy_fields:
  "Enabled (policy_mce b) c = (c = Discovery)" "mce_Name (policy_mce b) = ''engine''"
  "sp_TargetNamespace (mce_Spec (policy_mce b)) = ''mce''" "policies_enabled (policy_mce b) = b"
  "sp_NetworkPolicies (mce_Spec (policy_mce b)) = Some \<lparr>np_Enabled = b\<rparr>"
  "isComponentExternallyManaged policy_ctx (policy_mce b) c = False"
  "cx_Client policy_ctx = mem_client"
  by (auto simp: policy_mce_def with_components_def mk_component_def Enabled_def sample_mce_def
      sample_spec_def policies_enabled_def isComponentExternallyManaged_def externally_managed_def
      policy_ctx_def sample_ctx_def)

lemma policy_deletes:
  "\<exists>np s'. ensureNetworkPolicies policy_ctx (policy_mce False) policy_state = Some (ok_result, s')
    \<and> CDelete np \<in> set (ks_Trace s')"
  by (simp add: ensureNetworkPolicies_def policy_fields api_eqs mem_client_def sample_rstate_def
      empty_mem_def networkPolicyListGVK_def networkPolicyGVK_def mk_gvk_def mk_obj_def
      AddBackplaneConfigLabels_def mem_find_def)

lemma policy_creates:
  "\<exists>u s'. ensureNetworkPolicies policy_ctx (policy_mce True) (sample_rstate empty_mem) = Some (ok_result, s')
    \<and> CCreate u \<in> set (ks_Trace s')"
proof -
  have chart: "RenderChart policy_ctx env path (policy_mce True) i t
      = Inr [finish_template (policy_mce True) (mk_obj networkPolicyGVK ''mce'' ''web'')]" for env path i t
    by (simp add: RenderChart_def renderTemplates_def policy_ctx_def sample_ctx_def mk_obj_def
        networkPolicyGVK_def mk_gvk_def)
  have kind: "ko_Kind (mk_obj networkPolicyGVK ''mce'' ''web'') = ''NetworkPolicy''"
    by (simp add: mk_obj_def networkPolicyGVK_def mk_gvk_def)
  show ?thesis
    by (simp add: ensureNetworkPolicies_def policy_fields MCEComponents_def chart kind
        fetchChartOrCRDPath_def chartDirs_def api_eqs mem_client_def mem_find_def sample_rstate_def
        empty_mem_def IsNotFound_def)
qed

theorem network_policies_create_once_witness:
  "\<exists>r s' np r' s'' u. ensureNetworkPolicies policy_ctx (policy_mce False) policy_state = Some (r, s')
    \<and> (\<exists>nps. ks_Trace s' = CList networkPolicyListGVK ''mce'' [(''backplaneconfig.name'', ''engine'')]
        # map CDelete nps \<and> np \<in> set nps)
    \<and> ensureNetworkPolicies policy_ctx (policy_mce True) (sample_rstate empty_mem) = Some (r', s'')
    \<and> CCreate u \<in> set (ks_Trace s'') \<and> create_once (policy_mce True) (ks_Trace s'')"
proof -
  obtain np s' where del: "ensureNetworkPolicies policy_ctx (policy_mce False) policy_state = Some (ok_result, s')"
    "CDelete np \<in> set (ks_Trace s')" using policy_deletes by blast
  obtain u s'' where cre: "ensureNetworkPolicies policy_ctx (policy_mce True) (sample_rstate empty_mem)
      = Some (ok_result, s'')" "CCreate u \<in> set (ks_Trace s'')" using policy_creates by blast
  show ?thesis
    using network_policies_create_once [OF del(1)] del network_policies_create_once [OF cre(1)] cre
    by (fastforce simp: policy_fields sample_rstate_def)
qed

end
