(* ===== verification/State_Runs.thy ===== *)
theory State_Runs
  imports Reconcile
begin

text \<open>
  Invariants of the reconciler's state through the code.  \<open>engine_property\<close> is the interface of a
  property of the engine that defaulting keeps because it only depends on parts, such as the
  annotations, that defaulting and the API server keep.  \<open>state_run\<close> is the interface of an invariant
  of the reconciler's state that requests to the cluster, new conditions and the status report keep;
  its lemmas show for the steps of the uninstallation that they keep it.  \<open>prepared_run\<close> adds the
  environment and the cache, and covers the stages up to the pause.  The flag \<open>p\<close> of the interfaces
  says whether the code may panic: with \<^term>\<open>False\<close> the lemmas are about total correctness, and the
  panics have to be excluded by the assumptions \<open>p \<or> \<dots>\<close>.
\<close>

section \<open>Properties of the engine through defaulting\<close>

lemma spost_bind_any: "(\<And>r s. spost Q (f (r, s))) \<Longrightarrow> spost Q (Option.bind m f)"
  by (cases m) auto

text \<open>
  \<open>key\<close> is the part of the engine on which the property depends and which the API server keeps in
  its answer to an update.
\<close>

definition update_keeps :: "(MultiClusterEngine \<Rightarrow> 'k) \<Rightarrow> 'w ctx \<Rightarrow> bool" where
  "update_keeps key cx =
    (\<forall>m w m'. fst (cl_UpdateMCE (cx_Client cx) m w) = Inr m' \<longrightarrow> key m' = key m)"

abbreviation update_keeps_annotations :: "'w ctx \<Rightarrow> bool" where
  "update_keeps_annotations \<equiv> update_keeps mce_Annotations"

locale engine_property =
  fixes key :: "MultiClusterEngine \<Rightarrow> 'k" and P :: "MultiClusterEngine \<Rightarrow> bool"
  assumes same: "key m' = key m \<Longrightarrow> P m' = P m"
    and static: "P m \<Longrightarrow> P (snd (static_defaults m))"
    and key_console: "key (snd (default_console b m)) = key m"
begin

lemma update: "update_keeps key cx \<Longrightarrow> fst (cl_UpdateMCE (cx_Client cx) m w) = Inr m' \<Longrightarrow> P m' = P m"
  unfolding update_keeps_def using same by blast

lemma console: "default_console b m = (u, m') \<Longrightarrow> P m \<Longrightarrow> P m'"
  using same [OF key_console, of b m] by simp

lemma setDefaults:
  assumes "update_keeps key cx" "P m"
  shows "spost (\<lambda>mr s. P (fst mr)) (setDefaults cx m s)"
proof -
  have apply_defaults: "spost (\<lambda>mr s. P (fst mr)) (apply_defaults cx u m s)" if "P m" for u m s
    using that by (auto simp: apply_defaults_def api_eqs update [OF assms(1)] split: sum.split)
  have static: "P (snd (static_defaults m))" using assms(2) by (rule static)
  have "spost (\<lambda>x s. \<forall>um. x = Inr um \<longrightarrow> P (snd um)) (ocp_defaults cx (snd (static_defaults m)) s)"
    using static unfolding ocp_defaults_def Let_def
    by (auto intro!: spost_bind_any split: sum.split option.split) (erule (1) console)
  then show ?thesis
    unfolding setDefaults_def
    by (auto simp: split_beta Let_def static go_wp intro!: apply_defaults elim!: spost_mono split: sum.split)
qed

end

text \<open>A paused engine, and one that is paused and does not name another image repository.\<close>

definition idle :: "MultiClusterEngine \<Rightarrow> bool" where
  "idle m = (IsPaused m \<and> GetImageRepository m = '''')"

lemma annotations_console [simp]: "mce_Annotations (snd (default_console b m)) = mce_Annotations m"
  by (simp add: default_console_def)

interpretation paused: engine_property mce_Annotations IsPaused
  by unfold_locales (simp_all add: IsPaused_def IsAnnotationTrue_def static_defaults_core
      defaultAnnotations_def sm_get_put)

interpretation idle: engine_property mce_Annotations idle
  by unfold_locales (auto simp: idle_def GetImageRepository_def getAnnotationOrDefault_def
      getAnnotation_def Let_def IsPaused_def IsAnnotationTrue_def static_defaults_core defaultAnnotations_def
      sm_get_put split: if_splits)

text \<open>The continuation after the pause is never reached for a paused engine.\<close>

lemma paused_then: "IsPaused m \<Longrightarrow> then_stage (paused_stage cx m) k = then_stage (paused_stage cx m) k'"
  by (rule ext) (auto simp: then_stage_def paused_stage_def Option.bind_assoc split_beta
      intro!: arg_cong [where f = "Option.bind _"])

section \<open>Operations that keep an invariant\<close>

definition runs :: "bool \<Rightarrow> ('a \<Rightarrow> 's \<Rightarrow> bool) \<Rightarrow> ('a \<times> 's) option \<Rightarrow> bool" where
  "runs p Q m = (case m of None \<Rightarrow> p | Some (r, s) \<Rightarrow> Q r s)"

lemma runs_simps [simp]: "runs p Q (Some (r, s)) = Q r s" "runs p Q None = p"
  by (simp_all add: runs_def)

lemma runs_bind: "runs p Q (Option.bind m f) = runs p (\<lambda>r s. runs p Q (f (r, s))) m"
  by (cases m) auto

lemma runs_mono: "runs p P m \<Longrightarrow> (\<And>r s. P r s \<Longrightarrow> Q r s) \<Longrightarrow> runs p Q m"
  by (cases m) (auto simp: runs_def)

lemma runs_conj: "runs p P m \<Longrightarrow> spost Q m \<Longrightarrow> runs p (\<lambda>r s. P r s \<and> Q r s) m"
  by (cases m) (auto simp: runs_def)

lemma runs_total: "runs False Q m = stotal Q m"
  by (simp add: runs_def stotal_def)

lemma runs_partial: "runs True Q m = spost Q m"
  by (simp add: runs_def spost_def)

definition versions_comparable :: "'w ctx \<Rightarrow> MultiClusterEngine \<Rightarrow> bool" where
  "versions_comparable cx m =
    (\<not> cx_DeployOnOCP cx \<or>
     1 < length (split_on CHR ''.'' (cx_Version cx)) \<and>
     (1 < length (split_on CHR ''.'' (ms_CurrentVersion (mce_Status m))) \<or>
      hd (split_on CHR ''.'' (ms_CurrentVersion (mce_Status m))) \<noteq> hd (split_on CHR ''.'' (cx_Version cx))))"

text \<open>
  A managed cluster as its type prescribes: type, status, reason and message of a condition are
  strings.
\<close>

definition typed_condition :: "json \<Rightarrow> bool" where
  "typed_condition c =
    (case c of
       JObject ob \<Rightarrow> list_all (\<lambda>k. assert_str ob k \<noteq> None) [''type'', ''status'', ''reason'', ''message'']
     | _ \<Rightarrow> True)"

definition typed_cluster :: "kobj \<Rightarrow> bool" where
  "typed_cluster mc =
    (case cluster_conditions mc of None \<Rightarrow> True | Some cs \<Rightarrow> list_all typed_condition cs)"

definition typed_clusters :: "'w client \<Rightarrow> bool" where
  "typed_clusters cl =
    (\<forall>n w mc. fst (cl_Get cl managedClusterGVK n w) = Inr mc \<longrightarrow> typed_cluster mc)"

lemma scan_cluster_last:
  "scan_cluster cs (a, j, v, ob) = Some (a', j', v', ob') \<Longrightarrow> ob' = ob \<or> JObject ob' \<in> set cs"
  by (induction cs "(a, j, v, ob)" arbitrary: a j v ob rule: scan_cluster.induct) (auto simp: Let_def)

lemma scan_cluster_typed:
  assumes "typed_cluster mc" "cluster_conditions mc = Some cs"
    and "scan_cluster cs (False, False, False, []) = Some (a, j, v, ob)"
    and "k \<in> {''type'', ''status'', ''reason'', ''message''}"
  shows "assert_str ob k \<noteq> None"
proof -
  obtain c ds where cs: "cs = c # ds"
    using assms(2) by (cases cs) (auto simp: cluster_conditions_def split: option.splits json.splits if_splits)
  have "JObject ob \<in> set cs"
    using assms(3) unfolding cs by (cases c) (auto simp: Let_def dest!: scan_cluster_last)
  then have "typed_condition (JObject ob)" using assms(1,2) by (simp add: typed_cluster_def list_all_iff)
  then show ?thesis using assms(4) by (auto simp: typed_condition_def)
qed

text \<open>A request that stores the status of an engine.\<close>

fun stores_status :: "api_call \<Rightarrow> bool" where
  "stores_status (CStatusUpdateMCE m) = True"
| "stores_status _ = False"

locale request_run =
  fixes p :: bool and I :: "'w rstate \<Rightarrow> bool"
  assumes I_call: "I s \<Longrightarrow> \<not> stores_status c \<Longrightarrow> I (log_call c w s)"
    and I_world: "I s \<Longrightarrow> I (s\<lparr>ks_World := w\<rparr>)"
begin

lemma ret: "I s \<Longrightarrow> runs p (\<lambda>r. I) (Some (r, s))"
  by simp

lemma bind:
  "runs p (\<lambda>r. I) a \<Longrightarrow> (\<And>r s. I s \<Longrightarrow> runs p (\<lambda>r. I) (f (r, s))) \<Longrightarrow> runs p (\<lambda>r. I) (Option.bind a f)"
  unfolding runs_bind by (erule runs_mono) blast

lemma cond:
  "(b \<Longrightarrow> runs p (\<lambda>r. I) a) \<Longrightarrow> (\<not> b \<Longrightarrow> runs p (\<lambda>r. I) a') \<Longrightarrow> runs p (\<lambda>r. I) (if b then a else a')"
  by simp

lemma opt:
  "(x = None \<Longrightarrow> runs p (\<lambda>r. I) a) \<Longrightarrow> (\<And>y. x = Some y \<Longrightarrow> runs p (\<lambda>r. I) (f y)) \<Longrightarrow>
    runs p (\<lambda>r. I) (case x of None \<Rightarrow> a | Some y \<Rightarrow> f y)"
  by (cases x) auto

lemma sum:
  "(\<And>y. x = Inl y \<Longrightarrow> runs p (\<lambda>r. I) (f y)) \<Longrightarrow> (\<And>y. x = Inr y \<Longrightarrow> runs p (\<lambda>r. I) (g y)) \<Longrightarrow>
    runs p (\<lambda>r. I) (case x of Inl y \<Rightarrow> f y | Inr y \<Rightarrow> g y)"
  by (cases x) auto

lemma prod:
  "(\<And>y z. x = (y, z) \<Longrightarrow> runs p (\<lambda>r. I) (f y z)) \<Longrightarrow> runs p (\<lambda>r. I) (case x of (y, z) \<Rightarrow> f y z)"
  by (cases x) auto

lemma nested_pair:
  "(\<And>a b. x = (a, b) \<Longrightarrow> runs p (\<lambda>r. I) (f a b s)) \<Longrightarrow> runs p (\<lambda>r. I) ((case x of (a, b) \<Rightarrow> f a b) s)"
  by (cases x) simp

lemma list:
  "(x = [] \<Longrightarrow> runs p (\<lambda>r. I) a) \<Longrightarrow> (\<And>y ys. x = y # ys \<Longrightarrow> runs p (\<lambda>r. I) (f y ys)) \<Longrightarrow>
    runs p (\<lambda>r. I) (case x of [] \<Rightarrow> a | y # ys \<Rightarrow> f y ys)"
  by (cases x) auto

lemma calls:
  "I s \<Longrightarrow> runs p (\<lambda>r. I) (api_Get cl g n s)"
  "I s \<Longrightarrow> runs p (\<lambda>r. I) (api_List cl g ns ls s)"
  "I s \<Longrightarrow> runs p (\<lambda>r. I) (api_Create cl u s)"
  "I s \<Longrightarrow> runs p (\<lambda>r. I) (api_Update cl u s)"
  "I s \<Longrightarrow> runs p (\<lambda>r. I) (api_Delete cl u s)"
  "I s \<Longrightarrow> runs p (\<lambda>r. I) (api_UpdateMCE cl m s)"
  "I s \<Longrightarrow> runs p (\<lambda>r. I) (api_Patch cl u s)"
  "I s \<Longrightarrow> runs p (\<lambda>r. I) (api_GetDeployment cl n s)"
  by (simp_all add: api_eqs I_call)

lemma clock: "I s \<Longrightarrow> runs p (\<lambda>r. I) (api_Now cl s)"
  by (simp add: api_Now_def split_beta I_world)

lemmas request_steps = ret bind cond opt sum prod nested_pair list calls clock

text \<open>
  Every reporter returns, but the one of the enabled local cluster asserts that the conditions of its
  cluster are made of strings.
\<close>

lemma answers:
  "I s \<Longrightarrow> runs p (\<lambda>r. I) (cc_now cl n k a ty st rs ms s)"
  "I s \<Longrightarrow> runs p (\<lambda>r. I) (unknownStatus cl n k s)" "I s \<Longrightarrow> runs p (\<lambda>r. I) (error_status cl n k s)"
  "I s \<Longrightarrow> runs p (\<lambda>r. I) (mapConsoleDeployment cl n s)" "I s \<Longrightarrow> runs p (\<lambda>r. I) (mapDeployment cl d s)"
  unfolding unknownStatus_def error_status_def mapConsoleDeployment_def mapDeployment_def cc_now_def Let_def
  by (intro request_steps; simp)+

lemma scans:
  "I s \<Longrightarrow> runs p (\<lambda>r. I) (scan_present cl rs k str s)"
  "I s \<Longrightarrow> runs p (\<lambda>r. I) (scan_conditions cl u kd want cs acc s)"
proof -
  show "I s \<Longrightarrow> runs p (\<lambda>r. I) (scan_present cl rs k str s)"
  proof (induction rs arbitrary: k str s)
    case (Cons r rs)
    then show ?case by (cases r) (auto simp: Let_def intro!: request_steps)
  qed simp
  show "I s \<Longrightarrow> runs p (\<lambda>r. I) (scan_conditions cl u kd want cs acc s)"
    by (induction cs arbitrary: acc s) (auto simp: Let_def intro!: request_steps answers split: json.split)
qed

lemma asserted:
  assumes "p \<or> assert_str ob k \<noteq> None" "\<And>v. runs p (\<lambda>r. I) (f v)"
  shows "runs p (\<lambda>r. I) (Option.bind (assert_str ob k) f)"
  using assms by (cases "assert_str ob k") auto

lemma local_cluster_status:
  assumes "p \<or> typed_clusters cl" "I s"
  shows "runs p (\<lambda>r. I) (LocalClusterStatus_Status cl n b s)"
proof -
  have enabled: "runs p (\<lambda>r. I) (LocalCluster_enabledStatus cl n mc s)"
    if I: "I s" and typed: "p \<or> (\<forall>u. mc = Some u \<longrightarrow> typed_cluster u)" for mc s
  proof -
    have field: "p \<or> assert_str ob k \<noteq> None"
      if "mc = Some u" "cluster_conditions u = Some cs" "scan_cluster cs (False, False, False, []) = Some (a, j, v, ob)"
        "k \<in> {''type'', ''status'', ''reason'', ''message''}" for u cs a j v ob k
      using typed scan_cluster_typed that by blast
    show ?thesis
      unfolding LocalCluster_enabledStatus_def by (intro request_steps answers I asserted field; simp)
  qed
  have "runs p (\<lambda>r s. I s \<and> (p \<or> (\<forall>u. r = Inr (Some u) \<longrightarrow> typed_cluster u))) (getManagedCluster cl n s)"
    using assms I_call [OF assms(2)] unfolding getManagedCluster_def typed_clusters_def
    by (cases n) (auto simp: api_eqs split: sum.split)
  then show ?thesis
    unfolding LocalClusterStatus_Status_def runs_bind LocalCluster_disabledStatus_def
    by (rule runs_mono) (auto intro!: answers enabled split: sum.split)
qed

lemma reporter:
  assumes "p \<or> typed_clusters cl" "I s"
  shows "runs p (\<lambda>r. I) (Status cl sr s)"
  by (cases sr) (use assms(2) in \<open>auto simp: DisabledStatus_Status_def PresentStatus_Status_def
      DeploymentStatus_Status_def ConsoleUnavailableStatus_Status_def ClusterManagerStatus_Status_def
      mapClusterManager_def ManagedClusterAddOnStatus_Status_def mapManagedClusterAddOn_def
      ToggledOffStatus_Status_def Let_def intro!: request_steps scans answers local_cluster_status [OF assms(1)]\<close>)

lemma reporters:
  "p \<or> typed_clusters cl \<or> srs = [] \<Longrightarrow> I s \<Longrightarrow> runs p (\<lambda>r. I) (reportComponents cl srs s)"
  by (induction srs arbitrary: s) (auto intro!: request_steps reporter)

lemma reported:
  "p \<or> typed_clusters cl \<or> tr_Components sm = [] \<Longrightarrow> I s \<Longrightarrow> runs p (\<lambda>r. I) (ReportStatus cl v m sm s)"
  unfolding ReportStatus_def NewCondition_def Let_def by (intro request_steps reporters) auto

end

locale state_run = request_run p I
  for p :: bool and cx :: "'w ctx" and I :: "'w rstate \<Rightarrow> bool" +
  assumes I_condition: "I s \<Longrightarrow> I (add_condition cd s)"
    and I_external: "I s \<Longrightarrow> I (drop_external_condition s)"
    and I_report: "I s \<Longrightarrow> runs p (\<lambda>r. I) (report_status cx m r s)"
begin

lemma condition: "I s \<Longrightarrow> runs p (\<lambda>r. I) (new_condition cx ty st rs ms s)"
  unfolding new_condition_def NewCondition_def
  by (intro ret bind prod clock) (auto simp: I_condition)

lemmas steps = request_steps condition

section \<open>The uninstallation\<close>

lemma no_internal: "I s \<Longrightarrow> runs p (\<lambda>r. I) (ensureNoInternalEngineComponent cx m c s)"
  unfolding ensureNoInternalEngineComponent_def refetch_iec_def Let_def by (intro steps) auto

lemma remove_internal: "I s \<Longrightarrow> runs p (\<lambda>r. I) (remove_internal cx m cs acc s)"
proof (induction cs arbitrary: acc s)
  case (Cons c cs)
  show ?case
    unfolding remove_internal.simps by (intro steps no_internal Cons.IH) (use Cons.prems in auto)
qed simp

lemma console: "I s \<Longrightarrow> runs p (\<lambda>r. I) (finalize_console cx s)"
  unfolding finalize_console_def CheckConsole_def getClusterVersion_def
    removePluginFromConsoleResource_def Let_def
  by (intro steps) auto

lemma terminating:
  "mce_DeletionTimestamp m \<noteq> None \<Longrightarrow> I s \<Longrightarrow> runs p (\<lambda>r. I) (terminating_condition cx m l a b s)"
  unfolding terminating_condition_def by (auto intro!: steps)

lemma namespaces:
  "mce_DeletionTimestamp m \<noteq> None \<Longrightarrow> I s \<Longrightarrow> runs p (\<lambda>r. I) (finalize_hub_namespace cx m s)"
  unfolding finalize_hub_namespace_def finalize_global_set_def finalize_local_namespace_def Let_def
  by (intro steps terminating) auto

lemma resources:
  "mce_DeletionTimestamp m \<noteq> None \<Longrightarrow> I s \<Longrightarrow> runs p (\<lambda>r. I) (finalize_hypershift_addon cx m s)"
  unfolding finalize_hypershift_addon_def finalize_local_cluster_def finalize_cluster_manager_def Let_def
  by (intro steps terminating namespaces) auto

lemma finalize:
  "mce_DeletionTimestamp m \<noteq> None \<Longrightarrow> I s \<Longrightarrow> runs p (\<lambda>r. I) (finalizeBackplaneConfig cx m s)"
  unfolding finalizeBackplaneConfig_def ensureNoAllInternalEngineComponents_def
  by (intro steps remove_internal console resources) auto

lemma deletion:
  "mce_DeletionTimestamp m \<noteq> None \<Longrightarrow> I s \<Longrightarrow> runs p (\<lambda>r. I) (reconcile_deletion cx m s)"
  unfolding reconcile_deletion_def deleteMaestroNamespace_def delete_ignoring_absent_def Let_def
  by (intro steps finalize) auto

text \<open>The version check needs two components of each version that it compares beyond the first.\<close>

lemma upgrade:
  assumes "p \<or> versions_comparable cx m" "I s"
  shows "runs p (\<lambda>r. I) (check_upgrade cx m s)"
proof (cases "cx_DeployOnOCP cx")
  case True
  then have "runs p (\<lambda>r. I) (setOperatorUpgradeableStatus cx m s)"
    using assms unfolding setOperatorUpgradeableStatus_def versions_comparable_def Let_def
    by (auto simp: I_world split_beta split: option.split)
  then show ?thesis using True unfolding check_upgrade_def by (auto intro!: steps)
qed (simp add: check_upgrade_def assms)

lemma external: "I s \<Longrightarrow> runs p (\<lambda>r. I) (checkExternallyManagedComponents cx m s)"
  unfolding checkExternallyManagedComponents_def Let_def
  by (intro steps I_external)

text \<open>
  The frame: a reconciliation keeps the invariant when its body does.  It ends earlier for an engine
  on which Maestro has to be switched off.
\<close>

lemma reconciliation:
  assumes m: "fst (cl_GetMCE (cx_Client cx) name (ks_World s)) = Inr m" "p \<or> versions_comparable cx m"
    and body: "\<And>upgrade s. I s \<Longrightarrow> runs p (\<lambda>r. I) (reconcile_body cx (drop_failures m) upgrade s)"
    and reset: "\<And>w. I (reset_status (drop_failures m)
      (CheckDeprecatedFieldUsage (drop_failures m) (log_call (CGetMCE name) w s)))"
    and weaker: "\<And>s. I s \<Longrightarrow> J s"
    and early: "\<And>m' w w'. J (log_call (CUpdateMCE m') w
      (CheckDeprecatedFieldUsage (drop_failures m) (log_call (CGetMCE name) w' s)))"
  shows "runs p (\<lambda>r. J) (Reconcile cx name s)"
proof -
  let ?s = "CheckDeprecatedFieldUsage (drop_failures m)
    (log_call (CGetMCE name) (snd (cl_GetMCE (cx_Client cx) name (ks_World s))) s)"
  have upgrade: "runs p (\<lambda>r. I) (check_upgrade cx (drop_failures m) s)" if "I s" for s
    using m(2) that by (intro upgrade) (auto simp: versions_comparable_def drop_failures_def)
  have "runs p (\<lambda>r. I) (do {
       (u, s) \<leftarrow> checkExternallyManagedComponents cx (drop_failures m) (reset_status (drop_failures m) ?s);
       (u, s) \<leftarrow> new_condition cx MultiClusterEngineProgressing ConditionTrue
         WaitingForResourceReason ''Setting the operator'' s;
       (upgrade, s) \<leftarrow> check_upgrade cx (drop_failures m) s;
       ((m, r), s) \<leftarrow> reconcile_body cx (drop_failures m) upgrade s;
       report_status cx m r s
     })"
    by (intro steps upgrade body external reset I_report) auto
  then have "runs p (\<lambda>r. J) (reconcile_engine cx m
      (log_call (CGetMCE name) (snd (cl_GetMCE (cx_Client cx) name (ks_World s))) s))"
    unfolding reconcile_engine_def Let_def
    by (auto simp: api_eqs early intro: runs_mono weaker split: sum.split)
  then show ?thesis using m(1) by (simp add: Reconcile_def api_eqs)
qed

end

section \<open>Up to the pause\<close>

text \<open>The variables that defaulting stores in the environment.\<close>

definition operator_variables :: "string list" where
  "operator_variables = [''ACM_CLUSTER_INGRESS_DOMAIN'', ''ACM_HUB_CONSOLE_URL'', ''ACM_HUB_OCP_VERSION'']"

text \<open>Every image reference has a slash, so that its repository can be replaced.\<close>

definition slashed :: "strmap \<Rightarrow> bool" where
  "slashed refs = (\<forall>(k, ref) \<in> set refs. CHR ''/'' \<in> set ref)"

text \<open>\<open>E\<close> holds of the engines, after defaulting, for which the panics are excluded.\<close>

locale prepared_run = state_run p cx I
  for p :: bool and cx :: "'w ctx" and I :: "'w rstate \<Rightarrow> bool" +
  fixes E :: "MultiClusterEngine \<Rightarrow> bool"
  assumes I_env: "I s \<Longrightarrow> k \<in> set operator_variables \<Longrightarrow> I (set_env k v s)"
    and I_cache: "I s \<Longrightarrow> I (s\<lparr>rs_Cache := ca\<rparr>)"
    and I_namespace: "I s \<Longrightarrow> p \<or> OperatorNamespace (rs_Env s) \<noteq> None"
    and I_images: "I s \<Longrightarrow> E m \<Longrightarrow> p \<or> GetImageRepository m = '''' \<or> slashed (env_image_overrides (rs_Env s))"
begin

lemma cluster_info:
  "I s \<Longrightarrow> runs p (\<lambda>r. I) (getClusterVersion cx s)"
  "I s \<Longrightarrow> runs p (\<lambda>r. I) (getClusterIngressDomain cx s)"
  "I s \<Longrightarrow> runs p (\<lambda>r. I) (getConsoleURL cx s)"
  unfolding getClusterVersion_def getClusterIngressDomain_def getConsoleURL_def
  by (intro steps; simp)+

lemma defaults: "I s \<Longrightarrow> runs p (\<lambda>r. I) (setDefaults cx m s)"
  unfolding setDefaults_def ocp_defaults_def apply_defaults_def Let_def
  by (intro steps cluster_info) (auto simp: I_env operator_variables_def split: sum.split)

lemma sequence:
  "I s \<Longrightarrow> (\<And>s. I s \<Longrightarrow> runs p (\<lambda>r. I) (a s)) \<Longrightarrow> (\<And>s. I s \<Longrightarrow> runs p (\<lambda>r. I) (k s)) \<Longrightarrow>
    runs p (\<lambda>r. I) (then_stage a k s)"
  unfolding then_stage_def by (intro steps) auto

lemma returns:
  "(\<And>s. I s \<Longrightarrow> runs p (\<lambda>r. I) (a s)) \<Longrightarrow> I s \<Longrightarrow> runs p (\<lambda>r. I) (return_any a s)"
  "(\<And>s. I s \<Longrightarrow> runs p (\<lambda>r. I) (a s)) \<Longrightarrow> I s \<Longrightarrow> runs p (\<lambda>r. I) (return_error a s)"
  "(\<And>s. I s \<Longrightarrow> runs p (\<lambda>r. I) (a s)) \<Longrightarrow> I s \<Longrightarrow> runs p (\<lambda>r. I) (return_stripped a s)"
  unfolding return_any_def return_error_def return_stripped_def by (intro steps; simp)+

lemma cleanup: "I s \<Longrightarrow> runs p (\<lambda>r. I) (cleanup_deprecated cx objs s)"
proof (induction objs arbitrary: s)
  case (Cons obj objs)
  show ?case
    unfolding cleanup_deprecated.simps EnsureDeprecatedResourceCleanup_def
    by (intro steps Cons.IH) (use Cons.prems in auto)
qed simp

lemma versioned: "I s \<Longrightarrow> runs p (\<lambda>r. I) (delete_versioned cx m ts s)"
proof (induction ts arbitrary: s)
  case (Cons t ts)
  show ?case
    unfolding delete_versioned.simps by (intro steps Cons.IH) (use Cons.prems in auto)
qed simp

lemma checks:
  "I s \<Longrightarrow> runs p (\<lambda>r. I) (CleanupVersionedAddOnTemplates cx m s)"
  "I s \<Longrightarrow> runs p (\<lambda>r. I) (check_ocp_version cx m s)"
  "I s \<Longrightarrow> runs p (\<lambda>r. I) (validateNamespace cx m s)"
  "I s \<Longrightarrow> runs p (\<lambda>r. I) (ensureOpenShiftNamespaceLabel cx m s)"
  "I s \<Longrightarrow> runs p (\<lambda>r. I) (validateImagePullSecret cx m s)"
  unfolding CleanupVersionedAddOnTemplates_def check_ocp_version_def validateNamespace_def
    ensureOpenShiftNamespaceLabel_def validateImagePullSecret_def Let_def
  by (intro steps versioned cluster_info; simp)+

lemma configmap: "I s \<Longrightarrow> runs p (\<lambda>r. I) (GetOverridesFromConfigmap cl dec ov ns n b s)"
  unfolding GetOverridesFromConfigmap_def
  by (intro steps; simp split: list.split sum.split prod.split)

lemma from_namespace:
  "I s \<Longrightarrow> (\<And>ns. runs p (\<lambda>r. I) (f ns)) \<Longrightarrow> runs p (\<lambda>r. I) (Option.bind (OperatorNamespace (rs_Env s)) f)"
  using I_namespace [of s] by (cases "OperatorNamespace (rs_Env s)") auto

lemma image_repository:
  assumes "I s" "E m" "\<And>refs. runs p (\<lambda>r. I) (f refs)"
  shows "runs p (\<lambda>r. I) (Option.bind (if GetImageRepository m \<noteq> ''''
    then OverrideImageRepository (env_image_overrides (rs_Env s)) (GetImageRepository m)
    else Some (env_image_overrides (rs_Env s))) f)"
  using I_images [OF assms(1,2)] assms(3) OverrideImageRepository_None [of "env_image_overrides (rs_Env s)"]
  by (cases "OverrideImageRepository (env_image_overrides (rs_Env s)) (GetImageRepository m)")
    (auto simp: slashed_def)

lemma image_overrides: "E m \<Longrightarrow> I s \<Longrightarrow> runs p (\<lambda>r. I) (image_overrides_stage cx m s)"
  unfolding image_overrides_stage_def Let_def
  by (rule cond, intro steps; (simp; fail)?) (intro image_repository steps from_namespace configmap; simp add: I_cache)

lemma template_overrides: "I s \<Longrightarrow> runs p (\<lambda>r. I) (template_overrides_stage cx m s)"
  unfolding template_overrides_stage_def Let_def
  by (intro steps from_namespace configmap; simp add: I_cache)

lemma pausing:
  "(\<not> IsPaused m \<Longrightarrow> runs p (\<lambda>r. I) (k s)) \<Longrightarrow> I s \<Longrightarrow> runs p (\<lambda>r. I) (then_stage (paused_stage cx m) k s)"
  unfolding then_stage_def paused_stage_def
  by (cases "IsPaused m") (auto simp: Option.bind_assoc split_beta intro!: steps)

lemma prepare:
  assumes "E m" "I s" "\<And>s. I s \<Longrightarrow> \<not> IsPaused m \<Longrightarrow> runs p (\<lambda>r. I) (k s)"
  shows "runs p (\<lambda>r. I) (prepare_stages cx m k s)"
  unfolding prepare_stages_def
  by (intro sequence returns pausing steps cleanup checks image_overrides template_overrides assms) auto

text \<open>\<open>B\<close> holds of the engine as it is read; the API server keeps it when the finalizer is added.\<close>

lemma body:
  assumes "B m" "I s" "mce_DeletionTimestamp m = None"
    and kept: "\<And>m m' w. B m \<Longrightarrow> fst (cl_UpdateMCE (cx_Client cx) (add_finalizer m) w) = Inr m' \<Longrightarrow> B m'"
    and defaulted: "\<And>m s. B m \<Longrightarrow> spost (\<lambda>mr s. snd mr = ok_result \<longrightarrow> E (fst mr)) (setDefaults cx m s)"
    and deploy: "\<And>m s. E m \<Longrightarrow> I s \<Longrightarrow> \<not> IsPaused m \<Longrightarrow> runs p (\<lambda>r. I) (deploy_stages cx m upgrade s)"
  shows "runs p (\<lambda>r. I) (reconcile_body cx m upgrade s)"
proof -
  let ?first = "if backplaneFinalizer \<notin> set (mce_Finalizers m)
    then api_UpdateMCE (cx_Client cx) (add_finalizer m) s else Some (Inr m, s)"
  have rest: "runs p (\<lambda>r. I) (do {
       ((m, r), s) \<leftarrow> setDefaults cx m s;
       if fst r \<noteq> no_requeue \<or> snd r \<noteq> None then Some ((m, no_requeue, snd r), s)
       else do {
         (r, s) \<leftarrow> prepare_stages cx m (deploy_stages cx m upgrade) s;
         Some ((m, r), s)
       } })" if "B m" "I s" for m s
    unfolding runs_bind using runs_conj [OF defaults [OF that(2)] defaulted [OF that(1)]]
    by (rule runs_mono) (auto simp: runs_bind intro!: runs_mono [OF prepare] deploy)
  have first: "runs p (\<lambda>r. I) ?first" by (intro steps assms(2))
  have kept: "spost (\<lambda>x s. \<forall>m'. x = Inr m' \<longrightarrow> B m') ?first"
    using assms(1) kept [of m] by (auto simp: api_eqs)
  show ?thesis
    unfolding reconcile_body_def assms(3)
  proof (simp only: not_True_eq_False simp_thms if_False runs_bind,
      rule runs_mono [OF runs_conj [OF first kept]], goal_cases)
    case (1 x s)
    then show ?case
      by (cases x) (simp_all only: prod.case sum.case sum.inject runs_simps rest simp_thms)
  qed
qed

end

end
