(* ===== verification/Deploy_Runs.thy ===== *)
theory Deploy_Runs
  imports State_Runs
begin

text \<open>
  Invariants of the reconciler's state through the deployment: the CRDs, the charts, every component,
  the network policies and the operator's own resources.  \<open>deploy_run\<close> is the interface of an
  invariant that the tracker's operations keep as well; the panics of this part of the code (an
  unreadable CRD file, a container that is no object, an engine without overrides, a missing TLS
  profile) are excluded by \<open>deployable\<close>, or allowed by the flag \<open>p\<close>.
\<close>

section \<open>Deployment overrides that return\<close>

definition typed_containers :: "kobj \<Rightarrow> bool" where
  "typed_containers u =
    (ko_Kind u = ''Deployment'' \<longrightarrow>
      (\<forall>cs. nested (ko_Content u) containers_path = Some (Some (JArray cs)) \<longrightarrow>
        (\<forall>c \<in> set cs. \<exists>ob. c = JObject ob)))"

lemma update_container_total:
  "\<forall>c \<in> set cs. \<exists>ob. c = JObject ob \<Longrightarrow>
    \<exists>ds. update_container n envs cs = Some ds \<and> (\<forall>d \<in> set ds. \<exists>ob. d = JObject ob)"
  by (induction n envs cs rule: update_container.induct) auto

lemma applyEnvConfig_total:
  assumes kind: "ko_Kind u = ''Deployment''" and typed: "typed_containers u"
  shows "\<exists>r. applyEnvConfig u n envs = Some r
    \<and> (\<forall>v. r = Inr v \<longrightarrow> ko_Kind v = ''Deployment'' \<and> typed_containers v)"
proof (cases "\<exists>cs. nested (ko_Content u) containers_path = Some (Some (JArray cs))")
  case True
  then obtain cs where cs: "nested (ko_Content u) containers_path = Some (Some (JArray cs))" by blast
  then obtain ds where ds: "update_container n envs cs = Some ds" "\<forall>d \<in> set ds. \<exists>ob. d = JObject ob"
    using update_container_total [of cs n envs] kind typed unfolding typed_containers_def by blast
  show ?thesis
  proof (cases "set_nested (ko_Content u) containers_path (JArray ds)")
    case None
    then show ?thesis by (simp add: applyEnvConfig_def cs ds del: nested.simps set_nested.simps)
  next
    case (Some content)
    then have "nested content containers_path = Some (Some (JArray ds))"
      using nested_set_nested [OF _ Some] by blast
    then have "typed_containers (u\<lparr>ko_Content := content\<rparr>)"
      using ds(2) by (simp only: typed_containers_def kobj.simps) (simp del: nested.simps)
    then show ?thesis using kind Some by (simp add: applyEnvConfig_def cs ds del: nested.simps set_nested.simps)
  qed
next
  case False
  then show ?thesis using assms
    by (auto simp: applyEnvConfig_def simp del: nested.simps split: option.split json.split)
qed

lemma apply_containers_total:
  "ko_Kind u = ''Deployment'' \<Longrightarrow> typed_containers u \<Longrightarrow> apply_containers u cs \<noteq> None"
proof (induction cs arbitrary: u)
  case (Cons c cs)
  then show ?case using applyEnvConfig_total [OF Cons.prems, of "ct_Name c" "ct_Env c"]
    by (auto split: sum.split)
qed simp

lemma override_templates_total:
  "list_all typed_containers us \<Longrightarrow> override_templates config us \<noteq> None"
proof (induction us)
  case (Cons u us)
  then obtain rs where "override_templates config us = Some rs" by auto
  moreover obtain r where "(if ko_Kind u \<noteq> ''Deployment'' then Some (Inr u)
      else case getDeploymentConfig (co_Deployments (cc_ConfigOverrides config)) (ko_Name u) of
        None \<Rightarrow> Some (Inr u) | Some d \<Rightarrow> apply_containers u (dc_Containers d)) = Some r"
    using Cons.prems apply_containers_total [of u] by (fastforce split: option.split)
  ultimately show ?case by (auto split: sum.split)
qed simp

lemma applyComponentDeploymentOverrides_total:
  "sp_Overrides (mce_Spec m) \<noteq> None \<Longrightarrow> list_all typed_containers us \<Longrightarrow>
    \<exists>r. applyComponentDeploymentOverrides m us c = Some r"
  using override_templates_total
  by (auto simp: applyComponentDeploymentOverrides_def split: option.split)

section \<open>What the deployment relies on\<close>

text \<open>
  The CRD files can be read, the deployments of the charts list their containers as objects, the
  library knows the intermediate TLS profile; and the engine has overrides.
\<close>

definition sound_library :: "'w ctx \<Rightarrow> bool" where
  "sound_library cx =
    ((\<forall>d path name. WalkFile path name None \<notin> set (cx_Walk cx d))
     \<and> (\<forall>bytes u. cx_Yaml cx bytes = Inr u \<longrightarrow> typed_containers u)
     \<and> cx_TLSProfiles cx ''Intermediate'' \<noteq> None)"

definition deployable :: "'w ctx \<Rightarrow> MultiClusterEngine \<Rightarrow> bool" where
  "deployable cx m = (sound_library cx \<and> sp_Overrides (mce_Spec m) \<noteq> None)"

lemma typed_finish [simp]: "typed_containers (finish_template m u) = typed_containers u"
  by (simp add: typed_containers_def finish_template_def AddBackplaneConfigLabels_def Let_def)

lemma convert_typed:
  "sound_library cx \<Longrightarrow> convert_templates cx m raw = Inr us \<Longrightarrow> list_all typed_containers us"
  by (induction cx m raw arbitrary: us rule: convert_templates.induct)
    (auto simp: sound_library_def split: if_splits sum.splits)

lemma RenderChart_typed:
  "sound_library cx \<Longrightarrow> RenderChart cx env path m images ov = Inr us \<Longrightarrow> list_all typed_containers us"
  by (auto simp: RenderChart_def renderTemplates_def split: sum.splits intro: convert_typed)

lemma walk_crds_total:
  "(\<forall>path name. WalkFile path name None \<notin> set ws) \<Longrightarrow> walk_crds cx m dir skip ws acc \<noteq> None"
  by (induction cx m dir skip ws acc rule: walk_crds.induct)
    (auto simp: Let_def split: option.split sum.split)

section \<open>The interface\<close>

locale deploy_run = prepared_run p cx I E
  for p :: bool and cx :: "'w ctx" and I :: "'w rstate \<Rightarrow> bool" and E :: "MultiClusterEngine \<Rightarrow> bool" +
  assumes I_tracked: "I s \<Longrightarrow> I (add_component sr s)" "I s \<Longrightarrow> I (remove_component sr s)"
    and I_library: "I s \<Longrightarrow> cx_CreateOrUpdate cx f u (ks_World s) = ((calls, e), w) \<Longrightarrow>
      I (s\<lparr>ks_World := w, ks_Trace := ks_Trace s @ calls\<rparr>)"
begin

lemma bound: "(\<And>x. x = v \<Longrightarrow> runs p (\<lambda>r. I) (f x)) \<Longrightarrow> runs p (\<lambda>r. I) (Let v f)"
  by simp

lemma switches:
  "I s \<Longrightarrow> I (switch_on n s)" "I s \<Longrightarrow> I (switch_off n s)" "I s \<Longrightarrow> I (switch_on_reversed n s)"
  by (simp_all add: switch_on_def switch_off_def switch_on_reversed_def I_tracked)

lemma folded: "(\<And>x s. I s \<Longrightarrow> I (f x s)) \<Longrightarrow> I s \<Longrightarrow> I (fold f xs s)"
  by (induction xs arbitrary: s) auto

lemmas tracked = I_tracked switches folded

section \<open>Applying and deleting templates\<close>

lemma failure: "I s \<Longrightarrow> runs p (\<lambda>r. I) (logAndSetCondition cx e message u s)"
  unfolding logAndSetCondition_def Let_def by (intro steps) auto

lemma unstructured: "I s \<Longrightarrow> runs p (\<lambda>r. I) (ensureUnstructuredResource cx m u s)"
  unfolding ensureUnstructuredResource_def Let_def by (intro steps) auto

lemma existing: "I s \<Longrightarrow> runs p (\<lambda>r. I) (update_template cx m old u s)"
  unfolding update_template_def Let_def
  by (auto intro!: steps failure split: prod.split bool.split)

lemma missing: "I s \<Longrightarrow> runs p (\<lambda>r. I) (create_template cx m u s)"
  unfolding create_template_def by (intro steps failure) auto

lemma template:
  "I s \<Longrightarrow> runs p (\<lambda>r. I) (applyTemplate cx m u s)"
  "I s \<Longrightarrow> runs p (\<lambda>r. I) (deleteTemplate cx m u s)"
  unfolding applyTemplate_def deleteTemplate_def
  by (auto intro!: steps unstructured existing missing failure split: prod.split bool.split)

lemma installable: "I s \<Longrightarrow> runs p (\<lambda>r. I) (CanInstallAddons (cx_Client cx) s)"
  unfolding CanInstallAddons_def by (intro steps) auto

lemma templates: "I s \<Longrightarrow> runs p (\<lambda>r. I) (apply_templates cx m b us s)"
  by (induction us arbitrary: s) (auto intro!: steps template)

lemma addon_templates: "I s \<Longrightarrow> runs p (\<lambda>r. I) (apply_addon_templates cx m b miss sr us acc s)"
  by (induction us arbitrary: s acc) (auto intro!: steps template tracked)

lemma deleted_templates: "I s \<Longrightarrow> runs p (\<lambda>r. I) (delete_templates cx m b g us s)"
  by (induction us arbitrary: s) (auto intro!: steps template installable)

section \<open>The common course of a component\<close>

lemma internal:
  "I s \<Longrightarrow> (\<And>s. I s \<Longrightarrow> runs p (\<lambda>r. I) (k s)) \<Longrightarrow> runs p (\<lambda>r. I) (internal_then cx m c k s)"
  unfolding internal_then_def ensureInternalEngineComponent_def Let_def by (intro steps) auto

lemma no_internal_first:
  "I s \<Longrightarrow> (\<And>s. I s \<Longrightarrow> runs p (\<lambda>r. I) (k s)) \<Longrightarrow> runs p (\<lambda>r. I) (no_internal_then cx m c k s)"
  unfolding no_internal_then_def by (intro steps no_internal) auto

lemma rendered:
  "I s \<Longrightarrow> (\<And>us s. I s \<Longrightarrow> runs p (\<lambda>r. I) (k us s)) \<Longrightarrow> runs p (\<lambda>r. I) (render_then cx m c k s)"
  "I s \<Longrightarrow> (\<And>us s. I s \<Longrightarrow> runs p (\<lambda>r. I) (k us s)) \<Longrightarrow> runs p (\<lambda>r. I) (render_in_then cx m c ns k s)"
  unfolding render_then_def render_in_then_def by (intro steps; simp)+

lemma overridden:
  assumes "p \<or> deployable cx m" "RenderChart cx env path m' images ov = Inr us"
    and "\<And>r. runs p (\<lambda>r. I) (f r)"
  shows "runs p (\<lambda>r. I) (Option.bind (applyComponentDeploymentOverrides m us c) f)"
  using assms(1,3) applyComponentDeploymentOverrides_total [of m us c] RenderChart_typed [OF _ assms(2)]
  by (cases "applyComponentDeploymentOverrides m us c") (auto simp: deployable_def)

lemma rendered_overridden:
  assumes "p \<or> deployable cx m" "I s" "\<And>us s. I s \<Longrightarrow> runs p (\<lambda>r. I) (k us s)"
  shows "runs p (\<lambda>r. I) (render_then cx m c (overrides_then m c' k) s)"
    and "runs p (\<lambda>r. I) (render_in_then cx m c ns (overrides_then m c' k) s)"
  unfolding render_then_def render_in_then_def overrides_then_def RenderChartWithNamespace_def
  by (intro sum ret assms(2), rule overridden [OF assms(1)], assumption, intro sum ret assms)+

lemma deployed: "p \<or> deployable cx m \<Longrightarrow> I s \<Longrightarrow> runs p (\<lambda>r. I) (deploy_component cx m c s)"
  unfolding deploy_component_def by (intro internal rendered_overridden templates)

lemma undeployed:
  "I s \<Longrightarrow> (\<And>s. I s \<Longrightarrow> I (switch s)) \<Longrightarrow> runs p (\<lambda>r. I) (undeploy_component cx m c switch s)"
  unfolding undeploy_component_def by (intro no_internal_first rendered deleted_templates) auto

lemmas deploys = internal rendered_overridden deployed templates addon_templates tracked
lemmas undeploys = no_internal_first rendered undeployed addon_templates deleted_templates tracked

section \<open>Components\<close>

lemma plugin:
  "I s \<Longrightarrow> runs p (\<lambda>r. I) (enable_console_plugin cx n s)"
  "I s \<Longrightarrow> runs p (\<lambda>r. I) (removePluginFromConsoleResource cx s)"
  unfolding enable_console_plugin_def addPluginToConsoleResource_def removePluginFromConsoleResource_def
  by (intro steps; simp)+

lemma console_component:
  "p \<or> deployable cx m \<Longrightarrow> I s \<Longrightarrow> runs p (\<lambda>r. I) (ensureConsoleMCE cx m s)"
  "I s \<Longrightarrow> runs p (\<lambda>r. I) (ensureNoConsoleMCE cx m b s)"
  unfolding ensureConsoleMCE_def ensureNoConsoleMCE_def Let_def
  by (intro deploys steps plugin; simp add: tracked) (intro undeploys steps plugin; simp add: tracked)

lemma components_on:
  assumes "p \<or> deployable cx m" "I s"
  shows "runs p (\<lambda>r. I) (ensureDiscovery cx m s)"
    and "runs p (\<lambda>r. I) (ensureClusterAPI cx m s)"
    and "runs p (\<lambda>r. I) (ensureClusterAPIProviderAWS cx m s)"
    and "runs p (\<lambda>r. I) (ensureClusterAPIProviderAzure cx m s)"
    and "runs p (\<lambda>r. I) (ensureClusterAPIProviderMetal cx m s)"
    and "runs p (\<lambda>r. I) (ensureClusterAPIProviderOA cx m s)"
    and "runs p (\<lambda>r. I) (ensureServerFoundation cx m s)"
    and "runs p (\<lambda>r. I) (ensureImageBasedInstallOperator cx m s)"
    and "runs p (\<lambda>r. I) (ensureClusterLifecycle cx m s)"
    and "runs p (\<lambda>r. I) (ensureClusterPermission cx m s)"
    and "runs p (\<lambda>r. I) (ensureClusterProxyAddon cx m s)"
    and "runs p (\<lambda>r. I) (ensureAssistedService cx m s)"
    and "runs p (\<lambda>r. I) (ensureManagedServiceAccount cx m s)"
  using assms unfolding ensureDiscovery_def ensureClusterAPI_def ensureClusterAPIProviderAWS_def
    ensureClusterAPIProviderAzure_def ensureClusterAPIProviderMetal_def
    ensureClusterAPIProviderOA_def ensureServerFoundation_def
    ensureImageBasedInstallOperator_def ensureClusterLifecycle_def
    ensureClusterPermission_def ensureClusterProxyAddon_def ensureAssistedService_def
    ensureManagedServiceAccount_def Let_def
  by (auto intro!: deploys)

lemma components_off:
  assumes "I s"
  shows "runs p (\<lambda>r. I) (ensureNoDiscovery cx m s)"
    and "runs p (\<lambda>r. I) (ensureNoClusterAPI cx m s)"
    and "runs p (\<lambda>r. I) (ensureNoClusterAPIProviderAWS cx m s)"
    and "runs p (\<lambda>r. I) (ensureNoClusterAPIProviderAzure cx m s)"
    and "runs p (\<lambda>r. I) (ensureNoClusterAPIProviderMetal cx m s)"
    and "runs p (\<lambda>r. I) (ensureNoClusterAPIProviderOA cx m s)"
    and "runs p (\<lambda>r. I) (ensureNoServerFoundation cx m s)"
    and "runs p (\<lambda>r. I) (ensureNoImageBasedInstallOperator cx m s)"
    and "runs p (\<lambda>r. I) (ensureNoClusterLifecycle cx m s)"
    and "runs p (\<lambda>r. I) (ensureNoClusterPermission cx m s)"
    and "runs p (\<lambda>r. I) (ensureNoClusterProxyAddon cx m s)"
    and "runs p (\<lambda>r. I) (ensureNoAssistedService cx m s)"
    and "runs p (\<lambda>r. I) (ensureNoManagedServiceAccount cx m s)"
    and "runs p (\<lambda>r. I) (ensureNoFleetNavigation cx m s)"
    and "runs p (\<lambda>r. I) (ensureFleetNavigation cx m s)"
  using assms unfolding ensureNoDiscovery_def ensureNoClusterAPI_def ensureNoClusterAPIProviderAWS_def
    ensureNoClusterAPIProviderAzure_def ensureNoClusterAPIProviderMetal_def
    ensureNoClusterAPIProviderOA_def ensureNoServerFoundation_def
    ensureNoImageBasedInstallOperator_def ensureNoClusterLifecycle_def
    ensureNoClusterPermission_def ensureNoClusterProxyAddon_def
    ensureNoAssistedService_def ensureNoManagedServiceAccount_def
    ensureNoFleetNavigation_def ensureFleetNavigation_def Let_def
  by (auto intro!: internal undeploys)

lemma hive:
  "p \<or> deployable cx m \<Longrightarrow> I s \<Longrightarrow> runs p (\<lambda>r. I) (ensureHive cx m s)"
  "I s \<Longrightarrow> runs p (\<lambda>r. I) (ensureNoHive cx m s)"
  unfolding ensureHive_def ensureNoHive_def Let_def
  by (intro deploys steps unstructured; simp add: tracked) (intro undeploys steps; simp add: tracked)

lemma tls_configmaps: "I s \<Longrightarrow> runs p (\<lambda>r. I) (ensure_tls_configmaps cx m prof cs nss s)"
proof (induction nss arbitrary: s)
  case (Cons ns nss)
  have "runs p (\<lambda>r. I) (api_CreateOrUpdate cx f u s)" for f u
    using I_library [OF Cons.prems] by (auto simp: api_CreateOrUpdate_def split: prod.split)
  then show ?case by (auto intro!: steps Cons.IH)
qed simp

lemma tls_profile:
  assumes "p \<or> deployable cx m" "I s"
  shows "runs p (\<lambda>r. I) (EnsureTLSProfileConfigMaps cx m nss s)"
proof -
  have "runs p (\<lambda>r s. I s \<and> (p \<or> r \<noteq> Inr None)) (GetAPIServerTLSProfile (cx_Client cx) (rs_Env s)
      (cx_DeployOnOCP cx) (cx_TLSProfiles cx) (cx_DecodeTLS cx) s)"
    using assms I_call [OF assms(2)] unfolding GetAPIServerTLSProfile_def deployable_def sound_library_def
    by (auto simp: api_eqs Let_def split: option.split sum.split)
  then show ?thesis
    unfolding EnsureTLSProfileConfigMaps_def runs_bind
    by (rule runs_mono) (auto simp: tls_configmaps split: sum.split option.split)
qed

lemma cluster_manager:
  "p \<or> deployable cx m \<Longrightarrow> I s \<Longrightarrow> runs p (\<lambda>r. I) (ensureClusterManager cx m s)"
  "I s \<Longrightarrow> runs p (\<lambda>r. I) (ensureNoClusterManager cx m s)"
  unfolding ensureClusterManager_def apply_cluster_manager_def ensureNoClusterManager_def
    await_hub_namespace_def Let_def
  by (intro deploys steps tls_profile; simp add: tracked) (intro undeploys steps; simp add: tracked)

lemma hypershift:
  "p \<or> deployable cx m \<Longrightarrow> I s \<Longrightarrow> runs p (\<lambda>r. I) (ensureHyperShift cx m s)"
  "I s \<Longrightarrow> runs p (\<lambda>r. I) (ensureNoHyperShift cx m s)"
  unfolding ensureHyperShift_def ensureNoHyperShift_def Let_def
  by (intro deploys steps; simp add: tracked) (intro undeploys steps; simp add: tracked)

lemma local_hosting: "I s \<Longrightarrow> runs p (\<lambda>r. I) (reconcileHypershiftLocalHosting cx m s)"
  unfolding reconcileHypershiftLocalHosting_def removeHypershiftLocalHosting_def
    applyHypershiftLocalHosting_def await_addon_def Let_def
  by (intro steps template; simp add: tracked)

lemma local_cluster:
  "I s \<Longrightarrow> runs p (\<lambda>r. I) (ensureLocalCluster cx m s)"
  "I s \<Longrightarrow> runs p (\<lambda>r. I) (ensureNoLocalCluster cx m s)"
  unfolding ensureLocalCluster_def create_managed_cluster_def update_managed_cluster_def
    await_local_cluster_def ensureNoLocalCluster_def remove_local_namespace_def Let_def
  by (intro steps; simp add: tracked)+

lemma maestro_resources:
  "I s \<Longrightarrow> runs p (\<lambda>r. I) (ensure_maestro_namespace cx s)"
  "I s \<Longrightarrow> runs p (\<lambda>r. I) (ensureMaestroDatabaseSecret cx m ns n s)"
  "I s \<Longrightarrow> runs p (\<lambda>r. I) (finish_maestro cx m pw s)"
  unfolding ensure_maestro_namespace_def ensureMaestroDatabaseSecret_def finish_maestro_def
    ensureClusterManagerGRPCServerConfigMap_def ensureClusterManagerGRPCServerRoute_def
    enableClusterManagerGRPCServer_def Let_def
  by (intro steps cluster_info; simp add: I_world)+

lemma maestro:
  "p \<or> deployable cx m \<Longrightarrow> I s \<Longrightarrow> runs p (\<lambda>r. I) (ensureMaestro cx m s)"
  "I s \<Longrightarrow> runs p (\<lambda>r. I) (ensureNoMaestro cx m s)"
proof -
  show "runs p (\<lambda>r. I) (ensureMaestro cx m s)" if "p \<or> deployable cx m" "I s"
    using that unfolding ensureMaestro_def render_in_then_def RenderChartWithNamespace_def Let_def
    by (auto intro!: steps internal maestro_resources overridden templates tracked)
  show "I s \<Longrightarrow> runs p (\<lambda>r. I) (ensureNoMaestro cx m s)"
    unfolding ensureNoMaestro_def delete_ignoring_absent_def deleteMaestroNamespace_def
      disableClusterManagerGRPCServer_def
    by (auto intro!: steps undeploys split: json.split)
qed

section \<open>The driver and the last stages\<close>

lemma toggles:
  assumes "\<forall>(c, addon, on, off) \<in> set ts. \<forall>s. I s \<longrightarrow> runs p (\<lambda>r. I) (on cx m s) \<and> runs p (\<lambda>r. I) (off cx m s)"
    and "I s"
  shows "runs p (\<lambda>r. I) (run_toggles cx m ts acc s)"
  using assms
proof (induction ts arbitrary: acc s)
  case (Cons t ts)
  obtain c addon on off where t: "t = (c, addon, on, off)" by (cases t)
  have rest: "runs p (\<lambda>r. I) (run_toggles cx m ts acc s)" if "I s" for acc s
    using Cons.prems(1) that by (intro Cons.IH) auto
  show ?case
    unfolding t run_toggles.simps using Cons.prems t by (intro steps installable rest) auto
qed simp

lemma toggleable:
  assumes "p \<or> deployable cx m" "I s"
  shows "runs p (\<lambda>r. I) (ensureToggleableComponents cx m s)"
proof -
  note parts = components_on [OF assms(1)] components_off hive(1) [OF assms(1)] hive(2)
    cluster_manager(1) [OF assms(1)] cluster_manager(2) hypershift(1) [OF assms(1)] hypershift(2)
  have console: "runs p (\<lambda>r. I) (CheckConsole cx s)" if "I s" for s
    using that unfolding CheckConsole_def getClusterVersion_def Let_def by (intro steps) auto
  have addons: "runs p (\<lambda>r. I) (run_toggles cx m addon_toggles acc s)" if "I s" for acc s
    by (rule toggles [OF _ that]) (simp add: addon_toggles_def parts)
  have others: "runs p (\<lambda>r. I) (toggle_rest cx m acc s)" if "I s" for acc s
    unfolding toggle_rest_def toggle_maestro_def toggle_local_cluster_def
    by (intro steps toggles maestro local_cluster assms(1))
      (auto simp: base_toggles_def server_toggles_def capi_toggles_def parts that)
  show ?thesis
    unfolding ensureToggleableComponents_def toggle_console_def Let_def
    by (intro steps addons local_hosting console others console_component assms) auto
qed

lemma policies: "I s \<Longrightarrow> runs p (\<lambda>r. I) (ensureNetworkPolicies cx m s)"
proof -
  have delete: "runs p (\<lambda>r. I) (delete_policies cx nps s)" if "I s" for nps s
    using that by (induction nps arbitrary: s) (auto intro!: steps)
  have create: "runs p (\<lambda>r. I) (create_policies cx nps s)" if "I s" for nps s
    using that by (induction nps arbitrary: s) (auto intro!: steps)
  have "runs p (\<lambda>r. I) (policies_of_components cx m cs s)" if "I s" for cs s
    using that by (induction cs arbitrary: s) (auto intro!: steps create)
  then show "I s \<Longrightarrow> ?thesis"
    unfolding ensureNetworkPolicies_def Let_def by (intro steps delete) auto
qed

lemma removals: "I s \<Longrightarrow> runs p (\<lambda>r. I) (ensureRemovalsGone cx m s)"
proof -
  have "runs p (\<lambda>r. I) (uninstall_all cx us b s)" if "I s" for us b s
    using that by (induction us arbitrary: b s) (auto simp: uninstall_def intro!: steps)
  then show "I s \<Longrightarrow> ?thesis" by (simp add: ensureRemovalsGone_def tracked)
qed

lemma created:
  "I s \<Longrightarrow> runs p (\<lambda>r. I) (createTrustBundleConfigmap cx m s)"
  "I s \<Longrightarrow> runs p (\<lambda>r. I) (metrics_stage cx m s)"
  unfolding createTrustBundleConfigmap_def metrics_stage_def createMetricsService_def
    createMetricsServiceMonitor_def create_missing_def Let_def
  by (intro steps returns; simp)+

lemma crds:
  assumes "p \<or> deployable cx m" "I s"
  shows "runs p (\<lambda>r. I) (crd_stage cx m s)"
proof -
  have retry: "runs p (\<lambda>r. I) (retry_crd (cx_Client cx) n crd s)" if "I s" for n crd s
    using that by (induction n arbitrary: crd s) (auto simp: EnsureCRD_def Let_def intro!: steps)
  have applied: "runs p (\<lambda>r. I) (apply_crds cx crds s)" if "I s" for crds s
    using that by (induction crds arbitrary: s) (auto intro!: steps retry)
  have readable: "p \<or> (\<exists>x. RenderCRDs cx (rs_Env s) d (Some m) skip = Some x)" for d skip
    using assms(1) walk_crds_total unfolding deployable_def sound_library_def RenderCRDs_def Let_def by blast
  have render: "runs p (\<lambda>r. I) (Option.bind (RenderCRDs cx (rs_Env s) d (Some m) skip) f)"
    if "\<And>x. runs p (\<lambda>r. I) (f x)" for d skip and f :: "_ \<Rightarrow> (stage \<times> _) option"
    using that readable [of d skip] by (cases "RenderCRDs cx (rs_Env s) d (Some m) skip") simp_all
  show ?thesis
    using assms(2) unfolding crd_stage_def Let_def by (intro render steps applied) auto
qed

lemma always: "I s \<Longrightarrow> runs p (\<lambda>r. I) (always_stage cx m s)"
proof -
  have addons: "runs p (\<lambda>r. I) (apply_addons cx m us s)" if "I s" for us s
    using that by (induction us arbitrary: s) (auto intro!: steps)
  have templates: "runs p (\<lambda>r. I) (apply_always cx m us s)" if "I s" for us s
    using that by (induction us arbitrary: s) (auto simp: Let_def intro!: steps template tracked)
  show "I s \<Longrightarrow> ?thesis"
    unfolding always_stage_def DeployAlwaysSubcomponents_def ensureCustomResources_def
    by (intro steps templates addons installable) auto
qed

lemma deploy:
  "p \<or> deployable cx m \<Longrightarrow> I s \<Longrightarrow> runs p (\<lambda>r. I) (deploy_stages cx m upgrade s)"
  unfolding deploy_stages_def
  by (intro sequence crds always returns toggleable policies created removals steps) auto

end

end
