(* ===== verification/Panic_Freedom.thy ===== *)
theory Panic_Freedom
  imports Deploy_Runs
begin

text \<open>
  Reconciliations that do not panic.  \<open>tracker_run\<close> is the interface of an invariant that does not
  look at conditions, so that the deferred status report keeps it; it gives \<open>state_run\<close>.  It is
  interpreted on three invariants: no component is tracked (enough for an engine that is being
  deleted), the same with the operator's namespace set (for a paused engine), and the state of a
  serviceable operator, in which every engine is reconciled to the end.
\<close>

section \<open>The status report returns\<close>

lemma frame_fields [simp]:
  "rs_Env (CheckDeprecatedFieldUsage m s) = rs_Env s"
  "rs_Env (log_call c w s) = rs_Env s" "rs_Status (log_call c w s) = rs_Status s"
  by (simp_all add: CheckDeprecatedFieldUsage_def log_call_def)

lemma ReportStatus_components:
  "spost (\<lambda>r s'. tr_Components (snd r) = tr_Components sm) (ReportStatus cl v m sm s)"
  unfolding ReportStatus_def Let_def by (auto intro!: spost_bind_any simp: AddCondition_def)

locale tracker_run =
  fixes p :: bool and cx :: "'w ctx" and I :: "'w rstate \<Rightarrow> bool"
  assumes calls_kept: "I s \<Longrightarrow> I (log_call c w s)"
    and world_kept: "I s \<Longrightarrow> I (s\<lparr>ks_World := w\<rparr>)"
    and I_tracker: "I s \<Longrightarrow> tr_Components sm = tr_Components (rs_Status s) \<Longrightarrow> I (s\<lparr>rs_Status := sm\<rparr>)"
    and I_reportable: "I s \<Longrightarrow> p \<or> typed_clusters (cx_Client cx) \<or> tr_Components (rs_Status s) = []"
begin

lemma report:
  assumes "I s"
  shows "runs p (\<lambda>r. I) (report_status cx m r s)"
proof -
  have "request_run (\<lambda>s'. I s' \<and> rs_Status s' = rs_Status s)"
    by unfold_locales (auto simp: calls_kept world_kept)
  then have "runs p (\<lambda>r s'. I s' \<and> rs_Status s' = rs_Status s)
      (ReportStatus (cx_Client cx) (cx_Version cx) m (rs_Status s) s)"
    by (rule request_run.reported) (use assms I_reportable in auto)
  then show ?thesis
    unfolding report_status_def runs_bind
    by (rule runs_mono [OF runs_conj [OF _ ReportStatus_components]])
      (auto simp: Let_def api_eqs calls_kept I_tracker)
qed

end

sublocale tracker_run \<subseteq> state_run
  by unfold_locales (auto simp: calls_kept world_kept I_tracker report add_condition_def AddCondition_def
      drop_external_condition_def)

lemma reset_untracked [simp]:
  "tr_Components (rs_Status (reset_status m s)) = []" "rs_Env (reset_status m s) = rs_Env s"
proof -
  have "tr_Components (fold AddCondition cs sm) = tr_Components sm" for cs sm
    by (induction cs arbitrary: sm) (simp_all add: AddCondition_def)
  then show "tr_Components (rs_Status (reset_status m s)) = []" by (simp add: reset_status_def Reset_def)
qed (simp add: reset_status_def)

section \<open>Engines that are being deleted\<close>

interpretation untracked: tracker_run False cx "\<lambda>s. tr_Components (rs_Status s) = []" for cx :: "'w ctx"
  by unfold_locales (simp_all add: log_call_def)

lemma drop_failures_fields [simp]:
  "mce_DeletionTimestamp (drop_failures m) = mce_DeletionTimestamp m"
  "idle (drop_failures m) = idle m"
  by (simp_all add: drop_failures_def idle_def IsPaused_def IsAnnotationTrue_def GetImageRepository_def
      getAnnotationOrDefault_def getAnnotation_def Let_def)

lemma deleted_total:
  assumes "fst (cl_GetMCE (cx_Client cx) name (ks_World s)) = Inr m" "versions_comparable cx m"
    and "mce_DeletionTimestamp m \<noteq> None"
  shows "\<exists>r s'. Reconcile cx name s = Some (r, s')"
proof -
  have "runs False (\<lambda>r s. True) (Reconcile cx name s)"
    by (rule untracked.reconciliation [OF assms(1)])
      (use assms(2,3) in \<open>auto simp: reconcile_body_def intro!: untracked.deletion\<close>)
  then show ?thesis by (auto simp: runs_total stotal_iff)
qed

section \<open>Paused engines\<close>

interpretation waiting: tracker_run False cx
    "\<lambda>s. tr_Components (rs_Status s) = [] \<and> OperatorNamespace (rs_Env s) \<noteq> None" for cx :: "'w ctx"
  by unfold_locales (simp_all add: log_call_def)

interpretation waiting: prepared_run False cx
    "\<lambda>s. tr_Components (rs_Status s) = [] \<and> OperatorNamespace (rs_Env s) \<noteq> None" idle for cx :: "'w ctx"
  by unfold_locales (auto simp: set_env_def OperatorNamespace_def idle_def)

lemma idle_paused: "idle m \<Longrightarrow> IsPaused m"
  by (simp add: idle_def)

lemma idle_total:
  assumes "fst (cl_GetMCE (cx_Client cx) name (ks_World s)) = Inr m" "versions_comparable cx m"
    and "idle m" "OperatorNamespace (rs_Env s) \<noteq> None" "update_keeps_annotations cx"
    and "mce_DeletionTimestamp m = None"
  shows "\<exists>r s'. Reconcile cx name s = Some (r, s')"
proof -
  have finalizer: "idle (add_finalizer m) = idle m" for m
    by (rule idle.same) (simp add: add_finalizer_def)
  have "runs False (\<lambda>r s. True) (Reconcile cx name s)"
  proof (rule waiting.reconciliation [OF assms(1)], goal_cases)
    case (2 upgrade s)
    show ?case
    proof (rule waiting.body [where B = idle], goal_cases)
      case (5 m s)
      then show ?case by (rule spost_mono [OF idle.setDefaults [OF assms(5)]]) simp
    qed (use 2 assms(3,6) finalizer idle.update [OF assms(5)] in \<open>auto dest: idle_paused\<close>)
  qed (use assms in auto)
  then show ?thesis by (auto simp: runs_total stotal_iff)
qed

section \<open>Every engine of a serviceable operator\<close>

text \<open>
  What the operator relies on: its image is complete (\<^term>\<open>sound_library\<close>), the API server validates
  managed clusters, the pod's namespace is set and the image references have a repository.
\<close>

definition serviceable :: "'w ctx \<Rightarrow> strmap \<Rightarrow> bool" where
  "serviceable cx env = (sound_library cx \<and> typed_clusters (cx_Client cx)
    \<and> OperatorNamespace env \<noteq> None \<and> slashed (env_image_overrides env))"

text \<open>Variables that are no image references do not change the image overrides.\<close>

lemma overrides_unaffected:
  assumes "\<not> HasPrefix k prefix" "CHR ''='' \<notin> set k"
  shows "GetOverridesFromEnv (environ (sm_put env k v)) prefix = GetOverridesFromEnv (environ env) prefix"
proof -
  let ?f = "\<lambda>e ov. let (key, value) = parseEnvVarByPrefix e prefix
    in if key \<noteq> '''' \<and> value \<noteq> '''' then sm_put ov key value else ov"
  have skip: "parseEnvVarByPrefix (k @ CHR ''='' # v) prefix = ([], [])" for v
    using parseEnvVar_pair [OF assms(2), of v prefix] assms(1) by simp
  have "fold ?f (environ (sm_put env k v)) ov = fold ?f (environ env) ov" for ov
    by (induction env arbitrary: ov) (auto simp: environ_def skip)
  then show ?thesis by (simp add: GetOverridesFromEnv_def)
qed

lemma serviceable_env:
  "serviceable cx env \<Longrightarrow> k \<in> set operator_variables \<Longrightarrow> serviceable cx (sm_put env k v)"
  by (auto simp: serviceable_def operator_variables_def env_image_overrides_def overrides_unaffected
      Let_def HasPrefix_def OperatorNamespace_def)

interpretation serving: tracker_run p cx "\<lambda>s. serviceable cx (rs_Env s)" for p and cx :: "'w ctx"
  by unfold_locales (simp_all add: serviceable_def)

interpretation serving: deploy_run p cx "\<lambda>s. serviceable cx (rs_Env s)"
    "\<lambda>m. sp_Overrides (mce_Spec m) \<noteq> None" for p and cx :: "'w ctx"
  by unfold_locales (auto simp: set_env_def serviceable_env add_component_def remove_component_def,
      auto simp: serviceable_def)

text \<open>Defaulting leaves an engine with overrides, whatever the user wrote.\<close>

lemma overrides_present: "component_flag m c \<noteq> None \<Longrightarrow> sp_Overrides (mce_Spec m) \<noteq> None"
  by (auto simp: component_flag_def mce_components_def split: option.splits)

lemma defaulted_overrides:
  "spost (\<lambda>mr s. snd mr = ok_result \<longrightarrow> sp_Overrides (mce_Spec (fst mr)) \<noteq> None) (setDefaults cx m s)"
proof -
  have static: "component_flag (snd (static_defaults m)) Discovery \<noteq> None"
    unfolding flag_static_defaults by (auto simp: PreviewComponents_def PreviewToStable_def onComponents_def)
  have console: "component_flag (snd (default_console b m)) Discovery \<noteq> None"
    if "component_flag m Discovery \<noteq> None" for b m
    using that by (auto simp: default_console_def component_flag_Enable component_flag_Disable)
  have applied: "spost (\<lambda>mr s. snd mr = ok_result \<longrightarrow> sp_Overrides (mce_Spec (fst mr)) \<noteq> None) (apply_defaults cx u m s)"
    if "component_flag m Discovery \<noteq> None" for u m s
    using overrides_present [OF that] requeue_kinds_distinct(1)
    by (auto simp: apply_defaults_def api_eqs split: sum.split)
  have "spost (\<lambda>x s. \<forall>u m'. x = Inr (u, m') \<longrightarrow> component_flag m' Discovery \<noteq> None)
      (ocp_defaults cx (snd (static_defaults m)) s)"
    using console [OF static] unfolding ocp_defaults_def Let_def
    by (auto intro!: spost_bind_any split: sum.split option.split) (metis snd_conv option.distinct(1))
  then show ?thesis
    unfolding setDefaults_def
    by (auto simp: split_beta Let_def go_wp simp del: not_None_eq intro!: applied static elim!: spost_mono split: sum.split)
qed

text \<open>The flag \<open>p\<close> stands for engines whose version cannot be compared.\<close>

lemma serviceable_runs:
  assumes "fst (cl_GetMCE (cx_Client cx) name (ks_World s)) = Inr m" "p \<or> versions_comparable cx m"
    and "serviceable cx (rs_Env s)"
  shows "runs p (\<lambda>r s. serviceable cx (rs_Env s)) (Reconcile cx name s)"
proof (rule serving.reconciliation [OF assms(1,2)], goal_cases)
  case (1 upgrade s)
  show ?case
  proof (cases "mce_DeletionTimestamp m = None")
    case True
    then show ?thesis
      by (intro serving.body [where B = "\<lambda>m. True"] serving.deploy defaulted_overrides)
        (use 1 in \<open>auto simp: deployable_def serviceable_def\<close>)
  next
    case False
    then show ?thesis using 1 by (simp add: reconcile_body_def serving.deletion)
  qed
qed (use assms(3) in auto)

lemma serviceable_total:
  assumes "fst (cl_GetMCE (cx_Client cx) name (ks_World s)) = Inr m" "versions_comparable cx m"
    and "serviceable cx (rs_Env s)"
  shows "\<exists>r s'. Reconcile cx name s = Some (r, s') \<and> serviceable cx (rs_Env s')"
  using serviceable_runs [OF assms(1) _ assms(3), of False] assms(2) by (auto simp: runs_total stotal_iff)

lemma serviceable_kept:
  assumes "serviceable cx (rs_Env s)" "Reconcile cx name s = Some (res, s')"
  shows "serviceable cx (rs_Env s')"
proof (cases "fst (cl_GetMCE (cx_Client cx) name (ks_World s))")
  case (Inl e)
  then show ?thesis using assms by (auto simp: Reconcile_def api_eqs split: if_splits)
next
  case (Inr m)
  then show ?thesis using serviceable_runs [OF Inr _ assms(1), of True] assms(2) by simp
qed

lemma unread_total:
  "fst (cl_GetMCE (cx_Client cx) name (ks_World s)) = Inl e \<Longrightarrow> \<exists>r s'. Reconcile cx name s = Some (r, s')"
  by (cases "IsNotFound e") (auto simp: Reconcile_def api_eqs)

lemma reconciled_total:
  assumes "serviceable cx (rs_Env s)"
    and "\<And>m. fst (cl_GetMCE (cx_Client cx) name (ks_World s)) = Inr m \<Longrightarrow> versions_comparable cx m"
  shows "\<exists>r s'. Reconcile cx name s = Some (r, s')"
proof (cases "fst (cl_GetMCE (cx_Client cx) name (ks_World s))")
  case (Inl e)
  then show ?thesis by (rule unread_total)
next
  case (Inr m)
  then show ?thesis using serviceable_total [OF Inr assms(2) [OF Inr] assms(1)] by blast
qed

text \<open>
  C6: A reconciliation always returns: no nil dereference, index out of range or failed type assertion
  ends the operator, neither in the stages nor in the deferred status report, whatever the cluster
  answers.  For every engine this holds when the operator is serviceable: the CRD files of its image can
  be read, the deployments of its charts list objects as containers, the intermediate TLS profile is
  known, its namespace is set, its image references have a slash, and the API server keeps conditions of
  managed clusters well typed.  It then stays serviceable.  Less is needed for a paused engine, and
  nothing for one that is being deleted.  On OpenShift the versions must be comparable: an engine's
  version equal to the operator's major version alone would index out of range.
\<close>

theorem reconcile_returns:
  assumes "\<And>m. fst (cl_GetMCE (cx_Client cx) name (ks_World s)) = Inr m \<Longrightarrow> versions_comparable cx m \<and>
      (mce_DeletionTimestamp m \<noteq> None
       \<or> idle m \<and> OperatorNamespace (rs_Env s) \<noteq> None \<and> update_keeps_annotations cx
       \<or> serviceable cx (rs_Env s))"
  shows "\<exists>r s'. Reconcile cx name s = Some (r, s')
    \<and> (serviceable cx (rs_Env s) \<longrightarrow> serviceable cx (rs_Env s'))"
proof (cases "serviceable cx (rs_Env s)")
  case True
  then show ?thesis using reconciled_total [OF True, of name] serviceable_kept [OF True, of name] assms by blast
next
  case False
  show ?thesis
  proof (cases "fst (cl_GetMCE (cx_Client cx) name (ks_World s))")
    case (Inl e)
    then show ?thesis using False unread_total by blast
  next
    case (Inr m)
    then show ?thesis using False assms [OF Inr] deleted_total [OF Inr] idle_total [OF Inr] by blast
  qed
qed

definition plain_ctx :: "mem ctx" where
  "plain_ctx = sample_ctx\<lparr>cx_DeployOnOCP := False\<rparr>"

lemma plain_fields: "cx_Client plain_ctx = mem_client" "\<not> cx_DeployOnOCP plain_ctx"
  by (simp_all add: plain_ctx_def sample_ctx_def)

definition deleted_mce :: MultiClusterEngine where
  "deleted_mce = sample_mce\<lparr>mce_DeletionTimestamp := Some 90, mce_Finalizers := [backplaneFinalizer]\<rparr>"

abbreviation deleting :: "mem rstate" where
  "deleting \<equiv> sample_rstate (empty_mem\<lparr>mem_MCEs := [deleted_mce]\<rparr>)"

definition paused_mce :: MultiClusterEngine where
  "paused_mce = sample_mce\<lparr>mce_Annotations := [(AnnotationMCEPause, ''true'')]\<rparr>"

abbreviation pausing :: "mem rstate" where
  "pausing \<equiv> (sample_rstate (empty_mem\<lparr>mem_MCEs := [paused_mce]\<rparr>))\<lparr>rs_Env := [(''POD_NAMESPACE'', ''mce'')]\<rparr>"

lemmas sample_engines = sample_ctx_def sample_rstate_def mem_client_def empty_mem_def deleted_mce_def
  paused_mce_def sample_mce_def sample_status_def versions_comparable_def

lemma deleting_engine:
  "fst (cl_GetMCE (cx_Client sample_ctx) ''engine'' (ks_World deleting)) = Inr deleted_mce"
  "versions_comparable sample_ctx deleted_mce" "mce_DeletionTimestamp deleted_mce \<noteq> None"
  by (simp_all add: sample_engines)

lemma pausing_engine:
  "fst (cl_GetMCE (cx_Client sample_ctx) ''engine'' (ks_World pausing)) = Inr paused_mce"
  "versions_comparable sample_ctx paused_mce" "idle paused_mce"
  "OperatorNamespace (rs_Env pausing) \<noteq> None" "update_keeps_annotations sample_ctx"
  "mce_DeletionTimestamp paused_mce = None"
  by (simp_all add: sample_engines idle_def IsPaused_def IsAnnotationTrue_def equal_fold_true_def
      GetImageRepository_def getAnnotationOrDefault_def getAnnotation_def sm_get_def
      OperatorNamespace_def update_keeps_def ToLower_def lower_char_def)

text \<open>The in-memory cluster behind an API server that refuses ill-typed managed clusters.\<close>

definition validating_client :: "mem client" where
  "validating_client = mem_client\<lparr>cl_Get := (\<lambda>g n w.
     case cl_Get mem_client g n w of
       (Inr u, w) \<Rightarrow> (if typed_cluster u then Inr u else Inl not_found, w)
     | r \<Rightarrow> r)\<rparr>"

definition serving_ctx :: "mem ctx" where
  "serving_ctx = sample_ctx\<lparr>cx_Client := validating_client,
     cx_TLSProfiles := (\<lambda>_. Some \<lparr>tp_Ciphers = [], tp_MinTLSVersion = ''VersionTLS12''\<rparr>)\<rparr>"

abbreviation serving_env :: strmap where
  "serving_env \<equiv> [(''POD_NAMESPACE'', ''mce''), (''OPERAND_IMAGE_HIVE'', ''quay.io/hive:1'')]"

lemma serviceable_sample: "serviceable serving_ctx serving_env"
  by (simp add: serviceable_def sound_library_def typed_clusters_def typed_containers_def serving_ctx_def
      validating_client_def mem_client_def sample_ctx_def mk_obj_def OperatorNamespace_def slashed_def
      env_image_overrides_def GetOverridesFromEnv_def environ_def parseEnvVarByPrefix_def split_two_def
      HasPrefix_def TrimPrefix_def split: option.split)

abbreviation serving :: "mem rstate" where
  "serving \<equiv> (sample_rstate (empty_mem\<lparr>mem_MCEs := [sample_mce]\<rparr>))\<lparr>rs_Env := serving_env\<rparr>"

lemma serving_engine:
  "fst (cl_GetMCE (cx_Client serving_ctx) ''engine'' (ks_World serving)) = Inr sample_mce"
  "versions_comparable serving_ctx sample_mce"
  by (simp_all add: serving_ctx_def validating_client_def sample_engines)

theorem reconcile_returns_witness:
  "(\<exists>r s'. Reconcile sample_ctx ''engine'' deleting = Some (r, s'))
    \<and> (\<exists>r s'. Reconcile sample_ctx ''engine'' pausing = Some (r, s'))
    \<and> (\<exists>r s'. Reconcile serving_ctx ''engine'' serving = Some (r, s') \<and> serviceable serving_ctx (rs_Env s'))"
  using reconcile_returns [of sample_ctx "''engine''" deleting] deleting_engine
    reconcile_returns [of sample_ctx "''engine''" pausing] pausing_engine
    reconcile_returns [of serving_ctx "''engine''" serving] serving_engine serviceable_sample
  by auto

end
