(* ===== verification/Lifecycle.thy ===== *)
theory Lifecycle
  imports Trace_Logic Panic_Freedom
begin

text \<open>
  What a reconciliation may write in the phases of an engine's life: while it is paused and while it
  is being deleted.  \<open>removal_reads\<close> is the interface of a property of request sequences that allows
  what the finalization sends, each write after the read that it rests on; \<open>reduction_trace\<close> allows
  any update and deletion and covers the stages before the pause as well.  \<open>frame_trace\<close> also allows
  updates of the engine and covers the frame of \<open>Reconcile\<close>.
\<close>

section \<open>Stages that change nothing\<close>

context trace_closed
begin

lemma pure_list_bind:
  fixes a :: "'b list option"
  shows "(\<And>x. a = Some x \<Longrightarrow> appends t J (f x)) \<Longrightarrow> appends t J (Option.bind a f)"
  by (rule pure_bind)

lemma nested_pair:
  "(\<And>a b. x = (a, b) \<Longrightarrow> appends t J (f a b s)) \<Longrightarrow> appends t J ((case x of (a, b) \<Rightarrow> f a b) s)"
  by (cases x) simp

lemma sequence:
  "ks_Trace s = t \<Longrightarrow> (\<And>s t. ks_Trace s = t \<Longrightarrow> appends t J (a s)) \<Longrightarrow>
    (\<And>s t. ks_Trace s = t \<Longrightarrow> appends t J (k s)) \<Longrightarrow> appends t J (then_stage a k s)"
  unfolding then_stage_def by (intro steps) auto

lemma returns:
  "(\<And>s t. ks_Trace s = t \<Longrightarrow> appends t J (a s)) \<Longrightarrow> ks_Trace s = t \<Longrightarrow> appends t J (return_any a s)"
  "(\<And>s t. ks_Trace s = t \<Longrightarrow> appends t J (a s)) \<Longrightarrow> ks_Trace s = t \<Longrightarrow> appends t J (return_error a s)"
  "(\<And>s t. ks_Trace s = t \<Longrightarrow> appends t J (a s)) \<Longrightarrow> ks_Trace s = t \<Longrightarrow> appends t J (return_stripped a s)"
  unfolding return_any_def return_error_def return_stripped_def
  by (auto intro!: bind ret)

lemmas read_steps = steps nested_pair reads clock condition

lemma cluster_info:
  "ks_Trace s = t \<Longrightarrow> appends t J (getClusterVersion cx s)"
  "ks_Trace s = t \<Longrightarrow> appends t J (getClusterIngressDomain cx s)"
  "ks_Trace s = t \<Longrightarrow> appends t J (getConsoleURL cx s)"
  "ks_Trace s = t \<Longrightarrow> appends t J (CheckConsole cx s)"
  unfolding getClusterVersion_def getClusterIngressDomain_def getConsoleURL_def CheckConsole_def
  by (intro read_steps; simp add: ret split: list.split)+

lemma ocp: "ks_Trace s = t \<Longrightarrow> appends t J (check_ocp_version cx m s)"
  unfolding check_ocp_version_def by (intro read_steps cluster_info) auto

lemma namespace:
  "(\<And>u. ko_GVK u = namespaceGVK \<Longrightarrow> J [CCreate u]) \<Longrightarrow> ks_Trace s = t \<Longrightarrow> appends t J (validateNamespace cx m s)"
  unfolding validateNamespace_def Let_def
  by (intro read_steps creates) (auto dest: controller_reference_target simp: same_target_def mk_obj_def)

lemma secret: "ks_Trace s = t \<Longrightarrow> appends t J (validateImagePullSecret cx m s)"
  unfolding validateImagePullSecret_def Let_def by (intro read_steps) auto

lemma configmap:
  "ks_Trace s = t \<Longrightarrow> appends t J (GetOverridesFromConfigmap cl dec ov ns n b s)"
  unfolding GetOverridesFromConfigmap_def
  by (intro read_steps; simp add: ret split: list.split sum.split prod.split)

lemma overrides:
  "ks_Trace s = t \<Longrightarrow> appends t J (image_overrides_stage cx m s)"
  "ks_Trace s = t \<Longrightarrow> appends t J (template_overrides_stage cx m s)"
  unfolding image_overrides_stage_def template_overrides_stage_def Let_def
  by (intro read_steps pure_list_bind configmap; simp)+

lemma paused: "ks_Trace s = t \<Longrightarrow> appends t J (paused_stage cx m s)"
  unfolding paused_stage_def by (intro read_steps) auto

lemma terminating:
  "ks_Trace s = t \<Longrightarrow> appends t J (terminating_condition cx m l a b s)"
  unfolding terminating_condition_def by (cases "mce_DeletionTimestamp m") (auto intro!: read_steps)

lemma only_reads: "list_all (\<lambda>c. \<not> is_write c) es \<Longrightarrow> J es"
proof (induction es)
  case (Cons c es)
  then show ?case using J_append [of "[c]" es] J_read by simp
qed (rule J_Nil)

lemma status: "ks_Trace s = t \<Longrightarrow> appends t J (ReportStatus cl v mce sm s)"
  using emits_ReportStatus only_reads by (fastforce simp: emits_def appends_def elim!: spost_mono)

lemma upgrade: "ks_Trace s = t \<Longrightarrow> appends t J (check_upgrade cx m s)"
proof -
  assume t: "ks_Trace s = t"
  have "appends t J (setOperatorUpgradeableStatus cx m s)"
    unfolding setOperatorUpgradeableStatus_def Let_def
    by (auto simp: t J_Nil appends_def split_beta split: option.splits)
  then show ?thesis unfolding check_upgrade_def by (intro read_steps) (use t in auto)
qed

lemma external: "ks_Trace s = t \<Longrightarrow> appends t J (checkExternallyManagedComponents cx m s)"
  unfolding checkExternallyManagedComponents_def drop_external_condition_def Let_def
  by (intro read_steps) auto

end

section \<open>Removals\<close>

text \<open>What the finalization may delete after it has read it: the kind and the key it asks for.\<close>

definition removed_target :: "gvk \<Rightarrow> nn \<Rightarrow> bool" where
  "removed_target g n =
    (g = internalEngineComponentGVK
     \<or> g = managedClusterAddOnGVK \<and> snd n = ''hypershift-addon''
     \<or> g = managedClusterGVK
     \<or> g = clusterManagerGVK \<and> n = ('''', ''cluster-manager'')
     \<or> g = namespaceGVK \<and> n = ('''', ''open-cluster-management-global-set''))"

text \<open>The console without the plugin.\<close>

definition without_plugin :: "kobj \<Rightarrow> kobj" where
  "without_plugin x = set_console_plugins (Remove (console_plugins x) ''mce'') x"

text \<open>
  Properties of request sequences that allow the deletion of such a target right after it was read, the
  update of the console right after it was read, and the deletion of the namespace of Maestro.
\<close>

locale removal_reads = trace_closed J
  for J :: "api_call list \<Rightarrow> bool" +
  assumes J_target: "removed_target g n \<Longrightarrow> J [CGet g n (Inr u), CDelete u]"
    and J_plugin: "J [CGet consoleGVK ('''', ''cluster'') (Inr x), CUpdate (without_plugin x)]"
    and J_maestro: "J [CDelete (mk_obj namespaceGVK '''' ''maestro'')]"
begin

lemma after_then:
  assumes "\<not> is_write c" "\<And>s t. ks_Trace s = t \<Longrightarrow> appends t J (g s)" "ks_Trace s = t"
  shows "appends t (\<lambda>es. J (c # es)) (g s)"
  by (rule after_read [OF J_read [OF assms(1)] assms(2) [OF assms(3)]])

lemma refetch: "ks_Trace s = t \<Longrightarrow> appends t J (refetch_iec cx u s)"
  unfolding refetch_iec_def by (intro read_steps) auto

lemma no_internal:
  "ks_Trace s = t \<Longrightarrow> appends t J (ensureNoInternalEngineComponent cx m c s)"
  unfolding ensureNoInternalEngineComponent_def Let_def
  by (rule read_then; simp only: prod.case sum.case)
    (intro after J_target read_steps refetch; simp add: removed_target_def)+

lemma remove_internal:
  "ks_Trace s = t \<Longrightarrow> appends t J (remove_internal cx m cs acc s)"
proof (induction cs arbitrary: acc s t)
  case (Cons c cs)
  show ?case
    unfolding remove_internal.simps
    by (intro read_steps no_internal Cons.IH) (use Cons.prems in auto)
qed (simp add: ret)

lemma finalize_console: "ks_Trace s = t \<Longrightarrow> appends t J (finalize_console cx s)"
proof -
  have plugin: "appends t J (removePluginFromConsoleResource cx s)" if "ks_Trace s = t" for s t
    unfolding removePluginFromConsoleResource_def
    by (intro cond ret that, rule read_then [OF that]; simp only: prod.case sum.case)
      (intro after J_plugin [unfolded without_plugin_def] read_steps; simp)+
  assume "ks_Trace s = t"
  then show ?thesis unfolding finalize_console_def by (intro read_steps cluster_info plugin) auto
qed

lemma finalize_namespaces:
  assumes "ks_Trace s = t"
  shows "appends t J (finalize_hub_namespace cx m s)"
proof -
  have local: "appends t J (finalize_local_namespace cx m s)" if "ks_Trace s = t" for s t
    unfolding finalize_local_namespace_def Let_def by (intro read_steps) (use that in auto)
  have global: "appends t J (finalize_global_set cx m s)" if "ks_Trace s = t" for s t
    unfolding finalize_global_set_def
    by (rule read_then [OF that]; simp only: prod.case sum.case)
      (intro after J_target read_steps local; simp add: removed_target_def)+
  show ?thesis
    unfolding finalize_hub_namespace_def by (intro read_steps terminating global) (use assms in auto)
qed

lemma hypershift_target: "removed_target (ko_GVK (RenderHypershiftAddon m)) (ko_key (RenderHypershiftAddon m))"
  by (simp add: removed_target_def RenderHypershiftAddon_def AddBackplaneConfigLabels_def mk_obj_def)

lemma finalize_resources:
  assumes "ks_Trace s = t"
  shows "appends t J (finalize_hypershift_addon cx m s)"
proof -
  have manager: "appends t J (finalize_cluster_manager cx m s)" if "ks_Trace s = t" for s t
    unfolding finalize_cluster_manager_def
    by (rule read_then [OF that]; simp only: prod.case sum.case)
      (intro after J_target read_steps terminating finalize_namespaces; simp add: removed_target_def)+
  have cluster: "appends t J (finalize_local_cluster cx m s)" if "ks_Trace s = t" for s t
    unfolding finalize_local_cluster_def Let_def
    by (rule read_then [OF that]; simp only: prod.case sum.case)
      (intro after J_target read_steps terminating manager; simp add: removed_target_def)+
  show ?thesis
    unfolding finalize_hypershift_addon_def Let_def
    by (rule read_then [OF assms]; simp only: prod.case sum.case)
      (intro after J_target hypershift_target read_steps terminating cluster; simp)+
qed

lemma finalize: "ks_Trace s = t \<Longrightarrow> appends t J (finalizeBackplaneConfig cx m s)"
  unfolding finalizeBackplaneConfig_def ensureNoAllInternalEngineComponents_def
  by (intro read_steps remove_internal finalize_console finalize_resources) auto

lemma maestro: "ks_Trace s = t \<Longrightarrow> appends t J (deleteMaestroNamespace cx s)"
  unfolding deleteMaestroNamespace_def delete_ignoring_absent_def
  by (intro read_steps deletes J_maestro) auto

end

section \<open>Updates and deletions\<close>

locale reduction_trace = trace_closed J
  for J :: "api_call list \<Rightarrow> bool" +
  assumes J_update: "J [CUpdate u]"
    and J_delete: "J [CDelete u]"
begin

lemmas run_steps = read_steps updates [OF J_update] deletes [OF J_delete]

lemma cleanup: "ks_Trace s = t \<Longrightarrow> appends t J (cleanup_deprecated cx objs s)"
proof (induction objs arbitrary: s t)
  case (Cons obj objs)
  show ?case
    unfolding cleanup_deprecated.simps EnsureDeprecatedResourceCleanup_def
    by (intro run_steps Cons.IH) (use Cons.prems in auto)
qed (simp add: ret)

lemma versioned: "ks_Trace s = t \<Longrightarrow> appends t J (delete_versioned cx m ts s)"
proof (induction ts arbitrary: s t)
  case (Cons template ts)
  show ?case
    unfolding delete_versioned.simps
    by (intro run_steps Cons.IH) (use Cons.prems in auto)
qed (simp add: ret)

lemma templates:
  "ks_Trace s = t \<Longrightarrow> appends t J (CleanupVersionedAddOnTemplates cx m s)"
  unfolding CleanupVersionedAddOnTemplates_def by (intro run_steps versioned) auto

lemma label: "ks_Trace s = t \<Longrightarrow> appends t J (ensureOpenShiftNamespaceLabel cx m s)"
  unfolding ensureOpenShiftNamespaceLabel_def by (intro run_steps) auto

lemma prepare:
  assumes "IsPaused m" "\<And>u. ko_GVK u = namespaceGVK \<Longrightarrow> J [CCreate u]" "ks_Trace s = t"
  shows "appends t J (prepare_stages cx m k s)"
proof -
  have "appends t J (prepare_stages cx m (\<lambda>s. Some (ok_result, s)) s)"
    unfolding prepare_stages_def
    by (intro sequence returns cleanup templates ocp namespace
        label secret overrides paused run_steps assms) auto
  then show ?thesis
    unfolding prepare_stages_def paused_then [OF assms(1), of cx k "\<lambda>s. Some (ok_result, s)"] .
qed

end

sublocale reduction_trace \<subseteq> removal_reads J
proof unfold_locales
  show "J [CGet g n (Inr u), CDelete u]" for g n u
    using J_append [of "[CGet g n (Inr u)]", OF J_read J_delete] by simp
  show "J [CGet consoleGVK ('''', ''cluster'') (Inr x), CUpdate (without_plugin x)]" for x
    using J_append [of "[CGet consoleGVK ('''', ''cluster'') (Inr x)]", OF J_read J_update] by simp
qed (rule J_delete)

section \<open>The frame of a reconciliation\<close>

text \<open>\<open>mine\<close> are the engines whose updates the property allows.\<close>

locale frame_trace = trace_closed J + engine_property key mine
  for J :: "api_call list \<Rightarrow> bool" and key :: "MultiClusterEngine \<Rightarrow> 'k" and mine +
  assumes J_engine: "mine m \<Longrightarrow> J [CUpdateMCE m]" "mine m \<Longrightarrow> J [CStatusUpdateMCE m]"
    and key_frame: "key (m\<lparr>mce_Status := st\<rparr>) = key m" "key (m\<lparr>mce_Finalizers := fs\<rparr>) = key m"
      "key (Disable m c) = key m"
begin

lemma mine_frame:
  "mine (m\<lparr>mce_Status := st\<rparr>) = mine m" "mine (Disable m c) = mine m" "mine (drop_failures m) = mine m"
  "mine (add_finalizer m) = mine m" "mine (remove_finalizer m) = mine m"
  using key_frame by (auto intro!: same simp: drop_failures_def add_finalizer_def remove_finalizer_def)

lemma engine_calls:
  "mine m \<Longrightarrow> ks_Trace s = t \<Longrightarrow> appends t J (api_UpdateMCE cl m s)"
  "mine m \<Longrightarrow> ks_Trace s = t \<Longrightarrow> appends t J (api_StatusUpdateMCE cl m s)"
  using J_engine by (simp_all add: appends_def api_eqs)

lemma report: "mine m \<Longrightarrow> ks_Trace s = t \<Longrightarrow> appends t J (report_status cx m r s)"
  unfolding report_status_def Let_def by (intro read_steps engine_calls status) (auto simp: mine_frame)

lemma apply_defaults:
  "mine m \<Longrightarrow> ks_Trace s = t \<Longrightarrow> appends t J (apply_defaults cx u m s)"
  unfolding apply_defaults_def by (intro read_steps engine_calls) auto

lemma ocp_defaults: "ks_Trace s = t \<Longrightarrow> appends t J (ocp_defaults cx m s)"
  unfolding ocp_defaults_def Let_def
  by (intro read_steps cluster_info) (auto simp: set_env_def split: sum.split)

text \<open>Sequencing with what the first part guarantees of its result.\<close>

lemma bind_post:
  assumes "appends t J a" "spost (\<lambda>r s. R r) a" "\<And>r s. R r \<Longrightarrow> appends (ks_Trace s) J (f (r, s))"
  shows "appends t J (Option.bind a f)"
proof (cases a)
  case (Some rs)
  have "appends t J (Option.bind a (\<lambda>x. if R (fst x) then f x else None))"
    by (rule bind [OF assms(1)]) (use assms(3) panic in auto)
  then show ?thesis using Some assms(2) by (cases rs) simp
qed (simp add: panic)

lemma defaults:
  assumes "mine m" "ks_Trace s = t"
  shows "appends t J (setDefaults cx m s)"
proof -
  have static: "mine (snd (static_defaults m))" using assms(1) by (rule static)
  have found: "spost (\<lambda>x s. \<forall>um. x = Inr um \<longrightarrow> mine (snd um)) (ocp_defaults cx (snd (static_defaults m)) s)"
    using static unfolding ocp_defaults_def Let_def
    by (auto intro!: spost_bind_any split: sum.split option.split) (erule (1) console)
  show ?thesis
    unfolding setDefaults_def split_beta Let_def
    by (intro cond bind_post [OF ocp_defaults [OF assms(2)] found] apply_defaults static assms(2))
      (auto intro!: ret apply_defaults split: sum.split)
qed

lemma finalized:
  "spost (\<lambda>x s. \<forall>m'. x = Inr m' \<longrightarrow> mine m') (if b then api_UpdateMCE (cx_Client cx) (add_finalizer m) s else Some (Inr m, s))"
  if "update_keeps key cx" "mine m"
  using that by (auto simp: api_eqs mine_frame dest: update)

text \<open>The engine that the body leaves behind.\<close>

lemma deletion_engine:
  assumes "update_keeps key cx" "mine m"
  shows "spost (\<lambda>mr s. mine (fst mr)) (reconcile_deletion cx m s)"
proof -
  have "mine m'" if "fst (cl_UpdateMCE (cx_Client cx) (remove_finalizer m) w) = Inr m'" for w m'
    using update [OF assms(1) that] assms(2) by (simp add: mine_frame)
  then show ?thesis
    using assms(2) unfolding reconcile_deletion_def Let_def
    by (auto intro!: spost_bind_any simp: api_eqs mine_frame split: sum.split)
qed

lemma body_engine:
  assumes "update_keeps key cx" "mine m"
  shows "spost (\<lambda>mr s. mine (fst mr)) (reconcile_body cx m upgrade s)"
proof (cases "mce_DeletionTimestamp m")
  case None
  have rest: "spost (\<lambda>mr s. mine (fst mr)) (do {
       ((m, r), s) \<leftarrow> setDefaults cx m s;
       if fst r \<noteq> no_requeue \<or> snd r \<noteq> None then Some ((m, no_requeue, snd r), s)
       else do {
         (r, s) \<leftarrow> prepare_stages cx m (deploy_stages cx m upgrade) s;
         Some ((m, r), s)
       } })" if "mine m" for m s
    unfolding spost_bind
    by (rule spost_mono [OF setDefaults [OF assms(1) that]]) (auto simp: spost_def split: prod.split option.split Option.bind_split)
  show ?thesis
    unfolding reconcile_body_def None
  proof (simp only: not_True_eq_False simp_thms if_False spost_bind, rule spost_mono [OF finalized [OF assms]], goal_cases)
    case (1 x s)
    then show ?case by (cases x) (simp_all only: prod.case sum.case spost_Some fst_conv mine_frame assms(2) rest)
  qed
qed (use deletion_engine [OF assms] in \<open>simp add: reconcile_body_def\<close>)

text \<open>A body is covered when its two ends are: the deletion and the stages after defaulting.\<close>

lemma body:
  assumes "update_keeps key cx" "mine m" "ks_Trace s = t"
    and "mce_DeletionTimestamp m \<noteq> None \<Longrightarrow> appends t J (reconcile_deletion cx m s)"
    and "\<And>m s. mine m \<Longrightarrow> appends (ks_Trace s) J (prepare_stages cx m (deploy_stages cx m upgrade) s)"
  shows "appends t J (reconcile_body cx m upgrade s)"
proof (cases "mce_DeletionTimestamp m")
  case None
  have rest: "appends (ks_Trace s) J (do {
       ((m, r), s) \<leftarrow> setDefaults cx m s;
       if fst r \<noteq> no_requeue \<or> snd r \<noteq> None then Some ((m, no_requeue, snd r), s)
       else do {
         (r, s) \<leftarrow> prepare_stages cx m (deploy_stages cx m upgrade) s;
         Some ((m, r), s)
       } })" if "mine m" for m s
    by (intro bind_post [OF defaults [OF that refl] setDefaults [OF assms(1) that]])
      (auto intro!: read_steps assms(5) split: prod.split)
  let ?first = "if backplaneFinalizer \<notin> set (mce_Finalizers m)
    then api_UpdateMCE (cx_Client cx) (add_finalizer m) s else Some (Inr m, s)"
  have first: "appends t J ?first" by (intro cond engine_calls ret) (use assms(2,3) in \<open>auto simp: mine_frame\<close>)
  show ?thesis
    unfolding reconcile_body_def None
  proof (simp only: not_True_eq_False simp_thms if_False, intro bind_post [OF first finalized [OF assms(1,2)]], goal_cases)
    case (1 x s)
    then show ?case by (cases x) (simp_all only: prod.case sum.case ret rest)
  qed
qed (use assms(4) in \<open>simp add: reconcile_body_def\<close>)

text \<open>The requests of a reconciliation are those of the body for the engine that was read.\<close>

lemma engine:
  assumes "update_keeps key cx" "mine m" "ks_Trace s = t"
    and "\<And>upgrade s. appends (ks_Trace s) J (reconcile_body cx (drop_failures m) upgrade s)"
  shows "appends t J (reconcile_engine cx m s)"
proof -
  have tail: "appends (ks_Trace s) J (Option.bind (reconcile_body cx (drop_failures m) upgrade s)
      (\<lambda>((m, r), s). report_status cx m r s))" for upgrade s
    by (rule bind_post [OF assms(4) body_engine [OF assms(1)]])
      (use assms(2) in \<open>auto simp: mine_frame intro!: report\<close>)
  have tail_at: "ks_Trace s = t \<Longrightarrow> appends t J (Option.bind (reconcile_body cx (drop_failures m) upgrade s)
      (\<lambda>((m, r), s). report_status cx m r s))" for upgrade s t
    using tail by blast
  show ?thesis
    unfolding reconcile_engine_def Let_def
    by (intro tail_at read_steps engine_calls external upgrade)
      (use assms in \<open>auto simp: mine_frame CheckDeprecatedFieldUsage_def reset_status_def\<close>)
qed

lemma reconciliation:
  assumes "update_keeps key cx" "mine m"
    and "\<And>upgrade s. appends (ks_Trace s) J (reconcile_body cx (drop_failures m) upgrade s)"
    and "fst (cl_GetMCE (cx_Client cx) name (ks_World s)) = Inr m"
  shows "appends (ks_Trace s) J (Reconcile cx name s)"
proof -
  let ?s = "log_call (CGetMCE name) (snd (cl_GetMCE (cx_Client cx) name (ks_World s))) s"
  have run: "Reconcile cx name s = reconcile_engine cx m ?s"
    using assms(4) by (simp add: Reconcile_def api_eqs)
  have "appends (ks_Trace s @ [CGetMCE name]) J (reconcile_engine cx m ?s)"
    by (rule engine [OF assms(1,2) _ assms(3)]) simp
  then show ?thesis unfolding run by (rule extend [OF J_read, rotated]) simp
qed

end

locale removal_frame = removal_reads J + frame_trace J key mine
  for J :: "api_call list \<Rightarrow> bool" and key :: "MultiClusterEngine \<Rightarrow> 'k" and mine
begin

lemma deletion: "mine m \<Longrightarrow> ks_Trace s = t \<Longrightarrow> appends t J (reconcile_deletion cx m s)"
  unfolding reconcile_deletion_def Let_def
  by (intro read_steps engine_calls finalize maestro) (auto simp: mine_frame)

lemma deleted:
  assumes "update_keeps key cx" "mine m"
    and "fst (cl_GetMCE (cx_Client cx) name (ks_World s)) = Inr m" "mce_DeletionTimestamp m \<noteq> None"
  shows "appends (ks_Trace s) J (Reconcile cx name s)"
proof (rule reconciliation [OF assms(1,2) _ assms(3)], goal_cases)
  case (1 upgrade s)
  have "mce_DeletionTimestamp (drop_failures m) \<noteq> None" using assms(4) by (simp add: drop_failures_def)
  then show ?case using assms(2) by (simp add: reconcile_body_def deletion mine_frame)
qed

end

section \<open>An engine that is being deleted\<close>

text \<open>A call that is no patch and creates, if anything, a resource of one of the given kinds.\<close>

fun only_creates :: "gvk list \<Rightarrow> api_call \<Rightarrow> bool" where
  "only_creates gs (CCreate u) = (ko_GVK u \<in> set gs)"
| "only_creates gs (CPatch u) = False"
| "only_creates gs _ = True"

lemma only_creates_closed: "reduction_trace (list_all (only_creates gs))"
proof (unfold_locales, goal_cases)
  case (3 c)
  then show ?case by (cases c) simp_all
qed simp_all

interpretation quiet: reduction_trace "list_all (only_creates gs)" for gs
  by (rule only_creates_closed)

text \<open>
  What a request may be after the requests \<open>seen\<close>: no creation and no patch; an update only of the
  console that was read before, with the plugin taken out of it; a deletion only of a target that was read
  before, or of the namespace of Maestro.
\<close>

fun answered_with :: "(gvk \<Rightarrow> nn \<Rightarrow> bool) \<Rightarrow> (kobj \<Rightarrow> bool) \<Rightarrow> api_call \<Rightarrow> bool" where
  "answered_with P Q (CGet g n (Inr x)) = (P g n \<and> Q x)"
| "answered_with P Q _ = False"

fun removal :: "api_call list \<Rightarrow> api_call \<Rightarrow> bool" where
  "removal seen (CCreate u) = False"
| "removal seen (CPatch u) = False"
| "removal seen (CUpdate u) =
    list_ex (answered_with (\<lambda>g n. g = consoleGVK \<and> n = ('''', ''cluster'')) (\<lambda>x. u = without_plugin x)) seen"
| "removal seen (CDelete u) =
    (u = mk_obj namespaceGVK '''' ''maestro'' \<or> list_ex (answered_with removed_target (\<lambda>x. u = x)) seen)"
| "removal seen _ = True"

fun only_removals :: "api_call list \<Rightarrow> api_call list \<Rightarrow> bool" where
  "only_removals seen [] = True"
| "only_removals seen (c # es) = (removal seen c \<and> only_removals (c # seen) es)"

lemma removal_mono: "removal seen c \<Longrightarrow> set seen \<subseteq> set seen' \<Longrightarrow> removal seen' c"
  by (cases c) (auto simp: list_ex_iff)

lemma removals_append:
  "only_removals seen es \<Longrightarrow> only_removals seen' es' \<Longrightarrow> set seen' \<subseteq> set seen \<union> set es \<Longrightarrow> only_removals seen (es @ es')"
proof (induction es arbitrary: seen)
  case Nil
  have "only_removals seen es'" if "only_removals seen' es'" "set seen' \<subseteq> set seen" for seen seen'
    using that
  proof (induction es' arbitrary: seen seen')
    case (Cons c es')
    have "only_removals (c # seen) es'" by (rule Cons.IH [of "c # seen'"]) (use Cons.prems in auto)
    with Cons.prems show ?case by (auto intro: removal_mono)
  qed simp
  with Nil show ?case by simp
qed auto

interpretation removing: removal_frame "only_removals []" "\<lambda>_. ()" "\<lambda>_. True"
proof (unfold_locales, goal_cases)
  case (2 es es')
  then show ?case by (rule removals_append) simp
next
  case (3 c)
  then show ?case by (cases c) simp_all
qed auto

text \<open>
  C3: Reconciling an engine that is being deleted only removes: whatever the cluster answers, no
  resource is created and none is patched.  The only object that is updated besides the engine is the
  console \<open>cluster\<close> of OpenShift: the update sends back the object that was read before with nothing
  changed but the plugin \<open>mce\<close> taken out of its list.  Every deleted object was read before in this
  reconciliation (an internal component, the hypershift add-on, a managed cluster, the cluster manager or
  the namespace of the global set) or is the namespace of Maestro.
\<close>

theorem deleted_engine_removes:
  assumes "fst (cl_GetMCE (cx_Client cx) name (ks_World s)) = Inr m" "mce_DeletionTimestamp m \<noteq> None"
    and "Reconcile cx name s = Some (r, s')"
  shows "\<exists>es. ks_Trace s' = ks_Trace s @ es \<and> only_removals [] es"
  using removing.deleted [OF _ _ assms(1,2)] assms(3) by (simp add: appends_def update_keeps_def)

theorem deleted_engine_removes_witness:
  "\<exists>r s'. Reconcile sample_ctx ''engine'' deleting = Some (r, s') \<and> only_removals [] (ks_Trace s')"
proof -
  obtain r s' where run: "Reconcile sample_ctx ''engine'' deleting = Some (r, s')"
    using deleted_total [OF deleting_engine] by blast
  show ?thesis
    using deleted_engine_removes [OF deleting_engine(1,3) run] run by (auto simp: sample_rstate_def)
qed

section \<open>A paused engine\<close>

interpretation resting: removal_frame "list_all (only_creates [namespaceGVK])" mce_Annotations IsPaused
  by (intro removal_frame.intro frame_trace.intro frame_trace_axioms.intro quiet.removal_reads_axioms
      quiet.trace_closed_axioms paused.engine_property_axioms) auto

lemma resting_body:
  assumes "update_keeps_annotations cx" "IsPaused m"
  shows "appends (ks_Trace s) (list_all (only_creates [namespaceGVK])) (reconcile_body cx m upgrade s)"
  by (rule resting.body [OF assms refl resting.deletion [OF assms(2) refl]]) (auto intro!: quiet.prepare)

lemma prepare_paused:
  "IsPaused m \<Longrightarrow> prepare_stages cx m k s = prepare_stages cx m k' s"
  unfolding prepare_stages_def using paused_then [of m cx k k'] by simp

text \<open>
  C5: A paused engine is not deployed: its reconciliation patches nothing and creates nothing but a
  namespace, and the part after the pause (CRDs, charts, components, network policies) has no effect,
  since the stages before it give the same outcome with that part replaced by a panic.  Holds for
  every API server whose answer to an update of the engine has the annotations of the update.
\<close>

theorem paused_engine_idle:
  assumes "update_keeps_annotations cx"
    and "fst (cl_GetMCE (cx_Client cx) name (ks_World s)) = Inr m" "IsPaused m"
    and "Reconcile cx name s = Some (r, s')"
  shows "(\<exists>es. ks_Trace s' = ks_Trace s @ es \<and> list_all (only_creates [namespaceGVK]) es)
    \<and> prepare_stages cx m (deploy_stages cx m upgrade) s = prepare_stages cx m (\<lambda>_. None) s"
proof
  from resting.reconciliation [OF assms(1,3) resting_body [OF assms(1)] assms(2)] assms(3)
    resting.mine_frame(3) [of m]
  show "\<exists>es. ks_Trace s' = ks_Trace s @ es \<and> list_all (only_creates [namespaceGVK]) es"
    using assms(4) by (simp add: appends_def)
qed (rule prepare_paused [OF assms(3)])

theorem paused_engine_idle_witness:
  "\<exists>r s'. Reconcile sample_ctx ''engine'' pausing = Some (r, s')
    \<and> list_all (only_creates [namespaceGVK]) (ks_Trace s')
    \<and> prepare_stages sample_ctx paused_mce (deploy_stages sample_ctx paused_mce False) pausing
      = prepare_stages sample_ctx paused_mce (\<lambda>_. None) pausing"
proof -
  obtain r s' where run: "Reconcile sample_ctx ''engine'' pausing = Some (r, s')"
    using idle_total [OF pausing_engine] by blast
  have "IsPaused paused_mce" using pausing_engine(3) by (simp add: idle_def)
  from paused_engine_idle [OF pausing_engine(5,1) this run] run
  show ?thesis by (auto simp: sample_rstate_def)
qed

section \<open>When the operator stops\<close>

text \<open>
  The operator stops looking at an engine when a reconciliation ends without error and without a
  request to be called again.
\<close>

definition settled :: "'w ctx \<Rightarrow> 'w rstate \<Rightarrow> bool" where
  "settled cx s = (\<exists>m w m'. ks_Trace s \<noteq> [] \<and> last (ks_Trace s) = CStatusUpdateMCE m \<and>
    cl_StatusUpdateMCE (cx_Client cx) m w = (Inr m', ks_World s) \<and>
    (ms_Phase (mce_Status m') = PhaseAvailable \<or> IsPaused m'))"

text \<open>The results after which the controller calls \<open>Reconcile\<close> again for the same engine.\<close>

definition calls_again :: "reconcile_result \<Rightarrow> bool" where
  "calls_again r = (snd r \<noteq> None \<or> 0 < RequeueAfter (fst r) \<or> Requeue (fst r))"

lemma calls_again_simps [simp]:
  "calls_again (x, Some e)" "calls_again (requeue_now, err)" "calls_again (requeue_in d, err) \<longleftrightarrow> 0 < d \<or> err \<noteq> None"
  "\<not> calls_again ok_result"
  by (auto simp: calls_again_def requeue_now_def requeue_in_def no_requeue_def)

lemma settled_update:
  assumes "fst (cl_StatusUpdateMCE (cx_Client cx) m w) = Inr m'" "ms_Phase (mce_Status m') = PhaseAvailable \<or> IsPaused m'"
  shows "settled cx (log_call (CStatusUpdateMCE m) (snd (cl_StatusUpdateMCE (cx_Client cx) m w)) s)"
  unfolding settled_def using assms by (intro exI [of _ m] exI [of _ w] exI [of _ m']) (simp add: prod_eq_iff)

lemma report_status_settles:
  "spost (\<lambda>r s'. calls_again r \<or> settled cx s') (report_status cx m r s)"
  unfolding report_status_def Let_def
  by (intro spost_bind_any)
    (auto simp: api_eqs settled_update split: sum.split)

lemma reconcile_engine_settles:
  "spost (\<lambda>r s'. calls_again r \<or> settled cx s') (reconcile_engine cx m s)"
  unfolding reconcile_engine_def Let_def
  by (auto intro!: spost_bind_any report_status_settles split: sum.split)

lemma Reconcile_ends:
  assumes "Reconcile cx name s = Some (r, s')" "\<not> calls_again r"
  shows "(\<exists>e. fst (cl_GetMCE (cx_Client cx) name (ks_World s)) = Inl e \<and> IsNotFound e) \<or> settled cx s'"
proof (cases "fst (cl_GetMCE (cx_Client cx) name (ks_World s))")
  case (Inl e)
  then show ?thesis using assms by (auto simp: Reconcile_def api_eqs split: if_splits)
next
  case (Inr m)
  then show ?thesis
    using assms reconcile_engine_settles [of cx m "log_call (CGetMCE name) (snd (cl_GetMCE (cx_Client cx) name (ks_World s))) s"]
    by (simp add: Reconcile_def api_eqs)
qed

text \<open>
  C9: The operator does not give up on an engine.  A reconciliation that ends without an error and
  without asking to be called again found no engine, or its last request stored a status and the API
  server answered with an engine that is \<open>Available\<close> or paused.
\<close>

theorem reconcile_settles:
  assumes "Reconcile cx name s = Some (r, s')" "\<not> calls_again r"
  shows "(\<exists>e. fst (cl_GetMCE (cx_Client cx) name (ks_World s)) = Inl e \<and> IsNotFound e) \<or> settled cx s'"
  by (rule Reconcile_ends [OF assms])

lemma mem_engine_calls:
  "api_UpdateMCE mem_client m s = Some (Inr m, log_call (CUpdateMCE m) (snd (cl_UpdateMCE mem_client m (ks_World s))) s)"
  "api_StatusUpdateMCE mem_client m s
    = Some (Inr m, log_call (CStatusUpdateMCE m) (snd (cl_StatusUpdateMCE mem_client m (ks_World s))) s)"
  "cl_Now mem_client w = (mem_Clock w, w)"
  by (simp_all add: api_eqs) (simp_all add: mem_client_def)

lemma pausing_fields:
  "\<not> Enabled (drop_failures paused_mce) MaestroPreview"
  "mce_DeletionTimestamp (drop_failures paused_mce) = None" "mce_Finalizers (drop_failures paused_mce) = []"
  "externally_managed plain_ctx (drop_failures paused_mce) = None"
  "fst (static_defaults (add_finalizer (drop_failures paused_mce)))"
  by (simp_all add: paused_mce_def drop_failures_def sample_mce_def sample_spec_def Enabled_def
      externally_managed_def static_defaults_def default_spec_def add_finalizer_def split_beta Let_def)

lemma pausing_report:
  assumes "tr_Components (rs_Status s) = []" "IsPaused m"
  shows "\<exists>s'. report_status plain_ctx m ok_result s = Some (ok_result, s')"
proof -
  have "IsPaused (m\<lparr>mce_Status := st\<rparr>)" for st
    using assms(2) paused.same [of "m\<lparr>mce_Status := st\<rparr>" m] by simp
  then show ?thesis
    using assms(1)
    by (simp add: report_status_def ReportStatus_def NewCondition_def api_Now_def plain_fields
        mem_engine_calls split_beta Let_def)
qed

lemma pausing_body:
  assumes "tr_Components (rs_Status s) = []"
  shows "\<exists>m s'. reconcile_body plain_ctx (drop_failures paused_mce) u s = Some ((m, ok_result), s')
    \<and> IsPaused m \<and> tr_Components (rs_Status s') = []"
proof -
  let ?m = "add_finalizer (drop_failures paused_mce)"
  have "IsPaused ?m"
    using pausing_engine(3) paused.same [of ?m paused_mce]
    by (simp add: idle_def add_finalizer_def drop_failures_def)
  then show ?thesis
    using assms pausing_fields(5)
    by (simp add: reconcile_body_def pausing_engine(6) pausing_fields(3) plain_fields mem_engine_calls setDefaults_def
        split_beta apply_defaults_def paused.static log_call_def requeue_kinds_distinct(1) [symmetric])
qed

lemma pausing_stops: "\<exists>s'. Reconcile plain_ctx ''engine'' pausing = Some (ok_result, s')"
proof -
  obtain s0 where s0: "Reconcile plain_ctx ''engine'' pausing = reconcile_engine plain_ctx paused_mce s0"
    using pausing_engine(1) by (simp add: Reconcile_def api_eqs plain_fields sample_ctx_def)
  obtain s1 where s1: "reconcile_engine plain_ctx paused_mce s0 = Option.bind
      (reconcile_body plain_ctx (drop_failures paused_mce) False s1) (\<lambda>((m, r), s). report_status plain_ctx m r s)"
    and "tr_Components (rs_Status s1) = []"
    by (simp add: reconcile_engine_def pausing_fields checkExternallyManagedComponents_def
        drop_external_condition_def new_condition_def NewCondition_def api_Now_def add_condition_def
        AddCondition_def check_upgrade_def plain_fields split_beta Let_def)
  with pausing_body [of s1 False] pausing_report show ?thesis unfolding s0 s1 by fastforce
qed

theorem reconcile_settles_witness:
  "\<exists>s'. Reconcile plain_ctx ''engine'' pausing = Some (ok_result, s') \<and> settled plain_ctx s'"
proof -
  obtain s' where run: "Reconcile plain_ctx ''engine'' pausing = Some (ok_result, s')"
    using pausing_stops by blast
  show ?thesis
    using reconcile_settles [OF run] run pausing_engine(1) by (simp add: plain_fields sample_ctx_def)
qed

end
