(* ===== verification/Uninstall.thy ===== *)
theory Uninstall
  imports Lifecycle
begin

text \<open>
  When the finalizer of an engine may go.  \<open>confirms\<close> is the partial-correctness judgement of the
  steps of \<open>finalizeBackplaneConfig\<close>: a step that succeeds has read each of its resources as absent.
  Composed over the steps it gives that the update which removes the finalizer comes last.
\<close>

section \<open>Confirmed removals\<close>

text \<open>Everything that has to be gone before the finalizer may be removed.\<close>

definition uninstall_targets :: "MultiClusterEngine \<Rightarrow> (gvk \<times> nn) list" where
  "uninstall_targets m =
    map (\<lambda>c. (internalEngineComponentGVK, target_nn m c)) internal_components @
    [(ko_GVK (RenderHypershiftAddon m), ko_key (RenderHypershiftAddon m)),
     (managedClusterGVK, ('''', sp_LocalClusterName (mce_Spec m))),
     (clusterManagerGVK, ('''', ''cluster-manager'')),
     (namespaceGVK, ('''', ''open-cluster-management-hub'')),
     (namespaceGVK, ('''', sp_LocalClusterName (mce_Spec m)))]"

text \<open>A read of the resource was answered with not-found, or its kind is unknown to the server.\<close>

definition absent :: "api_call list \<Rightarrow> gvk \<times> nn \<Rightarrow> bool" where
  "absent es k = (\<exists>e. CGet (fst k) (snd k) (Inl e) \<in> set es \<and> (IsNotFound e \<or> IsNoMatchError e))"

lemma absent_append: "absent (es @ es') k = (absent es k \<or> absent es' k)"
  by (auto simp: absent_def)

lemma absent_Cons: "absent (c # es) k = (absent [c] k \<or> absent es k)"
  by (auto simp: absent_def)

text \<open>\<open>confirms t K a\<close>: when \<open>a\<close> succeeds, each resource of \<open>K\<close> was read as absent.\<close>

definition confirms ::
  "api_call list \<Rightarrow> (gvk \<times> nn) list \<Rightarrow> (reconcile_result \<times> ('w, 'z) kstate_scheme) option \<Rightarrow> bool" where
  "confirms t K a =
    spost (\<lambda>r s. \<exists>es. ks_Trace s = t @ es \<and> (r = ok_result \<longrightarrow> list_all (absent es) K)) a"

text \<open>An operation that does not succeed, whatever requests it sends.\<close>

definition stuck :: "api_call list \<Rightarrow> (reconcile_result \<times> ('w, 'z) kstate_scheme) option \<Rightarrow> bool" where
  "stuck t a = spost (\<lambda>r s. r \<noteq> ok_result \<and> (\<exists>es. ks_Trace s = t @ es)) a"

lemma stuck_ret: "r \<noteq> ok_result \<Longrightarrow> ks_Trace s = t \<Longrightarrow> stuck t (Some (r, s))"
  by (simp add: stuck_def)

lemma stuck_confirms: "stuck t a \<Longrightarrow> confirms t K a"
  unfolding stuck_def confirms_def by (erule spost_mono) blast

lemma confirms_error: "r \<noteq> ok_result \<Longrightarrow> ks_Trace s = t \<Longrightarrow> confirms t K (Some (r, s))"
  by (simp add: confirms_def)

lemma confirms_more:
  assumes "confirms (t @ es0) K a"
  shows "confirms t K a"
  using assms unfolding confirms_def
proof (rule spost_mono)
  fix r s assume "\<exists>es. ks_Trace s = (t @ es0) @ es \<and> (r = ok_result \<longrightarrow> list_all (absent es) K)"
  then obtain es where "ks_Trace s = t @ (es0 @ es)" "r = ok_result \<longrightarrow> list_all (absent es) K" by auto
  then show "\<exists>es. ks_Trace s = t @ es \<and> (r = ok_result \<longrightarrow> list_all (absent es) K)"
    by (intro exI [of _ "es0 @ es"]) (simp add: list_all_iff absent_append)
qed

lemma confirms_bind:
  assumes "appends t Q a" "\<And>r s. confirms (ks_Trace s) K (f (r, s))"
  shows "confirms t K (Option.bind a f)"
proof (cases a)
  case (Some rs)
  then obtain r s es where "a = Some (r, s)" "ks_Trace s = t @ es"
    using assms(1) by (cases rs) (auto simp: appends_def)
  then show ?thesis using confirms_more [of t es] assms(2) [of s r] by simp
qed (simp add: confirms_def)

lemma confirms_absent:
  assumes "confirms (t @ [CGet g n (Inl e)]) K a" "IsNotFound e \<or> IsNoMatchError e"
  shows "confirms t ((g, n) # K) a"
  using assms(1) unfolding confirms_def
proof (rule spost_mono)
  let ?c = "CGet g n (Inl e)"
  have here: "absent (?c # es) (g, n)" for es using assms(2) by (auto simp: absent_def)
  fix r s assume "\<exists>es. ks_Trace s = (t @ [?c]) @ es \<and> (r = ok_result \<longrightarrow> list_all (absent es) K)"
  then obtain es where "ks_Trace s = t @ (?c # es)" "r = ok_result \<longrightarrow> list_all (absent es) K" by auto
  then show "\<exists>es. ks_Trace s = t @ es \<and> (r = ok_result \<longrightarrow> list_all (absent es) ((g, n) # K))"
    using here by (intro exI [of _ "?c # es"]) (auto simp: list_all_iff absent_Cons [of ?c es])
qed

text \<open>A read whose answer decides: an absent resource is confirmed.\<close>

lemma confirms_get:
  assumes "ks_Trace s = t"
    and "\<And>x s'. fst (cl_Get cl g n (ks_World s)) = Inr x \<Longrightarrow> confirms (ks_Trace s') ((g, n) # K) (f (Inr x, s'))"
    and "\<And>e s'. \<not> (IsNotFound e \<or> IsNoMatchError e) \<Longrightarrow> confirms (ks_Trace s') ((g, n) # K) (f (Inl e, s'))"
    and "\<And>e s'. IsNotFound e \<or> IsNoMatchError e \<Longrightarrow> confirms (ks_Trace s') K (f (Inl e, s'))"
  shows "confirms t ((g, n) # K) (Option.bind (api_Get cl g n s) f)"
proof -
  let ?r = "fst (cl_Get cl g n (ks_World s))"
  let ?s = "log_call (CGet g n ?r) (snd (cl_Get cl g n (ks_World s))) s"
  have run: "Option.bind (api_Get cl g n s) f = f (?r, ?s)" by (simp add: api_eqs)
  have trace: "ks_Trace ?s = t @ [CGet g n ?r]" using assms(1) by simp
  show ?thesis
  proof (cases ?r)
    case (Inl e)
    note trace = trace [unfolded Inl]
    show ?thesis
    proof (cases "IsNotFound e \<or> IsNoMatchError e")
      case True
      show ?thesis
        unfolding run Inl
        by (rule confirms_absent [OF _ True]) (use assms(4) [OF True] trace in metis)
    next
      case False
      show ?thesis
        unfolding run Inl
        by (rule confirms_more [of _ "[CGet g n (Inl e)]"]) (use assms(3) [OF False] trace in metis)
    qed
  next
    case (Inr x)
    show ?thesis
      unfolding run Inr
      by (rule confirms_more [of _ "[CGet g n (Inr x)]"])
        (use assms(2) [OF Inr] trace [unfolded Inr] in metis)
  qed
qed

text \<open>A step of the finalization: present is an error, absent continues.\<close>

lemma confirms_step:
  assumes "ks_Trace s = t" "\<And>x s'. stuck (ks_Trace s') (f (Inr x, s'))"
    and "\<And>e s'. \<not> (IsNotFound e \<or> IsNoMatchError e) \<Longrightarrow> stuck (ks_Trace s') (f (Inl e, s'))"
    and "\<And>e s'. IsNotFound e \<or> IsNoMatchError e \<Longrightarrow> confirms (ks_Trace s') K (f (Inl e, s'))"
  shows "confirms t ((g, n) # K) (Option.bind (api_Get cl g n s) f)"
  by (rule confirms_get [OF assms(1)]) (auto intro: stuck_confirms assms(2-))

lemma stuck_delete:
  assumes "\<And>s'. stuck (ks_Trace s') (g s')" "ks_Trace s = t"
  shows "stuck t (Option.bind (api_Delete cl u s) (\<lambda>(e, s). if e \<noteq> None then Some ((no_requeue, e), s) else g s))"
  using assms(1) [of "log_call (CDelete u) (snd (cl_Delete cl u (ks_World s))) s"] assms(2)
  by (auto simp: stuck_def api_eqs elim!: spost_mono)

lemma stuck_after:
  assumes "appends t (list_all (only_creates [])) a" "r \<noteq> ok_result"
  shows "stuck t (Option.bind a (\<lambda>(u, s). Some (r, s)))"
  using assms unfolding appends_def stuck_def spost_bind by (auto elim!: spost_mono)

lemma confirms_local_namespace:
  "ks_Trace s = t \<Longrightarrow> confirms t [(namespaceGVK, ('''', sp_LocalClusterName (mce_Spec m)))]
    (finalize_local_namespace cx m s)"
  unfolding finalize_local_namespace_def Let_def
proof (rule confirms_step, goal_cases)
  case (2 x s')
  show ?case
    by (simp only: prod.case sum.case) (intro stuck_after quiet.run_steps, auto)
qed (auto simp: confirms_def stuck_def)

lemma confirms_global_set:
  "ks_Trace s = t \<Longrightarrow> confirms t [(namespaceGVK, ('''', sp_LocalClusterName (mce_Spec m)))]
    (finalize_global_set cx m s)"
  unfolding finalize_global_set_def
  by (auto intro!: confirms_bind [OF quiet.reads(1)] confirms_bind [OF quiet.deletes]
      confirms_local_namespace confirms_error split: sum.split)

lemmas finalize_rules = stuck_ret stuck_delete stuck_after quiet.terminating

lemma confirms_hub_namespace:
  "ks_Trace s = t \<Longrightarrow> confirms t [(namespaceGVK, ('''', ''open-cluster-management-hub'')),
      (namespaceGVK, ('''', sp_LocalClusterName (mce_Spec m)))]
    (finalize_hub_namespace cx m s)"
  unfolding finalize_hub_namespace_def Let_def
  by (rule confirms_step)
    (auto intro!: finalize_rules confirms_error confirms_global_set split: if_splits)

lemma confirms_cluster_manager:
  "ks_Trace s = t \<Longrightarrow> confirms t [(clusterManagerGVK, ('''', ''cluster-manager'')),
      (namespaceGVK, ('''', ''open-cluster-management-hub'')),
      (namespaceGVK, ('''', sp_LocalClusterName (mce_Spec m)))]
    (finalize_cluster_manager cx m s)"
  unfolding finalize_cluster_manager_def Let_def
  by (rule confirms_step)
    (auto simp del: not_None_eq intro!: finalize_rules confirms_error confirms_hub_namespace split: if_splits)

lemma confirms_local_cluster:
  "ks_Trace s = t \<Longrightarrow> confirms t [(managedClusterGVK, ('''', sp_LocalClusterName (mce_Spec m))),
      (clusterManagerGVK, ('''', ''cluster-manager'')),
      (namespaceGVK, ('''', ''open-cluster-management-hub'')),
      (namespaceGVK, ('''', sp_LocalClusterName (mce_Spec m)))]
    (finalize_local_cluster cx m s)"
  unfolding finalize_local_cluster_def Let_def
  by (rule confirms_step)
    (auto simp del: not_None_eq intro!: finalize_rules confirms_error confirms_cluster_manager split: if_splits)

lemma confirms_addon:
  "ks_Trace s = t \<Longrightarrow> confirms t [(ko_GVK (RenderHypershiftAddon m), ko_key (RenderHypershiftAddon m)),
      (managedClusterGVK, ('''', sp_LocalClusterName (mce_Spec m))),
      (clusterManagerGVK, ('''', ''cluster-manager'')),
      (namespaceGVK, ('''', ''open-cluster-management-hub'')),
      (namespaceGVK, ('''', sp_LocalClusterName (mce_Spec m)))]
    (finalize_hypershift_addon cx m s)"
  unfolding finalize_hypershift_addon_def Let_def
  by (rule confirms_step)
    (auto simp del: not_None_eq intro!: finalize_rules confirms_error confirms_local_cluster split: if_splits)

text \<open>The API server answers a read with the object of the requested name.\<close>

definition get_answers_key :: "'w ctx \<Rightarrow> bool" where
  "get_answers_key cx =
    (\<forall>g n w u. fst (cl_Get (cx_Client cx) g n w) = Inr u \<longrightarrow> ko_key u = n)"

lemma confirms_refetch:
  "ks_Trace s = t \<Longrightarrow> confirms t [(internalEngineComponentGVK, ko_key u)] (refetch_iec cx u s)"
  unfolding refetch_iec_def
  by (rule confirms_step) (auto simp: requeue_in_def no_requeue_def confirms_def intro!: stuck_ret)

lemma confirms_no_internal:
  assumes "get_answers_key cx" "ks_Trace s = t"
  shows "confirms t [(internalEngineComponentGVK, target_nn m c)]
    (ensureNoInternalEngineComponent cx m c s)"
  unfolding ensureNoInternalEngineComponent_def Let_def
proof (rule confirms_get [OF assms(2)], goal_cases)
  case (1 x s')
  then have key: "ko_key x = target_nn m c" using assms(1) unfolding get_answers_key_def by blast
  have refetch: "confirms t [(internalEngineComponentGVK, target_nn m c)] (refetch_iec cx x s)"
    if "ks_Trace s = t" for s t
    using confirms_refetch [OF that, of x cx] key by simp
  show ?case
    by (auto simp: requeue_in_def no_requeue_def intro!: confirms_error confirms_bind [OF quiet.deletes]
        refetch split: option.split)
qed (auto simp: confirms_def)


section \<open>The finalizer\<close>

lemma note_result_ok: "note_result c r acc = ([], False) \<longleftrightarrow> acc = ([], False) \<and> r = ok_result"
  by (cases acc; cases r) (auto simp: note_result_def split: option.split)

lemma toggle_result_ok: "toggle_result acc = ok_result \<longleftrightarrow> acc = ([], False)"
  by (cases acc) (auto simp: toggle_result_def combined_error_def requeue_in_def no_requeue_def)

lemma confirms_remove_internal:
  assumes "get_answers_key cx" "ks_Trace s = t"
  shows "spost (\<lambda>acc' s'. \<exists>es. ks_Trace s' = t @ es \<and> (acc' = ([], False) \<longrightarrow> acc = ([], False) \<and>
      list_all (absent es) (map (\<lambda>c. (internalEngineComponentGVK, target_nn m c)) cs)))
    (remove_internal cx m cs acc s)"
  using assms(2)
proof (induction cs arbitrary: acc s t)
  case (Cons c cs)
  show ?case
    unfolding remove_internal.simps
  proof (rule spost_bindI [OF confirms_no_internal [OF assms(1) Cons.prems, of m c, unfolded confirms_def]],
      simp only: prod.case, elim exE conjE, goal_cases)
    case (1 r s1 es1)
    from Cons.IH [OF refl, of s1 "note_result c r acc"] 1 show ?case
      by (elim spost_mono) (fastforce simp: note_result_ok list_all_iff absent_append)
  qed
qed simp

lemma confirms_internals:
  assumes "get_answers_key cx" "ks_Trace s = t"
  shows "confirms t (map (\<lambda>c. (internalEngineComponentGVK, target_nn m c)) internal_components)
    (ensureNoAllInternalEngineComponents cx m s)"
  unfolding ensureNoAllInternalEngineComponents_def confirms_def spost_bind
  by (rule spost_mono [OF confirms_remove_internal [OF assms]]) (auto simp: toggle_result_ok)

lemma confirms_seq:
  assumes "confirms t K a"
    and "\<And>r s. r \<noteq> ok_result \<Longrightarrow> stuck (ks_Trace s) (f (r, s))"
    and "\<And>s. confirms (ks_Trace s) K' (f (ok_result, s))"
  shows "confirms t (K @ K') (Option.bind a f)"
  unfolding confirms_def
proof (rule spost_bindI [OF assms(1) [unfolded confirms_def]], elim exE conjE, goal_cases)
  case (1 r s es)
  have "spost (\<lambda>r' s'. \<exists>es'. ks_Trace s' = (t @ es) @ es' \<and> (r' = ok_result \<longrightarrow> r = ok_result \<and> list_all (absent es') K'))
      (f (r, s))"
    using assms(2) [of r s] assms(3) [of s] 1(1)
    by (cases "r = ok_result") (auto simp: confirms_def stuck_def elim!: spost_mono)
  then show ?case
    using 1(2) by (elim spost_mono) (fastforce simp: list_all_iff absent_append)
qed

lemma confirms_finalize:
  assumes "get_answers_key cx" "ks_Trace s = t"
  shows "confirms t (uninstall_targets m) (finalizeBackplaneConfig cx m s)"
  unfolding finalizeBackplaneConfig_def uninstall_targets_def
  by (rule confirms_seq [OF confirms_internals [OF assms]])
    (auto intro!: stuck_ret confirms_bind [OF quiet.finalize_console] confirms_error confirms_addon)

text \<open>Requests that leave the engine alone.\<close>

fun engine_update :: "api_call \<Rightarrow> bool" where
  "engine_update (CUpdateMCE m) = True"
| "engine_update _ = False"

interpretation spared: reduction_trace "list_all (\<lambda>c. \<not> engine_update c)"
proof (unfold_locales, goal_cases)
  case (3 c)
  then show ?case by (cases c) simp_all
qed simp_all

text \<open>
  An update of the engine leaves its finalizers \<open>fs\<close> as they are, or it drops the one of the operator
  after everything in \<open>K\<close> was read as absent.
\<close>

fun finalizers_kept :: "string list \<Rightarrow> api_call \<Rightarrow> bool" where
  "finalizers_kept fs (CUpdateMCE u) = (mce_Finalizers u = fs)"
| "finalizers_kept fs _ = True"

definition finalizer_last :: "string list \<Rightarrow> (gvk \<times> nn) list \<Rightarrow> api_call list \<Rightarrow> bool" where
  "finalizer_last fs K es = (\<forall>before c after. es = before @ c # after \<longrightarrow>
    finalizers_kept fs c \<or>
    list_all (absent before) K \<and> finalizers_kept (filter (\<lambda>f. f \<noteq> backplaneFinalizer) fs) c)"

lemma finalizer_last_none: "list_all (finalizers_kept fs) es \<Longrightarrow> finalizer_last fs K es"
  by (auto simp: finalizer_last_def)

lemma spared_kept: "list_all (\<lambda>c. \<not> engine_update c) es \<Longrightarrow> list_all (finalizers_kept fs) es"
proof (erule list.pred_mono_strong)
  fix c show "\<not> engine_update c \<Longrightarrow> finalizers_kept fs c" by (cases c) simp_all
qed

lemma finalizer_last_append:
  assumes "finalizer_last fs K es" "finalizer_last fs K es'"
  shows "finalizer_last fs K (es @ es')"
  unfolding finalizer_last_def
proof (intro allI impI)
  fix before c after assume "es @ es' = before @ c # after"
  then consider (left) after' where "es = before @ c # after'"
    | (right) before' where "before = es @ before'" "es' = before' @ c # after"
    by (auto simp: append_eq_append_conv2 append_eq_Cons_conv Cons_eq_append_conv)
  then show "finalizers_kept fs c \<or>
      list_all (absent before) K \<and> finalizers_kept (filter (\<lambda>f. f \<noteq> backplaneFinalizer) fs) c"
  proof cases
    case left
    with assms(1) show ?thesis unfolding finalizer_last_def by blast
  next
    case right
    with assms(2) show ?thesis unfolding finalizer_last_def by (auto simp: list_all_iff absent_append)
  qed
qed

interpretation kept: trace_closed "finalizer_last fs K" for fs K
proof (unfold_locales, goal_cases)
  case (3 c)
  then show ?case by (intro finalizer_last_none) (cases c; simp)
qed (auto intro: finalizer_last_append finalizer_last_none)

text \<open>The update that drops the finalizer, after requests \<open>es\<close> that confirmed the removals.\<close>

lemma finalizer_last_once:
  assumes "list_all (\<lambda>c. \<not> engine_update c) es" "list_all (absent es) K" "list_all (\<lambda>c. \<not> engine_update c) es'"
  shows "finalizer_last (mce_Finalizers m) K (es @ CUpdateMCE (remove_finalizer m) # es')"
  unfolding finalizer_last_def
proof (intro allI impI)
  fix before c after assume split: "es @ CUpdateMCE (remove_finalizer m) # es' = before @ c # after"
  show "finalizers_kept (mce_Finalizers m) c \<or> list_all (absent before) K \<and>
      finalizers_kept (filter (\<lambda>f. f \<noteq> backplaneFinalizer) (mce_Finalizers m)) c"
  proof (cases "engine_update c")
    case True
    with split assms(1,3) have "before = es \<and> c = CUpdateMCE (remove_finalizer m)"
      by (auto simp: append_eq_append_conv2 append_eq_Cons_conv Cons_eq_append_conv)
    with assms(2) show ?thesis by (simp add: remove_finalizer_def)
  qed (cases c; simp)
qed

lemma spared_maestro: "appends (ks_Trace s) (list_all (\<lambda>c. \<not> engine_update c)) (deleteMaestroNamespace cx s)"
  unfolding deleteMaestroNamespace_def delete_ignoring_absent_def by (intro spared.run_steps) auto

lemma spared_update:
  "spost (\<lambda>x s'. \<exists>es. ks_Trace s' = ks_Trace s @ (CUpdateMCE n # es) \<and> list_all (\<lambda>c. \<not> engine_update c) es) (do {
         (r, s) \<leftarrow> api_UpdateMCE (cx_Client cx) n s;
         case r of
           Inl e \<Rightarrow> Some ((n, no_requeue, Some e), s)
         | Inr m \<Rightarrow>
             if isComponentExternallyManaged cx m MaestroPreview then Some ((m, ok_result), s)
             else do {
               (e, s) \<leftarrow> deleteMaestroNamespace cx s;
               Some ((m, no_requeue, e), s)
             } })"
  by (auto simp: api_eqs go_wp split: sum.split
      intro!: spost_mono [OF spared_maestro [unfolded appends_def]])

text \<open>The deletion of an engine, and what surrounds it in a reconciliation.\<close>

lemma kept_deletion:
  assumes "get_answers_key cx"
  shows "appends (ks_Trace s) (finalizer_last (mce_Finalizers m) (uninstall_targets m)) (reconcile_deletion cx m s)"
proof (cases "backplaneFinalizer \<in> set (mce_Finalizers m)")
  case True
  let ?J = "list_all (\<lambda>c. \<not> engine_update c)"
  have fin: "spost (\<lambda>r s'. \<exists>es. ks_Trace s' = ks_Trace s @ es \<and> ?J es \<and>
      (r = ok_result \<longrightarrow> list_all (absent es) (uninstall_targets m))) (finalizeBackplaneConfig cx m s)"
    by (rule spost_mono [OF spost_conj [OF confirms_finalize [OF assms(1) refl, of s m, unfolded confirms_def]
        spared.finalize [OF refl, of s cx m, unfolded appends_def]]]) auto
  show ?thesis
    unfolding appends_def reconcile_deletion_def if_P [OF True] Let_def
  proof (rule spost_bindI [OF fin], elim exE conjE, goal_cases)
    case (1 r s1 es)
    show ?case
    proof (cases "r = ok_result")
      case ok: True
      show ?thesis
        using 1 ok
        by (simp only: prod.case fst_conv snd_conv simp_thms if_False not_True_eq_False,
            intro spost_mono [OF spared_update]) (auto intro!: finalizer_last_once)
    next
      case False
      then show ?thesis
        using 1(1) finalizer_last_none [OF spared_kept [OF 1(2)]] by (cases r) auto
    qed
  qed
qed (simp add: reconcile_deletion_def kept.ret)

lemma kept_update:
  assumes "mce_Finalizers u = fs" "ks_Trace s = t"
  shows "appends t (finalizer_last fs K) (api_UpdateMCE cl u s)"
  using assms by (auto simp: appends_def api_eqs intro!: finalizer_last_none)

lemma kept_report: "ks_Trace s = t \<Longrightarrow> appends t (finalizer_last fs K) (report_status cx m r s)"
  unfolding report_status_def Let_def
  by (intro kept.read_steps kept.status) (auto simp: appends_def api_eqs intro!: finalizer_last_none)

lemma drop_failures_simps:
  "mce_Finalizers (drop_failures m) = mce_Finalizers m" "uninstall_targets (drop_failures m) = uninstall_targets m"
  by (simp_all add: drop_failures_def uninstall_targets_def RenderHypershiftAddon_def AddBackplaneConfigLabels_def)

lemma kept_engine:
  assumes "get_answers_key cx" "mce_DeletionTimestamp m \<noteq> None" "ks_Trace s = t"
  shows "appends t (finalizer_last (mce_Finalizers m) (uninstall_targets m)) (reconcile_engine cx m s)"
proof -
  have body: "appends (ks_Trace s) (finalizer_last (mce_Finalizers m) (uninstall_targets m))
      (Option.bind (reconcile_body cx (drop_failures m) upgrade s) (\<lambda>((m, r), s). report_status cx m r s))" for upgrade s
    using assms(2) kept_deletion [OF assms(1), of s "drop_failures m"]
    by (intro kept.bind) (auto simp: reconcile_body_def drop_failures_simps kept_report split: prod.split)
  have body_at: "ks_Trace s = t \<Longrightarrow> appends t (finalizer_last (mce_Finalizers m) (uninstall_targets m))
      (Option.bind (reconcile_body cx (drop_failures m) upgrade s) (\<lambda>((m, r), s). report_status cx m r s))" for upgrade s t
    using body by blast
  have maestro: "mce_Finalizers (Disable (drop_failures m) MaestroPreview) = mce_Finalizers m"
    by (simp add: Disable_def set_mce_components_def drop_failures_def Let_def)
  show ?thesis
    unfolding reconcile_engine_def Let_def
    by (intro body_at kept.read_steps kept_update [OF maestro] kept.external kept.upgrade)
      (use assms(3) in \<open>auto simp: CheckDeprecatedFieldUsage_def reset_status_def\<close>)
qed

text \<open>
  C4: The finalizer goes last.  In the requests of a reconciliation of an engine that is being deleted,
  every update of the engine leaves its finalizers alone, except one that drops the finalizer of the
  operator (and no other); that one comes only after every internal component, the hypershift add-on, the
  local managed cluster, the cluster manager, the hub namespace and the namespace of the local cluster
  were read in the same reconciliation and the API server answered that they are not there.  Holds for
  every API server that answers a read with an object of the requested name.
\<close>

theorem finalizer_removed_last:
  assumes "get_answers_key cx"
    and "fst (cl_GetMCE (cx_Client cx) name (ks_World s)) = Inr m" "mce_DeletionTimestamp m \<noteq> None"
    and "Reconcile cx name s = Some (r, s')"
  shows "\<exists>es. ks_Trace s' = ks_Trace s @ es \<and> finalizer_last (mce_Finalizers m) (uninstall_targets m) es"
proof -
  let ?s = "log_call (CGetMCE name) (snd (cl_GetMCE (cx_Client cx) name (ks_World s))) s"
  have "appends (ks_Trace s @ [CGetMCE name]) (finalizer_last (mce_Finalizers m) (uninstall_targets m))
      (reconcile_engine cx m ?s)"
    by (rule kept_engine [OF assms(1,3)]) simp
  then have "appends (ks_Trace s) (finalizer_last (mce_Finalizers m) (uninstall_targets m)) (reconcile_engine cx m ?s)"
    by (rule kept.extend [OF kept.J_read, rotated]) simp
  then have "appends (ks_Trace s) (finalizer_last (mce_Finalizers m) (uninstall_targets m)) (Reconcile cx name s)"
    using assms(2) by (simp add: Reconcile_def api_eqs)
  then show ?thesis using assms(4) by (simp add: appends_def)
qed

text \<open>An empty cluster outside OpenShift: everything is absent and the finalizer goes.\<close>

lemma plain_answers: "get_answers_key plain_ctx"
  by (auto simp: get_answers_key_def plain_ctx_def sample_ctx_def mem_client_def mem_find_def find_Some_iff
      split: option.splits)

lemma empty_get:
  "mem_Objs (ks_World s) = [] \<Longrightarrow>
    api_Get mem_client g n s = Some (Inl not_found, log_call (CGet g n (Inl not_found)) (ks_World s) s)"
  by (simp add: api_eqs mem_client_def mem_find_def)

lemma empty_internal:
  "mem_Objs (ks_World s) = [] \<Longrightarrow> \<exists>s'. remove_internal plain_ctx m cs acc s = Some (acc, s')
    \<and> ks_World s' = ks_World s"
proof (induction cs arbitrary: s)
  case (Cons c cs)
  have "note_result c ok_result acc = acc" by (simp add: note_result_def)
  then show ?case
    using Cons.IH [of "log_call _ (ks_World s) s"] Cons.prems
    by (simp add: ensureNoInternalEngineComponent_def plain_fields empty_get IsNotFound_def Let_def)
qed simp

lemma empty_finalize:
  assumes "mem_Objs (ks_World s) = []"
  shows "\<exists>s'. finalizeBackplaneConfig plain_ctx m s = Some (ok_result, s') \<and> ks_World s' = ks_World s"
proof -
  obtain s1 where s1: "remove_internal plain_ctx m internal_components ([], False) s = Some (([], False), s1)"
    "ks_World s1 = ks_World s"
    using empty_internal [OF assms] by blast
  show ?thesis
    using assms
    by (simp add: finalizeBackplaneConfig_def ensureNoAllInternalEngineComponents_def s1 toggle_result_def
        finalize_console_def finalize_hypershift_addon_def finalize_local_cluster_def
        finalize_cluster_manager_def finalize_hub_namespace_def finalize_global_set_def
        finalize_local_namespace_def plain_fields empty_get IsNotFound_def Let_def)
qed

text \<open>Its whole reconciliation, with the update that drops the finalizer.\<close>

lemma deleting_drops:
  assumes "mem_Objs (ks_World s) = []"
  shows "\<exists>m r s'. reconcile_deletion plain_ctx (drop_failures deleted_mce) s = Some ((m, r), s')
    \<and> (\<exists>u. CUpdateMCE u \<in> set (ks_Trace s') \<and> mce_Finalizers u = [])"
proof -
  obtain s1 where "finalizeBackplaneConfig plain_ctx (drop_failures deleted_mce) s = Some (ok_result, s1)"
    using empty_finalize [OF assms] by blast
  then show ?thesis
    by (auto simp: reconcile_deletion_def deleted_mce_def drop_failures_def api_eqs plain_fields
        remove_finalizer_def deleteMaestroNamespace_def delete_ignoring_absent_def Let_def split: sum.split)
qed

lemma deleting_run:
  "\<exists>r s'. Reconcile plain_ctx ''engine'' deleting = Some (r, s')
    \<and> (\<exists>u. CUpdateMCE u \<in> set (ks_Trace s') \<and> mce_Finalizers u = [])"
proof -
  obtain s0 where s0: "Reconcile plain_ctx ''engine'' deleting = reconcile_engine plain_ctx deleted_mce s0"
    and "mem_Objs (ks_World s0) = []"
  proof
    let ?s0 = "log_call (CGetMCE ''engine'') (snd (cl_GetMCE mem_client ''engine'' (ks_World deleting))) deleting"
    show "Reconcile plain_ctx ''engine'' deleting = reconcile_engine plain_ctx deleted_mce ?s0"
      using deleting_engine(1) by (simp add: Reconcile_def api_eqs plain_fields sample_ctx_def)
    show "mem_Objs (ks_World ?s0) = []"
      by (simp add: mem_client_def sample_rstate_def empty_mem_def)
  qed
  moreover have "\<not> Enabled (drop_failures deleted_mce) MaestroPreview"
    "externally_managed plain_ctx (drop_failures deleted_mce) = None"
    by (simp_all add: drop_failures_def sample_engines sample_spec_def Enabled_def externally_managed_def)
  ultimately obtain s1 where s1: "reconcile_engine plain_ctx deleted_mce s0 = Option.bind
      (reconcile_body plain_ctx (drop_failures deleted_mce) False s1) (\<lambda>((m, r), s). report_status plain_ctx m r s)"
    and "mem_Objs (ks_World s1) = []"
    by (simp add: reconcile_engine_def checkExternallyManagedComponents_def
        drop_external_condition_def new_condition_def NewCondition_def api_Now_def add_condition_def
        AddCondition_def check_upgrade_def plain_fields mem_engine_calls reset_status_def
        CheckDeprecatedFieldUsage_def split_beta Let_def)
  with deleting_drops obtain m r s2 u where "reconcile_body plain_ctx (drop_failures deleted_mce) False s1 = Some ((m, r), s2)"
    and u: "CUpdateMCE u \<in> set (ks_Trace s2)" "mce_Finalizers u = []"
    by (fastforce simp: reconcile_body_def drop_failures_simps deleting_engine(3))
  then have run: "Reconcile plain_ctx ''engine'' deleting = report_status plain_ctx m r s2"
    unfolding s0 s1 by simp
  have "fst (cl_GetMCE (cx_Client plain_ctx) ''engine'' (ks_World deleting)) = Inr deleted_mce"
    "versions_comparable plain_ctx deleted_mce"
    using deleting_engine(1) by (simp_all add: plain_fields sample_ctx_def versions_comparable_def)
  from deleted_total [OF this deleting_engine(3)]
  obtain r' s' where "report_status plain_ctx m r s2 = Some (r', s')" unfolding run by blast
  with run u kept_report [OF refl, of s2 "[]" "[]" plain_ctx m r] show ?thesis by (auto simp: appends_def)
qed

theorem finalizer_removed_last_witness:
  "\<exists>r s'. Reconcile plain_ctx ''engine'' deleting = Some (r, s')
    \<and> (\<exists>u. CUpdateMCE u \<in> set (ks_Trace s') \<and> mce_Finalizers u = [])
    \<and> finalizer_last [backplaneFinalizer] (uninstall_targets deleted_mce) (ks_Trace s')"
proof -
  obtain r s' where run: "Reconcile plain_ctx ''engine'' deleting = Some (r, s')"
    "\<exists>u. CUpdateMCE u \<in> set (ks_Trace s') \<and> mce_Finalizers u = []"
    using deleting_run by blast
  have "fst (cl_GetMCE (cx_Client plain_ctx) ''engine'' (ks_World deleting)) = Inr deleted_mce"
    using deleting_engine(1) by (simp add: plain_fields sample_ctx_def)
  from finalizer_removed_last [OF plain_answers this deleting_engine(3) run(1)] run
  show ?thesis by (auto simp: sample_rstate_def deleted_mce_def)
qed

end
