(* ===== verification/Rbac_Gen.thy ===== *)
theory Rbac_Gen
  imports Rendering "HOL-Library.List_Lexorder" "HOL-Library.Char_ord" "HOL-Library.Multiset"
begin

text \<open>
  The build-time tool \<open>pkg/templates/rbac.go\<close>: it renders the charts and copies the rules of their
  roles into the markers from which the operator's own permissions are made.  A panic of the tool is
  \<^term>\<open>None\<close>; the decoding of a role is a library function and a parameter.
\<close>

record PolicyRule =
  pr_Verbs :: "string list"
  pr_APIGroups :: "string list"
  pr_Resources :: "string list"
  pr_ResourceNames :: "string list"
  pr_NonResourceURLs :: "string list"

definition quoted_group :: "string \<Rightarrow> string" where
  "quoted_group g = (if g = '''' then [CHR 0x22, CHR 0x22] else g)"

definition marker :: "PolicyRule \<Rightarrow> string" where
  "marker r =
    ''//+kubebuilder:rbac:groups='' @ join '';'' (map quoted_group (pr_APIGroups r))
    @ '',resources='' @ join '';'' (pr_Resources r) @ '',verbs='' @ join '';'' (pr_Verbs r)"

definition extractFromRules :: "PolicyRule list \<Rightarrow> string list" where
  "extractFromRules rules = map marker (filter (\<lambda>r. pr_Resources r \<noteq> []) rules)"

text \<open>The kinds, other than roles, that the operator has been given permission to apply.\<close>

definition resources :: "string list" where
  "resources =
    [''AddOnDeploymentConfig'', ''AddOnTemplate'', ''APIService'', ''ClusterManagementAddOn'',
     ''ClusterRole'', ''ClusterRoleBinding'', ''ConfigMap'', ''ConsoleNotification'',
     ''ConsolePlugin'', ''ConsoleQuickStart'', ''CustomResourceDefinition'', ''Deployment'',
     ''ManagedProxyConfiguration'', ''MutatingWebhookConfiguration'', ''Namespace'',
     ''NetworkPolicy'', ''Placement'', ''PodDisruptionBudget'', ''PrometheusRule'', ''Role'',
     ''RoleBinding'', ''Route'', ''Secret'', ''Service'', ''ServiceAccount'', ''ServiceMonitor'',
     ''StatefulSet'', ''ValidatingWebhookConfiguration'', ''Certificate'', ''Issuer'']"

definition GetTestImages :: "string list" where
  "GetTestImages =
    [''APISERVER_NETWORK_PROXY'', ''ASSISTED_IMAGE_SERVICE'', ''ASSISTED_INSTALLER'',
     ''ASSISTED_INSTALLER_AGENT'', ''ASSISTED_INSTALLER_CONTROLLER'', ''ASSISTED_SERVICE_9'',
     ''AWS_ENCRYPTION_PROVIDER'', ''AZURE_SERVICE_OPERATOR_RHEL9'', ''CLUSTERCLAIMS_CONTROLLER'',
     ''CLUSTER_API'', ''CLUSTER_API_PROVIDER_AGENT'', ''CLUSTER_API_PROVIDER_AWS'',
     ''CLUSTER_API_PROVIDER_AWS_RHEL9'', ''CLUSTER_API_PROVIDER_AZURE'',
     ''CLUSTER_API_PROVIDER_AZURE_RHEL9'', ''CLUSTER_API_PROVIDER_KUBEVIRT'',
     ''CLUSTER_CURATOR_CONTROLLER'', ''CLUSTER_IMAGE_SET_CONTROLLER'', ''CLUSTER_PERMISSION'',
     ''CLUSTER_PROXY'', ''CLUSTER_PROXY_ADDON'', ''CLUSTERLIFECYCLE_STATE_METRICS'',
     ''CONSOLE_MCE'', ''DISCOVERY_OPERATOR'', ''HYPERSHIFT_ADDON_OPERATOR'',
     ''HYPERSHIFT_OPERATOR'', ''HYPERSHIFT_CLI'', ''IMAGE_BASED_INSTALL_OPERATOR'',
     ''KUBE_RBAC_PROXY_MCE'', ''MANAGEDCLUSTER_IMPORT_CONTROLLER'', ''MANAGED_SERVICEACCOUNT'',
     ''MCE_CAPI_WEBHOOK_CONFIG_RHEL9'', ''MULTICLOUD_MANAGER'', ''OPENSHIFT_HIVE'',
     ''OSE_AWS_CLUSTER_API_CONTROLLERS_RHEL9'', ''OSE_CLUSTER_API_RHEL9'', ''POSTGRESQL_16'',
     ''PROVIDER_CREDENTIAL_CONTROLLER'', ''REGISTRATION'', ''REGISTRATION_OPERATOR'', ''WORK'',
     ''apiserver_network_proxy'', ''assisted_image_service'', ''assisted_installer'',
     ''assisted_installer_agent'', ''assisted_installer_controller'', ''assisted_service_9'',
     ''aws_encryption_provider'', ''azure_service_operator_rhel9'', ''cluster_api'',
     ''cluster_api_bootstrap_provider_openshift_assisted'',
     ''cluster_api_controlplane_provider_openshift_assisted'', ''cluster_api_provider_agent'',
     ''cluster_api_provider_aws'', ''cluster_api_provider_aws_rhel9'',
     ''cluster_api_provider_azure'', ''cluster_api_provider_azure_rhel9'',
     ''cluster_api_provider_kubevirt'', ''cluster_api_provider_openshift_assisted_bootstrap'',
     ''cluster_api_provider_openshift_assisted_control_plane'', ''cloudevents_conductor'',
     ''cluster_curator_controller'', ''cluster_image_set_controller'', ''cluster_permission'',
     ''cluster_proxy'', ''cluster_proxy_addon'', ''clusterclaims_controller'',
     ''clusterlifecycle_state_metrics'', ''console_mce'', ''discovery_operator'',
     ''hypershift_addon_operator'', ''hypershift_operator'', ''hypershift_cli'',
     ''image_based_install_operator'', ''ip_address_manager'', ''kube_rbac_proxy_mce'',
     ''maestro'', ''managed_serviceaccount'', ''managedcluster_import_controller'',
     ''mce_capi_webhook_config_rhel9'', ''multicloud_manager'', ''openshift_hive'',
     ''ose_aws_cluster_api_controllers_rhel9'', ''ose_baremetal_cluster_api_controllers_rhel9'',
     ''ose_cluster_api_rhel9'', ''postgresql_16'', ''provider_credential_controller'',
     ''registration'', ''registration_operator'', ''work'']"

definition testImages :: strmap where
  "testImages = fold (\<lambda>v m. sm_put m v ''quay.io/test/test:Test'') GetTestImages []"

definition testBackplane :: MultiClusterEngine where
  "testBackplane =
    \<lparr>mce_Name = ''testBackplane'', mce_UID = '''', mce_Labels = [], mce_Annotations = [],
     mce_Finalizers = [], mce_DeletionTimestamp = None, mce_ResourceVersion = '''', mce_Generation = 0,
     mce_Spec = \<lparr>sp_AvailabilityConfig = '''', sp_NodeSelector = [], sp_ImagePullSecret = '''',
       sp_Overrides = None, sp_Tolerations = None, sp_TargetNamespace = '''',
       sp_LocalClusterName = '''', sp_NetworkPolicies = None\<rparr>,
     mce_Status = \<lparr>ms_Phase = '''', ms_Components = [], ms_Conditions = [], ms_CurrentVersion = '''',
       ms_DesiredVersion = ''''\<rparr>\<rparr>"

text \<open>The markers of one template, or a panic for a role that cannot be decoded or an unknown kind.\<close>

definition template_markers ::
  "(kobj \<Rightarrow> PolicyRule list resp) \<Rightarrow> kobj \<Rightarrow> string list option" where
  "template_markers decode t =
    (if ko_Kind t = ''ClusterRole'' \<or> ko_Kind t = ''Role''
     then (case decode t of Inl _ \<Rightarrow> None | Inr rules \<Rightarrow> Some (extractFromRules rules))
     else if ko_Kind t \<noteq> '''' \<and> ko_Kind t \<notin> set resources then None
     else Some [])"

fun collect_markers ::
  "(kobj \<Rightarrow> PolicyRule list resp) \<Rightarrow> kobj list \<Rightarrow> string list \<Rightarrow> string list option" where
  "collect_markers decode [] ls = Some ls"
| "collect_markers decode (t # ts) ls = do {
     newlines \<leftarrow> template_markers decode t;
     collect_markers decode ts (ls @ newlines)
   }"

definition packageTemplate :: "string list \<Rightarrow> string" where
  "packageTemplate markers =
    ''// Code generated by go generate; DO NOT EDIT.'' @ [CHR 0x0A, CHR 0x0A] @ ''package main'' @ [CHR 0x0A]
    @ concat (map (\<lambda>l. CHR 0x0A # l) markers) @ [CHR 0x0A]"

text \<open>\<open>file\<close> is what creating, writing or closing the file fails with.\<close>

definition rbac_main ::
  "'w ctx \<Rightarrow> strmap \<Rightarrow> (kobj \<Rightarrow> PolicyRule list resp) \<Rightarrow> go_error option \<Rightarrow> string option" where
  "rbac_main cx env decode file =
    (case RenderCharts cx (sm_put env ''ACM_HUB_OCP_VERSION'' ''4.10.0'') ''pkg/templates/charts/toggle''
            testBackplane testImages [] of
       Inl _ \<Rightarrow> None
     | Inr templates \<Rightarrow>
         if templates = [] then None
         else do {
           lines \<leftarrow> collect_markers decode templates [];
           if file \<noteq> None then None else Some (packageTemplate (sort lines))
         })"

section \<open>Reading a marker back\<close>

text \<open>A marker has three lists; it has no place for the names of resources or for URLs.\<close>

definition unquoted_group :: "string \<Rightarrow> string" where
  "unquoted_group g = (if g = [CHR 0x22, CHR 0x22] then '''' else g)"

definition read_marker :: "string \<Rightarrow> PolicyRule option" where
  "read_marker l =
    (case split_on CHR '','' l of
       [gs, rs, vs] \<Rightarrow> Some
         \<lparr>pr_Verbs = split_on CHR '';'' (TrimPrefix vs ''verbs=''),
          pr_APIGroups = map unquoted_group (split_on CHR '';'' (TrimPrefix gs ''//+kubebuilder:rbac:groups='')),
          pr_Resources = split_on CHR '';'' (TrimPrefix rs ''resources=''),
          pr_ResourceNames = [], pr_NonResourceURLs = []\<rparr>
     | _ \<Rightarrow> None)"

text \<open>A rule for every resource of its kinds, whichever names the rule was limited to.\<close>

definition unlimited :: "PolicyRule \<Rightarrow> PolicyRule" where
  "unlimited r = r\<lparr>pr_ResourceNames := [], pr_NonResourceURLs := []\<rparr>"

text \<open>The names of a rule contain none of the separators and no quotes.\<close>

definition plain_names :: "string list \<Rightarrow> bool" where
  "plain_names ns = (ns \<noteq> [] \<and> list_all (\<lambda>n. set n \<inter> {CHR '','', CHR '';'', CHR 0x22} = {}) ns)"

definition plain_rule :: "PolicyRule \<Rightarrow> bool" where
  "plain_rule r = (plain_names (pr_APIGroups r) \<and> plain_names (pr_Resources r) \<and> plain_names (pr_Verbs r))"

lemma unlimited_same: "unlimited r = r \<longleftrightarrow> pr_ResourceNames r = [] \<and> pr_NonResourceURLs r = []"
  by (cases r) (auto simp: unlimited_def)

lemma join_chars: "c \<in> set (join sep ws) \<Longrightarrow> c \<in> set sep \<or> (\<exists>w \<in> set ws. c \<in> set w)"
  by (induction sep ws rule: join.induct) auto

lemma join_plain: "plain_names ns \<Longrightarrow> CHR '','' \<notin> set (join '';'' ns)" "plain_names ns \<Longrightarrow> split_on CHR '';'' (join '';'' ns) = ns"
  by (auto simp: plain_names_def list_all_iff dest!: join_chars intro!: split_on_join)

lemma quoted_names:
  assumes "plain_names ns"
  shows "CHR '','' \<notin> set (join '';'' (map quoted_group ns))"
    "map unquoted_group (split_on CHR '';'' (join '';'' (map quoted_group ns))) = ns"
proof -
  have plain: "\<forall>n \<in> set (map quoted_group ns). CHR '','' \<notin> set n \<and> CHR '';'' \<notin> set n"
    using assms by (auto simp: plain_names_def list_all_iff quoted_group_def)
  then show "CHR '','' \<notin> set (join '';'' (map quoted_group ns))" by (auto dest!: join_chars)
  have "split_on CHR '';'' (join '';'' (map quoted_group ns)) = map quoted_group ns"
    using plain assms by (intro split_on_join) (auto simp: plain_names_def)
  moreover have "unquoted_group (quoted_group n) = n" if "n \<in> set ns" for n
    using assms that by (auto simp: plain_names_def list_all_iff quoted_group_def unquoted_group_def)
  ultimately show "map unquoted_group (split_on CHR '';'' (join '';'' (map quoted_group ns))) = ns"
    by (simp add: map_idI)
qed

lemma read_marker_marker:
  assumes "plain_rule r"
  shows "read_marker (marker r) = Some (unlimited r)"
proof -
  let ?g = "''//+kubebuilder:rbac:groups='' @ join '';'' (map quoted_group (pr_APIGroups r))"
  let ?r = "''resources='' @ join '';'' (pr_Resources r)" and ?v = "''verbs='' @ join '';'' (pr_Verbs r)"
  have names: "plain_names (pr_APIGroups r)" "plain_names (pr_Resources r)" "plain_names (pr_Verbs r)"
    using assms by (auto simp: plain_rule_def)
  have "marker r = ?g @ CHR '','' # ?r @ CHR '','' # ?v" by (simp add: marker_def)
  then have "split_on CHR '','' (marker r) = [?g, ?r, ?v]"
    using quoted_names(1) [OF names(1)] join_plain(1) [OF names(2)] join_plain(1) [OF names(3)]
    by (simp only: split_on_append split_on_no_sep set_append) (simp add: split_on_append split_on_no_sep)
  then show ?thesis
    using quoted_names(2) [OF names(1)] join_plain(2) [OF names(2)] join_plain(2) [OF names(3)]
    by (simp add: read_marker_def TrimPrefix_def HasPrefix_def unlimited_def)
qed

section \<open>What is generated\<close>

lemma collect_markers_spec:
  "collect_markers decode ts ls = Some ls' \<Longrightarrow>
    (\<forall>t \<in> set ts. template_markers decode t \<noteq> None) \<and>
    ls' = ls @ concat (map (the \<circ> template_markers decode) ts)"
proof (induction ts arbitrary: ls)
  case (Cons t ts)
  then obtain new where "template_markers decode t = Some new" "collect_markers decode ts (ls @ new) = Some ls'"
    by (auto simp: bind_eq_Some_conv)
  then show ?case using Cons.IH [of "ls @ new"] by auto
qed simp

text \<open>The rules with resources of the rendered roles, in their order.\<close>

definition role_rules :: "(kobj \<Rightarrow> PolicyRule list resp) \<Rightarrow> kobj list \<Rightarrow> PolicyRule list" where
  "role_rules decode ts = concat (map (\<lambda>t.
     if ko_Kind t \<in> {''ClusterRole'', ''Role''}
     then (case decode t of Inl _ \<Rightarrow> [] | Inr rules \<Rightarrow> filter (\<lambda>r. pr_Resources r \<noteq> []) rules)
     else []) ts)"

lemma collected_rules:
  assumes "collect_markers decode ts [] = Some ls"
  shows "ls = map marker (role_rules decode ts)"
proof -
  have "the (template_markers decode t) = map marker (role_rules decode [t])" if "t \<in> set ts" for t
    using collect_markers_spec [OF assms] that
    by (auto simp: template_markers_def role_rules_def extractFromRules_def split: if_splits sum.splits)
  then have "ls = concat (map (\<lambda>t. map marker (role_rules decode [t])) ts)"
    using collect_markers_spec [OF assms] by (auto intro!: arg_cong [of _ _ concat])
  then show ?thesis by (simp add: role_rules_def map_concat comp_def)
qed

text \<open>
  C35: The operator is given the permissions of the roles it creates.  When the generator succeeds, the
  charts rendered to at least one template, every template that is no role is of a kind listed for the
  operator, and the file consists of sorted markers: exactly one for each rule with resources, repeated
  rules included, of the rendered roles.  When the groups, resources and verbs of a rule contain no
  separators, its marker reads back as the rule without its resource names and URLs: no permission of
  such a rule is lost, but a rule limited to named resources becomes one for all resources of its kinds,
  so the marker is the rule itself exactly when the rule names no resources and no URLs.  Rules for URLs
  only are skipped.
\<close>

theorem rbac_permissions_complete:
  assumes "rbac_main cx env decode file = Some text"
  shows "\<exists>templates markers. RenderCharts cx (sm_put env ''ACM_HUB_OCP_VERSION'' ''4.10.0'')
      ''pkg/templates/charts/toggle'' testBackplane testImages [] = Inr templates
    \<and> templates \<noteq> [] \<and> (\<forall>t \<in> set templates. ko_Kind t \<in> {'''', ''ClusterRole'', ''Role''} \<union> set resources)
    \<and> text = packageTemplate markers \<and> sorted markers
    \<and> mset markers = mset (map marker (role_rules decode templates))
    \<and> (\<forall>r \<in> set (role_rules decode templates). plain_rule r \<longrightarrow> (\<exists>l \<in> set markers.
        read_marker l = Some (unlimited r)
        \<and> (read_marker l = Some r \<longleftrightarrow> pr_ResourceNames r = [] \<and> pr_NonResourceURLs r = [])))"
proof -
  obtain templates ls where run: "RenderCharts cx (sm_put env ''ACM_HUB_OCP_VERSION'' ''4.10.0'')
      ''pkg/templates/charts/toggle'' testBackplane testImages [] = Inr templates"
    "templates \<noteq> []" "collect_markers decode templates [] = Some ls" "text = packageTemplate (sort ls)"
    using assms by (auto simp: rbac_main_def bind_eq_Some_conv split: sum.splits if_splits)
  have kinds: "\<forall>t \<in> set templates. ko_Kind t \<in> {'''', ''ClusterRole'', ''Role''} \<union> set resources"
    using collect_markers_spec [OF run(3)] by (auto simp: template_markers_def split: if_splits)
  have "\<forall>r \<in> set (role_rules decode templates). plain_rule r \<longrightarrow> (\<exists>l \<in> set (sort ls).
      read_marker l = Some (unlimited r)
      \<and> (read_marker l = Some r \<longleftrightarrow> pr_ResourceNames r = [] \<and> pr_NonResourceURLs r = []))"
    using collected_rules [OF run(3)]
    by (intro ballI impI, rule_tac x = "marker r" in bexI) (auto simp: read_marker_marker unlimited_same)
  then show ?thesis
    using run kinds collected_rules [OF run(3)] by (intro exI [of _ templates] exI [of _ "sort ls"]) auto
qed

definition role_ctx :: "mem ctx" where
  "role_ctx = sample_ctx\<lparr>cx_ReadDir := (\<lambda>_. Inr [''discovery'']), cx_Helm := (\<lambda>path vals. Inr [(''role.yaml'', ''role'')]),
     cx_Yaml := (\<lambda>y. Inr (mk_obj (mk_gvk ''rbac.authorization.k8s.io'' ''v1'' ''ClusterRole'') '''' y))\<rparr>"

definition secret_rule :: PolicyRule where
  "secret_rule = \<lparr>pr_Verbs = [''get'', ''list''], pr_APIGroups = [''''], pr_Resources = [''secrets''],
    pr_ResourceNames = [''signer-secret''], pr_NonResourceURLs = []\<rparr>"

theorem rbac_permissions_complete_witness:
  "\<exists>text. rbac_main role_ctx [] (\<lambda>_. Inr [secret_rule]) None = Some text
    \<and> (\<exists>markers. text = packageTemplate markers \<and> (\<exists>l \<in> set markers. read_marker l = Some (unlimited secret_rule)
      \<and> read_marker l \<noteq> Some secret_rule))"
proof -
  let ?t = "finish_template testBackplane (mk_obj (mk_gvk ''rbac.authorization.k8s.io'' ''v1'' ''ClusterRole'') '''' ''role'')"
  have kind: "ko_Kind ?t = ''ClusterRole''" by (simp add: mk_obj_def mk_gvk_def)
  have render: "RenderCharts role_ctx (sm_put [] ''ACM_HUB_OCP_VERSION'' ''4.10.0'') ''pkg/templates/charts/toggle''
      testBackplane testImages [] = Inr [?t]"
    by (simp add: RenderCharts_def renderTemplates_def role_ctx_def mk_obj_def mk_gvk_def Let_def)
  then have run: "rbac_main role_ctx [] (\<lambda>_. Inr [secret_rule]) None = Some (packageTemplate (sort [marker secret_rule]))"
    using kind by (simp add: rbac_main_def template_markers_def extractFromRules_def secret_rule_def)
  have plain: "plain_rule secret_rule" by (simp add: plain_rule_def plain_names_def secret_rule_def)
  have rules: "role_rules (\<lambda>_. Inr [secret_rule]) [?t] = [secret_rule]"
    using kind by (simp add: role_rules_def secret_rule_def)
  show ?thesis
    using rbac_permissions_complete [OF run] run render plain rules by (auto simp: secret_rule_def)
qed

end
