(* ===== verification/Permissions.thy ===== *)
theory Permissions
  imports Uninstall Rbac_Gen
begin

text \<open>
  The permissions of the operator that are written by hand, the \<open>kubebuilder:rbac\<close> markers of
  \<open>controllers/backplaneconfig_controller.go\<close>, against what the code does.  The markers that theory \<open>Rbac_Gen\<close>
  generates cover what the charts contain; what the operator changes on its own account has to be covered by
  these.
\<close>

section \<open>The markers\<close>

definition policy :: "string list \<Rightarrow> string list \<Rightarrow> string list \<Rightarrow> PolicyRule" where
  "policy gs rs vs = \<lparr>pr_Verbs = vs, pr_APIGroups = gs, pr_Resources = rs,
    pr_ResourceNames = [], pr_NonResourceURLs = []\<rparr>"

definition general_rules :: "PolicyRule list" where
  "general_rules =
    [policy [''multicluster.openshift.io'']
       [''multiclusterengines'']
       [''get'', ''list'', ''watch'', ''create'', ''update'', ''patch'', ''delete''],
     policy [''multicluster.openshift.io'']
       [''multiclusterengines/status'']
       [''get'', ''update'', ''patch''],
     policy [''multicluster.openshift.io'']
       [''multiclusterengines/finalizers'']
       [''update''],
     policy [''apiextensions.k8s.io'', ''rbac.authorization.k8s.io'', '''', ''apps'']
       [''deployments'', ''serviceaccounts'', ''customresourcedefinitions'', ''clusterrolebindings'',
        ''clusterroles'']
       [''get'', ''create'', ''update'', ''list''],
     policy [''monitoring.coreos.com'']
       [''servicemonitors'']
       [''get'', ''create'', ''update'', ''list'', ''watch'', ''delete'', ''patch''],
     policy [''discovery.open-cluster-management.io'']
       [''discoveryconfigs'']
       [''get''],
     policy [''discovery.open-cluster-management.io'']
       [''discoveryconfigs'']
       [''list''],
     policy [''discovery.open-cluster-management.io'']
       [''discoveryconfigs'', ''discoveredclusters'']
       [''create'', ''get'', ''list'', ''watch'', ''update'', ''delete'', ''deletecollection'', ''patch'',
        ''approve'', ''escalate'', ''bind''],
     policy [''config.openshift.io'']
       [''apiservers'', ''clusterversions'', ''consoles'']
       [''get'', ''list'', ''watch''],
     policy [''console.openshift.io'']
       [''consoleplugins'', ''consolequickstarts'']
       [''get'', ''list'', ''watch'', ''create'', ''update'', ''patch'', ''delete''],
     policy [''operator.openshift.io'']
       [''consoles'']
       [''get'', ''list'', ''watch'', ''update'', ''patch'']]"

definition agent_rules :: "PolicyRule list" where
  "agent_rules =
    [policy [''agent-install.openshift.io'']
       [''agentserviceconfigs'']
       [''get'', ''list'', ''watch'']]"

definition cluster_manager_rules :: "PolicyRule list" where
  "cluster_manager_rules =
    [policy ['''']
       [''configmaps'', ''configmaps/status'', ''namespaces'', ''serviceaccounts'', ''services'', ''secrets'']
       [''create'', ''get'', ''list'', ''update'', ''watch'', ''patch'', ''delete''],
     policy ['''']
       [''nodes'', ''endpoints'']
       [''get'', ''list'', ''watch''],
     policy [''authorization.k8s.io'']
       [''subjectaccessreviews'']
       [''create''],
     policy ['''', ''events.k8s.io'']
       [''events'']
       [''create'', ''update'', ''patch''],
     policy [''apps'']
       [''deployments'', ''replicasets'']
       [''create'', ''get'', ''list'', ''update'', ''watch'', ''patch'', ''delete''],
     policy [''rbac.authorization.k8s.io'']
       [''clusterrolebindings'', ''rolebindings'']
       [''create'', ''get'', ''list'', ''update'', ''watch'', ''patch'', ''delete''],
     policy [''rbac.authorization.k8s.io'']
       [''clusterroles'', ''roles'']
       [''create'', ''get'', ''list'', ''update'', ''watch'', ''patch'', ''delete'', ''escalate'', ''bind''],
     policy [''apiextensions.k8s.io'']
       [''customresourcedefinitions'']
       [''create'', ''get'', ''list'', ''update'', ''watch'', ''patch'', ''delete''],
     policy [''apiextensions.k8s.io'']
       [''customresourcedefinitions/status'']
       [''update'', ''patch''],
     policy [''apiregistration.k8s.io'']
       [''apiservices'']
       [''create'', ''get'', ''list'', ''update'', ''watch'', ''patch'', ''delete''],
     policy [''admissionregistration.k8s.io'']
       [''validatingwebhookconfigurations'', ''mutatingwebhookconfigurations'']
       [''create'', ''get'', ''list'', ''update'', ''watch'', ''patch'', ''delete''],
     policy [''networking.k8s.io'']
       [''networkpolicies'']
       [''create'', ''get'', ''list'', ''patch'', ''update'', ''delete''],
     policy [''operator.open-cluster-management.io'']
       [''clustermanagers'']
       [''create'', ''get'', ''list'', ''watch'', ''update'', ''delete'', ''patch''],
     policy [''operator.open-cluster-management.io'']
       [''clustermanagers/status'']
       [''update'', ''patch''],
     policy [''imageregistry.open-cluster-management.io'']
       [''managedclusterimageregistries'', ''managedclusterimageregistries/status'']
       [''approve'', ''bind'', ''create'', ''delete'', ''deletecollection'', ''escalate'', ''get'', ''list'',
        ''patch'', ''update'', ''watch''],
     policy [''cluster.open-cluster-management.io'', ''agent.open-cluster-management.io'',
             ''operator.open-cluster-management.io'']
       [''klusterletaddonconfigs'', ''managedclusters'', ''multiclusterhubs'']
       [''get'', ''list'', ''watch'', ''create'', ''delete'', ''watch'', ''update'', ''patch''],
     policy [''cluster.open-cluster-management.io'']
       [''managedclustersets/join'']
       [''create''],
     policy [''migration.k8s.io'']
       [''storageversionmigrations'']
       [''create'', ''get'', ''list'', ''update'', ''patch'', ''watch'', ''delete''],
     policy [''coordination.k8s.io'']
       [''leases'']
       [''create'', ''get'', ''list'', ''update'', ''patch'', ''watch'', ''delete''],
     policy [''policy'']
       [''poddisruptionbudgets'']
       [''create'', ''delete'', ''get'', ''list'', ''patch'', ''update'', ''watch''],
     policy [''addon.open-cluster-management.io'']
       [''clustermanagementaddons'', ''clustermanagementaddons/finalizers'', ''managedclusteraddons'',
        ''managedclusteraddons/finalizers'', ''managedclusteraddons/status'']
       [''create'', ''get'', ''list'', ''update'', ''patch'', ''watch'', ''delete'', ''deletecollection''],
     policy [''addon.open-cluster-management.io'']
       [''addondeploymentconfigs'']
       [''get'', ''list'', ''watch''],
     policy [''addon.open-cluster-management.io'']
       [''addontemplates'']
       [''get'', ''list'', ''delete''],
     policy [''cluster.open-cluster-management.io'']
       [''placements'']
       [''get'', ''list'', ''watch'', ''create'', ''update'', ''patch'', ''delete''],
     policy [''cluster.open-cluster-management.io'']
       [''addonplacementscores'']
       [''create'', ''get'', ''list'', ''update'', ''patch'', ''watch'', ''delete'', ''deletecollection''],
     policy [''proxy.open-cluster-management.io'']
       [''managedproxyconfigurations'']
       [''create'', ''get'', ''list'', ''update'', ''patch'', ''watch'', ''delete'', ''deletecollection''],
     policy [''cluster.open-cluster-management.io'']
       [''managedclustersetbindings'']
       [''create'', ''get'', ''list'', ''update'', ''patch'', ''watch'', ''delete'', ''deletecollection''],
     policy [''cluster.open-cluster-management.io'']
       [''managedclustersets/bind'']
       [''create'']]"

definition hive_rules :: "PolicyRule list" where
  "hive_rules =
    [policy [''hive.openshift.io'']
       [''hiveconfigs'']
       [''get'', ''create'', ''update'', ''delete'', ''list'', ''watch''],
     policy [''hive.openshift.io'']
       [''clusterdeployments'', ''clusterpools'', ''clusterclaims'', ''machinepools'']
       [''approve'', ''bind'', ''create'', ''delete'', ''deletecollection'', ''escalate'', ''get'', ''list'',
        ''patch'', ''update'', ''watch'']]"

definition clc_rules :: "PolicyRule list" where
  "clc_rules =
    [policy [''internal.open-cluster-management.io'']
       [''managedclusterinfos'']
       [''get'', ''list'', ''watch''],
     policy [''config.openshift.io'', ''authentication.k8s.io'']
       [''clusterversions'', ''tokenreviews'']
       [''get'', ''create''],
     policy [''register.open-cluster-management.io'']
       [''managedclusters/accept'']
       [''update''],
     policy [''tower.ansible.com'', '''', ''batch'']
       [''ansiblejobs'', ''jobs'', ''secrets'', ''serviceaccounts'']
       [''create''],
     policy [''tower.ansible.com'', '''', ''batch'']
       [''ansiblejobs'', ''jobs'', ''clusterdeployments'', ''serviceaccounts'', ''machinepools'']
       [''get''],
     policy [''action.open-cluster-management.io'']
       [''managedclusteractions'']
       [''get'', ''create'', ''update'', ''delete''],
     policy [''cluster.open-cluster-management.io'']
       [''clustercurators'', ''clustercurators/status'']
       [''create'', ''delete'', ''get'', ''list'', ''patch'', ''update'', ''watch''],
     policy [''config.open-cluster-management.io'']
       [''klusterletconfigs'']
       [''create'', ''delete'', ''get'', ''list'', ''patch'', ''update'', ''watch''],
     policy [''operators.coreos.com'']
       [''subscriptions'']
       [''get'', ''list'', ''watch''],
     policy [''olm.operatorframework.io'']
       [''clusterextensions'']
       [''get'', ''list'', ''watch''],
     policy [''operators.coreos.com'']
       [''operatorconditions'']
       [''create'', ''get'', ''list'', ''patch'', ''update'', ''delete'', ''watch''],
     policy ['''']
       [''serviceaccounts/token'']
       [''create''],
     policy [''authentication.k8s.io'']
       [''tokenrequests'']
       [''create'']]"

definition internal_rules :: "PolicyRule list" where
  "internal_rules =
    [policy [''multicluster.openshift.io'']
       [''internalenginecomponents'']
       [''create'', ''get'', ''delete'', ''patch'', ''list'', ''watch'']]"

definition ingress_rules :: "PolicyRule list" where
  "ingress_rules =
    [policy [''config.openshift.io'']
       [''ingresses'']
       [''get'', ''list'', ''watch'']]"

definition controller_rules :: "PolicyRule list" where
  "controller_rules = general_rules @ agent_rules @ cluster_manager_rules @ hive_rules @ clc_rules
    @ internal_rules @ ingress_rules"

section \<open>What they permit\<close>

text \<open>The resource of a kind in the API is its lower-case plural; a rule permits every combination it lists.\<close>

definition plural :: "string \<Rightarrow> string" where
  "plural w = (if HasSuffix w ''s'' then w @ ''es'' else if HasSuffix w ''y'' then TrimSuffix w ''y'' @ ''ies'' else w @ ''s'')"

definition resource_of :: "gvk \<Rightarrow> string" where
  "resource_of g = plural (ToLower (gvk_Kind g))"

definition rule_permits :: "string \<Rightarrow> string \<Rightarrow> string \<Rightarrow> PolicyRule \<Rightarrow> bool" where
  "rule_permits verb grp resource r =
    (grp \<in> set (pr_APIGroups r) \<and> resource \<in> set (pr_Resources r) \<and> verb \<in> set (pr_Verbs r)
      \<and> pr_ResourceNames r = [])"

definition permits :: "PolicyRule list \<Rightarrow> string \<Rightarrow> string \<Rightarrow> string \<Rightarrow> bool" where
  "permits rules verb grp resource = list_ex (rule_permits verb grp resource) rules"

definition permits_kind :: "PolicyRule list \<Rightarrow> string \<Rightarrow> gvk \<Rightarrow> bool" where
  "permits_kind rules verb g = permits rules verb (gvk_Group g) (resource_of g)"

fun write_permitted :: "PolicyRule list \<Rightarrow> api_call \<Rightarrow> bool" where
  "write_permitted rules (CCreate u) = permits_kind rules ''create'' (ko_GVK u)"
| "write_permitted rules (CUpdate u) = permits_kind rules ''update'' (ko_GVK u)"
| "write_permitted rules (CPatch u) = permits_kind rules ''patch'' (ko_GVK u)"
| "write_permitted rules (CDelete u) = permits_kind rules ''delete'' (ko_GVK u)"
| "write_permitted rules (CUpdateMCE m) = permits rules ''update'' ''multicluster.openshift.io'' ''multiclusterengines''"
| "write_permitted rules (CStatusUpdateMCE m) =
    permits rules ''update'' ''multicluster.openshift.io'' ''multiclusterengines/status''"
| "write_permitted rules _ = True"

text \<open>The kinds that the uninstallation deletes.\<close>

definition removed_kinds :: "gvk list" where
  "removed_kinds = [internalEngineComponentGVK, managedClusterAddOnGVK, managedClusterGVK, clusterManagerGVK, namespaceGVK]"

lemma hypershift_kind: "ko_GVK (RenderHypershiftAddon m) = managedClusterAddOnGVK"
  by (simp add: RenderHypershiftAddon_def AddBackplaneConfigLabels_def mk_obj_def)

text \<open>A read answers with an object of the group and kind that were asked for.\<close>

definition same_kind :: "gvk \<Rightarrow> gvk \<Rightarrow> bool" where
  "same_kind g h = (gvk_Group g = gvk_Group h \<and> gvk_Kind g = gvk_Kind h)"

definition get_answers_kind :: "'w ctx \<Rightarrow> bool" where
  "get_answers_kind cx = (\<forall>g n w u. fst (cl_Get (cx_Client cx) g n w) = Inr u \<longrightarrow> same_kind (ko_GVK u) g)"

lemma permits_same_kind: "same_kind g h \<Longrightarrow> permits_kind rules verb g = permits_kind rules verb h"
  by (simp add: same_kind_def permits_kind_def resource_of_def)

section \<open>Uninstallation\<close>

text \<open>
  Properties of request sequences that allow the deletion of certain kinds and the update of the console.
\<close>

locale removal_trace = trace_closed J
  for J :: "api_call list \<Rightarrow> bool" +
  assumes J_removed: "list_ex (same_kind (ko_GVK u)) removed_kinds \<Longrightarrow> J [CDelete u]"
    and J_console: "same_kind (ko_GVK u) consoleGVK \<Longrightarrow> J [CUpdate u]"
begin

lemma answered:
  assumes "get_answers_kind cx" "ks_Trace s = t"
    and "\<And>e s'. appends (ks_Trace s') J (f (Inl e, s'))"
    and "\<And>x s'. same_kind (ko_GVK x) g \<Longrightarrow> appends (ks_Trace s') J (f (Inr x, s'))"
  shows "appends t J (Option.bind (api_Get (cx_Client cx) g n s) f)"
proof -
  let ?r = "fst (cl_Get (cx_Client cx) g n (ks_World s))"
  let ?s = "log_call (CGet g n ?r) (snd (cl_Get (cx_Client cx) g n (ks_World s))) s"
  have "appends (ks_Trace ?s) J (f (?r, ?s))"
    using assms(1) assms(3) [of ?s] assms(4) [of _ ?s] unfolding get_answers_kind_def
    by (cases ?r) (simp_all only:)
  then have "appends (t @ [CGet g n ?r]) J (f (?r, ?s))" using assms(2) by simp
  from extend [OF J_read this] show ?thesis by (simp add: api_eqs)
qed

lemma removes: "list_ex (same_kind (ko_GVK u)) removed_kinds \<Longrightarrow> ks_Trace s = t \<Longrightarrow> appends t J (api_Delete cl u s)"
  by (rule deletes [OF J_removed])

lemma removal_no_internal:
  assumes "get_answers_kind cx" "ks_Trace s = t"
  shows "appends t J (ensureNoInternalEngineComponent cx m c s)"
  unfolding ensureNoInternalEngineComponent_def Let_def
proof (rule answered [OF assms], goal_cases)
  case (2 x s')
  then show ?case
    by (simp only: prod.case sum.case) (intro removes read_steps; simp add: removed_kinds_def refetch_iec_def; intro read_steps; simp)
qed (simp add: ret)

lemma removal_internals:
  assumes "get_answers_kind cx"
  shows "ks_Trace s = t \<Longrightarrow> appends t J (remove_internal cx m cs acc s)"
proof (induction cs arbitrary: acc s t)
  case (Cons c cs)
  show ?case
    unfolding remove_internal.simps
    by (intro read_steps removal_no_internal [OF assms] Cons.IH) (use Cons.prems in auto)
qed (simp add: ret)

lemma removal_console:
  assumes "get_answers_kind cx" "ks_Trace s = t"
  shows "appends t J (removePluginFromConsoleResource cx s)"
proof -
  have "appends t J (Option.bind (api_Get (cx_Client cx) consoleGVK ('''', ''cluster'') s) (\<lambda>(r, s).
       case r of
         Inl e \<Rightarrow> Some ((no_requeue, Some e), s)
       | Inr console \<Rightarrow>
           if list_Contains (console_plugins console) ''mce''
           then do {
             (r, s) \<leftarrow> api_Update (cx_Client cx)
               (set_console_plugins (Remove (console_plugins console) ''mce'') console) s;
             case r of Inl e \<Rightarrow> Some ((no_requeue, Some e), s) | Inr _ \<Rightarrow> Some (ok_result, s)
           }
           else Some (ok_result, s)))"
  proof (rule answered [OF assms], goal_cases)
    case (2 x s')
    then have "J [CUpdate (set_console_plugins ps x)]" for ps
      by (intro J_console) (simp add: set_console_plugins_def split: option.split)
    then show ?case by (simp only: prod.case sum.case) (intro read_steps updates; simp)
  qed (simp add: ret)
  then show ?thesis unfolding removePluginFromConsoleResource_def by (intro cond ret) (simp_all add: assms(2))
qed

lemma removal_namespaces:
  assumes "get_answers_kind cx" "ks_Trace s = t"
  shows "appends t J (finalize_hub_namespace cx m s)"
proof -
  have local: "appends t J (finalize_local_namespace cx m s)" if "ks_Trace s = t" for s t
    unfolding finalize_local_namespace_def Let_def by (intro read_steps) (use that in auto)
  have global: "appends t J (finalize_global_set cx m s)" if "ks_Trace s = t" for s t
    unfolding finalize_global_set_def
    by (rule answered [OF assms(1) that]; simp only: prod.case sum.case; intro removes read_steps local;
        simp add: removed_kinds_def)
  show ?thesis
    unfolding finalize_hub_namespace_def by (intro read_steps terminating global) (use assms in auto)
qed

lemma removal_resources:
  assumes "get_answers_kind cx" "ks_Trace s = t"
  shows "appends t J (finalize_hypershift_addon cx m s)"
proof -
  have manager: "appends t J (finalize_cluster_manager cx m s)" if "ks_Trace s = t" for s t
    unfolding finalize_cluster_manager_def
    by (rule answered [OF assms(1) that]; simp only: prod.case sum.case;
        intro removes read_steps terminating removal_namespaces [OF assms(1)]; simp add: removed_kinds_def)
  have cluster: "appends t J (finalize_local_cluster cx m s)" if "ks_Trace s = t" for s t
    unfolding finalize_local_cluster_def Let_def
    by (rule answered [OF assms(1) that]; simp only: prod.case sum.case;
        intro removes read_steps terminating manager; simp add: removed_kinds_def)
  show ?thesis
    unfolding finalize_hypershift_addon_def Let_def
    by (rule answered [OF assms]; simp only: prod.case sum.case;
        intro removes read_steps terminating cluster; simp add: removed_kinds_def hypershift_kind)
qed

lemma removal_finalize:
  assumes "get_answers_kind cx" "ks_Trace s = t"
  shows "appends t J (finalizeBackplaneConfig cx m s)"
  unfolding finalizeBackplaneConfig_def ensureNoAllInternalEngineComponents_def finalize_console_def
  by (intro read_steps cluster_info removal_internals [OF assms(1)] removal_console [OF assms(1)]
      removal_resources [OF assms(1)]) (use assms(2) in auto)

end

locale uninstall_trace = removal_trace J + frame_trace J key mine
  for J :: "api_call list \<Rightarrow> bool" and key :: "MultiClusterEngine \<Rightarrow> 'k" and mine
begin

lemma uninstall:
  assumes "get_answers_kind cx" "mine m" "ks_Trace s = t"
  shows "appends t J (reconcile_deletion cx m s)"
  unfolding reconcile_deletion_def deleteMaestroNamespace_def delete_ignoring_absent_def Let_def
  by (intro removes read_steps engine_calls removal_finalize [OF assms(1)])
    (use assms in \<open>auto simp: mine_frame removed_kinds_def mk_obj_def same_kind_def\<close>)

lemma uninstalled:
  assumes "get_answers_kind cx" "update_keeps key cx" "mine m"
    and "fst (cl_GetMCE (cx_Client cx) name (ks_World s)) = Inr m" "mce_DeletionTimestamp m \<noteq> None"
  shows "appends (ks_Trace s) J (Reconcile cx name s)"
proof (rule reconciliation [OF assms(2,3) _ assms(4)], goal_cases)
  case (1 upgrade s)
  have "mce_DeletionTimestamp (drop_failures m) \<noteq> None" using assms(5) by (simp add: drop_failures_def)
  then show ?case using assms(1,3) by (simp add: reconcile_body_def uninstall mine_frame)
qed

end

text \<open>The markers cover these kinds, the console and the engine with its status.\<close>

lemmas kind_defs = internalEngineComponentGVK_def managedClusterAddOnGVK_def managedClusterGVK_def
  clusterManagerGVK_def namespaceGVK_def consoleGVK_def mk_gvk_def

lemma removals_permitted:
  "permits_kind controller_rules ''delete'' internalEngineComponentGVK"
  "permits_kind controller_rules ''delete'' managedClusterAddOnGVK"
  "permits_kind controller_rules ''delete'' managedClusterGVK"
  "permits_kind controller_rules ''delete'' clusterManagerGVK"
  "permits_kind controller_rules ''delete'' namespaceGVK"
  "permits_kind controller_rules ''update'' consoleGVK"
  "permits controller_rules ''update'' ''multicluster.openshift.io'' ''multiclusterengines''"
  "permits controller_rules ''update'' ''multicluster.openshift.io'' ''multiclusterengines/status''"
  by code_simp+

interpretation permitted: uninstall_trace "list_all (write_permitted controller_rules)" "\<lambda>_. ()" "\<lambda>_. True"
proof (unfold_locales, goal_cases)
  case (3 c)
  then show ?case by (cases c) simp_all
next
  case (4 u)
  then show ?case by (auto simp: removed_kinds_def removals_permitted permits_same_kind)
next
  case (5 u)
  then show ?case by (simp add: removals_permitted permits_same_kind)
qed (auto simp: removals_permitted)

text \<open>
  C11: The permissions written by hand suffice for the uninstallation: when an engine that is being deleted is
  reconciled, every write that is sent is permitted by the markers of the
  controller, those of the engine and its status included.  The cluster may answer anything, as long as a
  read answers with an object of the kind that was asked for.  The generated permissions are not needed for it, so
  the operator can remove an engine whichever charts it ships.
\<close>

theorem uninstall_permitted:
  assumes "get_answers_kind cx"
    and "fst (cl_GetMCE (cx_Client cx) name (ks_World s)) = Inr m" "mce_DeletionTimestamp m \<noteq> None"
    and "Reconcile cx name s = Some (r, s')"
  shows "\<exists>es. ks_Trace s' = ks_Trace s @ es \<and> list_all (write_permitted controller_rules) es"
  using permitted.uninstalled [OF assms(1) _ _ assms(2,3)] assms(4) by (simp add: appends_def update_keeps_def)

lemma sample_answers_kind: "get_answers_kind sample_ctx"
  by (auto simp: get_answers_kind_def same_kind_def sample_ctx_def mem_client_def mem_find_def find_Some_iff
      split: option.splits)

theorem uninstall_permitted_witness:
  "\<exists>r s'. Reconcile sample_ctx ''engine'' deleting = Some (r, s') \<and> list_all (write_permitted controller_rules) (ks_Trace s')"
proof -
  obtain r s' where run: "Reconcile sample_ctx ''engine'' deleting = Some (r, s')"
    using deleted_total [OF deleting_engine] by blast
  show ?thesis
    using uninstall_permitted [OF sample_answers_kind deleting_engine(1,3) run] run by (auto simp: sample_rstate_def)
qed

end
