(* ===== verification/Chart_Permissions.thy ===== *)
theory Chart_Permissions
  imports Permissions
begin

text \<open>
  The permissions to apply what the charts contain.  The generator stops at a kind that is not in its list
  \<open>resources\<close>; these markers, written beside that list in \<open>pkg/templates/rbac.go\<close>, and those of the controller
  are what the list stands for.
\<close>

section \<open>The markers beside the generator\<close>

definition generator_rules :: "PolicyRule list" where
  "generator_rules =
    [policy ['''']
       [''configmaps'', ''serviceaccounts'', ''services'']
       [''create'', ''get'', ''list'', ''update'', ''watch'', ''patch'', ''delete''],
     policy [''apps'']
       [''deployments'', ''statefulsets'']
       [''create'', ''get'', ''list'', ''update'', ''watch'', ''patch'', ''delete''],
     policy [''rbac.authorization.k8s.io'']
       [''clusterrolebindings'', ''rolebindings'']
       [''create'', ''get'', ''list'', ''update'', ''watch'', ''patch'', ''delete''],
     policy [''rbac.authorization.k8s.io'']
       [''clusterroles'', ''roles'']
       [''create'', ''get'', ''list'', ''update'', ''watch'', ''patch'', ''delete'', ''bind''],
     policy [''apiextensions.k8s.io'']
       [''customresourcedefinitions'']
       [''create'', ''get'', ''list'', ''update'', ''watch'', ''patch'', ''delete''],
     policy [''admissionregistration.k8s.io'']
       [''validatingwebhookconfigurations'', ''mutatingwebhookconfigurations'']
       [''create'', ''get'', ''list'', ''update'', ''watch'', ''patch'', ''delete''],
     policy [''apiregistration.k8s.io'']
       [''apiservices'']
       [''create'', ''get'', ''list'', ''update'', ''watch'', ''patch'', ''delete''],
     policy [''addon.open-cluster-management.io'']
       [''clustermanagementaddons'']
       [''create'', ''get'', ''list'', ''update'', ''patch'', ''watch'', ''delete''],
     policy [''addon.open-cluster-management.io'']
       [''addondeploymentconfigs'']
       [''create'', ''get'', ''list'', ''update'', ''patch'', ''watch'', ''delete''],
     policy [''addon.open-cluster-management.io'']
       [''addontemplates'']
       [''create'', ''get'', ''list'', ''update'', ''patch'', ''watch'', ''delete''],
     policy [''cluster.open-cluster-management.io'']
       [''placements'']
       [''get'', ''list'', ''watch'', ''create'', ''update'', ''patch'', ''delete''],
     policy [''console.openshift.io'']
       [''consolenotifications'', ''consoleplugins'', ''consolequickstarts'']
       [''get'', ''list'', ''watch'', ''create'', ''update'', ''patch'', ''delete''],
     policy [''monitoring.coreos.com'']
       [''servicemonitors'']
       [''get'', ''create'', ''update'', ''list'', ''watch'', ''delete'', ''patch''],
     policy [''cert-manager.io'']
       [''certificates'']
       [''get'', ''create'', ''update'', ''list'', ''watch'', ''delete'', ''patch''],
     policy [''cert-manager.io'']
       [''issuers'']
       [''get'', ''create'', ''update'', ''list'', ''watch'', ''delete'', ''patch''],
     policy [''route.openshift.io'']
       [''routes'']
       [''get'', ''create'', ''update'', ''list'', ''watch'', ''delete'', ''patch''],
     policy [''proxy.open-cluster-management.io'']
       [''managedproxyconfigurations'']
       [''get'', ''create'', ''update'', ''list'', ''watch'', ''delete'', ''patch'']]"

definition applied_rules :: "PolicyRule list" where
  "applied_rules = controller_rules @ generator_rules"

section \<open>Kinds of the charts\<close>

text \<open>The API group of each kind that the generator accepts.\<close>

definition chart_groups :: strmap where
  "chart_groups =
    [(''AddOnDeploymentConfig'', ''addon.open-cluster-management.io''), (''AddOnTemplate'',
     ''addon.open-cluster-management.io''), (''APIService'', ''apiregistration.k8s.io''),
     (''ClusterManagementAddOn'', ''addon.open-cluster-management.io''), (''ClusterRole'',
     ''rbac.authorization.k8s.io''), (''ClusterRoleBinding'', ''rbac.authorization.k8s.io''),
     (''ConfigMap'', ''''), (''ConsoleNotification'', ''console.openshift.io''), (''ConsolePlugin'',
     ''console.openshift.io''), (''ConsoleQuickStart'', ''console.openshift.io''),
     (''CustomResourceDefinition'', ''apiextensions.k8s.io''), (''Deployment'', ''apps''),
     (''ManagedProxyConfiguration'', ''proxy.open-cluster-management.io''),
     (''MutatingWebhookConfiguration'', ''admissionregistration.k8s.io''), (''Namespace'', ''''),
     (''NetworkPolicy'', ''networking.k8s.io''), (''Placement'', ''cluster.open-cluster-management.io''),
     (''PodDisruptionBudget'', ''policy''), (''PrometheusRule'', ''monitoring.coreos.com''), (''Role'',
     ''rbac.authorization.k8s.io''), (''RoleBinding'', ''rbac.authorization.k8s.io''), (''Route'',
     ''route.openshift.io''), (''Secret'', ''''), (''Service'', ''''), (''ServiceAccount'', ''''),
     (''ServiceMonitor'', ''monitoring.coreos.com''), (''StatefulSet'', ''apps''),
     (''ValidatingWebhookConfiguration'', ''admissionregistration.k8s.io''), (''Certificate'',
     ''cert-manager.io''), (''Issuer'', ''cert-manager.io'')]"

text \<open>What applying and deleting a template asks the API server for.\<close>

definition template_verbs :: "string list" where
  "template_verbs = [''get'', ''create'', ''patch'', ''delete'']"

definition kind_applicable :: "string \<Rightarrow> bool" where
  "kind_applicable k =
    list_all (\<lambda>v. permits_kind applied_rules v (mk_gvk (sm_get chart_groups k) '''' k)) template_verbs"

lemma kinds_applicable: "list_all (\<lambda>k. k = ''PrometheusRule'' \<or> kind_applicable k) resources"
  by code_simp

lemma prometheus_rule: "''PrometheusRule'' \<in> set resources" "\<not> kind_applicable ''PrometheusRule''"
  by code_simp+

text \<open>
  C36: The check of the generator keeps its promise, with one exception.  When the generator succeeds, every
  object of the rendered charts that is of the API group of its kind may be read, created, patched and deleted
  with the markers that are written by hand, unless it is a \<open>PrometheusRule\<close>: that kind is in the list the
  generator checks against, but none of these markers permits to apply it, so that permission hangs on the roles
  the charts happen to contain.
\<close>

theorem checked_charts_permitted:
  assumes "rbac_main cx env decode file = Some text"
  shows "\<exists>templates. RenderCharts cx (sm_put env ''ACM_HUB_OCP_VERSION'' ''4.10.0'')
      ''pkg/templates/charts/toggle'' testBackplane testImages [] = Inr templates
    \<and> (\<forall>t \<in> set templates. \<forall>v \<in> set template_verbs.
        ko_Kind t \<notin> {'''', ''PrometheusRule''} \<and> gvk_Group (ko_GVK t) = sm_get chart_groups (ko_Kind t) \<longrightarrow>
        permits_kind applied_rules v (ko_GVK t))
    \<and> ''PrometheusRule'' \<in> set resources \<and> \<not> kind_applicable ''PrometheusRule''"
proof -
  obtain templates ls where run: "RenderCharts cx (sm_put env ''ACM_HUB_OCP_VERSION'' ''4.10.0'')
      ''pkg/templates/charts/toggle'' testBackplane testImages [] = Inr templates" "collect_markers decode templates [] = Some ls"
    using assms by (auto simp: rbac_main_def bind_eq_Some_conv split: sum.splits if_splits)
  have "ko_Kind t \<in> {'''', ''ClusterRole'', ''Role''} \<union> set resources" if "t \<in> set templates" for t
    using collect_markers_spec [OF run(2)] that by (auto simp: template_markers_def split: if_splits)
  moreover have "''ClusterRole'' \<in> set resources" "''Role'' \<in> set resources" by code_simp+
  ultimately have listed: "ko_Kind t \<in> set resources" if "t \<in> set templates" "ko_Kind t \<noteq> ''''" for t
    using that by (metis Un_iff insert_iff singletonD)
  have "permits_kind applied_rules v (ko_GVK t)"
    if "t \<in> set templates" "v \<in> set template_verbs" "ko_Kind t \<notin> {'''', ''PrometheusRule''}"
      "gvk_Group (ko_GVK t) = sm_get chart_groups (ko_Kind t)" for t v
  proof -
    have "kind_applicable (ko_Kind t)" using kinds_applicable listed [OF that(1)] that(3) by (auto simp: list_all_iff)
    then have "permits_kind applied_rules v (mk_gvk (sm_get chart_groups (ko_Kind t)) '''' (ko_Kind t))"
      using that(2) by (simp add: kind_applicable_def list_all_iff)
    moreover have "same_kind (ko_GVK t) (mk_gvk (sm_get chart_groups (ko_Kind t)) '''' (ko_Kind t))"
      using that(4) by (simp add: same_kind_def mk_gvk_def)
    ultimately show ?thesis by (simp add: permits_same_kind)
  qed
  then show ?thesis using run(1) prometheus_rule by (intro exI [of _ templates]) auto
qed

theorem checked_charts_permitted_witness:
  "\<exists>text t. rbac_main role_ctx [] (\<lambda>_. Inr [secret_rule]) None = Some text \<and> ko_Kind t = ''ClusterRole''
    \<and> RenderCharts role_ctx (sm_put [] ''ACM_HUB_OCP_VERSION'' ''4.10.0'') ''pkg/templates/charts/toggle''
        testBackplane testImages [] = Inr [t]
    \<and> permits_kind applied_rules ''create'' (ko_GVK t)"
proof -
  let ?t = "finish_template testBackplane (mk_obj (mk_gvk ''rbac.authorization.k8s.io'' ''v1'' ''ClusterRole'') '''' ''role'')"
  have kind: "ko_Kind ?t = ''ClusterRole''" "gvk_Group (ko_GVK ?t) = sm_get chart_groups (ko_Kind ?t)"
    by (simp_all add: mk_obj_def mk_gvk_def chart_groups_def sm_get_def finish_template_def AddBackplaneConfigLabels_def Let_def)
  have render: "RenderCharts role_ctx (sm_put [] ''ACM_HUB_OCP_VERSION'' ''4.10.0'') ''pkg/templates/charts/toggle''
      testBackplane testImages [] = Inr [?t]"
    by (simp add: RenderCharts_def renderTemplates_def role_ctx_def mk_obj_def mk_gvk_def Let_def)
  then have run: "rbac_main role_ctx [] (\<lambda>_. Inr [secret_rule]) None = Some (packageTemplate (sort [marker secret_rule]))"
    using kind(1) by (simp add: rbac_main_def template_markers_def extractFromRules_def secret_rule_def)
  have "''create'' \<in> set template_verbs" by (simp add: template_verbs_def)
  then have "permits_kind applied_rules ''create'' (ko_GVK ?t)"
    using checked_charts_permitted [OF run] render kind by auto
  then show ?thesis using run render kind(1) by blast
qed

end
