(* ===== verification/Serving_Certs.thy ===== *)
theory Serving_Certs
  imports Maestro
begin

text \<open>
  The serving certificates of the webhook outside OpenShift: \<open>GetServingCertCABundle\<close> and
  \<open>DumpServingCertSecret\<close> of \<open>pkg/utils/utils.go\<close>.  The process now also has files; the operating
  system's operations on them are a parameter, a record of functions over an arbitrary type \<open>'f\<close> of
  file systems.
\<close>

record 'f files =
  fs_MkdirAll :: "string \<Rightarrow> 'f \<Rightarrow> go_error option \<times> 'f"
  fs_ReadFile :: "string \<Rightarrow> 'f \<Rightarrow> string resp"
  fs_IsNotExist :: "go_error \<Rightarrow> bool"
  fs_WriteFile :: "string \<Rightarrow> string \<Rightarrow> 'f \<Rightarrow> go_error option \<times> 'f"

record ('w, 'f) pstate = "'w kstate" +
  ps_Files :: 'f

record ServingCertGetter =
  sc_caBundleConfigMapName :: string
  sc_namespace :: string

section \<open>The CA bundle\<close>

text \<open>\<^term>\<open>None\<close> is a getter that was never set.\<close>

definition GetServingCertCABundle ::
  "'w client \<Rightarrow> ServingCertGetter option \<Rightarrow> (('w, 'z) kstate_scheme, string resp) go" where
  "GetServingCertCABundle cl getter s =
    (case getter of
       None \<Rightarrow> Some (Inl (ErrorString ''GlobalServingCertCABundleGetter is nil''), s)
     | Some g \<Rightarrow> do {
         (r, s) \<leftarrow> api_Get cl configMapGVK (sc_namespace g, sc_caBundleConfigMapName g) s;
         case r of
           Inl e \<Rightarrow> Some (Inl e, s)
         | Inr cm \<Rightarrow>
             (let caBundle = sm_get (data_of cm) ''ca-bundle.crt''
              in if caBundle = ''''
                 then Some (Inl (ErrorString ''CA bundle ConfigMap does not contain a CA bundle''), s)
                 else Some (Inr caBundle, s))
       })"

section \<open>The certificate files\<close>

abbreviation cert_dir :: string where
  "cert_dir \<equiv> ''/tmp/k8s-webhook-server/serving-certs''"

definition cert_path :: "string \<Rightarrow> string" where
  "cert_path key = path_Clean (path_Join [cert_dir, key])"

definition write_error :: "string \<Rightarrow> go_error \<Rightarrow> go_error" where
  "write_error filename e =
    WrapError (''unable to write file '' @ [CHR 0x22] @ filename @ [CHR 0x22] @ '': '' @ err_msg e) e"

text \<open>One file: written when it is missing or differs.\<close>

definition write_cert :: "'f files \<Rightarrow> string \<Rightarrow> string \<Rightarrow> 'f \<Rightarrow> go_error option \<times> 'f" where
  "write_cert fs key data f =
    (let filename = cert_path key
     in case fs_ReadFile fs (path_Clean filename) f of
          Inl e \<Rightarrow>
            if fs_IsNotExist fs e
            then (case fs_WriteFile fs filename data f of
                    (Some e, f) \<Rightarrow> (Some (write_error filename e), f)
                  | (None, f) \<Rightarrow> (None, f))
            else (Some (write_error filename e), f)
        | Inr lastData \<Rightarrow>
            if lastData = data then (None, f)
            else (case fs_WriteFile fs (path_Clean filename) data f of
                    (Some e, f) \<Rightarrow> (Some (write_error filename e), f)
                  | (None, f) \<Rightarrow> (None, f)))"

text \<open>
  The loop over the secret's data.  The source ranges over a map; the model goes through it in the
  order of the list, which is one of the orders of the map.
\<close>

fun write_certs :: "'f files \<Rightarrow> strmap \<Rightarrow> 'f \<Rightarrow> go_error option \<times> 'f" where
  "write_certs fs [] f = (None, f)"
| "write_certs fs ((key, data) # rest) f =
    (case write_cert fs key data f of
       (Some e, f) \<Rightarrow> (Some e, f)
     | (None, f) \<Rightarrow> write_certs fs rest f)"

text \<open>What is wrong with the secret's data, in the order of the checks.\<close>

definition cert_problem :: "strmap \<Rightarrow> string option" where
  "cert_problem data =
    (let tlsCert = sm_get data ''tls.crt''; tlsKey = sm_get data ''tls.key''
     in if \<not> sm_has data ''tls.crt'' \<or> \<not> sm_has data ''tls.key''
        then Some ''secret multicluster-engine-operator-webhook is missing required keys (tls.crt or tls.key)''
        else if tlsCert = '''' \<or> tlsKey = ''''
        then Some ''secret multicluster-engine-operator-webhook contains empty certificate or key data''
        else if \<not> Contains tlsCert ''BEGIN CERTIFICATE''
        then Some ''tls.crt does not contain valid PEM certificate data''
        else if \<not> Contains tlsKey ''BEGIN'' \<or> \<not> Contains tlsKey ''PRIVATE KEY''
        then Some ''tls.key does not contain valid PEM private key data''
        else None)"

text \<open>
  \<open>decode\<close> is the decoding of a \<open>Secret\<close>'s data by the client library.  Without a getter the code
  follows a nil pointer.
\<close>

definition DumpServingCertSecret ::
  "'w client \<Rightarrow> 'f files \<Rightarrow> (kobj \<Rightarrow> strmap) \<Rightarrow> ServingCertGetter option
    \<Rightarrow> (('w, 'f) pstate, go_error option) go" where
  "DumpServingCertSecret cl fs decode getter s = do {
     g \<leftarrow> getter;
     (r, s) \<leftarrow> api_Get cl secretGVK (sc_namespace g, ''multicluster-engine-operator-webhook'') s;
     case r of
       Inl e \<Rightarrow> Some (Some (ErrorString
         (''failed to get secret multicluster-engine-operator-webhook: '' @ err_msg e)), s)
     | Inr certKeySecret \<Rightarrow>
         (case cert_problem (decode certKeySecret) of
            Some p \<Rightarrow> Some (Some (ErrorString p), s)
          | None \<Rightarrow>
              (case fs_MkdirAll fs cert_dir (ps_Files s) of
                 (Some e, f) \<Rightarrow> Some (Some (ErrorString (''failed to create directory '' @ [CHR 0x22]
                     @ cert_dir @ [CHR 0x22] @ '': '' @ err_msg e)), s\<lparr>ps_Files := f\<rparr>)
               | (None, f) \<Rightarrow>
                   (case write_certs fs (decode certKeySecret) f of
                      (e, f) \<Rightarrow> Some (e, s\<lparr>ps_Files := f\<rparr>))))
   }"

section \<open>Properties\<close>

text \<open>
  What the code relies on: reading a file after writing it gives what was written, and the other
  files stay as they are.
\<close>

definition file_store :: "'f files \<Rightarrow> bool" where
  "file_store fs =
    (\<forall>p d f f'. fs_WriteFile fs p d f = (None, f') \<longrightarrow>
       fs_ReadFile fs p f' = Inr d \<and> (\<forall>q. q \<noteq> p \<longrightarrow> fs_ReadFile fs q f' = fs_ReadFile fs q f))"

text \<open>The keys of a secret contain no slash and are no relative path.\<close>

definition valid_key :: "string \<Rightarrow> bool" where
  "valid_key k = (k \<notin> {'''', ''.'', ''..''} \<and> CHR ''/'' \<notin> set k)"

lemma cert_path_valid:
  assumes "valid_key k"
  shows "cert_path k = cert_dir @ ''/'' @ k" "path_Clean (cert_path k) = cert_path k"
proof -
  have "split_on CHR ''/'' (cert_dir @ ''/'' @ k) = ['''', ''tmp'', ''k8s-webhook-server'', ''serving-certs'', k]"
    using assms by (simp add: valid_key_def split_on_no_sep)
  then have clean: "path_Clean (cert_dir @ ''/'' @ k) = cert_dir @ ''/'' @ k"
    using assms by (simp add: path_Clean_def HasPrefix_def valid_key_def)
  then show "cert_path k = cert_dir @ ''/'' @ k"
    using assms by (simp add: cert_path_def path_Join_def valid_key_def)
  with clean show "path_Clean (cert_path k) = cert_path k" by simp
qed

lemma write_cert_ok:
  assumes "file_store fs" "valid_key key" "write_cert fs key data f = (None, f')"
  shows "fs_ReadFile fs (cert_path key) f' = Inr data"
    "q \<noteq> cert_path key \<Longrightarrow> fs_ReadFile fs q f' = fs_ReadFile fs q f"
  using assms unfolding write_cert_def Let_def cert_path_valid(2) [OF assms(2)]
  by (auto simp: file_store_def split: sum.splits if_splits prod.splits option.splits)

lemma write_certs_ok:
  assumes "file_store fs"
  shows "write_certs fs data f = (None, f') \<Longrightarrow> distinct (map fst data) \<Longrightarrow> list_all valid_key (map fst data) \<Longrightarrow>
    (\<forall>(k, d) \<in> set data. fs_ReadFile fs (cert_path k) f' = Inr d)
    \<and> (\<forall>q. q \<notin> cert_path ` fst ` set data \<longrightarrow> fs_ReadFile fs q f' = fs_ReadFile fs q f)"
proof (induction data arbitrary: f)
  case (Cons kd data)
  obtain key d where kd: "kd = (key, d)" by (cases kd)
  obtain f1 where f1: "write_cert fs key d f = (None, f1)" "write_certs fs data f1 = (None, f')"
    using Cons.prems(1) kd by (auto split: prod.splits option.splits)
  have valid: "valid_key key" "list_all valid_key (map fst data)" "key \<notin> fst ` set data"
    using Cons.prems kd by auto
  have "cert_path k = cert_path key \<longleftrightarrow> k = key" if "k \<in> fst ` set data" for k
    using that valid(1,2) by (auto simp: list_all_iff cert_path_valid(1))
  then have new: "cert_path key \<notin> cert_path ` fst ` set data" using valid(3) by (metis imageE)
  have IH: "(\<forall>(k, d) \<in> set data. fs_ReadFile fs (cert_path k) f' = Inr d)"
    "\<And>q. q \<notin> cert_path ` fst ` set data \<Longrightarrow> fs_ReadFile fs q f' = fs_ReadFile fs q f1"
    using Cons.IH [OF f1(2)] Cons.prems(2) valid(2) by auto
  show ?case
    using IH(1) IH(2) [OF new] IH(2) write_cert_ok [OF assms valid(1) f1(1)] by (auto simp: kd)
qed simp

text \<open>
  C29: Dumping the serving certificates is faithful: when it returns without an error, the secret was
  read, its certificate and key look like PEM data, and every entry of the secret can be read back,
  unchanged, from the file named after its key.  Holds for every file system in which a written file
  can be read back and other files are left alone, and for secrets whose keys are distinct file names.
\<close>

theorem serving_cert_roundtrip:
  assumes "file_store fs" "DumpServingCertSecret cl fs decode (Some g) s = Some (None, s')"
  shows "\<exists>u. fst (cl_Get cl secretGVK (sc_namespace g, ''multicluster-engine-operator-webhook'') (ks_World s)) = Inr u
    \<and> Contains (sm_get (decode u) ''tls.crt'') ''BEGIN CERTIFICATE''
    \<and> Contains (sm_get (decode u) ''tls.key'') ''PRIVATE KEY''
    \<and> (distinct (map fst (decode u)) \<and> list_all valid_key (map fst (decode u)) \<longrightarrow>
        (\<forall>(k, d) \<in> set (decode u). fs_ReadFile fs (cert_dir @ ''/'' @ k) (ps_Files s') = Inr d))"
proof -
  let ?r = "fst (cl_Get cl secretGVK (sc_namespace g, ''multicluster-engine-operator-webhook'') (ks_World s))"
  obtain u where u: "?r = Inr u" "cert_problem (decode u) = None"
    using assms(2) by (auto simp: DumpServingCertSecret_def api_eqs split: sum.splits option.splits)
  obtain f where f: "write_certs fs (decode u) f = (None, ps_Files s')"
    using assms(2) u by (auto simp: DumpServingCertSecret_def api_eqs split: prod.splits option.splits)
  have "Contains (sm_get (decode u) ''tls.crt'') ''BEGIN CERTIFICATE''"
    "Contains (sm_get (decode u) ''tls.key'') ''PRIVATE KEY''"
    using u(2) by (auto simp: cert_problem_def Let_def split: if_splits)
  moreover have "\<forall>(k, d) \<in> set (decode u). fs_ReadFile fs (cert_dir @ ''/'' @ k) (ps_Files s') = Inr d"
    if "distinct (map fst (decode u))" "list_all valid_key (map fst (decode u))"
    using write_certs_ok [OF assms(1) f that] that(2) cert_path_valid(1)
    by (fastforce simp: list_all_iff)
  ultimately show ?thesis using u(1) by blast
qed

text \<open>A file system as a map from paths to contents.\<close>

definition map_files :: "(string \<Rightarrow> string option) files" where
  "map_files =
    \<lparr>fs_MkdirAll = (\<lambda>p f. (None, f)),
     fs_ReadFile = (\<lambda>p f. case f p of None \<Rightarrow> Inl (ErrorString ''no such file'') | Some d \<Rightarrow> Inr d),
     fs_IsNotExist = (\<lambda>e. True), fs_WriteFile = (\<lambda>p d f. (None, f(p \<mapsto> d)))\<rparr>"

definition cert_secret :: kobj where
  "cert_secret = (mk_obj secretGVK ''mce'' ''multicluster-engine-operator-webhook'')\<lparr>ko_Content :=
    [(''data'', strmap_json [(''tls.crt'', ''-BEGIN CERTIFICATE-''), (''tls.key'', ''-BEGIN PRIVATE KEY-'')])]\<rparr>"

definition cert_state :: "(mem, string \<Rightarrow> string option) pstate" where
  "cert_state = \<lparr>ks_World = empty_mem\<lparr>mem_Objs := [cert_secret]\<rparr>, ks_Trace = [], ps_Files = Map.empty\<rparr>"

abbreviation sample_getter :: ServingCertGetter where
  "sample_getter \<equiv> \<lparr>sc_caBundleConfigMapName = ''ca'', sc_namespace = ''mce''\<rparr>"

theorem serving_cert_roundtrip_witness:
  "\<exists>s'. DumpServingCertSecret mem_client map_files data_of (Some sample_getter) cert_state = Some (None, s')
    \<and> fs_ReadFile map_files (cert_dir @ ''/tls.crt'') (ps_Files s') = Inr ''-BEGIN CERTIFICATE-''"
proof -
  have data: "data_of cert_secret = [(''tls.crt'', ''-BEGIN CERTIFICATE-''), (''tls.key'', ''-BEGIN PRIVATE KEY-'')]"
    by (simp add: cert_secret_def data_of_def strmap_json_def)
  have get: "fst (cl_Get mem_client secretGVK (''mce'', ''multicluster-engine-operator-webhook'') (ks_World cert_state))
      = Inr cert_secret"
    by (simp add: mem_client_def mem_find_def cert_state_def cert_secret_def mk_obj_def)
  have store: "file_store map_files" by (auto simp: file_store_def map_files_def)
  have "\<exists>f'. write_cert map_files k d f = (None, f')" for k d f
    by (simp add: write_cert_def map_files_def Let_def split: option.split)
  then have "\<exists>f'. write_certs map_files data f = (None, f')" for data f
    by (induction data arbitrary: f) (auto split: prod.split option.split, metis option.distinct(1) prod.inject)
  then obtain f where files: "write_certs map_files (data_of cert_secret) Map.empty = (None, f)" by blast
  have mkdir: "fs_MkdirAll map_files p g = (None, g)" for p g by (simp add: map_files_def)
  have start: "ps_Files (log_call c w cert_state) = Map.empty" for c w by (simp add: cert_state_def log_call_def)
  have ok: "cert_problem (data_of cert_secret) = None"
    by (simp add: data cert_problem_def sm_get_def sm_has_def HasPrefix_def)
  obtain s' where run:
    "DumpServingCertSecret mem_client map_files data_of (Some sample_getter) cert_state = Some (None, s')"
    by (simp add: DumpServingCertSecret_def api_eqs get ok mkdir start files)
  show ?thesis
    using serving_cert_roundtrip [OF store run] run get by (auto simp: data valid_key_def)
qed

end
