(* ===== verification/Startup.thy ===== *)
theory Startup
  imports Serving_Certs Reconcile_Steps
begin

text \<open>
  The start of the operator process (\<open>main.go\<close>), the configuration of its validating webhook
  (\<open>ValidatingWebhook\<close> of \<open>api/v1/multiclusterengine_webhook.go\<close>) and the controller that keeps this
  configuration up to date outside OpenShift (\<open>controllers/mcewebhook/webhook_controller.go\<close>).  Waiting
  (\<open>time.Sleep\<close>) and log output are left out; \<open>os.Exit(1)\<close> is the outcome \<open>Exited\<close> with the message
  that was logged.
\<close>

section \<open>The webhook configuration\<close>

definition webhookConfigurationGVK :: gvk where
  "webhookConfigurationGVK =
    mk_gvk ''admissionregistration.k8s.io'' ''v1'' ''ValidatingWebhookConfiguration''"

abbreviation MCEValidatingWebhookName :: string where
  "MCEValidatingWebhookName \<equiv> ''multiclusterengines.multicluster.openshift.io''"

definition webhook_entry :: "string \<Rightarrow> (string \<times> json) list" where
  "webhook_entry namespace =
    [(''admissionReviewVersions'', JArray [JString ''v1'', JString ''v1beta1'']),
     (''name'', JString ''multiclusterengines.multicluster.openshift.io''),
     (''clientConfig'', JObject [(''service'', JObject
        [(''name'', JString ''multicluster-engine-operator-webhook-service''),
         (''namespace'', JString namespace),
         (''path'', JString ''/validate-multicluster-openshift-io-v1-multiclusterengine'')])]),
     (''failurePolicy'', JString ''Fail''),
     (''rules'', JArray [JObject
        [(''apiGroups'', JArray [JString ''multicluster.openshift.io'']),
         (''apiVersions'', JArray [JString ''v1'']),
         (''resources'', JArray [JString ''multiclusterengines'']),
         (''operations'', JArray [JString ''CREATE'', JString ''UPDATE'', JString ''DELETE''])]]),
     (''sideEffects'', JString ''None'')]"

definition ValidatingWebhook :: "string \<Rightarrow> kobj" where
  "ValidatingWebhook namespace =
    (mk_obj webhookConfigurationGVK '''' MCEValidatingWebhookName)
      \<lparr>ko_Annotations := [(''service.beta.openshift.io/inject-cabundle'', ''true'')],
       ko_Content := [(''webhooks'', JArray [JObject (webhook_entry namespace)])]\<rparr>"

text \<open>
  The field \<open>Webhooks\<close> of a configuration.  \<open>CABundle\<close> of the first webhook's client configuration is a
  byte slice, which the JSON form carries in base 64.
\<close>

definition webhooks_of :: "kobj \<Rightarrow> json list" where
  "webhooks_of u = (case map_of (ko_Content u) ''webhooks'' of Some (JArray ws) \<Rightarrow> ws | _ \<Rightarrow> [])"

definition set_webhooks :: "json list \<Rightarrow> kobj \<Rightarrow> kobj" where
  "set_webhooks ws u = u\<lparr>ko_Content := AList.update ''webhooks'' (JArray ws) (ko_Content u)\<rparr>"

definition set_ca_bundle :: "string \<Rightarrow> json list \<Rightarrow> json list" where
  "set_ca_bundle ca ws =
    (case ws of
       JObject w # rest \<Rightarrow>
         (case set_nested w [''clientConfig'', ''caBundle''] (JString (base64 ca)) of
            Some w' \<Rightarrow> JObject w' # rest
          | None \<Rightarrow> ws)
     | _ \<Rightarrow> ws)"

section \<open>The webhook controller\<close>

text \<open>
  \<open>Reconciler.Reconcile\<close> of package \<open>mcewebhook\<close>.  A missing CA bundle leaves the field unset.
\<close>

definition webhook_Reconcile ::
  "'w client \<Rightarrow> bool \<Rightarrow> ServingCertGetter option \<Rightarrow> string \<Rightarrow> (('w, 'z) kstate_scheme, reconcile_result) go" where
  "webhook_Reconcile cl deployOnOCP getter namespace s = do {
     let webhooks = webhooks_of (ValidatingWebhook namespace);
     (r, s) \<leftarrow> api_Get cl webhookConfigurationGVK ('''', MCEValidatingWebhookName) s;
     case r of
       Inl e \<Rightarrow>
         if IsNotFound e then Some ((\<lparr>Requeue = True, RequeueAfter = 5 * second\<rparr>, None), s)
         else Some ((no_requeue, Some e), s)
     | Inr existingWebhook \<Rightarrow> do {
         (webhooks, s) \<leftarrow>
           (if \<not> deployOnOCP
            then do {
              (b, s) \<leftarrow> GetServingCertCABundle cl getter s;
              Some (case b of Inl _ \<Rightarrow> webhooks | Inr ca \<Rightarrow> set_ca_bundle ca webhooks, s)
            }
            else Some (webhooks, s));
         if webhooks_of existingWebhook \<noteq> webhooks
         then do {
           (p, s) \<leftarrow> api_Patch cl (set_webhooks webhooks existingWebhook) s;
           Some ((no_requeue, case p of Inl e \<Rightarrow> Some e | Inr _ \<Rightarrow> None), s)
         }
         else Some ((\<lparr>Requeue = True, RequeueAfter = 600 * second\<rparr>, None), s)
       }
   }"

section \<open>Ensuring the webhook at start-up\<close>







section \<open>CRDs and the OLM version\<close>




section \<open>The main function\<close>
















section \<open>The webhook controller and the defaults of the API server\<close>

text \<open>
  Fields of a webhook that the operator leaves out and for which the API documents a default, so that a
  stored configuration has them.
\<close>

definition defaulted_fields :: "string list" where
  "defaulted_fields = [''matchPolicy'', ''timeoutSeconds'', ''namespaceSelector'', ''objectSelector'']"

lemma webhooks_set [simp]: "webhooks_of (set_webhooks ws u) = ws"
  by (simp add: webhooks_of_def set_webhooks_def update_conv')

lemma entry_fields: "k \<in> set defaulted_fields \<Longrightarrow> map_of (webhook_entry ns) k = None"
  by (auto simp: defaulted_fields_def webhook_entry_def)

lemma set_ca_entry:
  "\<exists>w. set_ca_bundle ca [JObject (webhook_entry ns)] = [JObject w]
    \<and> (\<forall>k \<in> set defaulted_fields. map_of w k = None)"
proof -
  have "map_of (AList.update ''clientConfig'' v (webhook_entry ns)) k = None" if "k \<in> set defaulted_fields" for v k
    using entry_fields [OF that] that by (auto simp: update_conv' defaulted_fields_def)
  then show ?thesis
    using entry_fields by (auto simp: set_ca_bundle_def split: option.splits json.splits)
qed

text \<open>
  C28: Outside OpenShift, where \<open>main\<close> starts it, the webhook controller never settles on a configuration as
  the API server stores it.  When the first webhook that it reads has one of the fields that the API
  server fills in by default and the operator never sets, then its reconciliation, unless it panics, ends
  with a patch of the webhooks, and it never reaches the request to be called again after ten minutes,
  which is there to notice a new CA bundle.  The patch is right: it has the operator's webhook, with
  the CA bundle if that could be read.
\<close>

theorem webhook_never_settles:
  assumes "fst (cl_Get cl webhookConfigurationGVK ('''', MCEValidatingWebhookName) (ks_World s)) = Inr x"
    and "webhooks_of x = JObject w # ws" "k \<in> set defaulted_fields" "map_of w k \<noteq> None"
    and "webhook_Reconcile cl False getter ns s = Some ((res, err), s')"
  shows "res = no_requeue \<and> (\<exists>es u s1 b s2. ks_Trace s' = ks_Trace s @ es @ [CPatch u]
    \<and> list_all (\<lambda>c. \<not> is_write c) es
    \<and> api_Get cl webhookConfigurationGVK ('''', MCEValidatingWebhookName) s = Some (Inr x, s1)
    \<and> GetServingCertCABundle cl getter s1 = Some (b, s2)
    \<and> u = set_webhooks (case b of
          Inl _ \<Rightarrow> webhooks_of (ValidatingWebhook ns)
        | Inr ca \<Rightarrow> set_ca_bundle ca (webhooks_of (ValidatingWebhook ns))) x)"
proof -
  let ?s1 = "log_call (CGet webhookConfigurationGVK ('''', MCEValidatingWebhookName) (Inr x))
    (snd (cl_Get cl webhookConfigurationGVK ('''', MCEValidatingWebhookName) (ks_World s))) s"
  have get: "api_Get cl webhookConfigurationGVK ('''', MCEValidatingWebhookName) s = Some (Inr x, ?s1)"
    using assms(1) by (simp add: api_eqs)
  obtain b s2 where b: "GetServingCertCABundle cl getter ?s1 = Some (b, s2)"
    using assms(5) by (auto simp: webhook_Reconcile_def get bind_eq_Some_conv Let_def)
  obtain es where es: "ks_Trace s2 = ks_Trace ?s1 @ es" "list_all (\<lambda>c. \<not> is_write c) es"
  proof -
    have "emits (\<lambda>c. \<not> is_write c) (ks_Trace ?s1) (GetServingCertCABundle cl getter ?s1)"
      by (auto simp: GetServingCertCABundle_def Let_def intro!: emits_intro emits_reads split: option.split)
    then show ?thesis using b that by (auto simp: emits_def)
  qed
  let ?ws = "case b of Inl _ \<Rightarrow> webhooks_of (ValidatingWebhook ns)
    | Inr ca \<Rightarrow> set_ca_bundle ca (webhooks_of (ValidatingWebhook ns))"
  have "webhooks_of (ValidatingWebhook ns) = [JObject (webhook_entry ns)]"
    by (simp add: ValidatingWebhook_def webhooks_of_def)
  then obtain w' where "?ws = [JObject w']" "map_of w' k = None"
    using set_ca_entry [of _ ns] entry_fields [OF assms(3)] assms(3) that by (cases b) fastforce+
  then have "webhooks_of x \<noteq> ?ws" using assms(2,4) by auto
  then have "res = no_requeue \<and> ks_Trace s' = ks_Trace s2 @ [CPatch (set_webhooks ?ws x)]"
  proof -
    have "webhook_Reconcile cl False getter ns s = do {
        (p, s) \<leftarrow> api_Patch cl (set_webhooks ?ws x) s2;
        Some ((no_requeue, case p of Inl e \<Rightarrow> Some e | Inr _ \<Rightarrow> None), s) }"
      using \<open>webhooks_of x \<noteq> ?ws\<close> by (simp add: webhook_Reconcile_def get b Let_def)
    then show ?thesis using assms(5) by (simp add: api_eqs)
  qed
  then show ?thesis using get b es
    by (intro conjI exI [of _ "CGet webhookConfigurationGVK ('''', MCEValidatingWebhookName) (Inr x) # es"]
        exI [of _ "set_webhooks ?ws x"] exI [of _ ?s1] exI [of _ b] exI [of _ s2]) simp_all
qed

definition stored_hook :: kobj where
  "stored_hook = (ValidatingWebhook ''mce'')
     \<lparr>ko_Content := [(''webhooks'', JArray [JObject (webhook_entry ''mce'' @ [(''timeoutSeconds'', JInt 10)])])]\<rparr>"

abbreviation hooked :: "mem kstate" where
  "hooked \<equiv> start (empty_mem\<lparr>mem_Objs := [stored_hook]\<rparr>)"

lemma hooked_facts:
  "fst (cl_Get mem_client webhookConfigurationGVK ('''', MCEValidatingWebhookName) (ks_World hooked)) = Inr stored_hook"
  "webhooks_of stored_hook = [JObject (webhook_entry ''mce'' @ [(''timeoutSeconds'', JInt 10)])]"
  "\<exists>res err s'. webhook_Reconcile mem_client False None ''mce'' hooked = Some ((res, err), s')"
proof -
  show 1: "fst (cl_Get mem_client webhookConfigurationGVK ('''', MCEValidatingWebhookName) (ks_World hooked)) = Inr stored_hook"
    by (simp add: mem_client_def mem_find_def start_def empty_mem_def stored_hook_def ValidatingWebhook_def mk_obj_def)
  show "webhooks_of stored_hook = [JObject (webhook_entry ''mce'' @ [(''timeoutSeconds'', JInt 10)])]"
    by (simp add: stored_hook_def webhooks_of_def)
  show "\<exists>res err s'. webhook_Reconcile mem_client False None ''mce'' hooked = Some ((res, err), s')"
    using 1 by (auto simp: webhook_Reconcile_def api_eqs GetServingCertCABundle_def Let_def split: sum.split)
qed

theorem webhook_never_settles_witness:
  "\<exists>err s' es u. webhook_Reconcile mem_client False None ''mce'' hooked = Some ((no_requeue, err), s')
    \<and> ks_Trace s' = es @ [CPatch u]"
proof -
  obtain res err s' where run: "webhook_Reconcile mem_client False None ''mce'' hooked = Some ((res, err), s')"
    using hooked_facts(3) by blast
  have "''timeoutSeconds'' \<in> set defaulted_fields"
    "map_of (webhook_entry ''mce'' @ [(''timeoutSeconds'', JInt 10)]) ''timeoutSeconds'' \<noteq> None"
    by (simp_all add: defaulted_fields_def webhook_entry_def)
  from webhook_never_settles [OF hooked_facts(1,2) this run] run show ?thesis by (auto simp: start_def)
qed

section \<open>What a started operator has done\<close>


























end
