(* ===== verification/Watches.thy ===== *)
theory Watches
  imports Startup Lifecycle
begin

text \<open>
  What makes the controllers reconcile: the watches that \<open>SetupWithManager\<close> registers, in
  \<open>controllers/backplaneconfig_controller.go\<close> and \<open>controllers/mcewebhook/webhook_controller.go\<close>, and
  the requests their handlers put into the queue.  The predicates and the ready-made handlers of the
  controller library are parameters.
\<close>

section \<open>Events and handlers\<close>

datatype watch_event = Created kobj | Updated kobj kobj | Deleted kobj | Generic kobj

text \<open>
  \<open>GenerationChangedPredicate\<close>, \<open>LabelChangedPredicate\<close>, \<open>AnnotationChangedPredicate\<close>, the handler of
  \<open>For\<close> and \<open>EnqueueRequestForOwner\<close>.
\<close>

record watch_library =
  wl_GenerationChanged :: "watch_event \<Rightarrow> bool"
  wl_LabelChanged :: "watch_event \<Rightarrow> bool"
  wl_AnnotationChanged :: "watch_event \<Rightarrow> bool"
  wl_ForObject :: "watch_event \<Rightarrow> string list"
  wl_ForOwner :: "watch_event \<Rightarrow> string list"

text \<open>
  A watch: the kind, the predicates given with it, and the handler.  The functions that a
  \<open>handler.Funcs\<close> leaves nil ask for nothing; \<open>EnqueueRequestsFromMapFunc\<close> calls its function for the
  object of the event, and for both objects of an update.
\<close>

record 's watch =
  wa_GVK :: gvk
  wa_Predicate :: "watch_event \<Rightarrow> bool"
  wa_Handler :: "watch_event \<Rightarrow> ('s, string list) go"

abbreviation funcs :: "(watch_event \<Rightarrow> string list) \<Rightarrow> watch_event \<Rightarrow> ('s, string list) go" where
  "funcs h e s \<equiv> Some (h e, s)"

fun event_objects :: "watch_event \<Rightarrow> kobj list" where
  "event_objects (Updated old new) = [old, new]"
| "event_objects (Created u) = [u]"
| "event_objects (Deleted u) = [u]"
| "event_objects (Generic u) = [u]"

fun from_map_func ::
  "(kobj \<Rightarrow> ('s, string list) go) \<Rightarrow> kobj list \<Rightarrow> ('s, string list) go" where
  "from_map_func f [] s = Some ([], s)"
| "from_map_func f (u # us) s = do {
     (reqs, s) \<leftarrow> f u s;
     (more, s) \<leftarrow> from_map_func f us s;
     Some (reqs @ more, s)
   }"

section \<open>The engine controller\<close>

abbreviation engine_label :: "kobj \<Rightarrow> string" where
  "engine_label u \<equiv> sm_get (ko_Labels u) ''backplaneconfig.name''"

fun hiveConfig_events :: "watch_event \<Rightarrow> string list" where
  "hiveConfig_events (Deleted u) = [engine_label u]"
| "hiveConfig_events _ = []"

fun clusterManager_events :: "watch_event \<Rightarrow> string list" where
  "clusterManager_events (Deleted u) = [engine_label u]"
| "clusterManager_events (Updated old new) = [engine_label old]"
| "clusterManager_events _ = []"

fun serviceMonitor_events :: "watch_event \<Rightarrow> string list" where
  "serviceMonitor_events (Deleted u) =
    (case map_of (ko_Labels u) ''backplaneconfig.name'' of Some label \<Rightarrow> [label] | None \<Rightarrow> [])"
| "serviceMonitor_events _ = []"

text \<open>A change of the OpenShift version concerns every engine; a failing list concerns none.\<close>

definition all_engines :: "'w client \<Rightarrow> kobj \<Rightarrow> (('w, 'z) kstate_scheme, string list) go" where
  "all_engines cl a s = do {
     (r, s) \<leftarrow> api_ListMCE cl s;
     Some (case r of Inl _ \<Rightarrow> [] | Inr items \<Rightarrow> map mce_Name items, s)
   }"

definition multiClusterEngineGVK :: gvk where
  "multiClusterEngineGVK = mk_gvk ''multicluster.openshift.io'' ''v1'' ''MultiClusterEngine''"

definition deploymentGVK :: gvk where "deploymentGVK = mk_gvk ''apps'' ''v1'' ''Deployment''"

definition serviceMonitorGVK :: gvk where
  "serviceMonitorGVK = mk_gvk ''monitoring.coreos.com'' ''v1'' ''ServiceMonitor''"

definition event_filter :: "watch_library \<Rightarrow> watch_event \<Rightarrow> bool" where
  "event_filter wl e = (wl_GenerationChanged wl e \<or> wl_LabelChanged wl e \<or> wl_AnnotationChanged wl e)"

definition SetupWithManager :: "watch_library \<Rightarrow> 'w ctx \<Rightarrow> ('w, 'z) kstate_scheme watch list" where
  "SetupWithManager wl cx =
    [\<lparr>wa_GVK = multiClusterEngineGVK, wa_Predicate = (\<lambda>_. True), wa_Handler = funcs (wl_ForObject wl)\<rparr>,
     \<lparr>wa_GVK = deploymentGVK, wa_Predicate = (\<lambda>_. True), wa_Handler = funcs (wl_ForOwner wl)\<rparr>,
     \<lparr>wa_GVK = hiveConfigGVK, wa_Predicate = wl_LabelChanged wl, wa_Handler = funcs hiveConfig_events\<rparr>,
     \<lparr>wa_GVK = clusterManagerGVK, wa_Predicate = wl_LabelChanged wl, wa_Handler = funcs clusterManager_events\<rparr>]
    @ (if cx_DeployOnOCP cx
       then [\<lparr>wa_GVK = serviceMonitorGVK, wa_Predicate = wl_LabelChanged wl,
              wa_Handler = funcs serviceMonitor_events\<rparr>,
             \<lparr>wa_GVK = clusterVersionGVK, wa_Predicate = (\<lambda>_. True),
              wa_Handler = (\<lambda>e. from_map_func (all_engines (cx_Client cx)) (event_objects e))\<rparr>]
       else [])"

text \<open>
  The requests for an event of a kind: a watch takes part when the filter of the controller and its
  own predicate let the event through.
\<close>

fun run_watches :: "(watch_event \<Rightarrow> bool) \<Rightarrow> 's watch list \<Rightarrow> gvk \<Rightarrow> watch_event \<Rightarrow> ('s, string list) go" where
  "run_watches filt [] g e s = Some ([], s)"
| "run_watches filt (wa # was) g e s =
    (if wa_GVK wa = g \<and> filt e \<and> wa_Predicate wa e
     then do {
       (reqs, s) \<leftarrow> wa_Handler wa e s;
       (more, s) \<leftarrow> run_watches filt was g e s;
       Some (reqs @ more, s)
     }
     else run_watches filt was g e s)"

definition requests :: "watch_library \<Rightarrow> 'w ctx \<Rightarrow> gvk \<Rightarrow> watch_event
    \<Rightarrow> (('w, 'z) kstate_scheme, string list) go" where
  "requests wl cx g e = run_watches (event_filter wl) (SetupWithManager wl cx) g e"

section \<open>The webhook controller\<close>

abbreviation webhook_request :: "kobj \<Rightarrow> string list" where
  "webhook_request u \<equiv> (if ko_Name u = MCEValidatingWebhookName then [ko_Name u] else [])"

fun webhook_events :: "watch_event \<Rightarrow> string list" where
  "webhook_events (Created u) = webhook_request u"
| "webhook_events (Updated old new) = webhook_request new"
| "webhook_events (Deleted u) = webhook_request u"
| "webhook_events (Generic u) = []"

definition webhook_SetupWithManager :: "'s watch list" where
  "webhook_SetupWithManager =
    [\<lparr>wa_GVK = webhookConfigurationGVK, wa_Predicate = (\<lambda>_. True), wa_Handler = funcs webhook_events\<rparr>]"

section \<open>Which engines are woken\<close>

text \<open>
  The documented behaviour of the predicates: only updates are filtered, and an update passes the
  label predicate when the labels differ.
\<close>

definition library_predicates :: "watch_library \<Rightarrow> bool" where
  "library_predicates wl =
    (\<forall>u. (\<forall>e \<in> {Created u, Deleted u, Generic u}. wl_GenerationChanged wl e \<and> wl_LabelChanged wl e
           \<and> wl_AnnotationChanged wl e)
       \<and> (\<forall>old. wl_LabelChanged wl (Updated old u) = (ko_Labels old \<noteq> ko_Labels u)))"

lemmas watched_kinds = multiClusterEngineGVK_def deploymentGVK_def hiveConfigGVK_def clusterManagerGVK_def
  serviceMonitorGVK_def clusterVersionGVK_def mk_gvk_def

lemma requests_kinds:
  "requests wl cx hiveConfigGVK e s =
    Some (if event_filter wl e \<and> wl_LabelChanged wl e then hiveConfig_events e else [], s)"
  "requests wl cx clusterManagerGVK e s =
    Some (if event_filter wl e \<and> wl_LabelChanged wl e then clusterManager_events e else [], s)"
  "cx_DeployOnOCP cx \<Longrightarrow> requests wl cx serviceMonitorGVK e s =
    Some (if event_filter wl e \<and> wl_LabelChanged wl e then serviceMonitor_events e else [], s)"
  by (auto simp: requests_def SetupWithManager_def watched_kinds)

text \<open>
  C14: Taking an engine's resource away wakes that engine.  When a HiveConfig, a ClusterManager or, on
  OpenShift, a ServiceMonitor with an engine's label is deleted, the controller is asked to reconcile
  exactly that engine; so it is when a ClusterManager loses the label, since the handler looks at the
  labels before the update.  A ClusterManager whose labels stay, for instance when only its status
  changes, wakes nobody.  On OpenShift, the appearance of the ClusterVersion wakes every engine that can be
  listed, and so does an update of it that the filter of the controller lets through; an update that leaves
  generation, labels and annotations alone, such as a new version in the history of its status, wakes
  nobody.  Holds for the documented behaviour of the library's predicates.
\<close>

theorem lost_resource_wakes_engine:
  assumes "library_predicates wl"
  shows "(map_of (ko_Labels u) ''backplaneconfig.name'' = Some name \<and>
      (g \<in> {hiveConfigGVK, clusterManagerGVK} \<or> g = serviceMonitorGVK \<and> cx_DeployOnOCP cx) \<longrightarrow>
        requests wl cx g (Deleted u) s = Some ([name], s))
    \<and> requests wl cx clusterManagerGVK (Updated u v) s = Some (if ko_Labels u = ko_Labels v then [] else [engine_label u], s)
    \<and> (cx_DeployOnOCP cx \<and> fst (cl_ListMCE (cx_Client cx) (ks_World s)) = Inr ms \<longrightarrow>
        (\<exists>s'. requests wl cx clusterVersionGVK (Created v) s = Some (map mce_Name ms, s')) \<and>
        (event_filter wl (Updated u v) \<longrightarrow>
          (\<exists>more s'. requests wl cx clusterVersionGVK (Updated u v) s = Some (map mce_Name ms @ more, s'))))
    \<and> (\<not> wl_GenerationChanged wl (Updated u v) \<and> ko_Labels u = ko_Labels v \<and> \<not> wl_AnnotationChanged wl (Updated u v) \<longrightarrow>
        requests wl cx clusterVersionGVK (Updated u v) s = Some ([], s))"
proof (intro conjI impI)
  have passes: "event_filter wl (Deleted x)" "wl_LabelChanged wl (Deleted x)" "event_filter wl (Created x)"
    "wl_LabelChanged wl (Updated x y) = (ko_Labels x \<noteq> ko_Labels y)"
    "wl_LabelChanged wl e \<Longrightarrow> event_filter wl e" for x y e
    using assms by (auto simp: library_predicates_def event_filter_def)
  {
    assume "map_of (ko_Labels u) ''backplaneconfig.name'' = Some name \<and>
      (g \<in> {hiveConfigGVK, clusterManagerGVK} \<or> g = serviceMonitorGVK \<and> cx_DeployOnOCP cx)"
    then show "requests wl cx g (Deleted u) s = Some ([name], s)"
      by (auto simp: requests_kinds passes sm_get_def)
  next
    show "requests wl cx clusterManagerGVK (Updated u v) s = Some (if ko_Labels u = ko_Labels v then [] else [engine_label u], s)"
      using passes(4,5) by (auto simp: requests_kinds)
  next
    assume "cx_DeployOnOCP cx \<and> fst (cl_ListMCE (cx_Client cx) (ks_World s)) = Inr ms"
    then show "\<exists>s'. requests wl cx clusterVersionGVK (Created v) s = Some (map mce_Name ms, s')"
      by (auto simp: requests_def SetupWithManager_def watched_kinds passes all_engines_def api_eqs)
  next
    assume "cx_DeployOnOCP cx \<and> fst (cl_ListMCE (cx_Client cx) (ks_World s)) = Inr ms" "event_filter wl (Updated u v)"
    then show "\<exists>more s'. requests wl cx clusterVersionGVK (Updated u v) s = Some (map mce_Name ms @ more, s')"
      by (auto simp: requests_def SetupWithManager_def watched_kinds all_engines_def api_eqs)
  next
    assume "\<not> wl_GenerationChanged wl (Updated u v) \<and> ko_Labels u = ko_Labels v \<and> \<not> wl_AnnotationChanged wl (Updated u v)"
    then have "\<not> event_filter wl (Updated u v)" by (simp add: event_filter_def passes(4))
    then show "requests wl cx clusterVersionGVK (Updated u v) s = Some ([], s)"
      by (simp add: requests_def SetupWithManager_def)
  }
qed

definition plain_library :: watch_library where
  "plain_library =
    \<lparr>wl_GenerationChanged = (\<lambda>e. case e of Updated _ _ \<Rightarrow> False | _ \<Rightarrow> True),
     wl_LabelChanged = (\<lambda>e. case e of Updated old new \<Rightarrow> ko_Labels old \<noteq> ko_Labels new | _ \<Rightarrow> True),
     wl_AnnotationChanged = (\<lambda>e. case e of Updated old new \<Rightarrow> ko_Annotations old \<noteq> ko_Annotations new | _ \<Rightarrow> True),
     wl_ForObject = (\<lambda>e. map ko_Name (event_objects e)), wl_ForOwner = (\<lambda>_. [])\<rparr>"

lemma plain_predicates: "library_predicates plain_library"
  by (simp add: library_predicates_def plain_library_def)

abbreviation engine_hive :: kobj where
  "engine_hive \<equiv> (mk_obj hiveConfigGVK '''' ''hive'')\<lparr>ko_Labels := [(''backplaneconfig.name'', ''engine'')]\<rparr>"

theorem lost_resource_wakes_engine_witness:
  "requests plain_library sample_ctx hiveConfigGVK (Deleted engine_hive) (start empty_mem) = Some ([''engine''], start empty_mem)"
  using lost_resource_wakes_engine [OF plain_predicates, of engine_hive "''engine''" hiveConfigGVK sample_ctx "start empty_mem"]
  by simp

end
