(* ===== verification/Ownership.thy ===== *)
theory Ownership
  imports Trace_Logic
begin

text \<open>
  The toggling of all components writes only what belongs to the engine: the lemmas carry
  \<^const>\<open>own_writes\<close> through every component, the theorem states it for
  \<open>ensureToggleableComponents\<close>.
\<close>

section \<open>Components with resources of their own\<close>

lemma own_unstructured:
  "ks_Trace s = t \<Longrightarrow> appends t (own_writes m) (ensureUnstructuredResource cx m u s)"
  by (drule sym, simp only:) (rule appends_mono [OF appends_ensureUnstructured own_guarded_apply])

lemmas own_steps = own.steps own.pure_bind owned.seqs own.reads own.condition own.clock
  own.addons_installable

lemma by_name_fixed [simp]:
  "by_name m internalEngineComponentGVK n"
  "by_name m hiveConfigGVK ('''', ''hive'')"
  "by_name m clusterManagerGVK ('''', ''cluster-manager'')"
  "by_name m consoleGVK ('''', ''cluster'')"
  "by_name m managedClusterGVK ('''', sp_LocalClusterName (mce_Spec m))"
  "by_name m namespaceGVK ('''', sp_LocalClusterName (mce_Spec m))"
  "by_name m configMapGVK (target_nn m ''ocm-tls-profile'')"
  "by_name m namespaceGVK ('''', ''maestro'')"
  "by_name m configMapGVK (ocmHubNS, ''grpc-server-config'')"
  "by_name m routeGVK (ocmHubNS, ''grpc-server'')"
  by (simp_all add: by_name_def fixed_targets_def)

lemma mk_obj_key [simp]: "ko_GVK (mk_obj g ns n) = g" "ko_Namespace (mk_obj g ns n) = ns"
  "ko_Name (mk_obj g ns n) = n"
  by (simp_all add: mk_obj_def)

lemma labelled_key [simp]:
  "ko_GVK (AddBackplaneConfigLabels n u) = ko_GVK u"
  "ko_Namespace (AddBackplaneConfigLabels n u) = ko_Namespace u"
  "ko_Name (AddBackplaneConfigLabels n u) = ko_Name u"
  by (simp_all add: AddBackplaneConfigLabels_def)

lemma own_addon_loops:
  "ks_Trace s = t \<Longrightarrow> appends t (own_writes m) (ensureManagedServiceAccount cx m s)"
  "ks_Trace s = t \<Longrightarrow> appends t (own_writes m) (ensureFleetNavigation cx m s)"
  "ks_Trace s = t \<Longrightarrow> appends t (own_writes m) (ensureNoFleetNavigation cx m s)"
  "ks_Trace s = t \<Longrightarrow> appends t (own_writes m) (ensureClusterProxyAddon cx m s)"
  unfolding ensureManagedServiceAccount_def ensureFleetNavigation_def ensureNoFleetNavigation_def
    ensureClusterProxyAddon_def
  by (intro own_steps owned.addon_loop owned.delete_loop; simp)+

lemma own_ensureHive: "ks_Trace s = t \<Longrightarrow> appends t (own_writes m) (ensureHive cx m s)"
  unfolding ensureHive_def by (intro own_steps owned.apply_loop own_unstructured; simp)

lemma own_delete_loop: "ks_Trace s = t \<Longrightarrow> appends t (own_writes m) (delete_templates cx m g a ts s)"
  by (rule owned.delete_loop) simp_all

lemma own_ensureNoHive: "ks_Trace s = t \<Longrightarrow> appends t (own_writes m) (ensureNoHive cx m s)"
  unfolding ensureNoHive_def Let_def
proof (rule owned.no_internal_seq, assumption, rule owned.render_seq [OF refl], goal_cases)
  case (1 s' ts s'')
  show ?case
  proof (rule own.read_then, goal_cases)
    case (3 x s3)
    show ?case
      by (simp only: sum.case prod.case)
        (intro own.after own.steps own_read_delete own_delete_loop; simp)
  qed (auto intro!: own.steps own_delete_loop)
qed

section \<open>Console\<close>

lemma console_plugins_target [simp]: "same_target x (set_console_plugins ps x)"
  by (simp add: set_console_plugins_def same_target_def split: option.splits)

lemma own_addPlugin: "ks_Trace s = t \<Longrightarrow> appends t (own_writes m) (addPluginToConsoleResource cx s)"
  unfolding addPluginToConsoleResource_def
proof (rule own.read_then, goal_cases)
  case (3 x s')
  show ?case
    by (simp only: sum.case prod.case) (intro own.after own.steps own_read_update; simp)
qed (auto intro!: own.steps)

lemma own_removePlugin:
  "ks_Trace s = t \<Longrightarrow> appends t (own_writes m) (removePluginFromConsoleResource cx s)"
  unfolding removePluginFromConsoleResource_def
proof (intro own.cond, goal_cases)
  case 2
  then show ?case
  proof (intro own.read_then, goal_cases)
    case (3 x s')
    show ?case
      by (simp only: sum.case prod.case) (intro own.after own.steps own_read_update; simp)
  qed (auto intro!: own.steps)
qed (auto intro!: own.steps)

lemma own_console:
  "ks_Trace s = t \<Longrightarrow> appends t (own_writes m) (ensureConsoleMCE cx m s)"
  "ks_Trace s = t \<Longrightarrow> appends t (own_writes m) (ensureNoConsoleMCE cx m b s)"
  unfolding ensureConsoleMCE_def ensureNoConsoleMCE_def enable_console_plugin_def Let_def
  by (intro own_steps owned.apply_loop own_delete_loop own_addPlugin own_removePlugin; simp)+

section \<open>Cluster manager\<close>

text \<open>
  The documented contract of \<open>controllerutil.CreateOrUpdate\<close>: it writes the object it was given and
  refuses a mutate function that changes the name or the namespace.
\<close>

definition create_or_update_ok :: "'w ctx \<Rightarrow> bool" where
  "create_or_update_ok cx =
    (\<forall>f u w c. c \<in> set (fst (fst (cx_CreateOrUpdate cx f u w))) \<longrightarrow> is_write c \<longrightarrow>
      (\<exists>v. write_target c = Some v \<and> same_target u v))"

lemma own_create_or_update:
  assumes "create_or_update_ok cx" "by_name m (ko_GVK u) (ko_key u)" "ks_Trace s = t"
  shows "appends t (own_writes m) (api_CreateOrUpdate cx f u s)"
proof -
  obtain calls e w where run: "cx_CreateOrUpdate cx f u (ks_World s) = ((calls, e), w)"
    by (metis surj_pair)
  have "\<exists>v. write_target c = Some v \<and> same_target u v" if "c \<in> set calls" "is_write c" for c
    using assms(1) that run unfolding create_or_update_ok_def by (metis fst_conv)
  then have "own_writes m calls"
    using assms(2) unfolding own_writes_def justified_def same_target_def by metis
  then show ?thesis using assms(3) by (simp add: api_CreateOrUpdate_def run appends_def)
qed

lemma own_tls:
  assumes "create_or_update_ok cx"
  shows "ks_Trace s = t \<Longrightarrow> appends t (own_writes m)
    (EnsureTLSProfileConfigMaps cx m [sp_TargetNamespace (mce_Spec m)] s)"
  unfolding EnsureTLSProfileConfigMaps_def GetAPIServerTLSProfile_def ensure_tls_configmaps.simps
    Let_def
  by (intro own_steps own_create_or_update [OF assms]; simp add: tls_configmap_def)

lemma controller_reference_key:
  "ApplyControllerReference cx m u = Inr v \<Longrightarrow> ko_GVK v = ko_GVK u \<and> ko_key v = ko_key u"
  by (auto simp: ApplyControllerReference_def split: sum.splits)

lemma own_apply_cluster_manager:
  assumes "create_or_update_ok cx"
  shows "ks_Trace s = t \<Longrightarrow> appends t (own_writes m) (apply_cluster_manager cx m s)"
  unfolding apply_cluster_manager_def Let_def
  by (intro own_steps own.patches own_by_name own_tls [OF assms])
    (auto dest!: controller_reference_key simp: foundation_ClusterManager_def)

lemma own_ensureClusterManager:
  assumes "create_or_update_ok cx"
  shows "ks_Trace s = t \<Longrightarrow> appends t (own_writes m) (ensureClusterManager cx m s)"
  unfolding ensureClusterManager_def
  by (intro own_steps owned.apply_loop own_apply_cluster_manager [OF assms]; simp)

lemma own_await_hub: "ks_Trace s = t \<Longrightarrow> appends t (own_writes m) (await_hub_namespace cx m ts s)"
  unfolding await_hub_namespace_def by (intro own_steps own_delete_loop; simp)

lemma own_ensureNoClusterManager:
  "ks_Trace s = t \<Longrightarrow> appends t (own_writes m) (ensureNoClusterManager cx m s)"
  unfolding ensureNoClusterManager_def Let_def
proof (rule owned.no_internal_seq, assumption, rule owned.render_seq [OF refl], goal_cases)
  case (1 s' ts s'')
  show ?case
  proof (rule own.read_then, goal_cases)
    case (3 x s3)
    show ?case
      by (simp only: sum.case prod.case)
        (intro own.after own.steps own_read_delete own_await_hub; simp)
  qed (auto intro!: own.steps own_await_hub)
qed

section \<open>Local hosting and the local cluster\<close>

lemma own_local_hosting:
  "ks_Trace s = t \<Longrightarrow> appends t (own_writes m) (reconcileHypershiftLocalHosting cx m s)"
  unfolding reconcileHypershiftLocalHosting_def removeHypershiftLocalHosting_def
    applyHypershiftLocalHosting_def await_addon_def Let_def
  by (intro own_steps owned.applied_at owned.deleted_at; simp)

text \<open>The API server answers a creation with the object it was asked to create.\<close>

definition create_keeps_target :: "'w ctx \<Rightarrow> bool" where
  "create_keeps_target cx =
    (\<forall>u w v. fst (cl_Create (cx_Client cx) u w) = Inr v \<longrightarrow> same_target u v)"

lemma annotated_target [simp]:
  "same_target x (applyReleaseVersionAnnotation cx (x\<lparr>ko_Annotations := a\<rparr>))"
  by (simp add: same_target_def applyReleaseVersionAnnotation_def)

lemma own_update_managed:
  assumes "by_name m (ko_GVK x) (ko_key x)" "ks_Trace s = t"
  shows "appends t (own_writes m) (update_managed_cluster cx m x s)"
  unfolding update_managed_cluster_def
  by (intro own_steps own.updates own_by_name)
    (use assms in \<open>auto simp: applyReleaseVersionAnnotation_def\<close>)

lemma own_update_managed_read:
  assumes "by_name m g n" "ks_Trace s = t"
  shows "appends t (\<lambda>es. own_writes m (CGet g n (Inr x) # es)) (update_managed_cluster cx m x s)"
  using assms(2)
  by (auto simp: update_managed_cluster_def split: sum.splits
      intro!: own.after own.steps own_read_update [OF assms(1)])

lemma managed_cluster_key [simp]:
  "ko_GVK (NewManagedCluster n) = managedClusterGVK" "ko_Namespace (NewManagedCluster n) = ''''"
  "ko_Name (NewManagedCluster n) = n"
  by (simp_all add: NewManagedCluster_def)

lemma own_create_managed:
  assumes "create_keeps_target cx" "ks_Trace s = t"
  shows "appends t (own_writes m) (create_managed_cluster cx m s)"
  unfolding create_managed_cluster_def Let_def
proof (rule own.bind, goal_cases)
  case (2 r s1)
  have update: "appends (ks_Trace s2) (own_writes m) (update_managed_cluster cx m x s2)"
    if "fst (cl_Create (cx_Client cx) (NewManagedCluster (sp_LocalClusterName (mce_Spec m))) w) = Inr x"
    for x s2 w
    using assms(1) that by (intro own_update_managed) (auto simp: create_keeps_target_def same_target_def)
  show ?case
    by (intro own.prod own.sum own.cond own.ret own.create_then own_create)
      (auto intro!: own.prod own.sum own.cond own.ret simp: await_local_cluster_def Let_def
        split: sum.splits dest: update)
qed (simp add: own.reads assms(2))

lemma own_ensureLocalCluster:
  assumes "create_keeps_target cx" "ks_Trace s = t"
  shows "appends t (own_writes m) (ensureLocalCluster cx m s)"
  unfolding ensureLocalCluster_def Let_def
proof (intro own.cond own.ret, goal_cases)
  case 2
  show ?case
  proof (rule own.read_then, goal_cases)
    case (3 x s')
    show ?case by (simp only: sum.case prod.case) (intro own_update_managed_read; simp)
  qed (use assms in \<open>auto simp: await_local_cluster_def Let_def intro!: own.steps own_create_managed\<close>)
qed (rule assms(2))

lemma own_ensureNoLocalCluster:
  assumes "ks_Trace s = t"
  shows "appends t (own_writes m) (ensureNoLocalCluster cx m s)"
  unfolding ensureNoLocalCluster_def remove_local_namespace_def Let_def
  by (intro own_steps own.deletes own_by_name)
    (use assms in \<open>auto simp: NewLocalNamespace_def\<close>)

section \<open>Maestro\<close>

lemma own_grpc_configmap:
  "ks_Trace s = t \<Longrightarrow> appends t (own_writes m)
    (ensureClusterManagerGRPCServerConfigMap cx m ocmHubNS ''grpc-server-config'' p s)"
  unfolding ensureClusterManagerGRPCServerConfigMap_def Let_def
proof (rule own.sum, goal_cases)
  case (2 u)
  then show ?case
  proof (intro own.read_then, goal_cases)
    case (3 x s')
    show ?case
      by (simp only: sum.case prod.case)
        (intro own.after own.steps own_read_update; simp add: with_data_def same_target_def)
  qed (auto intro!: own.steps own.creates own_create)
qed (simp add: own.ret)

lemma own_ingress: "ks_Trace s = t \<Longrightarrow> appends t (own_writes m) (getClusterIngressDomain cx s)"
  unfolding getClusterIngressDomain_def by (intro own.steps own.reads; simp)

lemma own_enable_grpc: "ks_Trace s = t \<Longrightarrow> appends t (own_writes m) (enableClusterManagerGRPCServer cx s)"
  unfolding enableClusterManagerGRPCServer_def Let_def
proof (rule own.bind, goal_cases)
  case (2 r s1)
  show ?case
  proof (simp only: prod.case, intro own.sum own.opt own.ret refl, goal_cases)
    case (1 domain image)
    show ?case
    proof (rule own.read_then, goal_cases)
      case (3 x s')
      show ?case
        by (simp only: sum.case prod.case)
          (intro own.after own.steps own_read_update;
            simp add: set_grpc_server_def same_target_def Let_def)
    qed (auto intro!: own.steps)
  qed
qed (rule own_ingress)

lemma own_disable_grpc: "ks_Trace s = t \<Longrightarrow> appends t (own_writes m) (disableClusterManagerGRPCServer cx s)"
  unfolding disableClusterManagerGRPCServer_def
proof (rule own.read_then, goal_cases)
  case (3 x s')
  show ?case
    by (auto split: option.splits json.splits
        intro!: own.after own.steps own_read_update simp: same_target_def)
qed (auto intro!: own.steps)

lemma own_maestro_secret:
  "ks_Trace s = t \<Longrightarrow> appends t (own_writes m) (ensureMaestroDatabaseSecret cx m ns n s)"
  unfolding ensureMaestroDatabaseSecret_def Let_def
  by (intro own_steps own.creates own_create) auto

lemma own_maestro_namespace: "ks_Trace s = t \<Longrightarrow> appends t (own_writes m) (ensure_maestro_namespace cx s)"
  unfolding ensure_maestro_namespace_def by (intro own_steps own.creates own_create) auto

lemma own_grpc_route:
  "ks_Trace s = t \<Longrightarrow> appends t (own_writes m) (ensureClusterManagerGRPCServerRoute cx m ns n s)"
  unfolding ensureClusterManagerGRPCServerRoute_def by (intro own_steps own.creates own_create) auto

lemma own_ensureMaestro: "ks_Trace s = t \<Longrightarrow> appends t (own_writes m) (ensureMaestro cx m s)"
  unfolding ensureMaestro_def finish_maestro_def Let_def
  by (intro own.steps owned.seqs own_maestro_namespace own_maestro_secret own.pure_bind
      owned.apply_loop own_grpc_configmap own_grpc_route own_enable_grpc; simp)

lemma own_delete_by_name:
  "by_name m (ko_GVK u) (ko_key u) \<Longrightarrow> ks_Trace s = t \<Longrightarrow>
    appends t (own_writes m) (delete_ignoring_absent cx u s)"
  unfolding delete_ignoring_absent_def by (intro own_steps own.deletes own_by_name) auto

lemma own_ensureNoMaestro: "ks_Trace s = t \<Longrightarrow> appends t (own_writes m) (ensureNoMaestro cx m s)"
  unfolding ensureNoMaestro_def deleteMaestroNamespace_def
  by (intro own.steps owned.seqs own_delete_by_name own_disable_grpc; simp)

section \<open>All components\<close>

lemma own_run_toggles:
  "list_all (\<lambda>(c, a, on, off). \<forall>s. appends (ks_Trace s) (own_writes m) (on cx m s)
      \<and> appends (ks_Trace s) (own_writes m) (off cx m s)) ts
    \<Longrightarrow> ks_Trace s = t \<Longrightarrow> appends t (own_writes m) (run_toggles cx m ts acc s)"
proof (induction ts arbitrary: acc s t)
  case (Cons tg ts)
  obtain c a on off where tg: "tg = (c, a, on, off)" by (cases tg) auto
  show ?case
    unfolding tg run_toggles.simps
    by (intro own.steps Cons.IH own.addons_installable) (use Cons.prems tg in auto)
qed (simp add: own.ret)

lemma own_addon_toggles:
  "ks_Trace s = t \<Longrightarrow> appends t (own_writes m) (run_toggles cx m addon_toggles acc s)"
  by (rule own_run_toggles)
    (auto simp: addon_toggles_def intro: own_addon_loops owned.simple_on owned.simple_off
      owned.hypershift owned.service_account_off)

lemma own_other_toggles:
  assumes "create_or_update_ok cx" "ks_Trace s = t"
  shows "appends t (own_writes m)
    (run_toggles cx m (base_toggles @ server_toggles @ capi_toggles) acc s)"
  using assms
  by (intro own_run_toggles)
    (auto simp: base_toggles_def server_toggles_def capi_toggles_def
      intro: own_addon_loops owned.simple_on owned.simple_off owned.assisted own_ensureHive
        own_ensureNoHive own_ensureClusterManager own_ensureNoClusterManager)

lemma own_toggle_rest:
  assumes "create_or_update_ok cx" "create_keeps_target cx" "ks_Trace s = t"
  shows "appends t (own_writes m) (toggle_rest cx m acc s)"
  unfolding toggle_rest_def toggle_maestro_def toggle_local_cluster_def
  by (intro own.steps own_other_toggles own_ensureMaestro own_ensureNoMaestro
      own_ensureLocalCluster own_ensureNoLocalCluster)
    (use assms in auto)

lemma own_CheckConsole: "ks_Trace s = t \<Longrightarrow> appends t (own_writes m) (CheckConsole cx s)"
  unfolding CheckConsole_def getClusterVersion_def
  by (intro own.steps own.reads; simp add: own.ret split: list.split)

lemma own_ensureToggleable:
  assumes "create_or_update_ok cx" "create_keeps_target cx"
  shows "appends (ks_Trace s) (own_writes m) (ensureToggleableComponents cx m s)"
  unfolding ensureToggleableComponents_def toggle_console_def Let_def
  by (intro own.steps own_addon_toggles own_local_hosting own_CheckConsole own_console
      own_toggle_rest assms; simp)

text \<open>
  Toggling all components of an engine, enabled or disabled, writes to the cluster only what the
  engine owns: every patch, update or deletion in the requests it sends is one of the resources the
  operator handles by name (HiveConfig, ClusterManager, the console, the local cluster and its
  namespace, the TLS and gRPC resources, the internal components) or follows a read of the same
  resource whose answer carries the engine's label (or no such label, under the policy Adopt).  Holds for every API server that answers a
  creation with the created object and for every \<open>CreateOrUpdate\<close> that only writes its object.
\<close>

theorem toggling_writes_own:
  assumes "create_or_update_ok cx" and "create_keeps_target cx"
    and "ensureToggleableComponents cx m s = Some (r, s')"
  shows "\<exists>es. ks_Trace s' = ks_Trace s @ es \<and> own_writes m es"
  using own_ensureToggleable [OF assms(1,2), of s m] assms(3) by (auto simp: appends_def spost_def)

text \<open>An engine whose components are managed elsewhere, apart from the local cluster.\<close>

lemma run_toggles_external:
  "list_all (isComponentExternallyManaged cx m) (map fst ts) \<Longrightarrow> run_toggles cx m ts acc s = Some (acc, s)"
  by (induction ts) auto

definition external_ctx :: "mem ctx" where
  "external_ctx = sample_ctx\<lparr>cx_DeployOnOCP := False, cx_UnmarshalStrings := (\<lambda>_. Inr
     [ManagedServiceAccount, FleetNavigation, ImageBasedInstallOperator, HyperShift, Discovery, Hive,
      AssistedService, ClusterLifecycle, ClusterManager, ClusterPermission, ServerFoundation,
      ClusterProxyAddon, ClusterAPI, ClusterAPIProviderAWS, ClusterAPIProviderAzurePreview,
      ClusterAPIProviderMetal, ClusterAPIProviderOA])\<rparr>"

definition external_mce :: MultiClusterEngine where
  "external_mce = (with_components [mk_component LocalCluster True] sample_mce)
     \<lparr>mce_Annotations := [(AnnotationExternallyManaged, ''all'')]\<rparr>"

lemma external_contract: "create_or_update_ok external_ctx" "create_keeps_target external_ctx"
  by (auto simp: create_or_update_ok_def create_keeps_target_def external_ctx_def sample_ctx_def
      mem_client_def same_target_def split: sum.splits if_splits)

lemma external_skips:
  "run_toggles external_ctx external_mce addon_toggles acc s = Some (acc, s)"
  "run_toggles external_ctx external_mce (base_toggles @ server_toggles @ capi_toggles) acc s
    = Some (acc, s)"
  by (rule run_toggles_external,
      simp add: addon_toggles_def base_toggles_def server_toggles_def capi_toggles_def
        isComponentExternallyManaged_def externally_managed_def external_ctx_def external_mce_def)+

lemma external_fields:
  "Enabled external_mce c = (c = LocalCluster)"
  "sp_LocalClusterName (mce_Spec external_mce) = ''local-cluster''"
  "sp_NodeSelector (mce_Spec external_mce) = []" "spec_tolerations external_mce = []"
  "mce_Name external_mce = ''engine''" "sp_TargetNamespace (mce_Spec external_mce) = ''mce''"
  "cx_Client external_ctx = mem_client" "\<not> cx_DeployOnOCP external_ctx"
  by (auto simp: external_mce_def external_ctx_def with_components_def mk_component_def Enabled_def
      sample_mce_def sample_spec_def sample_ctx_def spec_tolerations_def)

lemma external_run:
  "\<exists>r s' g n x u v. ensureToggleableComponents external_ctx external_mce
      (sample_rstate (empty_mem\<lparr>mem_Objs := [NewManagedCluster ''local-cluster'']\<rparr>)) = Some (r, s')
    \<and> ks_Trace s' = [CGet g n x, u, CUpdate v]"
  by (simp add: ensureToggleableComponents_def external_skips external_fields toggle_rest_def
      reconcileHypershiftLocalHosting_def removeHypershiftLocalHosting_def deleteTemplate_def
      RenderHypershiftAddon_def toggle_maestro_def toggle_local_cluster_def ensureLocalCluster_def
      update_managed_cluster_def annotateManagedCluster_def NewManagedCluster_def
      AddBackplaneConfigLabels_def add_component_def remove_component_def note_result_def
      IsNotFound_def IsUnitTest_def Let_def api_eqs log_call_def
      mem_client_def empty_mem_def mem_find_def sample_rstate_def mk_obj_def)

theorem toggling_writes_own_witness:
  "\<exists>r s'. ensureToggleableComponents external_ctx external_mce
      (sample_rstate (empty_mem\<lparr>mem_Objs := [NewManagedCluster ''local-cluster'']\<rparr>)) = Some (r, s')
    \<and> (\<exists>v. CUpdate v \<in> set (ks_Trace s')) \<and> own_writes external_mce (ks_Trace s')"
proof -
  obtain r s' g n x u v where run: "ensureToggleableComponents external_ctx external_mce
      (sample_rstate (empty_mem\<lparr>mem_Objs := [NewManagedCluster ''local-cluster'']\<rparr>)) = Some (r, s')"
    and trace: "ks_Trace s' = [CGet g n x, u, CUpdate v]"
    using external_run by blast
  have "own_writes external_mce (ks_Trace s')"
    using toggling_writes_own [OF external_contract run] by (simp add: sample_rstate_def)
  then show ?thesis using run trace by auto
qed

end
