(* ===== verification/Reconcile_Writes.thy ===== *)
theory Reconcile_Writes
  imports Ownership Lifecycle
begin

text \<open>
  Every write of a whole reconciliation is accounted for.  \<open>accounted\<close> lists the reasons for which the
  operator changes a resource; the lemmas carry it through the stages of \<open>Reconcile\<close>, with the
  toggling of the components from theory \<open>Ownership\<close> and the frame from theory \<open>Lifecycle\<close>.
\<close>

section \<open>Reasons for a write\<close>

text \<open>
  Resources that are read by name before they are changed: the namespace of the engine, the resources
  of earlier releases, and those that the uninstallation removes.
\<close>

definition read_targets :: "MultiClusterEngine \<Rightarrow> (gvk \<times> nn) list" where
  "read_targets m =
    [(namespaceGVK, ('''', sp_TargetNamespace (mce_Spec m))),
     (namespaceGVK, ('''', ''open-cluster-management-global-set'')),
     (ko_GVK (RenderHypershiftAddon m), ko_key (RenderHypershiftAddon m))]
    @ map (\<lambda>u. (ko_GVK u, ko_key u)) (GetDeprecatedResources m @ uninstallList m)"

inductive accounted :: "'w ctx \<Rightarrow> MultiClusterEngine \<Rightarrow> api_call list \<Rightarrow> api_call \<Rightarrow> bool"
  for cx m es where
  created: "accounted cx m es (CCreate u)"
| engine: "mce_Name m' = mce_Name m \<Longrightarrow> accounted cx m es (CUpdateMCE m')"
| engine_status: "mce_Name m' = mce_Name m \<Longrightarrow> accounted cx m es (CStatusUpdateMCE m')"
| owned: "write_target c = Some u \<Longrightarrow> justified m es u \<Longrightarrow> accounted cx m es c"
| read_by_name: "write_target c = Some u \<Longrightarrow> (g, n) \<in> set (read_targets m) \<Longrightarrow>
    CGet g n (Inr x) \<in> set es \<Longrightarrow> same_target x u \<Longrightarrow> accounted cx m es c"
| crd: "RenderCRDs cx env dir (Some m) (mergedSkipCRDDirs cx m) = Some (crds, []) \<Longrightarrow> t \<in> set crds \<Longrightarrow>
    same_target t u \<Longrightarrow> CGet (ko_GVK u) ('''', ko_Name u) (Inr x) \<in> set es \<Longrightarrow>
    \<not> AnnotationPresent AnnotationMCEIgnore x \<Longrightarrow> accounted cx m es (CUpdate u)"
| addon: "GetAddons cx env = Inr addons \<Longrightarrow> a \<in> set addons \<Longrightarrow>
    same_target (a\<lparr>ko_Namespace := sp_TargetNamespace (mce_Spec m)\<rparr>) u \<Longrightarrow> accounted cx m es (CPatch u)"
| policy: "ko_Kind u = ''NetworkPolicy'' \<Longrightarrow> map_of (ko_Labels u) ''backplaneconfig.name'' = Some (mce_Name m) \<Longrightarrow>
    accounted cx m es (CDelete u)"
| addon_template: "ko_Kind u = ''AddOnTemplate'' \<Longrightarrow> versionedPattern (ko_Name u) \<Longrightarrow> owned_by_engine m u \<Longrightarrow>
    accounted cx m es (CDelete u)"

text \<open>
  What the API server keeps of an engine that is updated, and the engines that one can become by
  defaulting: only an empty target namespace is filled in.
\<close>

definition identity :: "MultiClusterEngine \<Rightarrow> string \<times> strmap \<times> string \<times> string" where
  "identity m = (mce_Name m, mce_Annotations m, sp_TargetNamespace (mce_Spec m), sp_LocalClusterName (mce_Spec m))"

definition same_engine :: "MultiClusterEngine \<Rightarrow> MultiClusterEngine \<Rightarrow> bool" where
  "same_engine m m' =
    (mce_Name m' = mce_Name m \<and> getAdoptionPolicy m' = getAdoptionPolicy m
     \<and> sp_LocalClusterName (mce_Spec m') = sp_LocalClusterName (mce_Spec m)
     \<and> (sp_TargetNamespace (mce_Spec m') = sp_TargetNamespace (mce_Spec m) \<or>
        sp_TargetNamespace (mce_Spec m) = '''' \<and> sp_TargetNamespace (mce_Spec m') = DefaultTargetNamespace))"

definition all_accounted :: "'w ctx \<Rightarrow> MultiClusterEngine \<Rightarrow> api_call list \<Rightarrow> bool" where
  "all_accounted cx m es =
    (\<forall>c \<in> set es. is_write c \<longrightarrow> (\<exists>m'. same_engine m m' \<and> accounted cx m' es c))"

lemma accounted_mono: "accounted cx m es c \<Longrightarrow> set es \<subseteq> set es' \<Longrightarrow> accounted cx m es' c"
  by (induction rule: accounted.induct)
    (auto intro: accounted.intros accounted.owned justified_mono)

lemma same_engine_refl [simp]: "same_engine m m"
  by (simp add: same_engine_def)

interpretation writes: trace_closed "all_accounted cx m" for cx :: "'w ctx" and m
proof (unfold_locales, goal_cases)
  case (2 es es')
  then show ?case unfolding all_accounted_def
    by (metis (no_types, lifting) Un_iff accounted_mono le_sup_iff order_refl set_append)
qed (auto simp: all_accounted_def)

section \<open>The engine through defaulting\<close>

text \<open>The name of the engine and of its local cluster, which no default touches.\<close>

definition names_of :: "MultiClusterEngine \<Rightarrow> string \<times> string" where
  "names_of m = (mce_Name m, sp_LocalClusterName (mce_Spec m))"

lemma names_component_ops [simp]:
  "names_of (Enable m c) = names_of m" "names_of (Disable m c) = names_of m"
  "names_of (snd (Prune m c)) = names_of m"
  by (auto simp: names_of_def set_mce_components_def Let_def Enable_def Disable_def Prune_def split: option.splits)

lemma names_static: "names_of (snd (static_defaults m)) = names_of m"
proof -
  have "names_of (snd (default_spec m)) = names_of m" "names_of (snd (setDefaultAnnotations m)) = names_of m" for m
    by (simp_all add: names_of_def default_spec_def setDefaultAnnotations_def Let_def split_beta)
  then show ?thesis
    by (simp add: static_defaults_def split_beta migrate_all_keeps SetDefaultComponents_def
        defaults_for_keeps [of names_of])
qed

lemma policy_static: "getAdoptionPolicy (snd (static_defaults m)) = getAdoptionPolicy m"
  by (auto simp: getAdoptionPolicy_def static_defaults_core defaultAnnotations_def sm_has_def update_conv'
      split: option.split)

lemma namespace_static:
  "sp_TargetNamespace (mce_Spec (snd (static_defaults m))) =
    (if sp_TargetNamespace (mce_Spec m) = '''' then DefaultTargetNamespace else sp_TargetNamespace (mce_Spec m))"
proof -
  have "spec_core (snd (static_defaults m)) = spec_core (snd (default_spec m))" by (rule static_defaults_core)
  then show ?thesis by (auto simp: spec_core_def default_spec_def Let_def split: if_splits)
qed

lemma identity_component_ops [simp]:
  "identity (Enable m c) = identity m" "identity (Disable m c) = identity m"
  by (auto simp: identity_def set_mce_components_def Let_def Enable_def Disable_def)

lemma same_engine_identity: "identity m' = identity m'' \<Longrightarrow> same_engine m m' = same_engine m m''"
  by (auto simp: identity_def same_engine_def getAdoptionPolicy_def)

lemma same_engine_static:
  assumes "same_engine m m'"
  shows "same_engine m (snd (static_defaults m'))"
  using assms names_static [of m']
  by (auto simp: same_engine_def policy_static namespace_static names_of_def)

interpretation writes: frame_trace "all_accounted cx m" identity "same_engine m" for cx :: "'w ctx" and m
proof (unfold_locales, goal_cases)
  case (1 m' m'')
  then show ?case by (rule same_engine_identity)
next
  case (2 m')
  then show ?case by (rule same_engine_static)
next
  case (3 b m')
  then show ?case by (simp add: default_console_def)
qed (auto simp: identity_def all_accounted_def same_engine_def set_mce_components_def Disable_def Let_def
    intro!: exI [of _ m] accounted.engine accounted.engine_status)

section \<open>Cleaning up before the deployment\<close>

lemma accounted_own:
  assumes "same_engine m m'" "own_writes m' es"
  shows "all_accounted cx m es"
proof -
  have "accounted cx m' es c" if "c \<in> set es" "is_write c" for c
    using assms(2) that unfolding own_writes_def by (auto intro: accounted.created accounted.owned)
  then show ?thesis using assms(1) by (auto simp: all_accounted_def)
qed

lemma writes_own: "same_engine m m' \<Longrightarrow> appends t (own_writes m') a \<Longrightarrow> appends t (all_accounted cx m) a"
  by (erule appends_mono) (rule accounted_own)

lemma writes_create: "all_accounted cx m [CCreate u]"
  by (auto simp: all_accounted_def intro: accounted.created exI [of _ m])

lemma writes_named:
  assumes "same_engine m m'" "(g, n) \<in> set (read_targets m')" "same_target x u" "write_target c = Some u"
  shows "all_accounted cx m [CGet g n (Inr x), c]"
  using assms by (auto simp: all_accounted_def intro!: exI [of _ m'] accounted.read_by_name)

lemma writes_one:
  assumes "same_engine m m'" "accounted cx m' [c] c"
  shows "all_accounted cx m [c]"
  using assms by (auto simp: all_accounted_def)

lemma writes_cleanup:
  assumes "same_engine m m'"
  shows "set objs \<subseteq> set (GetDeprecatedResources m') \<Longrightarrow> ks_Trace s = t \<Longrightarrow>
    appends t (all_accounted cx m) (cleanup_deprecated cx objs s)"
proof (induction objs arbitrary: s t)
  case (Cons obj objs)
  have named: "(ko_GVK obj, ko_key obj) \<in> set (read_targets m')" using Cons.prems(1) by (auto simp: read_targets_def)
  have one: "appends t (all_accounted cx m) (EnsureDeprecatedResourceCleanup cx obj s)"
    unfolding EnsureDeprecatedResourceCleanup_def
  proof (rule writes.read_then [OF Cons.prems(2)], goal_cases)
    case (2 x s')
    show ?case
      by (simp only: sum.case prod.case)
        (intro writes.after writes.steps writes_named [OF assms named]; simp add: same_target_def)
  qed (auto intro!: writes.steps)
  show ?case unfolding cleanup_deprecated.simps
    by (intro writes.bind [OF one] writes.steps Cons.IH) (use Cons.prems in auto)
qed (simp add: writes.ret)

text \<open>A list answers with objects of the listed kind that have the labels that were asked for.\<close>

definition list_answers_selected :: "'w ctx \<Rightarrow> bool" where
  "list_answers_selected cx =
    (\<forall>g ns ls w us u. fst (cl_List (cx_Client cx) g ns ls w) = Inr us \<and> u \<in> set us \<longrightarrow>
       ko_Kind u @ ''List'' = gvk_Kind g \<and> (\<forall>(k, v) \<in> set ls. map_of (ko_Labels u) k = Some v))"

lemma writes_versioned:
  assumes "same_engine m m'"
  shows "list_all (\<lambda>u. ko_Kind u = ''AddOnTemplate'') us \<Longrightarrow> ks_Trace s = t \<Longrightarrow>
    appends t (all_accounted cx m) (delete_versioned cx m' us s)"
proof (induction us arbitrary: s t)
  case (Cons u us)
  show ?case
    unfolding delete_versioned.simps
    by (intro writes.steps writes.deletes writes_one [OF assms] accounted.addon_template Cons.IH)
      (use Cons.prems in auto)
qed (simp add: writes.ret)

lemma writes_templates:
  assumes "same_engine m m'" "list_answers_selected cx" "ks_Trace s = t"
  shows "appends t (all_accounted cx m) (CleanupVersionedAddOnTemplates cx m' s)"
  unfolding CleanupVersionedAddOnTemplates_def
proof (rule writes.list_then [OF assms(3)], goal_cases)
  case (2 us s')
  have "list_all (\<lambda>u. ko_Kind u = ''AddOnTemplate'') us"
    using assms(2) 2 by (force simp: list_answers_selected_def list_all_iff addOnTemplateListGVK_def mk_gvk_def)
  then show ?case by (simp add: writes_versioned [OF assms(1)])
qed (auto intro!: writes.steps)

lemma writes_label:
  assumes "same_engine m m'" "ks_Trace s = t"
  shows "appends t (all_accounted cx m) (ensureOpenShiftNamespaceLabel cx m' s)"
  unfolding ensureOpenShiftNamespaceLabel_def
proof (rule writes.read_then [OF assms(2)], goal_cases)
  case (2 x s')
  show ?case
    by (simp only: sum.case prod.case)
      (intro writes.after writes.steps writes_named [OF assms(1)]; simp add: same_target_def read_targets_def)
qed (auto intro!: writes.steps)

section \<open>The deployment\<close>

text \<open>A CRD is updated only after it was read without the ignore annotation.\<close>

definition crd_call :: "kobj \<Rightarrow> api_call list \<Rightarrow> bool" where
  "crd_call t es = (\<forall>c \<in> set es. is_write c \<longrightarrow> (\<exists>u. c = CCreate u) \<or>
    (\<exists>u x. c = CUpdate u \<and> same_target t u \<and> CGet (ko_GVK u) ('''', ko_Name u) (Inr x) \<in> set es
      \<and> \<not> AnnotationPresent AnnotationMCEIgnore x))"

lemma preserve_target:
  assumes "preserve_caBundle existing crd = Inr u"
  shows "same_target crd u"
proof -
  obtain content where "u = crd\<lparr>ko_Content := content\<rparr>" using preserve_caBundle_spec [OF assms] by blast
  then show ?thesis by (simp add: same_target_def)
qed

lemma EnsureCRD_calls:
  assumes "EnsureCRD cl crd s = Some ((e, crd'), s')"
  shows "same_target crd crd' \<and> (\<exists>es. ks_Trace s' = ks_Trace s @ es \<and> crd_call crd es)"
  using assms
  by (auto simp: EnsureCRD_def api_eqs crd_call_def same_target_def Let_def split: sum.splits if_splits
      dest!: preserve_target)

lemma crd_call_append: "crd_call t es \<Longrightarrow> same_target t t' \<Longrightarrow> crd_call t' es' \<Longrightarrow> crd_call t (es @ es')"
  unfolding crd_call_def same_target_def set_append Un_iff ball_Un by metis

lemma retry_calls:
  "retry_crd cl n crd s = Some (e, s') \<Longrightarrow> \<exists>es. ks_Trace s' = ks_Trace s @ es \<and> crd_call crd es"
proof (induction n arbitrary: crd s)
  case (Suc n)
  obtain e1 crd1 s1 where one: "EnsureCRD cl crd s = Some ((e1, crd1), s1)"
    and "(case e1 of None \<Rightarrow> Some (None, s1)
        | Some e \<Rightarrow> if IsConflict e \<and> 0 < n then retry_crd cl n crd1 s1 else Some (Some e, s1)) = Some (e, s')"
    using Suc.prems by (auto simp: bind_eq_Some_conv)
  then have rest: "s' = s1 \<or> retry_crd cl n crd1 s1 = Some (e, s')" by (cases e1) (auto split: if_splits)
  obtain es where es: "same_target crd crd1" "ks_Trace s1 = ks_Trace s @ es" "crd_call crd es"
    using EnsureCRD_calls [OF one] by blast
  show ?case
  proof (cases "s' = s1")
    case False
    then obtain es' where "ks_Trace s' = ks_Trace s1 @ es'" "crd_call crd1 es'" using rest Suc.IH by blast
    then show ?thesis using es crd_call_append [OF es(3,1)] by (intro exI [of _ "es @ es'"]) simp
  qed (use es in blast)
qed (auto simp: crd_call_def)

lemma writes_crd_call:
  assumes "same_engine m m'"
    and "RenderCRDs cx env dir (Some m') (mergedSkipCRDDirs cx m') = Some (crds, [])" "crd \<in> set crds"
    and "crd_call crd es"
  shows "all_accounted cx m es"
proof -
  have "accounted cx m' es c" if "c \<in> set es" "is_write c" for c
    using assms(4) that unfolding crd_call_def by (auto intro: accounted.created accounted.crd [OF assms(2,3)])
  then show ?thesis using assms(1) by (auto simp: all_accounted_def)
qed

lemma writes_apply_crds:
  assumes "same_engine m m'"
    and "RenderCRDs cx env dir (Some m') (mergedSkipCRDDirs cx m') = Some (crds, [])"
  shows "set todo \<subseteq> set crds \<Longrightarrow> ks_Trace s = t \<Longrightarrow> appends t (all_accounted cx m) (apply_crds cx todo s)"
proof (induction todo arbitrary: s t)
  case (Cons crd todo)
  have "appends t (all_accounted cx m) (retry_crd (cx_Client cx) (cx_RetrySteps cx) crd s)"
    using Cons.prems writes_crd_call [OF assms, of crd]
    by (auto simp: appends_def spost_iff dest!: retry_calls)
  then show ?case
    unfolding apply_crds.simps by (rule writes.bind) (use Cons in \<open>auto intro!: writes.steps\<close>)
qed (simp add: writes.ret)

lemma writes_crd_stage:
  assumes "same_engine m m'" "ks_Trace s = t"
  shows "appends t (all_accounted cx m) (crd_stage cx m' s)"
  unfolding crd_stage_def Let_def
proof (rule writes.pure_bind, goal_cases)
  case (1 x)
  obtain crds errs where x: "x = (crds, errs)" by (cases x)
  show ?case
  proof (cases errs)
    case Nil
    with 1 x show ?thesis
      by (auto intro!: writes.bind [OF writes_apply_crds [OF assms(1) _ subset_refl assms(2)]] writes.ret)
  qed (use assms(2) x in \<open>auto intro!: writes.ret\<close>)
qed

lemma writes_apply_addons:
  assumes "same_engine m m'" "GetAddons cx env = Inr addons"
  shows "set todo \<subseteq> set addons \<Longrightarrow> ks_Trace s = t \<Longrightarrow> appends t (all_accounted cx m) (apply_addons cx m' todo s)"
proof (induction todo arbitrary: s t)
  case (Cons a todo)
  have "same_target (a\<lparr>ko_Namespace := sp_TargetNamespace (mce_Spec m')\<rparr>) u"
    if "ApplyControllerReference cx m' (a\<lparr>ko_Namespace := sp_TargetNamespace (mce_Spec m')\<rparr>) = Inr u" for u
    using controller_reference_key [OF that] by (simp add: same_target_def)
  then show ?case
    unfolding apply_addons.simps
    by (intro writes.steps writes.patches writes_one [OF assms(1)] accounted.addon [OF assms(2)] Cons.IH)
      (use Cons.prems in auto)
qed (simp add: writes.ret)

lemma writes_apply_always:
  assumes "same_engine m m'"
  shows "ks_Trace s = t \<Longrightarrow> appends t (all_accounted cx m) (apply_always cx m' ts s)"
proof (induction ts arbitrary: s t)
  case (Cons template ts)
  show ?case
    unfolding apply_always.simps Let_def
    by (intro writes.steps writes_own [OF assms owned.applied_at] Cons.IH TrueI)
      (use Cons.prems in \<open>auto simp: add_component_def\<close>)
qed (simp add: writes.ret)

lemma writes_always_stage:
  assumes "same_engine m m'" "ks_Trace s = t"
  shows "appends t (all_accounted cx m) (always_stage cx m' s)"
  unfolding always_stage_def DeployAlwaysSubcomponents_def ensureCustomResources_def
  by (intro writes.steps writes.condition writes_apply_always [OF assms(1)] writes.addons_installable
      writes_apply_addons [OF assms(1)])
    (use assms(2) in auto)

lemma writes_delete_policies:
  assumes "same_engine m m'"
  shows "list_all (\<lambda>u. ko_Kind u = ''NetworkPolicy'' \<and> map_of (ko_Labels u) ''backplaneconfig.name'' = Some (mce_Name m')) us
    \<Longrightarrow> ks_Trace s = t \<Longrightarrow> appends t (all_accounted cx m) (delete_policies cx us s)"
proof (induction us arbitrary: s t)
  case (Cons u us)
  show ?case
    unfolding delete_policies.simps
    by (intro writes.steps writes.deletes writes_one [OF assms] accounted.policy Cons.IH) (use Cons.prems in auto)
qed (simp add: writes.ret)

lemma writes_create_policies: "ks_Trace s = t \<Longrightarrow> appends t (all_accounted cx m) (create_policies cx ts s)"
proof (induction ts arbitrary: s t)
  case (Cons u us)
  show ?case
    unfolding create_policies.simps
    by (intro writes.steps writes.reads writes.creates writes_create Cons.IH) (use Cons.prems in auto)
qed (simp add: writes.ret)

lemma writes_component_policies:
  "ks_Trace s = t \<Longrightarrow> appends t (all_accounted cx m) (policies_of_components cx m' cs s)"
proof (induction cs arbitrary: s t)
  case (Cons c cs)
  show ?case
    unfolding policies_of_components.simps
    by (intro writes.steps writes_create_policies Cons.IH) (use Cons.prems in auto)
qed (simp add: writes.ret)

lemma writes_policies:
  assumes "same_engine m m'" "list_answers_selected cx" "ks_Trace s = t"
  shows "appends t (all_accounted cx m) (ensureNetworkPolicies cx m' s)"
  unfolding ensureNetworkPolicies_def Let_def
proof (intro writes.cond writes.list_then writes_component_policies assms(3), goal_cases)
  case (2 us s')
  have "list_all (\<lambda>u. ko_Kind u = ''NetworkPolicy'' \<and> map_of (ko_Labels u) ''backplaneconfig.name'' = Some (mce_Name m')) us"
    using assms(2) 2 by (force simp: list_answers_selected_def list_all_iff networkPolicyListGVK_def mk_gvk_def)
  then show ?case by (simp add: writes_delete_policies [OF assms(1)])
qed (auto intro!: writes.steps)

lemma writes_create_missing: "ks_Trace s = t \<Longrightarrow> appends t (all_accounted cx m) (create_missing cx m' u msg s)"
  unfolding create_missing_def by (intro writes.steps writes.reads writes.creates writes_create) auto

lemma writes_resources:
  "ks_Trace s = t \<Longrightarrow> appends t (all_accounted cx m) (createTrustBundleConfigmap cx m' s)"
  "ks_Trace s = t \<Longrightarrow> appends t (all_accounted cx m) (metrics_stage cx m' s)"
  unfolding createTrustBundleConfigmap_def metrics_stage_def createMetricsService_def createMetricsServiceMonitor_def
    Let_def
  by (intro writes.steps writes.returns writes_create_missing; simp)+

lemma writes_uninstall_all:
  assumes "same_engine m m'"
  shows "set us \<subseteq> set (uninstallList m') \<Longrightarrow> ks_Trace s = t \<Longrightarrow>
    appends t (all_accounted cx m) (uninstall_all cx us b s)"
proof (induction us arbitrary: s t b)
  case (Cons u us)
  have named: "(ko_GVK u, ko_key u) \<in> set (read_targets m')" using Cons.prems(1) by (auto simp: read_targets_def)
  have one: "appends t (all_accounted cx m) (uninstall cx u s)"
    unfolding uninstall_def
  proof (rule writes.read_then [OF Cons.prems(2)], goal_cases)
    case (2 x s')
    show ?case
      by (simp only: sum.case prod.case)
        (intro writes.after writes.steps writes_named [OF assms named]; simp add: same_target_def)
  qed (auto intro!: writes.steps)
  show ?case unfolding uninstall_all.simps
    by (intro writes.bind [OF one] writes.steps Cons.IH) (use Cons.prems in auto)
qed (simp add: writes.ret)

lemma writes_removals:
  assumes "same_engine m m'" "ks_Trace s = t"
  shows "appends t (all_accounted cx m) (ensureRemovalsGone cx m' s)"
  unfolding ensureRemovalsGone_def
  by (rule writes_uninstall_all [OF assms(1)]) (use assms(2) in \<open>auto simp: add_component_def\<close>)

text \<open>What the code relies on for these statements.\<close>

definition faithful_server :: "'w ctx \<Rightarrow> bool" where
  "faithful_server cx =
    (update_keeps identity cx \<and> list_answers_selected cx \<and> create_or_update_ok cx \<and> create_keeps_target cx)"

lemma writes_toggles:
  assumes "same_engine m m'" "faithful_server cx" "ks_Trace s = t"
  shows "appends t (all_accounted cx m) (ensureToggleableComponents cx m' s)"
  using writes_own [OF assms(1) own_ensureToggleable] assms(2,3) by (auto simp: faithful_server_def)

lemma writes_deploy:
  assumes "same_engine m m'" "faithful_server cx" "ks_Trace s = t"
  shows "appends t (all_accounted cx m) (deploy_stages cx m' upgrade s)"
  unfolding deploy_stages_def
  using assms(2,3)
  by (intro writes.sequence writes.returns writes_crd_stage writes_always_stage writes_policies writes_resources
      writes_removals writes_toggles assms(1,2) writes.read_steps)
    (auto simp: faithful_server_def)

lemma writes_prepare:
  assumes "same_engine m m'" "faithful_server cx" "ks_Trace s = t"
  shows "appends t (all_accounted cx m) (prepare_stages cx m' (deploy_stages cx m' upgrade) s)"
  unfolding prepare_stages_def
  using assms(2,3)
  by (intro writes.sequence writes.returns writes_cleanup [OF assms(1)] writes_templates writes.ocp writes.namespace
      writes_create writes_label writes.secret writes.overrides writes.paused writes_deploy assms(1,2) subset_refl
      writes.read_steps)
    (auto simp: faithful_server_def)

section \<open>The uninstallation\<close>

lemma writes_read_delete:
  assumes "same_engine m m'" "by_name m' g n \<or> (g, n) \<in> set (read_targets m')"
  shows "all_accounted cx m [CGet g n (Inr x), CDelete x]"
  using assms(2)
proof
  assume "by_name m' g n"
  then show ?thesis by (rule accounted_own [OF assms(1) own_read_delete])
qed (rule writes_named [OF assms(1)], simp_all add: same_target_def)

lemma writes_local_namespace: "ks_Trace s = t \<Longrightarrow> appends t (all_accounted cx m) (finalize_local_namespace cx m' s)"
  unfolding finalize_local_namespace_def Let_def by (intro writes.read_steps) auto

text \<open>Each step reads its resource and deletes what it read, or goes on with the next step.\<close>

lemma writes_finalize_step:
  assumes "same_engine m m'" "by_name m' g n \<or> (g, n) \<in> set (read_targets m')" "ks_Trace s = t"
    and "\<And>e s. appends (ks_Trace s) (all_accounted cx m) (absent_case e s)"
    and "\<And>e s. appends (ks_Trace s) (all_accounted cx m) (deleted_case (e, s))"
  shows "appends t (all_accounted cx m) (do {
      (r, s) \<leftarrow> api_Get (cx_Client cx) g n s;
      case r of Inr u \<Rightarrow> Option.bind (api_Delete (cx_Client cx) u s) deleted_case | Inl e \<Rightarrow> absent_case e s })"
proof (rule writes.read_then [OF assms(3)], goal_cases)
  case (2 x s')
  show ?case
    by (simp only: sum.case prod.case)
      (intro writes.after_read_delete writes_read_delete [OF assms(1,2)] assms(5) refl)
qed (simp add: assms(4))

lemma writes_global_set:
  assumes "same_engine m m'" "ks_Trace s = t"
  shows "appends t (all_accounted cx m) (finalize_global_set cx m' s)"
  unfolding finalize_global_set_def
  by (rule writes_finalize_step [OF assms(1) _ assms(2)])
    (auto intro!: writes.steps writes_local_namespace simp: read_targets_def)

lemma writes_hub_namespace:
  assumes "same_engine m m'" "ks_Trace s = t"
  shows "appends t (all_accounted cx m) (finalize_hub_namespace cx m' s)"
  unfolding finalize_hub_namespace_def
  by (intro writes.read_steps writes.terminating writes_global_set assms) auto

lemma writes_finalize_manager:
  assumes "same_engine m m'" "ks_Trace s = t"
  shows "appends t (all_accounted cx m) (finalize_cluster_manager cx m' s)"
  unfolding finalize_cluster_manager_def
  by (rule writes_finalize_step [OF assms(1) _ assms(2)])
    (auto intro!: writes.read_steps writes.terminating writes_hub_namespace [OF assms(1)])

lemma writes_finalize_cluster:
  assumes "same_engine m m'" "ks_Trace s = t"
  shows "appends t (all_accounted cx m) (finalize_local_cluster cx m' s)"
  unfolding finalize_local_cluster_def Let_def
  by (rule writes_finalize_step [OF assms(1) _ assms(2)])
    (auto intro!: writes.read_steps writes.terminating writes_finalize_manager [OF assms(1)])

lemma writes_finalize_addon:
  assumes "same_engine m m'" "ks_Trace s = t"
  shows "appends t (all_accounted cx m) (finalize_hypershift_addon cx m' s)"
  unfolding finalize_hypershift_addon_def Let_def
  by (rule writes_finalize_step [OF assms(1) _ assms(2)])
    (auto intro!: writes.read_steps writes.terminating writes_finalize_cluster [OF assms(1)] simp: read_targets_def)

lemma writes_remove_internal:
  assumes "same_engine m m'"
  shows "ks_Trace s = t \<Longrightarrow> appends t (all_accounted cx m) (remove_internal cx m' cs acc s)"
proof (induction cs arbitrary: acc s t)
  case (Cons c cs)
  have "appends t (all_accounted cx m) (ensureNoInternalEngineComponent cx m' c s)"
    using writes_own [OF assms own_no_internal] Cons.prems by auto
  then show ?case
    unfolding remove_internal.simps by (rule writes.bind) (use Cons.IH in auto)
qed (simp add: writes.ret)

lemma writes_finalize_console: "ks_Trace s = t \<Longrightarrow> appends t (all_accounted cx m) (finalize_console cx s)"
  unfolding finalize_console_def
  by (intro writes_own [OF same_engine_refl] own.steps own_CheckConsole own_removePlugin) auto

lemma writes_finalize:
  assumes "same_engine m m'" "ks_Trace s = t"
  shows "appends t (all_accounted cx m) (finalizeBackplaneConfig cx m' s)"
  unfolding finalizeBackplaneConfig_def ensureNoAllInternalEngineComponents_def
  by (intro writes.read_steps writes_remove_internal writes_finalize_console writes_finalize_addon assms) auto

lemma writes_maestro_namespace: "ks_Trace s = t \<Longrightarrow> appends t (all_accounted cx m) (deleteMaestroNamespace cx s)"
  unfolding deleteMaestroNamespace_def
  by (intro writes_own [OF same_engine_refl] own_delete_by_name) auto

lemma writes_deletion:
  assumes "same_engine m m'" "ks_Trace s = t"
  shows "appends t (all_accounted cx m) (reconcile_deletion cx m' s)"
  unfolding reconcile_deletion_def Let_def
  by (intro writes.read_steps writes.engine_calls writes_finalize writes_maestro_namespace assms)
    (use assms in \<open>auto simp: writes.mine_frame\<close>)

section \<open>The whole reconciliation\<close>

lemma Reconcile_accounted:
  assumes "faithful_server cx" "fst (cl_GetMCE (cx_Client cx) name (ks_World s)) = Inr m"
    and "Reconcile cx name s = Some (r, s')"
  shows "\<exists>es. ks_Trace s' = ks_Trace s @ es \<and> all_accounted cx m es"
proof -
  have keeps: "update_keeps identity cx" using assms(1) by (simp add: faithful_server_def)
  have "appends (ks_Trace s) (all_accounted cx m) (reconcile_body cx (drop_failures m) upgrade s)" for upgrade s
    by (rule writes.body [OF keeps _ refl])
      (auto simp: writes.mine_frame intro!: writes_deletion writes_prepare assms(1))
  then have "appends (ks_Trace s) (all_accounted cx m) (Reconcile cx name s)"
    by (rule writes.reconciliation [OF keeps same_engine_refl _ assms(2)])
  then show ?thesis using assms(3) by (simp add: appends_def)
qed

text \<open>
  C1: Every write of a reconciliation is accounted for, from reading the engine to its status.  A
  write creates a resource; or updates the engine that was read, or its status; or changes a resource
  that was read before as carrying the engine's label (or no label, under the policy Adopt) or that
  the operator handles by its name; or updates a rendered CRD that was read without the ignore
  annotation; or applies one of the add-ons the operator ships; or deletes one of the engine's network
  policies or superseded add-on templates.  Nothing else in the cluster is changed (OLM's condition of
  the operator, written by a library, is not part of the requests).  Holds for every API server that
  answers an update with the updated engine, a list with what was selected and a creation with the
  created object.
\<close>

theorem reconcile_writes_accounted:
  assumes "faithful_server cx" "fst (cl_GetMCE (cx_Client cx) name (ks_World s)) = Inr m"
    and "Reconcile cx name s = Some (r, s')"
  shows "\<exists>es. ks_Trace s' = ks_Trace s @ es \<and> all_accounted cx m es"
  by (rule Reconcile_accounted [OF assms])

lemma sample_faithful: "faithful_server sample_ctx"
  by (auto simp: faithful_server_def update_keeps_def list_answers_selected_def create_or_update_ok_def
      create_keeps_target_def sample_ctx_def mem_client_def same_target_def list_all_iff split: sum.splits if_splits)

theorem reconcile_writes_accounted_witness:
  "\<exists>r s'. Reconcile sample_ctx ''engine'' deleting = Some (r, s') \<and> all_accounted sample_ctx deleted_mce (ks_Trace s')"
proof -
  obtain r s' where run: "Reconcile sample_ctx ''engine'' deleting = Some (r, s')"
    using deleted_total [OF deleting_engine] by blast
  show ?thesis
    using reconcile_writes_accounted [OF sample_faithful deleting_engine(1) run] run by (auto simp: sample_rstate_def)
qed

end
