(* ===== verification/Operator_Runs.thy ===== *)
theory Operator_Runs
  imports Watches Reconcile_Writes
begin

text \<open>
  The operator at work: a queue of engine names, filled by the watches and served by \<open>Reconcile\<close>, in a
  cluster that others change between its steps.  The state of the reconciler lives on between the calls.
  The queue belongs to the controller library, not to this repository; \<open>op_step\<close> states what that library
  documents of it: a name is kept once, any queued name may be served next, and a name stays when its
  reconciliation fails or asks to be called again.  The lemmas about runs are about what the operator
  does with whatever the queue hands it, not about the queue.
\<close>

record 'w running =
  ru_Queue :: "string set"
  ru_State :: "'w rstate"

inductive op_step :: "watch_library \<Rightarrow> 'w ctx \<Rightarrow> 'w running \<Rightarrow> 'w running \<Rightarrow> bool"
  for wl cx where
  event: "requests wl cx g e (ru_State r) = Some (reqs, s') \<Longrightarrow>
    op_step wl cx r \<lparr>ru_Queue = ru_Queue r \<union> set reqs, ru_State = s'\<rparr>"
| elsewhere: "op_step wl cx r (r\<lparr>ru_State := (ru_State r)\<lparr>ks_World := w\<rparr>\<rparr>)"
| work: "name \<in> ru_Queue r \<Longrightarrow> Reconcile cx name (ru_State r) = Some (res, s') \<Longrightarrow>
    op_step wl cx r \<lparr>ru_Queue = (if calls_again res then ru_Queue r else ru_Queue r - {name}), ru_State = s'\<rparr>"

abbreviation op_run :: "watch_library \<Rightarrow> 'w ctx \<Rightarrow> 'w running \<Rightarrow> 'w running \<Rightarrow> bool" where
  "op_run wl cx \<equiv> (op_step wl cx)\<^sup>*\<^sup>*"

inductive_cases op_stepE: "op_step wl cx r r'"

section \<open>What a run writes\<close>

lemma run_watches_reads:
  assumes "\<And>wa e s. wa \<in> set was \<Longrightarrow> emits (\<lambda>c. \<not> is_write c) (ks_Trace s) (wa_Handler wa e s)"
  shows "emits (\<lambda>c. \<not> is_write c) (ks_Trace s) (run_watches filt was g e s)"
  using assms
proof (induction was arbitrary: s)
  case (Cons wa was)
  then show ?case by (auto intro!: emits_intro)
qed (auto intro!: emits_intro)

lemma from_map_func_reads:
  assumes "\<And>u s. emits (\<lambda>c. \<not> is_write c) (ks_Trace s) (f u s)"
  shows "emits (\<lambda>c. \<not> is_write c) (ks_Trace s) (from_map_func f us s)"
proof (induction us arbitrary: s)
  case (Cons u us)
  then show ?case by (auto intro!: emits_intro assms)
qed (auto intro!: emits_intro)

lemma requests_reads:
  fixes s :: "('w, 'z) kstate_scheme"
  assumes "requests wl cx g e s = Some (reqs, s')"
  shows "\<exists>es. ks_Trace s' = ks_Trace s @ es \<and> list_all (\<lambda>c. \<not> is_write c) es"
proof -
  have list: "emits (\<lambda>c. \<not> is_write c) (ks_Trace s) (all_engines cl u s)" for cl u and s :: "('w, 'z) kstate_scheme"
    unfolding all_engines_def by (intro emits_intro emits_reads) auto
  have "emits (\<lambda>c. \<not> is_write c) (ks_Trace s) (requests wl cx g e s)"
    unfolding requests_def SetupWithManager_def
    by (rule run_watches_reads) (auto intro!: emits_intro from_map_func_reads list split: if_splits)
  then show ?thesis using assms by (simp add: emits_def)
qed

text \<open>The API server answers a read of an engine with the engine of that name.\<close>

definition get_answers_engine :: "'w ctx \<Rightarrow> bool" where
  "get_answers_engine cx = (\<forall>n w m. fst (cl_GetMCE (cx_Client cx) n w) = Inr m \<longrightarrow> mce_Name m = n)"

text \<open>
  The requests \<open>es\<close> of the step from \<open>r\<close> to \<open>r'\<close>: reads only, or the step is the reconciliation of a name
  that was queued in \<open>r\<close>, and every write is accounted for by the engine which that reconciliation read.
\<close>

definition step_requests :: "'w ctx \<Rightarrow> 'w running \<Rightarrow> 'w running \<Rightarrow> api_call list \<Rightarrow> bool" where
  "step_requests cx r r' es =
    (ks_Trace (ru_State r') = ks_Trace (ru_State r) @ es \<and>
     (list_all (\<lambda>c. \<not> is_write c) es \<or>
      (\<exists>name res m. name \<in> ru_Queue r \<and> Reconcile cx name (ru_State r) = Some (res, ru_State r')
         \<and> fst (cl_GetMCE (cx_Client cx) name (ks_World (ru_State r))) = Inr m \<and> mce_Name m = name
         \<and> all_accounted cx m es)))"

text \<open>A run with the requests of each of its steps, in their order.\<close>

inductive accounted_run ::
  "watch_library \<Rightarrow> 'w ctx \<Rightarrow> 'w running \<Rightarrow> api_call list list \<Rightarrow> 'w running \<Rightarrow> bool" for wl cx where
  no_step: "accounted_run wl cx r [] r"
| next_step: "op_step wl cx r r1 \<Longrightarrow> step_requests cx r r1 es \<Longrightarrow> accounted_run wl cx r1 parts r' \<Longrightarrow>
    accounted_run wl cx r (es # parts) r'"

lemma accounted_run_trace:
  "accounted_run wl cx r parts r' \<Longrightarrow> ks_Trace (ru_State r') = ks_Trace (ru_State r) @ concat parts"
  by (induction rule: accounted_run.induct) (simp_all add: step_requests_def)

lemma Reconcile_requests:
  assumes "faithful_server cx" "get_answers_engine cx" "Reconcile cx name (ru_State r) = Some (res, ru_State r')"
    and "name \<in> ru_Queue r"
  shows "\<exists>es. step_requests cx r r' es"
proof (cases "fst (cl_GetMCE (cx_Client cx) name (ks_World (ru_State r)))")
  case (Inl e)
  then have "step_requests cx r r' [CGetMCE name]"
    using assms(3) by (auto simp: Reconcile_def api_eqs step_requests_def split: if_splits dest!: sym [of _ "ru_State r'"])
  then show ?thesis ..
next
  case (Inr m)
  moreover have "mce_Name m = name" using assms(2) Inr by (auto simp: get_answers_engine_def)
  ultimately show ?thesis
    using Reconcile_accounted [OF assms(1) Inr assms(3)] assms(3,4) unfolding step_requests_def by blast
qed

lemma step_accounted:
  assumes "op_step wl cx r r'" "faithful_server cx" "get_answers_engine cx"
  shows "\<exists>es. step_requests cx r r' es"
  using assms(1)
proof (cases rule: op_step.cases)
  case (event g e reqs s')
  then show ?thesis using requests_reads [OF event(2)] by (auto simp: step_requests_def)
next
  case elsewhere
  then have "step_requests cx r r' []" by (simp add: step_requests_def)
  then show ?thesis ..
next
  case (work name res s')
  then have "Reconcile cx name (ru_State r) = Some (res, ru_State r')" by simp
  from Reconcile_requests [OF assms(2,3) this work(2)] show ?thesis .
qed

text \<open>
  C2: In every run of the operator, with any events and with others changing the cluster between its
  steps, the requests it sends are, in their order, the requests of its steps.  Each step either only
  reads, or it is the reconciliation of a name that is in the queue when the step begins, and then every
  write of the step is accounted for by the engine which the API server answered with when the step read
  that name.  So no step mixes the writes of two engines, and the object of an engine is written only in a
  step that took this engine's name from the queue.  Holds for the API servers of a single reconciliation
  (C1), if a read of an engine answers with the engine of that name.
\<close>

theorem run_writes_accounted:
  assumes "faithful_server cx" "get_answers_engine cx" "op_run wl cx r r'"
  shows "\<exists>parts. accounted_run wl cx r parts r' \<and> ks_Trace (ru_State r') = ks_Trace (ru_State r) @ concat parts"
proof -
  from assms(3) have "\<exists>parts. accounted_run wl cx r parts r'"
  proof (induction rule: converse_rtranclp_induct)
    case (step r r1)
    then show ?case using step_accounted [OF step.hyps(1) assms(1,2)] accounted_run.next_step by blast
  qed (blast intro: accounted_run.no_step)
  then show ?thesis using accounted_run_trace by blast
qed

lemma sample_answers: "get_answers_engine sample_ctx"
  by (auto simp: get_answers_engine_def sample_ctx_def mem_client_def find_Some_iff split: option.splits)

theorem run_writes_accounted_witness:
  "\<exists>parts r'. accounted_run plain_library sample_ctx \<lparr>ru_Queue = {''engine''}, ru_State = deleting\<rparr> parts r'
    \<and> (\<exists>res. Reconcile sample_ctx ''engine'' deleting = Some (res, ru_State r')) \<and> ks_Trace (ru_State r') = concat parts"
proof -
  let ?r = "\<lparr>ru_Queue = {''engine''}, ru_State = deleting\<rparr>"
  obtain res s' where run: "Reconcile sample_ctx ''engine'' deleting = Some (res, s')"
    using deleted_total [OF deleting_engine] by blast
  have step: "op_run plain_library sample_ctx ?r
      \<lparr>ru_Queue = (if calls_again res then {''engine''} else {''engine''} - {''engine''}), ru_State = s'\<rparr>"
    using op_step.work [of "''engine''" ?r sample_ctx res s'] run by auto
  show ?thesis
    using run_writes_accounted [OF sample_faithful sample_answers step] run by (fastforce simp: sample_rstate_def)
qed

end
