(* ===== verification/Stored_Status.thy ===== *)
theory Stored_Status
  imports Deploy_Runs
begin

text \<open>
  The statuses that a reconciliation stores are well formed.  The invariant is that the tracker is well
  formed and that every status stored so far was; it is an instance of \<open>deploy_run\<close> in which the code
  may panic, so that it holds for every client and every library.
\<close>

definition status_formed :: "string \<Rightarrow> MultiClusterEngine \<Rightarrow> bool" where
  "status_formed version m =
    (let st = mce_Status m
     in wf_conditions (ms_Conditions st)
        \<and> ms_DesiredVersion st = version
        \<and> ms_Phase st = reportPhase m (ms_Components st) (ms_Conditions st)
        \<and> (ms_Phase st = PhaseAvailable \<longrightarrow> ms_CurrentVersion st = version)
        \<and> (case getCondition (ms_Conditions st) MultiClusterEngineAvailable of
             None \<Rightarrow> False
           | Some c \<Rightarrow> (cd_Status c = ConditionTrue) = allComponentsReady (ms_Components st)))"

fun stored :: "api_call list \<Rightarrow> MultiClusterEngine list" where
  "stored [] = []"
| "stored (CStatusUpdateMCE m # cs) = m # stored cs"
| "stored (_ # cs) = stored cs"

lemma stored_append [simp]: "stored (xs @ ys) = stored xs @ stored ys"
  by (induction xs rule: stored.induct) auto

lemma stored_silent: "list_all (\<lambda>c. \<not> stores_status c) cs \<Longrightarrow> stored cs = []"
  by (induction cs rule: stored.induct) auto

text \<open>The library's \<open>CreateOrUpdate\<close> does not touch the status of an engine.\<close>

definition library_silent :: "'w ctx \<Rightarrow> bool" where
  "library_silent cx =
    (\<forall>f u w. list_all (\<lambda>c. \<not> stores_status c) (fst (fst (cx_CreateOrUpdate cx f u w))))"

definition statuses_formed :: "'w ctx \<Rightarrow> api_call list \<Rightarrow> 'w rstate \<Rightarrow> bool" where
  "statuses_formed cx t s =
    (library_silent cx \<and> wf_tracker (rs_Status s)
     \<and> (\<exists>es. ks_Trace s = t @ es \<and> list_all (status_formed (cx_Version cx)) (stored es)))"

lemma stored_reads: "list_all read_only cs \<Longrightarrow> stored cs = []"
  by (induction cs rule: stored.induct) auto

lemma status_ok_formed:
  "status_ok v m sm st sm' \<Longrightarrow> status_formed v (m\<lparr>mce_Status := st\<rparr>) \<and> wf_tracker sm'"
  by (auto simp: status_ok_def status_formed_def wf_tracker_def reportPhase_def Let_def split: option.split)

lemma formed_report:
  assumes "statuses_formed cx t s"
  shows "spost (\<lambda>r. statuses_formed cx t) (report_status cx m r s)"
proof -
  obtain es where wf: "wf_tracker (rs_Status s)" "library_silent cx"
    and es: "ks_Trace s = t @ es" "list_all (status_formed (cx_Version cx)) (stored es)"
    using assms by (auto simp: statuses_formed_def)
  have "spost (\<lambda>r s'. \<exists>es'. ks_Trace s' = ks_Trace s @ es' \<and> list_all read_only es')
      (ReportStatus (cx_Client cx) (cx_Version cx) m (rs_Status s) s)"
    using emits_ReportStatus [of s "ks_Trace s"] by (simp add: emits_def)
  then have "spost (\<lambda>(st, sm) s'. (\<exists>es'. ks_Trace s' = ks_Trace s @ es' \<and> stored es' = [])
      \<and> status_ok (cx_Version cx) m (rs_Status s) st sm)
      (ReportStatus (cx_Client cx) (cx_Version cx) m (rs_Status s) s)"
    by (rule spost_mono [OF spost_conj [OF _ ReportStatus_ok [OF wf(1)]]])
      (auto intro: stored_reads)
  then show ?thesis
    unfolding report_status_def spost_bind
    by (rule spost_mono) (auto simp: api_eqs log_call_def statuses_formed_def wf es Let_def
        dest: status_ok_formed)
qed

lemma formed_start:
  "library_silent cx \<Longrightarrow> wf_tracker (rs_Status s) \<Longrightarrow> statuses_formed cx (ks_Trace s) s"
  by (simp add: statuses_formed_def)

lemma formed_silent:
  assumes "statuses_formed cx t s" "wf_tracker (rs_Status s')" "ks_Trace s' = ks_Trace s @ cs"
    and "list_all (\<lambda>c. \<not> stores_status c) cs"
  shows "statuses_formed cx t s'"
  using assms stored_silent [OF assms(4)] by (auto simp: statuses_formed_def)

lemma wf_filtered: "wf_tracker sm \<Longrightarrow> wf_tracker (sm\<lparr>tr_Conditions := filter P (tr_Conditions sm)\<rparr>)"
  by (auto simp: wf_tracker_def wf_conditions_def intro: sorted_filter distinct_map_filter)

interpretation formed: deploy_run True cx "statuses_formed cx t" "\<lambda>_. True" for cx :: "'w ctx" and t
proof (unfold_locales, goal_cases)
  case (1 s c w)
  show ?case by (rule formed_silent [OF 1(1), where cs = "[c]"]) (use 1 in \<open>auto simp: statuses_formed_def log_call_def\<close>)
next
  case (12 s f u calls e w)
  have "library_silent cx" using 12(1) by (simp add: statuses_formed_def)
  then have "list_all (\<lambda>c. \<not> stores_status c) (fst (fst (cx_CreateOrUpdate cx f u (ks_World s))))"
    unfolding library_silent_def by blast
  then show ?case using 12
    by (intro formed_silent [OF 12(1), where cs = calls]) (simp_all add: statuses_formed_def)
qed (auto simp: statuses_formed_def add_condition_def drop_external_condition_def wf_filtered
    FilterOutConditionWithSubString_def runs_partial formed_report set_env_def add_component_def
    remove_component_def)

section \<open>Whole reconciliations\<close>

lemma formed_calls: "statuses_formed cx t s \<Longrightarrow> \<not> stores_status c \<Longrightarrow> statuses_formed cx t (log_call c w s)"
  by (rule formed.I_call)

lemma formed_deprecated:
  "statuses_formed cx t (CheckDeprecatedFieldUsage m s) = statuses_formed cx t s"
  by (simp add: statuses_formed_def CheckDeprecatedFieldUsage_def)

lemma formed_reset: "statuses_formed cx t s \<Longrightarrow> statuses_formed cx t (reset_status m s)"
proof -
  have "wf_tracker (fold AddCondition cs sm)" if "wf_tracker sm" for cs sm
    using that by (induction cs arbitrary: sm) simp_all
  then show "statuses_formed cx t s \<Longrightarrow> ?thesis" by (auto simp: statuses_formed_def reset_status_def)
qed

lemma body_formed:
  "statuses_formed cx t s \<Longrightarrow> runs True (\<lambda>r. statuses_formed cx t) (reconcile_body cx m upgrade s)"
proof (cases "mce_DeletionTimestamp m = None")
  case True
  then show "statuses_formed cx t s \<Longrightarrow> ?thesis"
    by (intro formed.body [where B = "\<lambda>_. True"] formed.deploy) (auto simp: spost_iff)
qed (simp add: reconcile_body_def formed.deletion)

lemma Reconcile_formed:
  assumes "Reconcile cx name s = Some (r, s')" "statuses_formed cx t s"
  shows "statuses_formed cx t s'"
proof (cases "fst (cl_GetMCE (cx_Client cx) name (ks_World s))")
  case (Inl e)
  then show ?thesis using assms by (auto simp: Reconcile_def api_eqs formed_calls split: if_splits)
next
  case (Inr m)
  have "runs True (\<lambda>r. statuses_formed cx t) (Reconcile cx name s)"
    by (rule formed.reconciliation [OF Inr])
      (auto intro!: body_formed formed_reset formed_calls assms(2) simp: formed_deprecated)
  then show ?thesis by (simp add: assms(1))
qed

end
