(* ===== verification/Run_Invariants.thy ===== *)
theory Run_Invariants
  imports Operator_Runs Stored_Status
begin

text \<open>
  Invariants of the reconciler's state over whole runs of the operator.  \<open>run_invariant\<close> is the
  interface of an invariant that requests to the cluster, changes by others and reconciliations keep;
  it then holds in every reachable state.  It is interpreted on the serviceable operator, which
  therefore never stops, and on the statuses stored so far.
\<close>

locale run_invariant = request_run p I
  for p :: bool and cx :: "'w ctx" and I :: "'w rstate \<Rightarrow> bool" +
  assumes I_reconcile: "I s \<Longrightarrow> Reconcile cx name s = Some (res, s') \<Longrightarrow> I s'"
begin

lemma mapped:
  assumes "\<And>u s. I s \<Longrightarrow> runs p (\<lambda>r. I) (f u s)"
  shows "I s \<Longrightarrow> runs p (\<lambda>r. I) (from_map_func f us s)"
  by (induction us arbitrary: s) (auto intro!: request_steps assms)

lemma watched:
  assumes "\<And>wa e s. wa \<in> set was \<Longrightarrow> I s \<Longrightarrow> runs p (\<lambda>r. I) (wa_Handler wa e s)"
  shows "I s \<Longrightarrow> runs p (\<lambda>r. I) (run_watches filt was g e s)"
  using assms
proof (induction was arbitrary: s)
  case (Cons wa was)
  then show ?case by (auto intro!: request_steps)
qed simp

lemma requested: "I s \<Longrightarrow> runs p (\<lambda>r. I) (requests wl cx g e s)"
proof -
  have engines: "runs p (\<lambda>r. I) (all_engines (cx_Client cx) u s)" if "I s" for u s
    unfolding all_engines_def by (simp add: api_eqs I_call that)
  show "I s \<Longrightarrow> ?thesis"
    unfolding requests_def SetupWithManager_def
    by (rule watched) (auto intro!: mapped engines split: if_splits)
qed

lemma step: "op_step wl cx r r' \<Longrightarrow> I (ru_State r) \<Longrightarrow> I (ru_State r')"
proof (induction rule: op_step.induct)
  case (event g e r reqs s')
  then show ?case using requested [of "ru_State r" wl g e] by simp
next
  case (work name r res s')
  then show ?case using I_reconcile by simp
qed (simp add: I_world)

lemma run: "op_run wl cx r r' \<Longrightarrow> I (ru_State r) \<Longrightarrow> I (ru_State r')"
  by (induction rule: rtranclp_induct) (auto intro: step)

end

section \<open>The operator never stops\<close>

interpretation going: run_invariant p cx "\<lambda>s. serviceable cx (rs_Env s)" for p and cx :: "'w ctx"
  by unfold_locales (auto intro: serviceable_kept)

text \<open>
  C7: The operator never stops.  In every state that a run of a serviceable operator can reach, with any
  events and with others changing the cluster at any time, the next event is handled without a panic,
  and every queued engine can be taken from the queue and reconciled to the end, unless its recorded
  version cannot be compared with the operator's.
\<close>

theorem run_never_stops:
  assumes "serviceable cx (rs_Env (ru_State r))" "op_run wl cx r r'"
  shows "(\<exists>reqs s'. requests wl cx g e (ru_State r') = Some (reqs, s'))
    \<and> (\<forall>name \<in> ru_Queue r'.
        (\<forall>m. fst (cl_GetMCE (cx_Client cx) name (ks_World (ru_State r'))) = Inr m \<longrightarrow> versions_comparable cx m)
        \<longrightarrow> (\<exists>res s'. Reconcile cx name (ru_State r') = Some (res, s')
          \<and> op_step wl cx r' \<lparr>ru_Queue = (if calls_again res then ru_Queue r' else ru_Queue r' - {name}),
              ru_State = s'\<rparr>))"
proof (intro conjI ballI impI)
  have now: "serviceable cx (rs_Env (ru_State r'))" using going.run [OF assms(2,1)] .
  show "\<exists>reqs s'. requests wl cx g e (ru_State r') = Some (reqs, s')"
    using going.requested [OF now, of False wl g e] by (auto simp: runs_total stotal_iff)
  fix name
  assume "name \<in> ru_Queue r'" "\<forall>m. fst (cl_GetMCE (cx_Client cx) name (ks_World (ru_State r'))) = Inr m
    \<longrightarrow> versions_comparable cx m"
  moreover from this(2) obtain res s' where "Reconcile cx name (ru_State r') = Some (res, s')"
    using reconciled_total [OF now] by blast
  ultimately show "\<exists>res s'. Reconcile cx name (ru_State r') = Some (res, s')
      \<and> op_step wl cx r' \<lparr>ru_Queue = (if calls_again res then ru_Queue r' else ru_Queue r' - {name}), ru_State = s'\<rparr>"
    by (blast intro: op_step.work)
qed

theorem run_never_stops_witness:
  "\<exists>res s'. Reconcile serving_ctx ''engine'' serving = Some (res, s')
    \<and> op_step plain_library serving_ctx \<lparr>ru_Queue = {''engine''}, ru_State = serving\<rparr>
        \<lparr>ru_Queue = (if calls_again res then {''engine''} else {}), ru_State = s'\<rparr>"
proof -
  let ?r = "\<lparr>ru_Queue = {''engine''}, ru_State = serving\<rparr>"
  have ready: "serviceable serving_ctx (rs_Env (ru_State ?r))" by (simp add: serviceable_sample)
  have "\<forall>m. fst (cl_GetMCE (cx_Client serving_ctx) ''engine'' (ks_World (ru_State ?r))) = Inr m \<longrightarrow>
      versions_comparable serving_ctx m" using serving_engine by simp
  then have "\<exists>res s'. Reconcile serving_ctx ''engine'' (ru_State ?r) = Some (res, s')
      \<and> op_step plain_library serving_ctx ?r
        \<lparr>ru_Queue = (if calls_again res then ru_Queue ?r else ru_Queue ?r - {''engine''}), ru_State = s'\<rparr>"
    using bspec [OF conjunct2 [OF run_never_stops [OF ready rtranclp.rtrancl_refl, where wl = plain_library]], of "''engine''"]
    by auto
  then show ?thesis by (simp only: running.select_convs Diff_cancel)
qed

section \<open>Stored statuses\<close>

interpretation storing: run_invariant p cx "statuses_formed cx t" for p and cx :: "'w ctx" and t
  by unfold_locales (auto intro: Reconcile_formed)

text \<open>
  C8: Every status that the operator stores in a run is well formed: its conditions are sorted by
  transition time with one entry per type; the phase is the one of its components and conditions; the
  desired version is the operator's, and so is the current one when the phase is \<open>Available\<close>; and the
  \<open>Available\<close> condition is there and is \<open>True\<close> exactly when there are components and all of them are
  available.  Holds from every well-formed tracker, such as the empty one at the start, for every
  client, events and changes by others, if the library's \<open>CreateOrUpdate\<close> sends no status update of an
  engine itself (it is called for the config maps of the TLS profile only); the tracker stays well formed.
\<close>

theorem run_statuses_formed:
  assumes "library_silent cx" "wf_tracker (rs_Status (ru_State r))" "op_run wl cx r r'"
  shows "wf_tracker (rs_Status (ru_State r')) \<and>
    (\<exists>es. ks_Trace (ru_State r') = ks_Trace (ru_State r) @ es
      \<and> list_all (status_formed (cx_Version cx)) (stored es))"
  using storing.run [OF assms(3) formed_start [OF assms(1,2)]] by (simp add: statuses_formed_def)

lemma stored_last: "cs \<noteq> [] \<Longrightarrow> last cs = CStatusUpdateMCE m \<Longrightarrow> stored cs \<noteq> []"
  by (cases cs rule: rev_cases) auto

lemma pausing_formed:
  "library_silent plain_ctx" "wf_tracker (rs_Status pausing)" "cx_Version plain_ctx = ''5.0.0''"
  by (auto simp: library_silent_def plain_ctx_def sample_ctx_def sample_rstate_def wf_tracker_def
      wf_reporters_def wf_conditions_def split: sum.split)

theorem run_statuses_formed_witness:
  "\<exists>s'. Reconcile plain_ctx ''engine'' pausing = Some (ok_result, s')
    \<and> list_all (status_formed ''5.0.0'') (stored (ks_Trace s')) \<and> stored (ks_Trace s') \<noteq> []"
proof -
  let ?r = "\<lparr>ru_Queue = {''engine''}, ru_State = pausing\<rparr>"
  obtain s' where run: "Reconcile plain_ctx ''engine'' pausing = Some (ok_result, s')"
    using pausing_stops by blast
  then have "op_run plain_library plain_ctx ?r \<lparr>ru_Queue = {}, ru_State = s'\<rparr>"
    using op_step.work [of "''engine''" ?r plain_ctx ok_result s'] by auto
  from run_statuses_formed [OF pausing_formed(1) _ this] pausing_formed(2,3)
  have "list_all (status_formed ''5.0.0'') (stored (ks_Trace s'))" by (auto simp: sample_rstate_def)
  moreover have "stored (ks_Trace s') \<noteq> []"
    using Reconcile_ends [OF run] pausing_engine(1)
    by (auto simp: settled_def plain_fields sample_ctx_def calls_again_def no_requeue_def dest: stored_last)
  ultimately show ?thesis using run by blast
qed

end
