(* ===== verification/Crd_Store.thy ===== *)
theory Crd_Store
  imports Reconcile
begin

text \<open>
  The CA bundle of a CRD in the cluster over the attempts to apply the CRD, with the cases of the
  repository's own tests, \<open>controllers/backplaneconfig_controller_test_cabundle.go\<close>, as instances.
\<close>

section \<open>The bundle in the cluster\<close>

text \<open>
  What the API server has to do for it: an update that it accepts is read back with the CA bundle of the
  conversion webhook that was sent.  It may fill in defaults, keep the status and change anything else.
\<close>

definition keeps_bundle :: "'w client \<Rightarrow> bool" where
  "keeps_bundle cl = (\<forall>u w v w'. cl_Update cl u w = (Inr v, w') \<longrightarrow>
    (\<exists>x. fst (cl_Get cl (ko_GVK u) (ko_key u) w') = Inr x \<and> injected_bundle x = injected_bundle u))"

text \<open>The last requests of the attempts to apply a CRD that ended well, and the cluster after them.\<close>

inductive applied_crd :: "'w client \<Rightarrow> gvk \<Rightarrow> string \<Rightarrow> 'w \<Rightarrow> api_call list \<Rightarrow> bool" for cl g n w where
  created: "IsNotFound e \<Longrightarrow> applied_crd cl g n w [CGet g ('''', n) (Inl e), CCreate u]"
| ignored: "AnnotationPresent AnnotationMCEIgnore x \<Longrightarrow> applied_crd cl g n w [CGet g ('''', n) (Inr x)]"
| updated: "\<not> AnnotationPresent AnnotationMCEIgnore x \<Longrightarrow>
    (\<And>ca. injected_bundle x = Some ca \<Longrightarrow>
      \<exists>y. fst (cl_Get cl g ('''', n) w) = Inr y \<and> injected_bundle y = Some ca) \<Longrightarrow>
    applied_crd cl g n w [CGet g ('''', n) (Inr x), CUpdate u]"

lemma preserved_bundle:
  assumes "preserve_caBundle x crd = Inr u" "injected_bundle x = Some ca"
  shows "injected_bundle (u\<lparr>ko_ResourceVersion := v\<rparr>) = Some ca"
proof -
  have "ca \<noteq> []" using assms(2) by (auto simp: injected_bundle_def split: option.splits json.splits if_splits)
  then show ?thesis
    using preserve_caBundle_spec [OF assms(1)] assms(2) by (auto simp: injected_bundle_def simp del: nested.simps)
qed

lemma EnsureCRD_applied:
  assumes "keeps_bundle cl" "ko_Namespace crd = ''''" "EnsureCRD cl crd s = Some ((None, crd'), s')"
  shows "\<exists>c. ks_Trace s' = ks_Trace s @ c \<and> applied_crd cl (ko_GVK crd) (ko_Name crd) (ks_World s') c"
proof -
  obtain r w where read: "cl_Get cl (ko_GVK crd) ('''', ko_Name crd) (ks_World s) = (r, w)" by fastforce
  show ?thesis
  proof (cases r)
    case (Inl e)
    then show ?thesis using assms(3) read
      by (auto simp: EnsureCRD_def api_eqs split: if_splits sum.splits intro: applied_crd.created)
  next
    case (Inr x)
    show ?thesis
    proof (cases "AnnotationPresent AnnotationMCEIgnore x")
      case True
      then show ?thesis using assms(3) read Inr by (auto simp: EnsureCRD_def api_eqs intro: applied_crd.ignored)
    next
      case False
      obtain u where u: "preserve_caBundle x crd = Inr u"
        using assms(3) read Inr False by (auto simp: EnsureCRD_def api_eqs split: sum.splits)
      let ?u = "u\<lparr>ko_ResourceVersion := ko_ResourceVersion x\<rparr>"
      obtain v w' where upd: "cl_Update cl ?u w = (Inr v, w')"
        using assms(3) read Inr False u by (auto simp: EnsureCRD_def api_eqs Let_def prod_eq_iff split: sum.splits)
      have s': "ks_World s' = w'" "ks_Trace s' = ks_Trace s @ [CGet (ko_GVK crd) ('''', ko_Name crd) (Inr x), CUpdate ?u]"
        using assms(3) read Inr False u upd by (auto simp: EnsureCRD_def api_eqs Let_def)
      obtain content where "u = crd\<lparr>ko_Content := content\<rparr>" using preserve_caBundle_spec [OF u] by blast
      then have "ko_GVK ?u = ko_GVK crd" "ko_key ?u = ('''', ko_Name crd)" using assms(2) by simp_all
      moreover obtain y where "fst (cl_Get cl (ko_GVK ?u) (ko_key ?u) w') = Inr y" "injected_bundle y = injected_bundle ?u"
        using assms(1) upd unfolding keeps_bundle_def by blast
      ultimately have "\<exists>y. fst (cl_Get cl (ko_GVK crd) ('''', ko_Name crd) w') = Inr y \<and> injected_bundle y = Some ca"
        if "injected_bundle x = Some ca" for ca
        using preserved_bundle [OF u that] by simp
      then show ?thesis using s' False by (auto intro: applied_crd.updated)
    qed
  qed
qed

text \<open>The CRD that an attempt hands to the next one is still the same object.\<close>

lemma EnsureCRD_same:
  "EnsureCRD cl crd s = Some ((e, crd'), s') \<Longrightarrow> ko_GVK crd' = ko_GVK crd \<and> ko_key crd' = ko_key crd
    \<and> (\<exists>c. ks_Trace s' = ks_Trace s @ c)"
  by (auto simp: EnsureCRD_def api_eqs Let_def split: sum.splits if_splits dest!: preserve_caBundle_spec;
      metis kobj.select_convs(1-3) kobj.surjective kobj.update_convs(11))

text \<open>
  C26: Applying a CRD does not lose the CA bundle that was injected into it, over all the attempts that
  \<open>retry.RetryOnConflict\<close> makes with the CRD as the attempts before left it.  When it ends without an error,
  its last requests were a read answered with not-found and a creation; or a read of a CRD with the ignore
  annotation and nothing more; or a read and an update after which the CRD in the cluster carries the
  bundle that this last read found.  Holds for every API server that keeps the bundle of an update.
\<close>

theorem retried_crd_keeps_bundle:
  assumes "keeps_bundle cl" "ko_Namespace crd = ''''" "0 < n" "retry_crd cl n crd s = Some (None, s')"
  shows "\<exists>es c. ks_Trace s' = ks_Trace s @ es @ c \<and> applied_crd cl (ko_GVK crd) (ko_Name crd) (ks_World s') c"
  using assms(2-)
proof (induction n arbitrary: crd s)
  case (Suc n)
  obtain e crd1 s1 where one: "EnsureCRD cl crd s = Some ((e, crd1), s1)"
    and rest: "(case e of None \<Rightarrow> Some (None, s1)
        | Some e \<Rightarrow> if IsConflict e \<and> 0 < n then retry_crd cl n crd1 s1 else Some (Some e, s1)) = Some (None, s')"
    using Suc.prems(3) by (auto simp: bind_eq_Some_conv)
  show ?case
  proof (cases e)
    case None
    then have "EnsureCRD cl crd s = Some ((None, crd1), s')" using one rest by simp
    from EnsureCRD_applied [OF assms(1) Suc.prems(1) this] show ?thesis by (metis append_Nil)
  next
    case (Some e')
    then have more: "0 < n" "retry_crd cl n crd1 s1 = Some (None, s')" using rest by (auto split: if_splits)
    obtain c1 where "ko_GVK crd1 = ko_GVK crd" "ko_key crd1 = ko_key crd" "ks_Trace s1 = ks_Trace s @ c1"
      using EnsureCRD_same [OF one] by blast
    then show ?thesis using Suc.IH [OF _ more] Suc.prems(1) by (metis append.assoc prod.inject)
  qed
qed simp

section \<open>The repository's tests\<close>

definition testCABundle :: string where
  "testCABundle = ''LS0tLS1CRUdJTiBDRVJUSUZJQ0FURS0tLS0tCk1JSURQakNDQWlhZ0F3SUJBZ0lVRXhHY2FBPT0KLS0tLS1FTkQgQ0VSVElGSUNBVEUtLS0tLQo=''"

record crd_test =
  tt_existingCRD :: "kobj option"
  tt_newCRD :: kobj
  tt_expectCABundle :: bool
  tt_expectedCABundle :: string
  tt_expectError :: bool

text \<open>The objects of the table: a CRD of the group \<open>example.com\<close>, and the conversion webhook.\<close>

definition test_crd :: "string \<Rightarrow> string \<Rightarrow> string \<Rightarrow> string \<Rightarrow> (string \<times> json) list \<Rightarrow> kobj" where
  "test_crd name version kind plural conversion =
    (mk_obj crdGVK '''' name)\<lparr>ko_ResourceVersion := version,
       ko_Content := [(''spec'', JObject
         ([(''group'', JString ''example.com''),
           (''names'', JObject [(''kind'', JString kind), (''plural'', JString plural)])] @ conversion))]\<rparr>"

definition test_conversion :: "(string \<times> json) list \<Rightarrow> (string \<times> json) list" where
  "test_conversion bundle =
    [(''conversion'', JObject
       [(''strategy'', JString ''Webhook''),
        (''webhook'', JObject
           [(''clientConfig'', JObject
               ((''service'', JObject [(''name'', JString ''webhook-service''),
                                      (''namespace'', JString ''default''), (''path'', JString ''/convert'')])
                # bundle)),
            (''conversionReviewVersions'', JArray [JString ''v1''])])])]"

definition preserves_test :: crd_test where
  "preserves_test =
    \<lparr>tt_existingCRD = Some (test_crd ''test.example.com'' ''1'' ''Test'' ''tests''
       (test_conversion [(''caBundle'', JString testCABundle)])),
     tt_newCRD = test_crd ''test.example.com'' '''' ''Test'' ''tests'' (test_conversion []),
     tt_expectCABundle = True, tt_expectedCABundle = testCABundle, tt_expectError = False\<rparr>"

definition no_bundle_test :: crd_test where
  "no_bundle_test =
    \<lparr>tt_existingCRD = Some (test_crd ''test2.example.com'' ''1'' ''Test2'' ''test2s'' (test_conversion [])),
     tt_newCRD = test_crd ''test2.example.com'' '''' ''Test2'' ''test2s'' (test_conversion []),
     tt_expectCABundle = False, tt_expectedCABundle = '''', tt_expectError = False\<rparr>"

definition no_conversion_test :: crd_test where
  "no_conversion_test =
    \<lparr>tt_existingCRD = Some (test_crd ''test3.example.com'' ''1'' ''Test3'' ''test3s'' []),
     tt_newCRD = test_crd ''test3.example.com'' '''' ''Test3'' ''test3s'' [],
     tt_expectCABundle = False, tt_expectedCABundle = '''', tt_expectError = False\<rparr>"

text \<open>\<open>unstructured.NestedString\<close>: the value and whether it was found, or an error.\<close>

definition nested_string :: "kobj \<Rightarrow> string list \<Rightarrow> (string \<times> bool) option" where
  "nested_string u path =
    (case nested (ko_Content u) path of
       None \<Rightarrow> Some ('''', False)
     | Some (Some (JString v)) \<Rightarrow> Some (v, True)
     | Some _ \<Rightarrow> None)"

text \<open>One run of the table's loop: whether it reports no failure.  \<open>build\<close> is the fake client's builder.\<close>

definition TestEnsureCRD_PreservesCABundle :: "'w client \<Rightarrow> (kobj list \<Rightarrow> 'w kstate) \<Rightarrow> crd_test \<Rightarrow> bool" where
  "TestEnsureCRD_PreservesCABundle cl build tt =
    (let objs = (case tt_existingCRD tt of None \<Rightarrow> [] | Some u \<Rightarrow> [u])
     in case EnsureCRD cl (tt_newCRD tt) (build objs) of
          None \<Rightarrow> False
        | Some ((err, _), s) \<Rightarrow>
            if (err \<noteq> None) \<noteq> tt_expectError tt then False
            else if err \<noteq> None then True
            else (case fst (cl_Get cl (ko_GVK (tt_newCRD tt)) ('''', ko_Name (tt_newCRD tt)) (ks_World s)) of
                    Inl _ \<Rightarrow> False
                  | Inr updatedCRD \<Rightarrow>
                      (case nested_string updatedCRD caBundle_path of
                         None \<Rightarrow> False
                       | Some (actualCABundle, found) \<Rightarrow>
                           if tt_expectCABundle tt then found \<and> actualCABundle = tt_expectedCABundle tt
                           else \<not> (found \<and> actualCABundle \<noteq> ''''))))"

definition TestEnsureCRD_CreateNewCRD :: "'w client \<Rightarrow> (kobj list \<Rightarrow> 'w kstate) \<Rightarrow> bool" where
  "TestEnsureCRD_CreateNewCRD cl build =
    (let newCRD = test_crd ''newtest.example.com'' '''' ''NewTest'' ''newtests'' []
     in case EnsureCRD cl newCRD (build []) of
          None \<Rightarrow> False
        | Some ((err, _), s) \<Rightarrow>
            err = None \<and> (case fst (cl_Get cl (ko_GVK newCRD) ('''', ko_Name newCRD) (ks_World s)) of
                            Inl _ \<Rightarrow> False | Inr _ \<Rightarrow> True))"

definition mem_build :: "kobj list \<Rightarrow> mem kstate" where
  "mem_build objs = start (empty_mem\<lparr>mem_Objs := objs\<rparr>)"

lemma mem_keeps_bundle: "keeps_bundle mem_client"
  by (auto simp: keeps_bundle_def mem_client_def mem_put_def mem_find_def split: option.split_asm if_splits)

lemmas test_objects = preserves_test_def no_bundle_test_def no_conversion_test_def test_crd_def
  test_conversion_def mk_obj_def crdGVK_def mk_gvk_def

text \<open>All cases of the tests pass on the in-memory cluster.\<close>

lemma preserves_passes: "TestEnsureCRD_PreservesCABundle mem_client mem_build preserves_test"
  by code_simp

lemma no_bundle_passes: "TestEnsureCRD_PreservesCABundle mem_client mem_build no_bundle_test"
  by code_simp

lemma no_conversion_passes: "TestEnsureCRD_PreservesCABundle mem_client mem_build no_conversion_test"
  by code_simp

lemma create_passes: "TestEnsureCRD_CreateNewCRD mem_client mem_build"
  by code_simp

theorem TestEnsureCRD_passes:
  "list_all (TestEnsureCRD_PreservesCABundle mem_client mem_build) [preserves_test, no_bundle_test, no_conversion_test]
    \<and> TestEnsureCRD_CreateNewCRD mem_client mem_build"
  by (simp add: preserves_passes no_bundle_passes no_conversion_passes create_passes)

abbreviation bundled_crd :: kobj where
  "bundled_crd \<equiv> test_crd ''test.example.com'' ''1'' ''Test'' ''tests'' (test_conversion [(''caBundle'', JString testCABundle)])"

text \<open>The requests are a read answered with a given object and an update.\<close>

fun read_and_updated :: "kobj \<Rightarrow> api_call list \<Rightarrow> bool" where
  "read_and_updated x [CGet g n (Inr y), CUpdate u] = (x = y)"
| "read_and_updated x _ = False"

lemma preserves_run:
  "case retry_crd mem_client 5 (tt_newCRD preserves_test) (mem_build [bundled_crd]) of
     Some (None, s) \<Rightarrow> read_and_updated bundled_crd (ks_Trace s) | _ \<Rightarrow> False"
  by code_simp

lemma bundled_facts:
  "injected_bundle bundled_crd = Some testCABundle" "\<not> AnnotationPresent AnnotationMCEIgnore bundled_crd"
  "ko_Namespace (tt_newCRD preserves_test) = ''''" "ks_Trace (mem_build [bundled_crd]) = []"
  by code_simp+

theorem retried_crd_keeps_bundle_witness:
  "\<exists>s' y. retry_crd mem_client 5 (tt_newCRD preserves_test) (mem_build [bundled_crd]) = Some (None, s')
    \<and> fst (cl_Get mem_client (ko_GVK (tt_newCRD preserves_test)) ('''', ko_Name (tt_newCRD preserves_test)) (ks_World s')) = Inr y
    \<and> injected_bundle y = Some testCABundle"
proof -
  obtain s' where run: "retry_crd mem_client 5 (tt_newCRD preserves_test) (mem_build [bundled_crd]) = Some (None, s')"
    and "read_and_updated bundled_crd (ks_Trace s')"
    using preserves_run by (auto split: option.splits)
  then obtain g n u where trace: "ks_Trace s' = [CGet g n (Inr bundled_crd), CUpdate u]"
    by (auto elim: read_and_updated.elims)
  from retried_crd_keeps_bundle [OF mem_keeps_bundle bundled_facts(3) _ run]
  obtain es c where "ks_Trace s' = es @ c"
    "applied_crd mem_client (ko_GVK (tt_newCRD preserves_test)) (ko_Name (tt_newCRD preserves_test)) (ks_World s') c"
    by (auto simp: bundled_facts(4))
  then show ?thesis using run trace bundled_facts(1)
    by (auto simp: append_eq_Cons_conv Cons_eq_append_conv elim!: applied_crd.cases)
qed

end
