(* ===== verification/Grpc_Server.thy ===== *)
theory Grpc_Server
  imports Maestro
begin

text \<open>
  The configuration of the cluster manager's gRPC server: what \<open>enableClusterManagerGRPCServer\<close> writes is
  recognised by the next reconciliation, and \<open>disableClusterManagerGRPCServer\<close> takes out what it put in.
\<close>

section \<open>Enabling and disabling converge\<close>

lemma drivers_match_self: "driversMatch expectedDrivers expectedDrivers"
  by (simp add: driversMatch_def expectedDrivers_def auth_type_def)

lemma spec_of_set:
  "spec_of (set_grpc_server host img u) =
    AList.update ''serverConfiguration'' (server_configuration host img)
      (AList.update ''registrationConfiguration'' (JObject (AList.update ''registrationDrivers'' (JArray expectedDrivers)
        (case map_of (spec_of u) ''registrationConfiguration'' of Some (JObject ob) \<Rightarrow> ob | _ \<Rightarrow> []))) (spec_of u))"
  by (simp add: set_grpc_server_def spec_of_def Let_def)

lemma grpc_configured_set: "grpc_configured host img (set_grpc_server host img u)"
  by (simp add: grpc_configured_def set_grpc_server_def Let_def list_field_def string_field_def current_host_def
      server_configuration_def obj_field_def drivers_match_self)

text \<open>The fields of the registration configuration, whose removal with its last field is invisible to them.\<close>

definition reg_config :: "(string \<times> json) list \<Rightarrow> (string \<times> json) list" where
  "reg_config spec = (case map_of spec ''registrationConfiguration'' of Some (JObject ob) \<Rightarrow> ob | _ \<Rightarrow> [])"

lemma obj_field_reg: "obj_field (map_of spec ''registrationConfiguration'') f = map_of (reg_config spec) f"
  by (simp add: obj_field_def reg_config_def split: option.split json.split)

lemma delete_empty: "AList.delete k al = [] \<Longrightarrow> f \<noteq> k \<Longrightarrow> map_of al f = None"
  using AList.delete_conv [of k al f] by simp

lemma unset_Some:
  assumes "unset_grpc_server spec = Some spec'"
  shows "map_of spec' ''serverConfiguration'' = None"
    and "map_of (reg_config spec') = (map_of (reg_config spec))(''registrationDrivers'' := None)"
    and "k \<noteq> ''serverConfiguration'' \<Longrightarrow> k \<noteq> ''registrationConfiguration'' \<Longrightarrow> map_of spec' k = map_of spec k"
  using assms
  by (auto simp: unset_grpc_server_def reg_config_def Let_def AList.delete_conv' AList.update_conv' fun_eq_iff
      split: option.splits json.splits if_splits prod.splits
      dest: delete_empty)

lemma unset_None:
  "unset_grpc_server spec = None \<longleftrightarrow>
    map_of spec ''serverConfiguration'' = None \<and> map_of (reg_config spec) ''registrationDrivers'' = None"
  by (auto simp: unset_grpc_server_def reg_config_def Let_def AList.delete_conv' AList.update_conv'
      split: option.splits json.splits if_splits)

lemma reg_config_set:
  "map_of (reg_config (spec_of (set_grpc_server host img u))) =
    (map_of (reg_config (spec_of u)))(''registrationDrivers'' \<mapsto> JArray expectedDrivers)"
  by (simp add: spec_of_set reg_config_def AList.update_conv')

lemma spec_of_set_other:
  "k \<noteq> ''serverConfiguration'' \<Longrightarrow> k \<noteq> ''registrationConfiguration'' \<Longrightarrow>
    map_of (spec_of (set_grpc_server host img u)) k = map_of (spec_of u) k"
  by (simp add: spec_of_set AList.update_conv')

text \<open>
  C27: Enabling and disabling the gRPC server of the cluster manager converge and undo each other.  After
  it was enabled, the configuration is recognised, so the next reconciliation writes nothing, and nothing
  but the registration drivers and the server configuration has changed.  Disabling finds something to
  remove, takes exactly these two out again, and then finds nothing more.
\<close>

theorem grpc_server_roundtrip:
  "grpc_configured host img (set_grpc_server host img u)
   \<and> (\<forall>k. k \<noteq> ''spec'' \<longrightarrow> map_of (ko_Content (set_grpc_server host img u)) k = map_of (ko_Content u) k)
   \<and> (\<exists>spec. unset_grpc_server (spec_of (set_grpc_server host img u)) = Some spec
        \<and> unset_grpc_server spec = None
        \<and> map_of spec ''serverConfiguration'' = None
        \<and> obj_field (map_of spec ''registrationConfiguration'') ''registrationDrivers'' = None
        \<and> (\<forall>k. k \<noteq> ''serverConfiguration'' \<and> k \<noteq> ''registrationConfiguration'' \<longrightarrow>
             map_of spec k = map_of (spec_of u) k)
        \<and> (\<forall>f. f \<noteq> ''registrationDrivers'' \<longrightarrow>
             obj_field (map_of spec ''registrationConfiguration'') f
             = obj_field (map_of (spec_of u) ''registrationConfiguration'') f))"
proof -
  let ?set = "spec_of (set_grpc_server host img u)"
  obtain spec where spec: "unset_grpc_server ?set = Some spec"
    using unset_None [of ?set] by (cases "unset_grpc_server ?set") (auto simp: reg_config_set)
  note gone = unset_Some [OF spec]
  have "unset_grpc_server spec = None"
    by (simp add: unset_None gone)
  moreover have "map_of (ko_Content (set_grpc_server host img u)) k = map_of (ko_Content u) k" if "k \<noteq> ''spec''" for k
    using that by (simp add: set_grpc_server_def Let_def AList.update_conv')
  ultimately show ?thesis
    using spec by (auto simp: grpc_configured_set obj_field_reg gone reg_config_set spec_of_set_other)
qed

definition placed_manager :: kobj where
  "placed_manager = (mk_obj clusterManagerGVK '''' ''cluster-manager'')\<lparr>ko_Content :=
     [(''spec'', JObject [(''deployOption'', JObject [(''mode'', JString ''Default'')]),
        (''registrationConfiguration'', JObject [(''autoApproveUsers'', JArray [])])]),
      (''status'', JObject [])]\<rparr>"

theorem grpc_server_roundtrip_witness:
  "map_of (ko_Content (set_grpc_server ''host'' ''image'' placed_manager)) ''status'' = Some (JObject [])
   \<and> (\<exists>spec. unset_grpc_server (spec_of (set_grpc_server ''host'' ''image'' placed_manager)) = Some spec
        \<and> map_of spec ''deployOption'' = Some (JObject [(''mode'', JString ''Default'')])
        \<and> obj_field (map_of spec ''registrationConfiguration'') ''autoApproveUsers'' = Some (JArray []))"
proof -
  let ?u = "placed_manager"
  have there: "map_of (ko_Content ?u) ''status'' = Some (JObject [])"
    "map_of (spec_of ?u) ''deployOption'' = Some (JObject [(''mode'', JString ''Default'')])"
    "obj_field (map_of (spec_of ?u) ''registrationConfiguration'') ''autoApproveUsers'' = Some (JArray [])"
    by (simp_all add: placed_manager_def spec_of_def obj_field_def)
  obtain spec where "unset_grpc_server (spec_of (set_grpc_server ''host'' ''image'' ?u)) = Some spec"
    "\<And>k. k \<noteq> ''serverConfiguration'' \<and> k \<noteq> ''registrationConfiguration'' \<Longrightarrow>
      map_of spec k = map_of (spec_of ?u) k"
    "\<And>f. f \<noteq> ''registrationDrivers'' \<Longrightarrow>
      obj_field (map_of spec ''registrationConfiguration'') f
      = obj_field (map_of (spec_of ?u) ''registrationConfiguration'') f"
    using grpc_server_roundtrip [of "''host''" "''image''" ?u] by (elim conjE exE) blast
  moreover have "map_of (ko_Content (set_grpc_server ''host'' ''image'' ?u)) ''status'' = map_of (ko_Content ?u) ''status''"
    using grpc_server_roundtrip [of "''host''" "''image''" ?u] by simp
  ultimately show ?thesis using there by simp
qed

end
