(* ===== verification/Toleration_Json.thy ===== *)
theory Toleration_Json
  imports Rendering
begin

text \<open>
  How the tolerations of the engine reach the charts: \<open>Toleration.MarshalJSON\<close> of
  \<open>pkg/rendering/renderer.go\<close>.  The charts insert the fields into YAML without quotes, so the method puts
  single quotes around every field that Go's \<open>strconv\<close> reads as a number or a boolean.
\<close>

section \<open>Floating point numbers and booleans of \<open>strconv\<close>\<close>

text \<open>
  \<open>strconv.ParseFloat(s, 64)\<close> accepts decimal and hexadecimal numbers.  What is of interest is whether it
  returns an error, not the rounded number: an error of syntax, or of range when the exact value rounds to
  infinity.  The first group follows \<open>readFloat\<close>: the loop over the mantissa returns whether a dot and
  whether a digit was seen, the digits as a number, how many of them follow the dot, and the rest.
\<close>

abbreviation underscore :: char where "underscore \<equiv> CHR 0x5F"

definition is_hex_letter :: "char \<Rightarrow> bool" where
  "is_hex_letter c = (97 \<le> (of_char (lower_char c) :: nat) \<and> (of_char (lower_char c) :: nat) \<le> 102)"

definition hex_val :: "char \<Rightarrow> nat" where
  "hex_val c = (if is_digit c then digit_val c else of_char (lower_char c) - 87)"

record mantissa =
  ma_Dot :: bool
  ma_Digits :: bool
  ma_Value :: nat
  ma_Scale :: nat

definition add_digit :: "bool \<Rightarrow> char \<Rightarrow> mantissa \<Rightarrow> mantissa" where
  "add_digit hex c m = m\<lparr>ma_Digits := True,
     ma_Value := ma_Value m * (if hex then 16 else 10) + hex_val c,
     ma_Scale := ma_Scale m + (if ma_Dot m then 1 else 0)\<rparr>"

fun read_mantissa :: "bool \<Rightarrow> mantissa \<Rightarrow> string \<Rightarrow> mantissa \<times> string" where
  "read_mantissa hex m [] = (m, [])"
| "read_mantissa hex m (c # s) =
    (if c = underscore then read_mantissa hex m s
     else if c = CHR 0x2E then (if ma_Dot m then (m, c # s) else read_mantissa hex (m\<lparr>ma_Dot := True\<rparr>) s)
     else if is_digit c \<or> hex \<and> is_hex_letter c then read_mantissa hex (add_digit hex c m) s
     else (m, c # s))"

text \<open>The digits of the exponent, which stop counting at ten thousand.\<close>

fun read_exponent :: "nat \<Rightarrow> string \<Rightarrow> nat \<times> string" where
  "read_exponent e [] = (e, [])"
| "read_exponent e (c # s) =
    (if c = underscore then read_exponent e s
     else if is_digit c then read_exponent (if e < 10000 then e * 10 + digit_val c else e) s
     else (e, c # s))"

definition drop_sign :: "string \<Rightarrow> string" where
  "drop_sign s = (case s of c # t \<Rightarrow> if c = CHR 0x2B \<or> c = CHR 0x2D then t else s | [] \<Rightarrow> [])"

definition exponent_part :: "bool \<Rightarrow> string \<Rightarrow> (int \<times> string) option" where
  "exponent_part hex s =
    (case s of
       c # t \<Rightarrow>
         if lower_char c = (if hex then CHR ''p'' else CHR ''e'')
         then (let ds = drop_sign t
               in if ds = [] \<or> \<not> is_digit (hd ds) then None
                  else (let (e, rest) = read_exponent 0 ds
                        in Some (if hd t = CHR 0x2D then - int e else int e, rest)))
         else if hex then None else Some (0, s)
     | [] \<Rightarrow> if hex then None else Some (0, []))"

text \<open>
  \<open>underscoreOK\<close>: an underscore stands between digits, or between the base prefix and a digit.  The state is
  the last character seen: the beginning, a digit, an underscore or another one.
\<close>

datatype last_seen = SawStart | SawDigit | SawUnderscore | SawOther

fun underscores_ok :: "bool \<Rightarrow> last_seen \<Rightarrow> string \<Rightarrow> bool" where
  "underscores_ok hex saw [] = (saw \<noteq> SawUnderscore)"
| "underscores_ok hex saw (c # s) =
    (if is_digit c \<or> hex \<and> is_hex_letter c then underscores_ok hex SawDigit s
     else if c = underscore then saw = SawDigit \<and> underscores_ok hex SawUnderscore s
     else saw \<noteq> SawUnderscore \<and> underscores_ok hex SawOther s)"

definition has_prefix_letter :: "char list \<Rightarrow> string \<Rightarrow> bool" where
  "has_prefix_letter ls s = (case s of z # x # _ \<Rightarrow> z = CHR ''0'' \<and> lower_char x \<in> set ls | _ \<Rightarrow> False)"

definition underscoreOK :: "string \<Rightarrow> bool" where
  "underscoreOK s =
    (let t = drop_sign s
     in if has_prefix_letter ''box'' t
        then underscores_ok (has_prefix_letter ''x'' t) SawDigit (drop 2 t)
        else underscores_ok False SawStart t)"

text \<open>The largest magnitude that rounds to a finite 64-bit number is just below the bound.\<close>

definition float_bound :: int where
  "float_bound = 2 ^ 1024 - 2 ^ 970"

definition in_float_range :: "nat \<Rightarrow> nat \<Rightarrow> int \<Rightarrow> bool" where
  "in_float_range b d x = (if 0 \<le> x then int d * int b ^ nat x < float_bound else int d < float_bound * int b ^ nat (- x))"

text \<open>The words \<open>special\<close> knows: infinities with an optional sign, and \<open>nan\<close> without one.\<close>

definition is_special :: "string \<Rightarrow> bool" where
  "is_special s = (ToLower (drop_sign s) \<in> {''inf'', ''infinity''} \<or> ToLower s = ''nan'')"

definition ParseFloat_ok :: "string \<Rightarrow> bool" where
  "ParseFloat_ok s =
    (is_special s \<or>
     (let t = drop_sign s;
          hex = (has_prefix_letter ''x'' t \<and> 2 < length t);
          (m, rest) = read_mantissa hex \<lparr>ma_Dot = False, ma_Digits = False, ma_Value = 0, ma_Scale = 0\<rparr>
                        (if hex then drop 2 t else t)
      in ma_Digits m \<and>
         (case exponent_part hex rest of
            Some (e, []) \<Rightarrow>
              (underscore \<in> set s \<longrightarrow> underscoreOK s) \<and>
              in_float_range (if hex then 2 else 10) (ma_Value m)
                (e - int (ma_Scale m) * (if hex then 4 else 1))
          | _ \<Rightarrow> False)))"

definition ParseBool_ok :: "string \<Rightarrow> bool" where
  "ParseBool_ok s = (s \<in> {''1'', ''t'', ''T'', ''true'', ''TRUE'', ''True'', ''0'', ''f'', ''F'', ''false'', ''FALSE'', ''False''})"

section \<open>Quoting\<close>

definition quote_scalar :: "string \<Rightarrow> string" where
  "quote_scalar str =
    (case Atoi str of
       Inr _ \<Rightarrow> CHR 0x27 # str @ [CHR 0x27]
     | Inl _ \<Rightarrow>
         if ParseFloat_ok str then CHR 0x27 # str @ [CHR 0x27]
         else if ParseBool_ok str then CHR 0x27 # str @ [CHR 0x27]
         else str)"

definition Toleration_MarshalJSON :: "Toleration \<Rightarrow> json" where
  "Toleration_MarshalJSON u = JObject
    [(''Key'', JString (quote_scalar (tol_Key u))),
     (''Operator'', JString (quote_scalar (tol_Operator u))),
     (''Value'', JString (quote_scalar (tol_Value u))),
     (''Effect'', JString (quote_scalar (tol_Effect u))),
     (''TolerationSeconds'', case tol_TolerationSeconds u of None \<Rightarrow> JNull | Some n \<Rightarrow> JInt n)]"

text \<open>What the three parsers of the method recognise.\<close>

definition reads_as_scalar :: "string \<Rightarrow> bool" where
  "reads_as_scalar s = ((\<exists>n. Atoi s = Inr n) \<or> ParseFloat_ok s \<or> ParseBool_ok s)"

lemma quote_scalar_eq: "quote_scalar s = (if reads_as_scalar s then CHR 0x27 # s @ [CHR 0x27] else s)"
  by (auto simp: quote_scalar_def reads_as_scalar_def split: sum.split)

lemma quoted_not_scalar: "\<not> reads_as_scalar (CHR 0x27 # s)"
  by (simp add: reads_as_scalar_def Atoi_def ParseInt_def parse_digits_def is_digit_def ParseFloat_ok_def
      is_special_def drop_sign_def ToLower_def lower_char_def has_prefix_letter_def ParseBool_ok_def
      is_hex_letter_def Let_def split: list.split)

lemma quote_scalar_not_scalar: "\<not> reads_as_scalar (quote_scalar s)"
  by (simp add: quote_scalar_eq quoted_not_scalar)

lemma itoa_reads_as_scalar: "- (2 ^ 63) \<le> n \<Longrightarrow> n < 2 ^ 63 \<Longrightarrow> reads_as_scalar (itoa n)"
  using ParseInt_itoa [of 64 n] by (auto simp: reads_as_scalar_def Atoi_def)

lemma itoa_quoted: "- (2 ^ 63) \<le> n \<Longrightarrow> n < 2 ^ 63 \<Longrightarrow> quote_scalar (itoa n) = CHR 0x27 # itoa n @ [CHR 0x27]"
  by (simp add: quote_scalar_eq itoa_reads_as_scalar)

definition string_fields :: "Toleration \<Rightarrow> strmap" where
  "string_fields u = [(''Key'', tol_Key u), (''Operator'', tol_Operator u), (''Value'', tol_Value u), (''Effect'', tol_Effect u)]"

text \<open>
  C37: What reaches the charts of a toleration.  Each of its four string fields is passed on unchanged when
  none of the parsers reads it as a number or a boolean, and in single quotes otherwise, so that no field
  the charts insert reads as one; the decimal numeral of every 64-bit integer is quoted; and the seconds
  stay a number, or null when the engine gives none.
\<close>

theorem MarshalJSON_unambiguous:
  "\<exists>fields. Toleration_MarshalJSON u = JObject fields
    \<and> (\<forall>k s. map_of (string_fields u) k = Some s \<longrightarrow>
        map_of fields k = Some (JString (if reads_as_scalar s then CHR 0x27 # s @ [CHR 0x27] else s)))
    \<and> (\<forall>k v. map_of fields k = Some (JString v) \<longrightarrow> \<not> reads_as_scalar v)
    \<and> (\<forall>n. - (2 ^ 63) \<le> n \<and> n < 2 ^ 63 \<and> tol_Value u = itoa n \<longrightarrow>
        map_of fields ''Value'' = Some (JString (CHR 0x27 # itoa n @ [CHR 0x27])))
    \<and> map_of fields ''TolerationSeconds'' = Some (case tol_TolerationSeconds u of None \<Rightarrow> JNull | Some n \<Rightarrow> JInt n)"
  using quote_scalar_not_scalar
  by (intro exI conjI, simp add: Toleration_MarshalJSON_def)
    (auto simp: string_fields_def quote_scalar_eq [symmetric] itoa_quoted split: if_splits option.splits)

definition gpu_toleration :: Toleration where
  "gpu_toleration = \<lparr>tol_Key = ''gpu'', tol_Operator = ''Equal'', tol_Value = itoa 12, tol_Effect = '''',
     tol_TolerationSeconds = None\<rparr>"

theorem MarshalJSON_unambiguous_witness:
  "\<exists>fields. Toleration_MarshalJSON gpu_toleration = JObject fields
    \<and> map_of fields ''Value'' = Some (JString [CHR 0x27, CHR ''1'', CHR ''2'', CHR 0x27])
    \<and> map_of fields ''Key'' = Some (JString ''gpu'')
    \<and> map_of fields ''TolerationSeconds'' = Some JNull"
proof -
  have "\<not> reads_as_scalar ''gpu''"
    by (simp add: reads_as_scalar_def Atoi_def ParseInt_def parse_digits_def is_digit_def ParseFloat_ok_def
        is_special_def drop_sign_def ToLower_def lower_char_def has_prefix_letter_def ParseBool_ok_def Let_def)
  moreover have "itoa 12 = ''12''"
    by (simp add: itoa_def itoa_nat.simps digit_char_def char_of_def bit_0)
  moreover obtain fields where fields: "Toleration_MarshalJSON gpu_toleration = JObject fields"
    "\<And>k s. map_of (string_fields gpu_toleration) k = Some s \<Longrightarrow>
        map_of fields k = Some (JString (if reads_as_scalar s then CHR 0x27 # s @ [CHR 0x27] else s))"
    "\<And>n. - (2 ^ 63) \<le> n \<Longrightarrow> n < 2 ^ 63 \<Longrightarrow> tol_Value gpu_toleration = itoa n \<Longrightarrow>
        map_of fields ''Value'' = Some (JString (CHR 0x27 # itoa n @ [CHR 0x27]))"
    "map_of fields ''TolerationSeconds'' = Some (case tol_TolerationSeconds gpu_toleration of None \<Rightarrow> JNull | Some n \<Rightarrow> JInt n)"
    using MarshalJSON_unambiguous [of gpu_toleration] by (elim exE conjE) blast
  moreover have "map_of fields ''Key'' = Some (JString ''gpu'')"
    using fields(2) [of "''Key''"] calculation(1) by (simp add: string_fields_def gpu_toleration_def)
  ultimately show ?thesis
    using fields(3) [of 12] by (simp add: gpu_toleration_def)
qed

text \<open>
  A hexadecimal integer is a number to YAML but to none of the three parsers (\<open>ParseFloat\<close> asks for an
  exponent), so the charts insert it without quotes.
\<close>

theorem hexadecimal_unquoted:
  "quote_scalar ''0x1F'' = ''0x1F'' \<and> quote_scalar ''0x1Fp0'' = CHR 0x27 # ''0x1Fp0'' @ [CHR 0x27]"
  by (simp add: quote_scalar_def Atoi_def ParseInt_def parse_digits_def is_digit_def ParseFloat_ok_def
      is_special_def drop_sign_def ToLower_def lower_char_def has_prefix_letter_def ParseBool_ok_def Let_def
      exponent_part_def is_hex_letter_def add_digit_def hex_val_def digit_val_def in_float_range_def float_bound_def)

end
