(* ===== verification/Go_Memory.thy ===== *)
theory Go_Memory
  imports "HOL-Library.Sublist" "HOL-Library.Monad_Syntax" "HOL-Library.AList"
begin

text \<open>
  A memory for the Go values of the API types, in which aliasing is visible: slices, maps and pointers
  refer to cells, and an assignment copies the reference.  \<open>read_tree\<close> is what a value of a type denotes,
  with every reference followed; \<open>deep_copier\<close> is the contract of a function that copies a value of a type
  with everything it refers to.
\<close>

section \<open>Types, values and cells\<close>

text \<open>The types of the API structures.  Instants are immutable in Go's API and count as scalars.\<close>

datatype goty =
    TScalar
  | TStruct "(string \<times> goty) list"
  | TSlice goty
  | TStrMap
  | TPtr goty

datatype scalar = SString string | SBool bool | SInt int | STime int

text \<open>A slice is nil or an array with an offset and a length; a map or a pointer is nil or an address.\<close>

datatype gv =
    VScalar scalar
  | VStruct "(string \<times> gv) list"
  | VSlice "(nat \<times> nat \<times> nat) option"
  | VStrMap "nat option"
  | VPtr "nat option"

datatype cell =
    Arr "gv list"
  | Tab "(string \<times> string) list"
  | Var gv

text \<open>Addresses are positions in the memory; a dangling one gives \<^term>\<open>None\<close>.\<close>

type_synonym memory = "cell list"

definition load :: "memory \<Rightarrow> nat \<Rightarrow> cell option" where
  "load m a = (if a < length m then Some (m ! a) else None)"

definition alloc :: "cell \<Rightarrow> memory \<Rightarrow> nat \<times> memory" where
  "alloc c m = (length m, m @ [c])"

definition load_arr :: "memory \<Rightarrow> nat \<Rightarrow> gv list option" where
  "load_arr m a = (case load m a of Some (Arr xs) \<Rightarrow> Some xs | _ \<Rightarrow> None)"

definition load_tab :: "memory \<Rightarrow> nat \<Rightarrow> (string \<times> string) list option" where
  "load_tab m a = (case load m a of Some (Tab t) \<Rightarrow> Some t | _ \<Rightarrow> None)"

definition load_var :: "memory \<Rightarrow> nat \<Rightarrow> gv option" where
  "load_var m a = (case load m a of Some (Var v) \<Rightarrow> Some v | _ \<Rightarrow> None)"

text \<open>The elements of a slice, and one of them; an index out of the array panics.\<close>

definition slice_elems :: "memory \<Rightarrow> nat \<times> nat \<times> nat \<Rightarrow> gv list option" where
  "slice_elems m sl =
    (case sl of (a, off, len) \<Rightarrow> do {
       xs \<leftarrow> load_arr m a;
       if off + len \<le> length xs then Some (take len (drop off xs)) else None
     })"

definition store_elem :: "nat \<Rightarrow> nat \<Rightarrow> gv \<Rightarrow> memory \<Rightarrow> memory option" where
  "store_elem a i v m = do {
     xs \<leftarrow> load_arr m a;
     if i < length xs then Some (m[a := Arr (xs[i := v])]) else None
   }"

section \<open>What a value denotes\<close>

datatype tree =
    LScalar scalar
  | LStruct "(string \<times> tree) list"
  | LSlice "tree list option"
  | LMap "(string \<rightharpoonup> string) option"
  | LPtr "tree option"

fun all_some :: "'a option list \<Rightarrow> 'a list option" where
  "all_some [] = Some []"
| "all_some (x # xs) = do { y \<leftarrow> x; ys \<leftarrow> all_some xs; Some (y # ys) }"

fun read_tree :: "goty \<Rightarrow> memory \<Rightarrow> gv \<Rightarrow> tree option"
  and read_fields :: "(string \<times> goty) list \<Rightarrow> memory \<Rightarrow> (string \<times> gv) list \<Rightarrow> (string \<times> tree) list option"
where
  "read_tree TScalar m v = (case v of VScalar x \<Rightarrow> Some (LScalar x) | _ \<Rightarrow> None)"
| "read_tree (TStruct fs) m v = (case v of VStruct vs \<Rightarrow> map_option LStruct (read_fields fs m vs) | _ \<Rightarrow> None)"
| "read_tree (TSlice T) m v =
    (case v of
       VSlice None \<Rightarrow> Some (LSlice None)
     | VSlice (Some sl) \<Rightarrow> do {
         xs \<leftarrow> slice_elems m sl;
         ts \<leftarrow> all_some (map (read_tree T m) xs);
         Some (LSlice (Some ts))
       }
     | _ \<Rightarrow> None)"
| "read_tree TStrMap m v =
    (case v of
       VStrMap None \<Rightarrow> Some (LMap None)
     | VStrMap (Some a) \<Rightarrow> map_option (\<lambda>t. LMap (Some (map_of t))) (load_tab m a)
     | _ \<Rightarrow> None)"
| "read_tree (TPtr T) m v =
    (case v of
       VPtr None \<Rightarrow> Some (LPtr None)
     | VPtr (Some a) \<Rightarrow> do { x \<leftarrow> load_var m a; t \<leftarrow> read_tree T m x; Some (LPtr (Some t)) }
     | _ \<Rightarrow> None)"
| "read_fields [] m vs = (if vs = [] then Some [] else None)"
| "read_fields ((n, T) # fs) m vs =
    (case vs of
       (n', v) # vs' \<Rightarrow>
         if n' = n then do { t \<leftarrow> read_tree T m v; ts \<leftarrow> read_fields fs m vs'; Some ((n, t) # ts) } else None
     | [] \<Rightarrow> None)"

text \<open>The addresses a value refers to, directly and through others.\<close>

fun refs :: "goty \<Rightarrow> memory \<Rightarrow> gv \<Rightarrow> nat set"
  and field_refs :: "(string \<times> goty) list \<Rightarrow> memory \<Rightarrow> (string \<times> gv) list \<Rightarrow> nat set"
where
  "refs TScalar m v = {}"
| "refs (TStruct fs) m v = (case v of VStruct vs \<Rightarrow> field_refs fs m vs | _ \<Rightarrow> {})"
| "refs (TSlice T) m v =
    (case v of
       VSlice (Some sl) \<Rightarrow>
         insert (fst sl) (case slice_elems m sl of Some xs \<Rightarrow> (\<Union>x \<in> set xs. refs T m x) | None \<Rightarrow> {})
     | _ \<Rightarrow> {})"
| "refs TStrMap m v = (case v of VStrMap (Some a) \<Rightarrow> {a} | _ \<Rightarrow> {})"
| "refs (TPtr T) m v =
    (case v of
       VPtr (Some a) \<Rightarrow> insert a (case load_var m a of Some x \<Rightarrow> refs T m x | None \<Rightarrow> {})
     | _ \<Rightarrow> {})"
| "field_refs [] m vs = {}"
| "field_refs ((n, T) # fs) m vs = (case vs of (_, v) # vs' \<Rightarrow> refs T m v \<union> field_refs fs m vs' | [] \<Rightarrow> {})"

text \<open>
  The zero value of a type.  One scalar stands for the zero of every scalar type: the deep copies overwrite what
  \<open>make\<close> and \<open>new\<close> put into a cell before anything reads it.
\<close>

fun zero_value :: "goty \<Rightarrow> gv" and zero_fields :: "(string \<times> goty) list \<Rightarrow> (string \<times> gv) list" where
  "zero_value TScalar = VScalar (SString [])"
| "zero_value (TStruct fs) = VStruct (zero_fields fs)"
| "zero_value (TSlice T) = VSlice None"
| "zero_value TStrMap = VStrMap None"
| "zero_value (TPtr T) = VPtr None"
| "zero_fields [] = []"
| "zero_fields ((n, T) # fs) = (n, zero_value T) # zero_fields fs"

section \<open>Framing\<close>

lemma all_some_cong: "(\<And>x. x \<in> set xs \<Longrightarrow> f x = g x) \<Longrightarrow> all_some (map f xs) = all_some (map g xs)"
  by (induction xs) auto

lemma all_some_map: "all_some (map Some ys) = Some ys"
  by (induction ys) auto

lemma all_some_iff: "all_some xs = Some ys \<longleftrightarrow> xs = map Some ys"
proof
  show "all_some xs = Some ys \<Longrightarrow> xs = map Some ys"
    by (induction xs arbitrary: ys) (auto split: Option.bind_splits)
qed (simp add: all_some_map)

text \<open>Reading looks only at the addresses of the value.\<close>

lemma read_frame:
  "(\<And>a. a \<in> refs T m v \<Longrightarrow> load m' a = load m a) \<Longrightarrow>
    read_tree T m' v = read_tree T m v \<and> refs T m' v = refs T m v"
  "(\<And>a. a \<in> field_refs fs m vs \<Longrightarrow> load m' a = load m a) \<Longrightarrow>
    read_fields fs m' vs = read_fields fs m vs \<and> field_refs fs m' vs = field_refs fs m vs"
proof (induction T m v and fs m vs rule: refs_field_refs.induct)
  case (3 T m v)
  show ?case
  proof (cases v)
    case (VSlice sl)
    then show ?thesis
    proof (cases sl)
      case (Some s)
      then have same: "slice_elems m' s = slice_elems m s"
        using 3(2) [of "fst s"] VSlice by (cases s) (simp add: slice_elems_def load_arr_def)
      show ?thesis
      proof (cases "slice_elems m s")
        case (Some xs)
        then have each: "read_tree T m' x = read_tree T m x \<and> refs T m' x = refs T m x" if "x \<in> set xs" for x
          using 3(1) [OF VSlice \<open>sl = Some s\<close> Some that] 3(2) VSlice \<open>sl = Some s\<close> that by auto
        have "all_some (map (read_tree T m') xs) = all_some (map (read_tree T m) xs)"
          by (rule all_some_cong) (simp add: each)
        then show ?thesis using VSlice \<open>sl = Some s\<close> Some same each by simp
      qed (use VSlice \<open>sl = Some s\<close> same in simp)
    qed (use VSlice in simp)
  qed simp_all
next
  case (5 T m v)
  then show ?case by (auto simp: load_var_def split: gv.split option.split cell.split)
next
  case (7 n T fs m vs)
  then show ?case by (cases vs) auto
qed (auto simp: load_tab_def split: gv.split option.split cell.split)

lemma load_prefix: "prefix m m' \<Longrightarrow> a < length m \<Longrightarrow> load m' a = load m a"
  by (auto simp: prefix_def load_def nth_append)

lemma slice_elems_bounded: "slice_elems m sl = Some xs \<Longrightarrow> fst sl < length m"
  by (cases sl) (auto simp: slice_elems_def load_arr_def load_def split: Option.bind_splits if_splits)

text \<open>A value that can be read refers to allocated cells only.\<close>

lemma read_bounded:
  "read_tree T m v = Some t \<Longrightarrow> a \<in> refs T m v \<Longrightarrow> a < length m"
  "read_fields fs m vs = Some ts \<Longrightarrow> a \<in> field_refs fs m vs \<Longrightarrow> a < length m"
proof (induction T m v and fs m vs arbitrary: t and ts rule: refs_field_refs.induct)
  case (3 T m v)
  then obtain sl where v: "v = VSlice (Some sl)" by (auto split: gv.splits option.splits)
  with 3(2) obtain xs us where xs: "slice_elems m sl = Some xs" "map (read_tree T m) xs = map Some us"
    by (auto simp: all_some_iff split: Option.bind_splits)
  consider "a = fst sl" | x where "x \<in> set xs" "a \<in> refs T m x" using 3(3) v xs by auto
  then show ?case
  proof cases
    case 2
    then have "read_tree T m x \<in> Some ` set us" using xs(2) by (metis image_eqI list.set_map)
    then show ?thesis using 3(1) [OF v refl xs(1) 2(1)] 2(2) by auto
  qed (use slice_elems_bounded [OF xs(1)] in simp)
qed (auto simp: load_var_def load_tab_def load_def split: gv.splits option.splits cell.splits Option.bind_splits if_splits list.splits)

lemma read_prefix:
  assumes "read_tree T m v = Some t" "prefix m m'"
  shows "read_tree T m' v = Some t" "refs T m' v = refs T m v"
  using read_frame(1) [of T m v m'] read_bounded(1) [OF assms(1)] load_prefix [OF assms(2)] assms(1) by auto

lemma load_other: "a \<noteq> b \<Longrightarrow> load (m[b := d]) a = load m a"
  by (simp add: load_def)

section \<open>Deep copies\<close>

type_synonym copier = "gv \<Rightarrow> memory \<Rightarrow> (gv \<times> memory) option"

text \<open>
  The contract: a value that can be read is copied, what was allocated before is kept, the copy denotes the
  same and refers to new cells only.
\<close>

locale deep_copier =
  fixes T :: goty and f :: copier
  assumes copies: "read_tree T m v = Some t \<Longrightarrow>
    \<exists>v' m'. f v m = Some (v', m') \<and> prefix m m' \<and> read_tree T m' v' = Some t \<and> (\<forall>a \<in> refs T m' v'. length m \<le> a)"
begin

text \<open>A write to a cell of the copy does not change the original, nor the other way round.\<close>

lemma separate:
  assumes "read_tree T m v = Some t"
  shows "\<exists>v' m'. f v m = Some (v', m') \<and> read_tree T m' v' = Some t \<and> read_tree T m' v = Some t
    \<and> (\<forall>a c. a \<in> refs T m' v' \<longrightarrow> read_tree T (m'[a := c]) v = Some t)
    \<and> (\<forall>a c. a \<in> refs T m' v \<longrightarrow> read_tree T (m'[a := c]) v' = Some t)"
proof -
  obtain v' m' where f: "f v m = Some (v', m')" and m': "prefix m m'"
    and v': "read_tree T m' v' = Some t" "\<forall>a \<in> refs T m' v'. length m \<le> a"
    using copies [OF assms] by blast
  note v = read_prefix [OF assms m']
  have apart: "refs T m' v \<inter> refs T m' v' = {}"
    using v'(2) read_bounded(1) [OF assms] v(2) by fastforce
  have kept: "read_tree T (m'[a := c]) u = read_tree T m' u" if "a \<notin> refs T m' u" for a c u
    using read_frame(1) [of T m' u "m'[a := c]"] that by (metis load_other)
  show ?thesis using f v' v apart by (auto simp: kept disjoint_iff)
qed

end

subsection \<open>Assignment of flat values\<close>

fun flat :: "goty \<Rightarrow> bool" where
  "flat TScalar = True"
| "flat (TStruct fs) = (\<forall>(n, T) \<in> set fs. flat T)"
| "flat _ = False"

definition assign :: copier where
  "assign v m = Some (v, m)"

lemma flat_refs: "flat T \<Longrightarrow> refs T m v = {}" "\<forall>(n, T) \<in> set fs. flat T \<Longrightarrow> field_refs fs m vs = {}"
  by (induction T m v and fs m vs rule: refs_field_refs.induct) (auto split: gv.splits list.splits)

lemma assign_copier: "flat T \<Longrightarrow> deep_copier T assign"
  by unfold_locales (simp add: assign_def flat_refs)

subsection \<open>Maps, pointers and slices\<close>

text \<open>
  \<open>make\<close> and a loop over the entries, which Go visits in no particular order (here from the last one).
\<close>

definition copy_map :: copier where
  "copy_map v m =
    (case v of
       VStrMap None \<Rightarrow> Some (v, m)
     | VStrMap (Some a) \<Rightarrow> do {
         let (b, m) = alloc (Tab []) m;
         t \<leftarrow> load_tab m a;
         Some (VStrMap (Some b), m[b := Tab (foldr (\<lambda>(key, val) out. AList.update key val out) t [])])
       }
     | _ \<Rightarrow> None)"

text \<open>\<open>new\<close>, then the copy of what the pointer refers to.\<close>

definition copy_ptr :: "goty \<Rightarrow> copier \<Rightarrow> copier" where
  "copy_ptr T f v m =
    (case v of
       VPtr None \<Rightarrow> Some (v, m)
     | VPtr (Some a) \<Rightarrow> do {
         let (b, m) = alloc (Var (zero_value T)) m;
         x \<leftarrow> load_var m a;
         (y, m) \<leftarrow> f x m;
         Some (VPtr (Some b), m[b := Var y])
       }
     | _ \<Rightarrow> None)"

text \<open>\<open>make\<close>, then a loop that copies each element into its place.\<close>

fun slice_loop :: "copier \<Rightarrow> nat \<times> nat \<times> nat \<Rightarrow> nat \<Rightarrow> nat list \<Rightarrow> memory \<Rightarrow> memory option" where
  "slice_loop f sl b [] m = Some m"
| "slice_loop f sl b (i # is) m = do {
     xs \<leftarrow> slice_elems m sl;
     (y, m) \<leftarrow> (if i < length xs then f (xs ! i) m else None);
     m \<leftarrow> store_elem b i y m;
     slice_loop f sl b is m
   }"

definition copy_slice :: "goty \<Rightarrow> copier \<Rightarrow> copier" where
  "copy_slice T f v m =
    (case v of
       VSlice None \<Rightarrow> Some (v, m)
     | VSlice (Some (a, off, len)) \<Rightarrow> do {
         let (b, m) = alloc (Arr (replicate len (zero_value T))) m;
         m \<leftarrow> slice_loop f (a, off, len) b [0..<len] m;
         Some (VSlice (Some (b, 0, len)), m)
       }
     | _ \<Rightarrow> None)"

text \<open>\<open>make\<close> and the built-in \<open>copy\<close>.\<close>

definition copy_flat_slice :: "goty \<Rightarrow> copier" where
  "copy_flat_slice T v m =
    (case v of
       VSlice None \<Rightarrow> Some (v, m)
     | VSlice (Some (a, off, len)) \<Rightarrow> do {
         let (b, m) = alloc (Arr (replicate len (zero_value T))) m;
         xs \<leftarrow> slice_elems m (a, off, len);
         Some (VSlice (Some (b, 0, len)), m[b := Arr xs])
       }
     | _ \<Rightarrow> None)"

lemma load_new: "prefix (m @ [c]) m' \<Longrightarrow> load (m'[length m := d]) (length m) = Some d"
  by (auto simp: prefix_def load_def)

lemma prefix_write: "prefix (m @ [c]) m' \<Longrightarrow> prefix m (m'[length m := d])"
  by (auto simp: prefix_def)

text \<open>A write to a cell that a value does not refer to.\<close>

lemma read_write:
  assumes "read_tree T m v = Some t" "\<forall>a \<in> refs T m v. b < a"
  shows "read_tree T (m[b := d]) v = Some t" "refs T (m[b := d]) v = refs T m v"
  using read_frame(1) [of T m v "m[b := d]"] assms by (metis less_irrefl load_other)+

lemma map_of_entries: "map_of (foldr (\<lambda>(key, val) out. AList.update key val out) t []) = map_of t"
  by (induction t) (auto simp: AList.update_conv')

lemma map_copier: "deep_copier TStrMap copy_map"
proof (unfold_locales, goal_cases)
  case (1 m v t)
  show ?case
  proof (cases "\<exists>a. v = VStrMap (Some a)")
    case True
    then obtain a tab where v: "v = VStrMap (Some a)" "load_tab m a = Some tab" "t = LMap (Some (map_of tab))"
      using 1 by auto
    then have "a < length m" by (auto simp: load_tab_def load_def split: if_splits)
    then have "load_tab (m @ [Tab []]) a = Some tab"
      using v(2) load_prefix [of m "m @ [Tab []]" a] by (simp add: load_tab_def)
    then show ?thesis
      using v by (simp add: copy_map_def alloc_def load_tab_def load_def map_of_entries)
  qed (use 1 in \<open>auto simp: copy_map_def split: gv.splits option.splits\<close>)
qed

text \<open>A copy behind a pointer is a new variable that nothing in the copy refers to.\<close>

lemma ptr_fresh:
  assumes "deep_copier T f" "read_tree (TPtr T) m (VPtr (Some a)) = Some (LPtr (Some u))"
  shows "\<exists>y m'. copy_ptr T f (VPtr (Some a)) m = Some (VPtr (Some (length m)), m') \<and> prefix m m'
    \<and> load_var m' (length m) = Some y \<and> read_tree T m' y = Some u \<and> (\<forall>a \<in> refs T m' y. length m < a)"
proof -
  obtain x where v: "load_var m a = Some x" "read_tree T m x = Some u"
    using assms(2) by (auto split: Option.bind_splits)
  let ?m = "m @ [Var (zero_value T)]"
  have "a < length m" using v(1) by (auto simp: load_var_def load_def split: if_splits)
  then have x: "load_var ?m a = Some x" using v(1) load_prefix [of m ?m a] by (simp add: load_var_def)
  have "read_tree T ?m x = Some u" using read_prefix(1) [OF v(2)] by simp
  from deep_copier.copies [OF assms(1) this] obtain y m' where y: "f x ?m = Some (y, m')" "prefix ?m m'"
    "read_tree T m' y = Some u" "\<forall>a \<in> refs T m' y. length ?m \<le> a" by blast
  have new: "load_var (m'[length m := Var y]) (length m) = Some y"
    using load_new [OF y(2)] by (simp add: load_var_def)
  have far: "\<forall>a \<in> refs T m' y. length m < a" using y(4) by auto
  show ?thesis
    using v x y(1) new prefix_write [OF y(2)] read_write [OF y(3) far, of "Var y"] far
    by (auto simp: copy_ptr_def alloc_def)
qed

lemma ptr_copier:
  assumes "deep_copier T f"
  shows "deep_copier (TPtr T) (copy_ptr T f)"
proof (unfold_locales, goal_cases)
  case (1 m v t)
  show ?case
  proof (cases "\<exists>a. v = VPtr (Some a)")
    case True
    then obtain a u where v: "v = VPtr (Some a)" "t = LPtr (Some u)"
      using 1 by (auto split: Option.bind_splits)
    with ptr_fresh [OF assms, of m a u] 1 show ?thesis by (fastforce intro: less_imp_le)
  qed (use 1 in \<open>auto simp: copy_ptr_def split: gv.splits option.splits\<close>)
qed

lemma prefix_update: "prefix m m' \<Longrightarrow> length m \<le> b \<Longrightarrow> prefix m (m'[b := d])"
  by (auto simp: prefix_def list_update_append)

lemma slice_elems_prefix: "prefix m m' \<Longrightarrow> slice_elems m sl = Some xs \<Longrightarrow> slice_elems m' sl = Some xs"
  using slice_elems_bounded [of m sl xs] load_prefix [of m m' "fst sl"]
  by (cases sl) (simp add: slice_elems_def load_arr_def)

lemma slice_elems_length: "slice_elems m (a, off, len) = Some xs \<Longrightarrow> length xs = len"
  by (auto simp: slice_elems_def split: Option.bind_splits if_splits)

text \<open>Before step \<open>i\<close> of the loop, the first \<open>i\<close> elements of the new array are copies.\<close>

definition copied_upto :: "goty \<Rightarrow> memory \<Rightarrow> tree list \<Rightarrow> nat \<Rightarrow> memory \<Rightarrow> bool" where
  "copied_upto T m0 ts i m = (prefix m0 m \<and> (\<exists>ws. load_arr m (length m0) = Some ws \<and> length ws = length ts
    \<and> (\<forall>j < i. read_tree T m (ws ! j) = Some (ts ! j) \<and> (\<forall>a \<in> refs T m (ws ! j). length m0 < a))))"

lemma slice_step:
  assumes "deep_copier T f" "copied_upto T m0 ts i m" "i < length ts" "read_tree T m0 x = Some (ts ! i)"
  shows "\<exists>y m1 m2. f x m = Some (y, m1) \<and> store_elem (length m0) i y m1 = Some m2 \<and> copied_upto T m0 ts (Suc i) m2"
proof -
  let ?b = "length m0"
  obtain ws where m: "prefix m0 m" "load_arr m ?b = Some ws" "length ws = length ts"
    and sofar: "\<And>j. j < i \<Longrightarrow> read_tree T m (ws ! j) = Some (ts ! j) \<and> (\<forall>a \<in> refs T m (ws ! j). ?b < a)"
    using assms(2) unfolding copied_upto_def by blast
  have b: "?b < length m" using m(2) by (auto simp: load_arr_def load_def split: if_splits)
  obtain y m1 where y: "f x m = Some (y, m1)" "prefix m m1" "read_tree T m1 y = Some (ts ! i)"
    "\<forall>a \<in> refs T m1 y. length m \<le> a"
    using deep_copier.copies [OF assms(1) read_prefix(1) [OF assms(4) m(1)]] by blast
  have b1: "load_arr m1 ?b = Some ws" "?b < length m1"
    using m(2) load_prefix [OF y(2) b] prefix_length_le [OF y(2)] b by (simp_all add: load_arr_def)
  let ?m2 = "m1[?b := Arr (ws[i := y])]"
  have old: "read_tree T ?m2 (ws ! j) = Some (ts ! j) \<and> (\<forall>a \<in> refs T ?m2 (ws ! j). ?b < a)" if "j < i" for j
    using sofar [OF that] read_prefix [OF _ y(2), of T "ws ! j"] read_write [of T m1 "ws ! j" _ ?b] by simp
  have new: "read_tree T ?m2 y = Some (ts ! i) \<and> (\<forall>a \<in> refs T ?m2 y. ?b < a)"
    using y(4) b read_write [OF y(3), of ?b] by fastforce
  have "copied_upto T m0 ts (Suc i) ?m2"
    unfolding copied_upto_def
  proof (intro conjI exI allI impI)
    show "prefix m0 ?m2"
      using m(1) y(2) by (auto intro: prefix_update prefix_order.trans)
    show "load_arr ?m2 ?b = Some (ws[i := y])" using b1(2) by (simp add: load_arr_def load_def)
  qed (use old new m(3) assms(3) in \<open>auto simp: less_Suc_eq nth_list_update\<close>)
  then show ?thesis using y(1) b1(1) m(3) assms(3) by (auto simp: store_elem_def)
qed

lemma slice_loop_copied:
  assumes "deep_copier T f" "slice_elems m0 sl = Some xs" "map (read_tree T m0) xs = map Some ts"
  shows "i \<le> length ts \<Longrightarrow> copied_upto T m0 ts i m \<Longrightarrow>
    \<exists>m'. slice_loop f sl (length m0) [i..<length ts] m = Some m' \<and> copied_upto T m0 ts (length ts) m'"
proof (induction "length ts - i" arbitrary: i m)
  case (Suc k)
  then have i: "i < length ts" by simp
  have len: "length xs = length ts" using arg_cong [OF assms(3), of length] by simp
  have "read_tree T m0 (xs ! i) = Some (ts ! i)" using assms(3) i len by (metis nth_map)
  from slice_step [OF assms(1) Suc.prems(2) i this] obtain y m1 m2 where
    step: "f (xs ! i) m = Some (y, m1)" "store_elem (length m0) i y m1 = Some m2" "copied_upto T m0 ts (Suc i) m2" by blast
  have "slice_elems m sl = Some xs"
    using Suc.prems(2) slice_elems_prefix [OF _ assms(2)] by (simp add: copied_upto_def)
  then show ?case
    using Suc(1) [of "Suc i" m2] Suc(2) step i len by (simp add: upt_conv_Cons)
qed simp

lemma slice_copier:
  assumes "deep_copier T f"
  shows "deep_copier (TSlice T) (copy_slice T f)"
proof (unfold_locales, goal_cases)
  case (1 m v t)
  show ?case
  proof (cases "\<exists>sl. v = VSlice (Some sl)")
    case True
    then obtain a off len xs ts where v: "v = VSlice (Some (a, off, len))" "slice_elems m (a, off, len) = Some xs"
      "map (read_tree T m) xs = map Some ts" "t = LSlice (Some ts)"
      using 1 by (auto simp: all_some_iff split: Option.bind_splits)
    have len: "length ts = len" using slice_elems_length [OF v(2)] arg_cong [OF v(3), of length] by simp
    have "copied_upto T m ts 0 (m @ [Arr (replicate len (zero_value T))])"
      by (simp add: copied_upto_def load_arr_def load_def len)
    from slice_loop_copied [OF assms v(2,3) _ this] obtain m' where
      m': "slice_loop f (a, off, len) (length m) [0..<len] (m @ [Arr (replicate len (zero_value T))]) = Some m'"
      "copied_upto T m ts len m'" using len by auto
    then obtain ws where ws: "prefix m m'" "load_arr m' (length m) = Some ws" "length ws = len"
      "\<And>j. j < len \<Longrightarrow> read_tree T m' (ws ! j) = Some (ts ! j) \<and> (\<forall>a \<in> refs T m' (ws ! j). length m < a)"
      using len unfolding copied_upto_def by blast
    have "map (read_tree T m') ws = map Some ts" using ws(3,4) len by (auto intro: nth_equalityI)
    moreover have "slice_elems m' (length m, 0, len) = Some ws" using ws(2,3) by (simp add: slice_elems_def)
    moreover have "length m \<le> a" if "x \<in> set ws" "a \<in> refs T m' x" for x a
      using ws(3,4) that by (metis in_set_conv_nth less_imp_le)
    ultimately show ?thesis
      using v m'(1) ws(1) by (auto simp: copy_slice_def alloc_def all_some_map)
  qed (use 1 in \<open>auto simp: copy_slice_def split: gv.splits option.splits\<close>)
qed

lemma flat_slice_copier:
  assumes "flat T"
  shows "deep_copier (TSlice T) (copy_flat_slice T)"
proof (unfold_locales, goal_cases)
  case (1 m v t)
  show ?case
  proof (cases "\<exists>sl. v = VSlice (Some sl)")
    case True
    then obtain a off len xs ts where v: "v = VSlice (Some (a, off, len))" "slice_elems m (a, off, len) = Some xs"
      "map (read_tree T m) xs = map Some ts" "t = LSlice (Some ts)"
      using 1 by (auto simp: all_some_iff split: Option.bind_splits)
    let ?m = "m @ [Arr (replicate len (zero_value T))]" and ?m' = "m @ [Arr xs]"
    have "slice_elems ?m (a, off, len) = Some xs" using slice_elems_prefix [OF _ v(2), of ?m] by simp
    moreover have "slice_elems ?m' (length m, 0, len) = Some xs"
      using slice_elems_length [OF v(2)] by (simp add: slice_elems_def load_arr_def load_def)
    moreover have "read_tree T ?m' = read_tree T m"
      using read_frame(1) [of T m _ ?m'] flat_refs(1) [OF assms] by auto
    ultimately show ?thesis
      using v flat_refs(1) [OF assms] by (auto simp: copy_flat_slice_def alloc_def all_some_map)
  qed (use 1 in \<open>auto simp: copy_flat_slice_def split: gv.splits option.splits\<close>)
qed

subsection \<open>Structures\<close>

text \<open>
  A structure is assigned as a whole, which copies the references of its fields, and then the listed fields
  are copied one after the other.
\<close>

definition field_of :: "gv \<Rightarrow> string \<Rightarrow> gv option" where
  "field_of v n = (case v of VStruct vs \<Rightarrow> map_of vs n | _ \<Rightarrow> None)"

definition set_field :: "string \<Rightarrow> gv \<Rightarrow> gv \<Rightarrow> gv" where
  "set_field n y v =
    (case v of VStruct vs \<Rightarrow> VStruct (map (\<lambda>(k, x). (k, if k = n then y else x)) vs) | _ \<Rightarrow> v)"

fun copy_fields :: "(string \<times> copier) list \<Rightarrow> gv \<Rightarrow> gv \<Rightarrow> memory \<Rightarrow> (gv \<times> memory) option" where
  "copy_fields [] inp out m = Some (out, m)"
| "copy_fields ((n, f) # cs) inp out m = do {
     x \<leftarrow> field_of inp n;
     (y, m) \<leftarrow> f x m;
     copy_fields cs inp (set_field n y out) m
   }"

definition copy_struct :: "(string \<times> copier) list \<Rightarrow> copier" where
  "copy_struct cs v m = copy_fields cs v v m"

text \<open>The fields of a type, with distinct names, and of a value of it.\<close>

lemma read_fields_iff:
  "read_fields fs m vs = Some ts \<longleftrightarrow>
    map fst vs = map fst fs \<and> map fst ts = map fst fs \<and>
    (\<forall>i < length fs. read_tree (snd (fs ! i)) m (snd (vs ! i)) = Some (snd (ts ! i)))"
proof (induction fs arbitrary: vs ts)
  case (Cons nT fs)
  obtain n T where nT: "nT = (n, T)" by (cases nT)
  have "read_fields (nT # fs) m vs = Some ts \<longleftrightarrow>
      (\<exists>v vs' t ts'. vs = (n, v) # vs' \<and> ts = (n, t) # ts' \<and> read_tree T m v = Some t \<and> read_fields fs m vs' = Some ts')"
    by (auto simp: nT Option.bind_eq_Some_conv split: list.splits if_splits)
  then show ?case
    unfolding Cons.IH by (cases vs; cases ts) (auto simp: nT All_less_Suc2)
qed auto

lemma field_refs_iff:
  "map fst vs = map fst fs \<Longrightarrow>
    field_refs fs m vs = (\<Union>i \<in> {..<length fs}. refs (snd (fs ! i)) m (snd (vs ! i)))"
proof (induction fs arbitrary: vs)
  case (Cons nT fs)
  then obtain v vs' where "vs = v # vs'" "map fst vs' = map fst fs" by (cases vs) auto
  then show ?case using Cons.IH [of vs'] by (cases nT; cases v) (simp add: lessThan_Suc_eq_insert_0)
qed simp

definition struct_copied :: "(string \<times> goty) list \<Rightarrow> memory \<Rightarrow> gv \<Rightarrow> (string \<times> tree) list \<Rightarrow> string set \<Rightarrow> gv \<Rightarrow> memory \<Rightarrow> bool" where
  "struct_copied fs m0 v0 ts ns v m = (prefix m0 m \<and> (\<exists>vs0 vs. v0 = VStruct vs0 \<and> v = VStruct vs
    \<and> map fst vs = map fst fs
    \<and> (\<forall>i < length fs. fst (fs ! i) \<in> ns \<longrightarrow> read_tree (snd (fs ! i)) m (snd (vs ! i)) = Some (snd (ts ! i))
        \<and> (\<forall>a \<in> refs (snd (fs ! i)) m (snd (vs ! i)). length m0 \<le> a))
    \<and> (\<forall>i < length fs. fst (fs ! i) \<notin> ns \<longrightarrow> vs ! i = vs0 ! i)))"

lemma struct_step:
  assumes fs: "distinct (map fst fs)" "(n, T) \<in> set fs" "deep_copier T f"
    and read: "read_fields fs m0 vs0 = Some ts"
    and before: "struct_copied fs m0 (VStruct vs0) ts ns v m"
  shows "\<exists>x y m'. field_of (VStruct vs0) n = Some x \<and> f x m = Some (y, m')
    \<and> struct_copied fs m0 (VStruct vs0) ts (insert n ns) (set_field n y v) m'"
proof -
  from before obtain vs where m: "prefix m0 m" and v: "v = VStruct vs" and names: "map fst vs = map fst fs"
    and copied: "\<And>i. i < length fs \<Longrightarrow> fst (fs ! i) \<in> ns \<Longrightarrow> read_tree (snd (fs ! i)) m (snd (vs ! i)) = Some (snd (ts ! i))
        \<and> (\<forall>a \<in> refs (snd (fs ! i)) m (snd (vs ! i)). length m0 \<le> a)"
    and rest: "\<And>i. i < length fs \<Longrightarrow> fst (fs ! i) \<notin> ns \<Longrightarrow> vs ! i = vs0 ! i"
    unfolding struct_copied_def by blast
  have names0: "map fst vs0 = map fst fs"
    and fields: "\<And>i. i < length fs \<Longrightarrow> read_tree (snd (fs ! i)) m0 (snd (vs0 ! i)) = Some (snd (ts ! i))"
    using read by (auto simp: read_fields_iff)
  have len: "length vs = length fs" "length vs0 = length fs"
    using names names0 by (metis length_map)+
  obtain k where k: "k < length fs" "fs ! k = (n, T)" using fs(2) by (auto simp: in_set_conv_nth)
  have at: "fst (vs0 ! i) = fst (fs ! i)" "fst (vs ! i) = fst (fs ! i)" if "i < length fs" for i
    using that names names0 len by (metis nth_map)+
  have x: "field_of (VStruct vs0) n = Some (snd (vs0 ! k))"
    using k len at(1) [OF k(1)] names0 fs(1)
    by (simp add: field_of_def) (metis map_of_eq_Some_iff nth_mem prod.collapse fst_conv)
  have only: "fst (fs ! i) = n \<longleftrightarrow> i = k" if "i < length fs" for i
    using fs(1) k that by (metis distinct_conv_nth fst_conv length_map nth_map)
  from deep_copier.copies [OF fs(3) read_prefix(1) [OF _ m, of T "snd (vs0 ! k)" "snd (ts ! k)"]] fields [OF k(1)] k(2)
  obtain y m' where y: "f (snd (vs0 ! k)) m = Some (y, m')" "prefix m m'" "read_tree T m' y = Some (snd (ts ! k))"
    "\<forall>a \<in> refs T m' y. length m \<le> a" by auto
  have far: "\<forall>a \<in> refs T m' y. length m0 \<le> a" using y(4) prefix_length_le [OF m] by auto
  let ?vs = "map (\<lambda>(k, x). (k, if k = n then y else x)) vs"
  have nth: "?vs ! i = (if i = k then (n, y) else vs ! i)" if "i < length fs" for i
    using that len at(2) [OF that] only [OF that] k by (auto simp: prod_eq_iff split: prod.splits)
  have "struct_copied fs m0 (VStruct vs0) ts (insert n ns) (set_field n y v) m'"
    unfolding struct_copied_def
  proof (intro conjI exI allI impI)
    show "prefix m0 m'" using m y(2) by (rule prefix_order.trans)
    show "set_field n y v = VStruct ?vs" by (simp add: set_field_def v)
    show "map fst ?vs = map fst fs" using names by (simp add: o_def split_beta)
  next
    fix i assume i: "i < length fs" "fst (fs ! i) \<in> insert n ns"
    show "read_tree (snd (fs ! i)) m' (snd (?vs ! i)) = Some (snd (ts ! i))"
      using i only [OF i(1)] nth [OF i(1)] y(3) k(2) copied [OF i(1)] read_prefix(1) [OF _ y(2)] by auto
  next
    fix i assume i: "i < length fs" "fst (fs ! i) \<in> insert n ns"
    show "\<forall>a \<in> refs (snd (fs ! i)) m' (snd (?vs ! i)). length m0 \<le> a"
      using i only [OF i(1)] nth [OF i(1)] far k(2) copied [OF i(1)] read_prefix(2) [OF _ y(2)] by auto
  qed (use nth only rest in auto)
  then show ?thesis using x y(1) by blast
qed

lemma struct_copier:
  assumes "distinct (map fst fs)"
    and "list_all (\<lambda>(n, f). \<exists>T. (n, T) \<in> set fs \<and> deep_copier T f) cs"
    and "list_all (\<lambda>(n, T). n \<in> set (map fst cs) \<or> flat T) fs"
  shows "deep_copier (TStruct fs) (copy_struct cs)"
proof (unfold_locales, goal_cases)
  case (1 m0 v0 t)
  then obtain vs0 ts where v0: "v0 = VStruct vs0" "t = LStruct ts" "read_fields fs m0 vs0 = Some ts"
    by (auto split: gv.splits)
  have run: "struct_copied fs m0 v0 ts ns v m \<Longrightarrow> set cs' \<subseteq> set cs \<Longrightarrow>
      \<exists>v' m'. copy_fields cs' v0 v m = Some (v', m') \<and> struct_copied fs m0 v0 ts (ns \<union> fst ` set cs') v' m'" for cs' ns v m
  proof (induction cs' arbitrary: ns v m)
    case (Cons c cs')
    obtain n f where c: "c = (n, f)" by (cases c)
    then obtain T where T: "(n, T) \<in> set fs" "deep_copier T f"
      using assms(2) Cons.prems(2) by (auto simp: list_all_iff)
    from struct_step [OF assms(1) T v0(3) Cons.prems(1) [unfolded v0(1)]] obtain x y m1 where
      step: "field_of v0 n = Some x" "f x m = Some (y, m1)" "struct_copied fs m0 v0 ts (insert n ns) (set_field n y v) m1"
      unfolding v0(1) by blast
    from Cons.IH [OF step(3)] Cons.prems(2) show ?case using step c by auto
  qed simp
  have "struct_copied fs m0 v0 ts {} v0 m0" using v0 by (auto simp: struct_copied_def read_fields_iff)
  from run [OF this, of cs] obtain v m where
    v: "copy_fields cs v0 v0 m0 = Some (v, m)" "struct_copied fs m0 v0 ts (fst ` set cs) v m" by auto
  then obtain vs where vs: "prefix m0 m" "v = VStruct vs" "map fst vs = map fst fs"
    "\<And>i. i < length fs \<Longrightarrow> fst (fs ! i) \<in> fst ` set cs \<Longrightarrow> read_tree (snd (fs ! i)) m (snd (vs ! i)) = Some (snd (ts ! i))
        \<and> (\<forall>a \<in> refs (snd (fs ! i)) m (snd (vs ! i)). length m0 \<le> a)"
    "\<And>i. i < length fs \<Longrightarrow> fst (fs ! i) \<notin> fst ` set cs \<Longrightarrow> vs ! i = vs0 ! i"
    unfolding struct_copied_def using v0(1) by blast
  have each: "read_tree (snd (fs ! i)) m (snd (vs ! i)) = Some (snd (ts ! i))
      \<and> (\<forall>a \<in> refs (snd (fs ! i)) m (snd (vs ! i)). length m0 \<le> a)" if i: "i < length fs" for i
  proof (cases "fst (fs ! i) \<in> fst ` set cs")
    case False
    then have "flat (snd (fs ! i))" using assms(3) i by (auto simp: list_all_iff split_beta dest: nth_mem)
    then show ?thesis
      using flat_refs(1) vs(5) [OF i False] v0(3) i read_prefix(1) [OF _ vs(1)] by (auto simp: read_fields_iff)
  qed (use vs(4) [OF i] in simp)
  have "read_fields fs m vs = Some ts" using each vs(3) v0(3) by (simp add: read_fields_iff)
  moreover have "\<forall>a \<in> field_refs fs m vs. length m0 \<le> a" using each by (auto simp: field_refs_iff [OF vs(3)])
  ultimately show ?case using v(1) vs(1,2) v0(2) by (simp add: copy_struct_def)
qed

end
