(* ===== verification/Deep_Copy.thy ===== *)
theory Deep_Copy
  imports Go_Memory
begin

text \<open>
  The generated deep copies of the API types (\<open>api/v1/zz_generated.deepcopy.go\<close>) over the memory of theory
  \<open>Go_Memory\<close>, and the one place where the operator changes a copy (\<open>RenderChartWithNamespace\<close>).  They
  justify that the rest of the development treats engines as values.  The deep copies of the Kubernetes
  library (object and list metadata, tolerations, instants) are parameters with the same contract.
\<close>

section \<open>The types\<close>

definition TypeMeta_type :: goty where
  "TypeMeta_type = TStruct [(''Kind'', TScalar), (''APIVersion'', TScalar)]"

definition GroupVersionKind_type :: goty where
  "GroupVersionKind_type = TStruct [(''Group'', TScalar), (''Version'', TScalar), (''Kind'', TScalar)]"

record copy_lib =
  dl_ObjectMeta_type :: goty
  dl_ObjectMeta :: copier
  dl_ListMeta_type :: goty
  dl_ListMeta :: copier
  dl_Toleration_type :: goty
  dl_Toleration :: copier
  dl_Time :: copier

definition BlockDeletionResource_type :: goty where
  "BlockDeletionResource_type = TStruct
    [(''Name'', TScalar), (''GVK'', GroupVersionKind_type), (''NameExceptions'', TSlice TScalar),
     (''LabelExceptions'', TStrMap)]"

definition EnvConfig_type :: goty where
  "EnvConfig_type = TStruct [(''Name'', TScalar), (''Value'', TScalar)]"

definition ContainerConfig_type :: goty where
  "ContainerConfig_type = TStruct [(''Name'', TScalar), (''Env'', TSlice EnvConfig_type)]"

definition DeploymentConfig_type :: goty where
  "DeploymentConfig_type = TStruct [(''Name'', TScalar), (''Containers'', TSlice ContainerConfig_type)]"

definition ConfigOverride_type :: goty where
  "ConfigOverride_type = TStruct [(''Deployments'', TSlice DeploymentConfig_type)]"

definition ComponentConfig_type :: goty where
  "ComponentConfig_type = TStruct
    [(''Enabled'', TScalar), (''Name'', TScalar), (''ConfigOverrides'', ConfigOverride_type)]"

definition Overrides_type :: goty where
  "Overrides_type = TStruct
    [(''ImagePullPolicy'', TScalar), (''Components'', TSlice ComponentConfig_type),
     (''InfrastructureCustomNamespace'', TScalar)]"

definition NetworkPoliciesConfig_type :: goty where
  "NetworkPoliciesConfig_type = TStruct [(''Enabled'', TScalar)]"

definition MultiClusterEngineSpec_type :: "copy_lib \<Rightarrow> goty" where
  "MultiClusterEngineSpec_type lib = TStruct
    [(''AvailabilityConfig'', TScalar), (''NodeSelector'', TStrMap), (''ImagePullSecret'', TScalar),
     (''Overrides'', TPtr Overrides_type), (''Tolerations'', TSlice (dl_Toleration_type lib)),
     (''TargetNamespace'', TScalar), (''LocalClusterName'', TScalar),
     (''NetworkPolicies'', TPtr NetworkPoliciesConfig_type)]"

definition ComponentCondition_type :: goty where
  "ComponentCondition_type = TStruct
    [(''Name'', TScalar), (''Kind'', TScalar), (''Available'', TScalar), (''Type'', TScalar), (''Status'', TScalar),
     (''LastUpdateTime'', TScalar), (''LastTransitionTime'', TScalar), (''Reason'', TScalar), (''Message'', TScalar)]"

definition MultiClusterEngineCondition_type :: goty where
  "MultiClusterEngineCondition_type = TStruct
    [(''Type'', TScalar), (''Status'', TScalar), (''LastUpdateTime'', TScalar), (''LastTransitionTime'', TScalar),
     (''Reason'', TScalar), (''Message'', TScalar)]"

definition MultiClusterEngineStatus_type :: goty where
  "MultiClusterEngineStatus_type = TStruct
    [(''Phase'', TScalar), (''Components'', TSlice ComponentCondition_type),
     (''Conditions'', TSlice MultiClusterEngineCondition_type), (''CurrentVersion'', TScalar), (''DesiredVersion'', TScalar)]"

definition MultiClusterEngine_type :: "copy_lib \<Rightarrow> goty" where
  "MultiClusterEngine_type lib = TStruct
    [(''TypeMeta'', TypeMeta_type), (''ObjectMeta'', dl_ObjectMeta_type lib),
     (''Spec'', MultiClusterEngineSpec_type lib), (''Status'', MultiClusterEngineStatus_type)]"

definition MultiClusterEngineList_type :: "copy_lib \<Rightarrow> goty" where
  "MultiClusterEngineList_type lib = TStruct
    [(''TypeMeta'', TypeMeta_type), (''ListMeta'', dl_ListMeta_type lib),
     (''Items'', TSlice (MultiClusterEngine_type lib))]"

definition InternalEngineComponentSpec_type :: goty where
  "InternalEngineComponentSpec_type = TStruct []"

definition InternalEngineComponent_type :: "copy_lib \<Rightarrow> goty" where
  "InternalEngineComponent_type lib = TStruct
    [(''TypeMeta'', TypeMeta_type), (''ObjectMeta'', dl_ObjectMeta_type lib),
     (''Spec'', InternalEngineComponentSpec_type)]"

definition InternalEngineComponentList_type :: "copy_lib \<Rightarrow> goty" where
  "InternalEngineComponentList_type lib = TStruct
    [(''TypeMeta'', TypeMeta_type), (''ListMeta'', dl_ListMeta_type lib),
     (''Items'', TSlice (InternalEngineComponent_type lib))]"

section \<open>The functions \<open>DeepCopyInto\<close>\<close>

text \<open>Each takes the value behind \<open>in\<close> and returns the value it leaves behind \<open>out\<close>.\<close>

definition DeepCopyInto_BlockDeletionResource :: copier where
  "DeepCopyInto_BlockDeletionResource = copy_struct
    [(''GVK'', assign), (''NameExceptions'', copy_flat_slice TScalar), (''LabelExceptions'', copy_map)]"

definition DeepCopyInto_EnvConfig :: copier where
  "DeepCopyInto_EnvConfig = copy_struct []"

definition DeepCopyInto_ContainerConfig :: copier where
  "DeepCopyInto_ContainerConfig = copy_struct [(''Env'', copy_flat_slice EnvConfig_type)]"

definition DeepCopyInto_DeploymentConfig :: copier where
  "DeepCopyInto_DeploymentConfig = copy_struct
    [(''Containers'', copy_slice ContainerConfig_type DeepCopyInto_ContainerConfig)]"

definition DeepCopyInto_ConfigOverride :: copier where
  "DeepCopyInto_ConfigOverride = copy_struct
    [(''Deployments'', copy_slice DeploymentConfig_type DeepCopyInto_DeploymentConfig)]"

definition DeepCopyInto_ComponentConfig :: copier where
  "DeepCopyInto_ComponentConfig = copy_struct [(''ConfigOverrides'', DeepCopyInto_ConfigOverride)]"

definition DeepCopyInto_Overrides :: copier where
  "DeepCopyInto_Overrides = copy_struct
    [(''Components'', copy_slice ComponentConfig_type DeepCopyInto_ComponentConfig)]"

definition DeepCopyInto_NetworkPoliciesConfig :: copier where
  "DeepCopyInto_NetworkPoliciesConfig = copy_struct []"

definition DeepCopyInto_MultiClusterEngineSpec :: "copy_lib \<Rightarrow> copier" where
  "DeepCopyInto_MultiClusterEngineSpec lib = copy_struct
    [(''NodeSelector'', copy_map),
     (''Overrides'', copy_ptr Overrides_type DeepCopyInto_Overrides),
     (''Tolerations'', copy_slice (dl_Toleration_type lib) (dl_Toleration lib)),
     (''NetworkPolicies'', copy_ptr NetworkPoliciesConfig_type assign)]"

definition DeepCopyInto_ComponentCondition :: "copy_lib \<Rightarrow> copier" where
  "DeepCopyInto_ComponentCondition lib = copy_struct
    [(''LastUpdateTime'', dl_Time lib), (''LastTransitionTime'', dl_Time lib)]"

definition DeepCopyInto_MultiClusterEngineCondition :: "copy_lib \<Rightarrow> copier" where
  "DeepCopyInto_MultiClusterEngineCondition lib = copy_struct
    [(''LastUpdateTime'', dl_Time lib), (''LastTransitionTime'', dl_Time lib)]"

definition DeepCopyInto_MultiClusterEngineStatus :: "copy_lib \<Rightarrow> copier" where
  "DeepCopyInto_MultiClusterEngineStatus lib = copy_struct
    [(''Components'', copy_slice ComponentCondition_type (DeepCopyInto_ComponentCondition lib)),
     (''Conditions'', copy_slice MultiClusterEngineCondition_type (DeepCopyInto_MultiClusterEngineCondition lib))]"

definition DeepCopyInto_MultiClusterEngine :: "copy_lib \<Rightarrow> copier" where
  "DeepCopyInto_MultiClusterEngine lib = copy_struct
    [(''TypeMeta'', assign), (''ObjectMeta'', dl_ObjectMeta lib),
     (''Spec'', DeepCopyInto_MultiClusterEngineSpec lib), (''Status'', DeepCopyInto_MultiClusterEngineStatus lib)]"

definition DeepCopyInto_MultiClusterEngineList :: "copy_lib \<Rightarrow> copier" where
  "DeepCopyInto_MultiClusterEngineList lib = copy_struct
    [(''TypeMeta'', assign), (''ListMeta'', dl_ListMeta lib),
     (''Items'', copy_slice (MultiClusterEngine_type lib) (DeepCopyInto_MultiClusterEngine lib))]"

definition DeepCopyInto_InternalEngineComponentSpec :: copier where
  "DeepCopyInto_InternalEngineComponentSpec = copy_struct []"

definition DeepCopyInto_InternalEngineComponent :: "copy_lib \<Rightarrow> copier" where
  "DeepCopyInto_InternalEngineComponent lib = copy_struct
    [(''TypeMeta'', assign), (''ObjectMeta'', dl_ObjectMeta lib), (''Spec'', assign)]"

definition DeepCopyInto_InternalEngineComponentList :: "copy_lib \<Rightarrow> copier" where
  "DeepCopyInto_InternalEngineComponentList lib = copy_struct
    [(''TypeMeta'', assign), (''ListMeta'', dl_ListMeta lib),
     (''Items'', copy_slice (InternalEngineComponent_type lib) (DeepCopyInto_InternalEngineComponent lib))]"

section \<open>The functions \<open>DeepCopy\<close> and \<open>DeepCopyObject\<close>\<close>

text \<open>A nil receiver gives nil; otherwise a new variable is filled.\<close>

definition DeepCopy_BlockDeletionResource :: copier where
  "DeepCopy_BlockDeletionResource = copy_ptr BlockDeletionResource_type DeepCopyInto_BlockDeletionResource"

definition DeepCopy_EnvConfig :: copier where
  "DeepCopy_EnvConfig = copy_ptr EnvConfig_type DeepCopyInto_EnvConfig"

definition DeepCopy_ContainerConfig :: copier where
  "DeepCopy_ContainerConfig = copy_ptr ContainerConfig_type DeepCopyInto_ContainerConfig"

definition DeepCopy_DeploymentConfig :: copier where
  "DeepCopy_DeploymentConfig = copy_ptr DeploymentConfig_type DeepCopyInto_DeploymentConfig"

definition DeepCopy_ConfigOverride :: copier where
  "DeepCopy_ConfigOverride = copy_ptr ConfigOverride_type DeepCopyInto_ConfigOverride"

definition DeepCopy_ComponentConfig :: copier where
  "DeepCopy_ComponentConfig = copy_ptr ComponentConfig_type DeepCopyInto_ComponentConfig"

definition DeepCopy_Overrides :: copier where
  "DeepCopy_Overrides = copy_ptr Overrides_type DeepCopyInto_Overrides"

definition DeepCopy_NetworkPoliciesConfig :: copier where
  "DeepCopy_NetworkPoliciesConfig = copy_ptr NetworkPoliciesConfig_type DeepCopyInto_NetworkPoliciesConfig"

definition DeepCopy_MultiClusterEngineSpec :: "copy_lib \<Rightarrow> copier" where
  "DeepCopy_MultiClusterEngineSpec lib =
    copy_ptr (MultiClusterEngineSpec_type lib) (DeepCopyInto_MultiClusterEngineSpec lib)"

definition DeepCopy_ComponentCondition :: "copy_lib \<Rightarrow> copier" where
  "DeepCopy_ComponentCondition lib = copy_ptr ComponentCondition_type (DeepCopyInto_ComponentCondition lib)"

definition DeepCopy_MultiClusterEngineCondition :: "copy_lib \<Rightarrow> copier" where
  "DeepCopy_MultiClusterEngineCondition lib =
    copy_ptr MultiClusterEngineCondition_type (DeepCopyInto_MultiClusterEngineCondition lib)"

definition DeepCopy_MultiClusterEngineStatus :: "copy_lib \<Rightarrow> copier" where
  "DeepCopy_MultiClusterEngineStatus lib =
    copy_ptr MultiClusterEngineStatus_type (DeepCopyInto_MultiClusterEngineStatus lib)"

definition DeepCopy_MultiClusterEngine :: "copy_lib \<Rightarrow> copier" where
  "DeepCopy_MultiClusterEngine lib = copy_ptr (MultiClusterEngine_type lib) (DeepCopyInto_MultiClusterEngine lib)"

definition DeepCopy_MultiClusterEngineList :: "copy_lib \<Rightarrow> copier" where
  "DeepCopy_MultiClusterEngineList lib =
    copy_ptr (MultiClusterEngineList_type lib) (DeepCopyInto_MultiClusterEngineList lib)"

definition DeepCopy_InternalEngineComponentSpec :: copier where
  "DeepCopy_InternalEngineComponentSpec =
    copy_ptr InternalEngineComponentSpec_type DeepCopyInto_InternalEngineComponentSpec"

definition DeepCopy_InternalEngineComponent :: "copy_lib \<Rightarrow> copier" where
  "DeepCopy_InternalEngineComponent lib =
    copy_ptr (InternalEngineComponent_type lib) (DeepCopyInto_InternalEngineComponent lib)"

definition DeepCopy_InternalEngineComponentList :: "copy_lib \<Rightarrow> copier" where
  "DeepCopy_InternalEngineComponentList lib =
    copy_ptr (InternalEngineComponentList_type lib) (DeepCopyInto_InternalEngineComponentList lib)"

text \<open>As a \<open>runtime.Object\<close>: the interface is nil when the copy is.\<close>

definition object_copy :: "copier \<Rightarrow> gv \<Rightarrow> memory \<Rightarrow> (gv option \<times> memory) option" where
  "object_copy copy v m = do {
     (c, m) \<leftarrow> copy v m;
     Some (if c \<noteq> VPtr None then Some c else None, m)
   }"

definition DeepCopyObject_MultiClusterEngine :: "copy_lib \<Rightarrow> gv \<Rightarrow> memory \<Rightarrow> (gv option \<times> memory) option" where
  "DeepCopyObject_MultiClusterEngine lib = object_copy (DeepCopy_MultiClusterEngine lib)"

definition DeepCopyObject_MultiClusterEngineList :: "copy_lib \<Rightarrow> gv \<Rightarrow> memory \<Rightarrow> (gv option \<times> memory) option" where
  "DeepCopyObject_MultiClusterEngineList lib = object_copy (DeepCopy_MultiClusterEngineList lib)"

definition DeepCopyObject_InternalEngineComponent :: "copy_lib \<Rightarrow> gv \<Rightarrow> memory \<Rightarrow> (gv option \<times> memory) option" where
  "DeepCopyObject_InternalEngineComponent lib = object_copy (DeepCopy_InternalEngineComponent lib)"

definition DeepCopyObject_InternalEngineComponentList :: "copy_lib \<Rightarrow> gv \<Rightarrow> memory \<Rightarrow> (gv option \<times> memory) option" where
  "DeepCopyObject_InternalEngineComponentList lib = object_copy (DeepCopy_InternalEngineComponentList lib)"

section \<open>Every deep copy meets its contract\<close>

lemmas type_defs = TypeMeta_type_def GroupVersionKind_type_def BlockDeletionResource_type_def EnvConfig_type_def
  ContainerConfig_type_def DeploymentConfig_type_def ConfigOverride_type_def ComponentConfig_type_def
  Overrides_type_def NetworkPoliciesConfig_type_def MultiClusterEngineSpec_type_def ComponentCondition_type_def
  MultiClusterEngineCondition_type_def MultiClusterEngineStatus_type_def MultiClusterEngine_type_def
  MultiClusterEngineList_type_def InternalEngineComponentSpec_type_def InternalEngineComponent_type_def
  InternalEngineComponentList_type_def

lemma flat_types [simp]:
  "flat TypeMeta_type" "flat GroupVersionKind_type" "flat EnvConfig_type" "flat NetworkPoliciesConfig_type"
  "flat InternalEngineComponentSpec_type"
  by (simp_all add: type_defs)

interpretation block_deletion: deep_copier BlockDeletionResource_type DeepCopyInto_BlockDeletionResource
  unfolding BlockDeletionResource_type_def DeepCopyInto_BlockDeletionResource_def
  by (rule struct_copier) (auto intro: assign_copier flat_slice_copier map_copier)

interpretation env_config: deep_copier EnvConfig_type DeepCopyInto_EnvConfig
  unfolding EnvConfig_type_def DeepCopyInto_EnvConfig_def by (rule struct_copier) auto

interpretation container_config: deep_copier ContainerConfig_type DeepCopyInto_ContainerConfig
  unfolding ContainerConfig_type_def DeepCopyInto_ContainerConfig_def
  by (rule struct_copier) (auto intro: flat_slice_copier)

interpretation deployment_config: deep_copier DeploymentConfig_type DeepCopyInto_DeploymentConfig
  unfolding DeploymentConfig_type_def DeepCopyInto_DeploymentConfig_def
  by (rule struct_copier) (auto intro: slice_copier container_config.deep_copier_axioms)

interpretation config_override: deep_copier ConfigOverride_type DeepCopyInto_ConfigOverride
  unfolding ConfigOverride_type_def DeepCopyInto_ConfigOverride_def
  by (rule struct_copier) (auto intro: slice_copier deployment_config.deep_copier_axioms)

interpretation component_config: deep_copier ComponentConfig_type DeepCopyInto_ComponentConfig
  unfolding ComponentConfig_type_def DeepCopyInto_ComponentConfig_def
  by (rule struct_copier) (auto intro: config_override.deep_copier_axioms)

interpretation overrides_copy: deep_copier Overrides_type DeepCopyInto_Overrides
  unfolding Overrides_type_def DeepCopyInto_Overrides_def
  by (rule struct_copier) (auto intro: slice_copier component_config.deep_copier_axioms)

interpretation network_policies_config: deep_copier NetworkPoliciesConfig_type DeepCopyInto_NetworkPoliciesConfig
  unfolding NetworkPoliciesConfig_type_def DeepCopyInto_NetworkPoliciesConfig_def by (rule struct_copier) auto

interpretation internal_spec: deep_copier InternalEngineComponentSpec_type DeepCopyInto_InternalEngineComponentSpec
  unfolding InternalEngineComponentSpec_type_def DeepCopyInto_InternalEngineComponentSpec_def by (rule struct_copier) auto

text \<open>The types with parts of the Kubernetes library, whose deep copies promise the same.\<close>

locale copy_library =
  fixes lib :: copy_lib
  assumes object_meta: "deep_copier (dl_ObjectMeta_type lib) (dl_ObjectMeta lib)"
    and list_meta: "deep_copier (dl_ListMeta_type lib) (dl_ListMeta lib)"
    and toleration: "deep_copier (dl_Toleration_type lib) (dl_Toleration lib)"
    and instant: "deep_copier TScalar (dl_Time lib)"

sublocale copy_library \<subseteq> spec: deep_copier "MultiClusterEngineSpec_type lib" "DeepCopyInto_MultiClusterEngineSpec lib"
  unfolding MultiClusterEngineSpec_type_def DeepCopyInto_MultiClusterEngineSpec_def
  by (rule struct_copier)
    (auto intro: map_copier slice_copier toleration ptr_copier [OF assign_copier]
        ptr_copier [OF overrides_copy.deep_copier_axioms])

sublocale copy_library \<subseteq> component_condition: deep_copier ComponentCondition_type "DeepCopyInto_ComponentCondition lib"
  unfolding ComponentCondition_type_def DeepCopyInto_ComponentCondition_def by (rule struct_copier) (auto intro: instant)

sublocale copy_library \<subseteq> engine_condition:
    deep_copier MultiClusterEngineCondition_type "DeepCopyInto_MultiClusterEngineCondition lib"
  unfolding MultiClusterEngineCondition_type_def DeepCopyInto_MultiClusterEngineCondition_def
  by (rule struct_copier) (auto intro: instant)

sublocale copy_library \<subseteq> status: deep_copier MultiClusterEngineStatus_type "DeepCopyInto_MultiClusterEngineStatus lib"
  unfolding MultiClusterEngineStatus_type_def DeepCopyInto_MultiClusterEngineStatus_def
  by (rule struct_copier)
    (auto intro: slice_copier component_condition.deep_copier_axioms engine_condition.deep_copier_axioms)

sublocale copy_library \<subseteq> engine: deep_copier "MultiClusterEngine_type lib" "DeepCopyInto_MultiClusterEngine lib"
  unfolding MultiClusterEngine_type_def DeepCopyInto_MultiClusterEngine_def
  by (rule struct_copier)
    (auto intro: assign_copier object_meta spec.deep_copier_axioms status.deep_copier_axioms)

sublocale copy_library \<subseteq> engines: deep_copier "MultiClusterEngineList_type lib" "DeepCopyInto_MultiClusterEngineList lib"
  unfolding MultiClusterEngineList_type_def DeepCopyInto_MultiClusterEngineList_def
  by (rule struct_copier) (auto intro: assign_copier list_meta slice_copier engine.deep_copier_axioms)

sublocale copy_library \<subseteq> internal: deep_copier "InternalEngineComponent_type lib" "DeepCopyInto_InternalEngineComponent lib"
  unfolding InternalEngineComponent_type_def DeepCopyInto_InternalEngineComponent_def
  by (rule struct_copier) (auto intro: assign_copier object_meta)

sublocale copy_library \<subseteq> internals:
    deep_copier "InternalEngineComponentList_type lib" "DeepCopyInto_InternalEngineComponentList lib"
  unfolding InternalEngineComponentList_type_def DeepCopyInto_InternalEngineComponentList_def
  by (rule struct_copier) (auto intro: assign_copier list_meta slice_copier internal.deep_copier_axioms)

text \<open>All types with their \<open>DeepCopy\<close>, and the registered ones with their \<open>DeepCopyObject\<close>.\<close>

definition deep_copies :: "copy_lib \<Rightarrow> (goty \<times> copier) list" where
  "deep_copies lib =
    [(MultiClusterEngine_type lib, DeepCopy_MultiClusterEngine lib),
     (MultiClusterEngineList_type lib, DeepCopy_MultiClusterEngineList lib),
     (MultiClusterEngineSpec_type lib, DeepCopy_MultiClusterEngineSpec lib),
     (MultiClusterEngineStatus_type, DeepCopy_MultiClusterEngineStatus lib),
     (MultiClusterEngineCondition_type, DeepCopy_MultiClusterEngineCondition lib),
     (ComponentCondition_type, DeepCopy_ComponentCondition lib),
     (Overrides_type, DeepCopy_Overrides), (ComponentConfig_type, DeepCopy_ComponentConfig),
     (ConfigOverride_type, DeepCopy_ConfigOverride), (DeploymentConfig_type, DeepCopy_DeploymentConfig),
     (ContainerConfig_type, DeepCopy_ContainerConfig), (EnvConfig_type, DeepCopy_EnvConfig),
     (NetworkPoliciesConfig_type, DeepCopy_NetworkPoliciesConfig),
     (BlockDeletionResource_type, DeepCopy_BlockDeletionResource),
     (InternalEngineComponent_type lib, DeepCopy_InternalEngineComponent lib),
     (InternalEngineComponentList_type lib, DeepCopy_InternalEngineComponentList lib),
     (InternalEngineComponentSpec_type, DeepCopy_InternalEngineComponentSpec)]"

definition registered :: "copy_lib \<Rightarrow> (goty \<times> (gv \<Rightarrow> memory \<Rightarrow> (gv option \<times> memory) option)) list" where
  "registered lib =
    [(MultiClusterEngine_type lib, DeepCopyObject_MultiClusterEngine lib),
     (MultiClusterEngineList_type lib, DeepCopyObject_MultiClusterEngineList lib),
     (InternalEngineComponent_type lib, DeepCopyObject_InternalEngineComponent lib),
     (InternalEngineComponentList_type lib, DeepCopyObject_InternalEngineComponentList lib)]"

lemmas into_defs = DeepCopy_MultiClusterEngine_def DeepCopy_MultiClusterEngineList_def DeepCopy_MultiClusterEngineSpec_def
  DeepCopy_MultiClusterEngineStatus_def DeepCopy_MultiClusterEngineCondition_def DeepCopy_ComponentCondition_def
  DeepCopy_Overrides_def DeepCopy_ComponentConfig_def DeepCopy_ConfigOverride_def DeepCopy_DeploymentConfig_def
  DeepCopy_ContainerConfig_def DeepCopy_EnvConfig_def DeepCopy_NetworkPoliciesConfig_def
  DeepCopy_BlockDeletionResource_def DeepCopy_InternalEngineComponent_def DeepCopy_InternalEngineComponentList_def
  DeepCopy_InternalEngineComponentSpec_def

lemmas plain_copiers = overrides_copy.deep_copier_axioms component_config.deep_copier_axioms
  config_override.deep_copier_axioms deployment_config.deep_copier_axioms container_config.deep_copier_axioms
  env_config.deep_copier_axioms network_policies_config.deep_copier_axioms block_deletion.deep_copier_axioms
  internal_spec.deep_copier_axioms

lemma ptr_nil: "copy_ptr T f v m = Some (v', m') \<Longrightarrow> v' = VPtr None \<longleftrightarrow> v = VPtr None"
  by (auto simp: copy_ptr_def alloc_def split: gv.splits option.splits Option.bind_splits prod.splits)

context copy_library
begin

lemma into_copier:
  assumes "(T, copy) \<in> set (deep_copies lib)"
  obtains f where "copy = copy_ptr T f" "deep_copier T f"
  using assms plain_copiers engine.deep_copier_axioms engines.deep_copier_axioms spec.deep_copier_axioms
    status.deep_copier_axioms engine_condition.deep_copier_axioms component_condition.deep_copier_axioms
    internal.deep_copier_axioms internals.deep_copier_axioms
  by (auto simp: deep_copies_def into_defs)

lemma copy_separate:
  assumes "(T, copy) \<in> set (deep_copies lib)" "read_tree (TPtr T) m v = Some t"
  shows "\<exists>v' m'. copy v m = Some (v', m') \<and> (v' = VPtr None \<longleftrightarrow> v = VPtr None)
    \<and> read_tree (TPtr T) m' v' = Some t \<and> read_tree (TPtr T) m' v = Some t
    \<and> (\<forall>a c. a \<in> refs (TPtr T) m' v' \<longrightarrow> read_tree (TPtr T) (m'[a := c]) v = Some t)
    \<and> (\<forall>a c. a \<in> refs (TPtr T) m' v \<longrightarrow> read_tree (TPtr T) (m'[a := c]) v' = Some t)"
proof -
  obtain f where f: "copy = copy_ptr T f" "deep_copier T f" using into_copier [OF assms(1)] .
  from deep_copier.separate [OF ptr_copier [OF f(2)] assms(2)] obtain v' m' where
    "copy v m = Some (v', m')" "read_tree (TPtr T) m' v' = Some t" "read_tree (TPtr T) m' v = Some t"
    "\<forall>a c. a \<in> refs (TPtr T) m' v' \<longrightarrow> read_tree (TPtr T) (m'[a := c]) v = Some t"
    "\<forall>a c. a \<in> refs (TPtr T) m' v \<longrightarrow> read_tree (TPtr T) (m'[a := c]) v' = Some t"
    unfolding f(1) by blast
  moreover from this(1) have "v' = VPtr None \<longleftrightarrow> v = VPtr None" unfolding f(1) by (rule ptr_nil)
  ultimately show ?thesis by blast
qed

lemma object_separate:
  assumes "(T, copy) \<in> set (registered lib)" "read_tree (TPtr T) m v = Some t"
  shows "\<exists>r m'. copy v m = Some (r, m') \<and> (r = None \<longleftrightarrow> v = VPtr None)
    \<and> (\<forall>c. r = Some c \<longrightarrow> read_tree (TPtr T) m' c = Some t)"
proof -
  obtain dc where "copy = object_copy dc" "(T, dc) \<in> set (deep_copies lib)"
    using assms(1) by (auto simp: registered_def deep_copies_def DeepCopyObject_MultiClusterEngine_def
        DeepCopyObject_MultiClusterEngineList_def DeepCopyObject_InternalEngineComponent_def
        DeepCopyObject_InternalEngineComponentList_def)
  with copy_separate [OF _ assms(2)] show ?thesis by (fastforce simp: object_copy_def)
qed

end

section \<open>A copy with another namespace\<close>

text \<open>The first two statements of \<open>RenderChartWithNamespace\<close>; a nil engine panics.\<close>

definition engine_with_namespace :: "copy_lib \<Rightarrow> string \<Rightarrow> copier" where
  "engine_with_namespace lib namespace v m = do {
     (p, m) \<leftarrow> DeepCopy_MultiClusterEngine lib v m;
     case p of
       VPtr (Some b) \<Rightarrow> do {
         mce \<leftarrow> load_var m b;
         spec \<leftarrow> field_of mce ''Spec'';
         Some (p, m[b := Var (set_field ''Spec''
           (set_field ''TargetNamespace'' (VScalar (SString namespace)) spec) mce)])
       }
     | _ \<Rightarrow> None
   }"

text \<open>The same assignment on what the engine denotes.\<close>

definition tree_field :: "tree \<Rightarrow> string \<Rightarrow> tree option" where
  "tree_field t n = (case t of LStruct ts \<Rightarrow> map_of ts n | _ \<Rightarrow> None)"

definition tree_set :: "string \<Rightarrow> tree \<Rightarrow> tree \<Rightarrow> tree" where
  "tree_set n u t = (case t of LStruct ts \<Rightarrow> LStruct (map (\<lambda>(k, x). (k, if k = n then u else x)) ts) | _ \<Rightarrow> t)"

lemma read_set_field:
  "read_fields fs m vs = Some ts \<Longrightarrow> (\<And>T. (n, T) \<in> set fs \<Longrightarrow> read_tree T m y = Some u) \<Longrightarrow>
    read_fields fs m (map (\<lambda>(k, x). (k, if k = n then y else x)) vs) =
      Some (map (\<lambda>(k, x). (k, if k = n then u else x)) ts)"
  by (induction fs arbitrary: vs ts) (auto simp: Option.bind_eq_Some_conv split: list.splits if_splits)

lemma read_struct_set:
  assumes "read_tree (TStruct fs) m v = Some t" "\<And>T. (n, T) \<in> set fs \<Longrightarrow> read_tree T m y = Some u"
  shows "read_tree (TStruct fs) m (set_field n y v) = Some (tree_set n u t)"
  using assms read_set_field [of fs m _ _ n y u] by (auto simp: set_field_def tree_set_def split: gv.splits)

lemma read_field:
  "read_fields fs m vs = Some ts \<Longrightarrow> map_of fs n = Some T \<Longrightarrow>
    \<exists>x u. map_of vs n = Some x \<and> map_of ts n = Some u \<and> read_tree T m x = Some u"
  by (induction fs arbitrary: vs ts) (auto simp: Option.bind_eq_Some_conv split: list.splits if_splits)

context copy_library
begin

lemma namespace_copy:
  assumes "read_tree (TPtr (MultiClusterEngine_type lib)) m v = Some (LPtr (Some t))"
  shows "\<exists>v' m' spec. engine_with_namespace lib namespace v m = Some (v', m')
    \<and> read_tree (TPtr (MultiClusterEngine_type lib)) m' v = Some (LPtr (Some t))
    \<and> tree_field t ''Spec'' = Some spec
    \<and> read_tree (TPtr (MultiClusterEngine_type lib)) m' v' =
        Some (LPtr (Some (tree_set ''Spec'' (tree_set ''TargetNamespace'' (LScalar (SString namespace)) spec) t)))"
proof -
  let ?T = "MultiClusterEngine_type lib" and ?S = "MultiClusterEngineSpec_type lib" and ?b = "length m"
  obtain a where v: "v = VPtr (Some a)" using assms by (auto split: gv.splits option.splits)
  from ptr_fresh [OF engine.deep_copier_axioms assms [unfolded v]] obtain y m1 where
    copy: "DeepCopy_MultiClusterEngine lib v m = Some (VPtr (Some ?b), m1)"
    and m1: "prefix m m1" "load_var m1 ?b = Some y" "read_tree ?T m1 y = Some t" "\<forall>a \<in> refs ?T m1 y. ?b < a"
    unfolding v DeepCopy_MultiClusterEngine_def by blast
  obtain fs where fs: "?T = TStruct fs" "map_of fs ''Spec'' = Some ?S" "\<And>T. (''Spec'', T) \<in> set fs \<Longrightarrow> T = ?S"
    by (simp add: MultiClusterEngine_type_def)
  obtain vs ts where y: "y = VStruct vs" "t = LStruct ts" "read_fields fs m1 vs = Some ts"
    using m1(3) fs(1) by (auto split: gv.splits)
  from read_field [OF y(3) fs(2)] obtain x spec where x: "map_of vs ''Spec'' = Some x" "map_of ts ''Spec'' = Some spec" by blast
  let ?x = "set_field ''TargetNamespace'' (VScalar (SString namespace)) x"
  let ?m2 = "m1[?b := Var (set_field ''Spec'' ?x y)]"
  have y2: "read_fields fs ?m2 vs = Some ts"
    using read_write(1) [OF m1(3,4)] fs(1) y by simp
  have "read_tree ?S ?m2 x = Some spec" using read_field [OF y2 fs(2)] x by simp
  then have "read_tree ?S ?m2 ?x = Some (tree_set ''TargetNamespace'' (LScalar (SString namespace)) spec)"
    unfolding MultiClusterEngineSpec_type_def by (rule read_struct_set) auto
  then have "read_tree ?T ?m2 (set_field ''Spec'' ?x y) =
      Some (tree_set ''Spec'' (tree_set ''TargetNamespace'' (LScalar (SString namespace)) spec) t)"
    using y2 y fs unfolding fs(1) by (intro read_struct_set) auto
  moreover have "load_var ?m2 ?b = Some (set_field ''Spec'' ?x y)"
    using m1(2) by (auto simp: load_var_def load_def split: if_splits)
  moreover have "read_tree (TPtr ?T) ?m2 v = Some (LPtr (Some t))"
    by (rule read_prefix(1) [OF assms]) (simp add: prefix_update m1(1))
  ultimately show ?thesis
    using copy m1(2) x y by (simp add: engine_with_namespace_def field_of_def tree_field_def)
qed

end

text \<open>
  C31: The deep copies of the API types do not share memory with the original.  For every type of the API and
  every value of it that can be read, nil included, its \<open>DeepCopy\<close> returns a value that denotes the same, and a
  write to any cell that the copy refers to leaves the original as it was, as does a write to the original the
  copy; provided the deep copies of the Kubernetes library keep the same promise for the parts they copy.
\<close>

theorem DeepCopy_separates:
  assumes "copy_library lib" "(T, copy) \<in> set (deep_copies lib)" "read_tree (TPtr T) m v = Some t"
  shows "\<exists>v' m'. copy v m = Some (v', m') \<and> (v' = VPtr None \<longleftrightarrow> v = VPtr None)
    \<and> read_tree (TPtr T) m' v' = Some t \<and> read_tree (TPtr T) m' v = Some t
    \<and> (\<forall>a c. a \<in> refs (TPtr T) m' v' \<longrightarrow> read_tree (TPtr T) (m'[a := c]) v = Some t)
    \<and> (\<forall>a c. a \<in> refs (TPtr T) m' v \<longrightarrow> read_tree (TPtr T) (m'[a := c]) v' = Some t)"
  using copy_library.copy_separate [OF assms] .

text \<open>
  C32: Rendering a chart for another namespace works on a copy: the engine of the caller denotes what it did
  before, and the copy is the same engine with the target namespace of its specification replaced, which is the
  record update that the model of \<open>RenderChartWithNamespace\<close> uses.
\<close>

theorem engine_with_namespace_copy:
  assumes "copy_library lib" "read_tree (TPtr (MultiClusterEngine_type lib)) m v = Some (LPtr (Some t))"
  shows "\<exists>v' m' spec. engine_with_namespace lib namespace v m = Some (v', m')
    \<and> read_tree (TPtr (MultiClusterEngine_type lib)) m' v = Some (LPtr (Some t))
    \<and> tree_field t ''Spec'' = Some spec
    \<and> read_tree (TPtr (MultiClusterEngine_type lib)) m' v' =
        Some (LPtr (Some (tree_set ''Spec'' (tree_set ''TargetNamespace'' (LScalar (SString namespace)) spec) t)))"
  using copy_library.namespace_copy [OF assms] .

section \<open>An engine in memory\<close>

definition sample_lib :: copy_lib where
  "sample_lib =
    \<lparr>dl_ObjectMeta_type = TStruct [(''Name'', TScalar), (''Labels'', TStrMap), (''Finalizers'', TSlice TScalar)],
     dl_ObjectMeta = copy_struct [(''Labels'', copy_map), (''Finalizers'', copy_flat_slice TScalar)],
     dl_ListMeta_type = TStruct [(''ResourceVersion'', TScalar)],
     dl_ListMeta = assign,
     dl_Toleration_type = TStruct [(''Key'', TScalar), (''TolerationSeconds'', TPtr TScalar)],
     dl_Toleration = copy_struct [(''TolerationSeconds'', copy_ptr TScalar assign)],
     dl_Time = assign\<rparr>"

interpretation sample: copy_library sample_lib
proof (rule copy_library.intro, goal_cases)
  case 1
  show ?case by (auto simp: sample_lib_def intro!: struct_copier map_copier flat_slice_copier)
next
  case 2
  show ?case by (auto simp: sample_lib_def intro!: assign_copier)
next
  case 3
  show ?case by (auto simp: sample_lib_def intro!: struct_copier ptr_copier assign_copier)
next
  case 4
  show ?case by (auto simp: sample_lib_def intro!: assign_copier)
qed

definition str :: "string \<Rightarrow> gv" where "str s = VScalar (SString s)"

definition engine_value :: gv where
  "engine_value = VStruct
    [(''TypeMeta'', VStruct [(''Kind'', str ''MultiClusterEngine''), (''APIVersion'', str ''v1'')]),
     (''ObjectMeta'', VStruct [(''Name'', str ''engine''), (''Labels'', VStrMap (Some 1)), (''Finalizers'', VSlice None)]),
     (''Spec'', VStruct
       [(''AvailabilityConfig'', str ''High''), (''NodeSelector'', VStrMap None), (''ImagePullSecret'', str ''''),
        (''Overrides'', VPtr (Some 3)), (''Tolerations'', VSlice None),
        (''TargetNamespace'', str ''mce''), (''LocalClusterName'', str ''local''),
        (''NetworkPolicies'', VPtr None)]),
     (''Status'', VStruct
       [(''Phase'', str ''''), (''Components'', VSlice None), (''Conditions'', VSlice None),
        (''CurrentVersion'', str ''''), (''DesiredVersion'', str '''')])]"

definition engine_memory :: memory where
  "engine_memory =
    [Var engine_value,
     Tab [(''app'', ''mce'')],
     Arr [VStruct [(''Enabled'', VScalar (SBool True)), (''Name'', str ''discovery''),
            (''ConfigOverrides'', VStruct [(''Deployments'', VSlice None)])]],
     Var (VStruct [(''ImagePullPolicy'', str ''Always''), (''Components'', VSlice (Some (2, 0, 1))),
            (''InfrastructureCustomNamespace'', str '''')])]"

abbreviation engine_ptr :: goty where "engine_ptr \<equiv> TPtr (MultiClusterEngine_type sample_lib)"

lemma engine_readable: "\<exists>t. read_tree engine_ptr engine_memory (VPtr (Some 0)) = Some (LPtr (Some t))"
  by (simp add: type_defs sample_lib_def engine_memory_def engine_value_def str_def load_var_def load_arr_def
      load_tab_def load_def slice_elems_def)

theorem DeepCopy_separates_witness:
  "\<exists>b m'. DeepCopy_MultiClusterEngine sample_lib (VPtr (Some 0)) engine_memory = Some (VPtr (Some b), m')
    \<and> read_tree engine_ptr m' (VPtr (Some b)) = read_tree engine_ptr engine_memory (VPtr (Some 0))
    \<and> read_tree engine_ptr (m'[b := Var (str ''gone'')]) (VPtr (Some 0)) = read_tree engine_ptr engine_memory (VPtr (Some 0))"
proof -
  obtain t where t: "read_tree engine_ptr engine_memory (VPtr (Some 0)) = Some (LPtr (Some t))"
    using engine_readable by blast
  have "(MultiClusterEngine_type sample_lib, DeepCopy_MultiClusterEngine sample_lib) \<in> set (deep_copies sample_lib)"
    by (simp add: deep_copies_def)
  from DeepCopy_separates [OF sample.copy_library_axioms this t] obtain v' m' where
    copy: "DeepCopy_MultiClusterEngine sample_lib (VPtr (Some 0)) engine_memory = Some (v', m')"
    "v' \<noteq> VPtr None" "read_tree engine_ptr m' v' = Some (LPtr (Some t))"
    "\<forall>a c. a \<in> refs engine_ptr m' v' \<longrightarrow> read_tree engine_ptr (m'[a := c]) (VPtr (Some 0)) = Some (LPtr (Some t))"
    by auto
  moreover from copy(2,3) obtain b where "v' = VPtr (Some b)" by (auto split: gv.splits option.splits)
  ultimately show ?thesis using t by auto
qed

theorem engine_with_namespace_copy_witness:
  "\<exists>v' m' spec t. engine_with_namespace sample_lib ''other'' (VPtr (Some 0)) engine_memory = Some (v', m')
    \<and> read_tree engine_ptr m' (VPtr (Some 0)) = Some (LPtr (Some t))
    \<and> tree_field t ''Spec'' = Some spec
    \<and> read_tree engine_ptr m' v' =
        Some (LPtr (Some (tree_set ''Spec'' (tree_set ''TargetNamespace'' (LScalar (SString ''other'')) spec) t)))"
  using engine_readable engine_with_namespace_copy [OF sample.copy_library_axioms] by blast

end
