(* ===== verification/Manager_Options.thy ===== *)
theory Manager_Options
  imports Startup
begin

text \<open>
  The command line flags of the operator and the options \<open>main\<close> builds the manager from: addresses, leader
  election, the TLS settings of the webhook server and the kinds that are not cached.
\<close>

section \<open>Flags\<close>

record operator_flags =
  of_MetricsAddr :: string
  of_ProbeAddr :: string
  of_EnableLeaderElection :: bool
  of_LeaseDuration :: int
  of_RenewDeadline :: int
  of_RetryPeriod :: int

text \<open>The values of the flags that are not given.\<close>

definition default_flags :: operator_flags where
  "default_flags =
    \<lparr>of_MetricsAddr = '':8080'', of_ProbeAddr = '':8081'', of_EnableLeaderElection = True,
     of_LeaseDuration = 137 * second, of_RenewDeadline = 107 * second, of_RetryPeriod = 26 * second\<rparr>"

section \<open>Options\<close>

record manager_options =
  mo_MetricsAddr :: string
  mo_ProbeAddr :: string
  mo_LeaderElection :: bool
  mo_LeaderElectionID :: string
  mo_LeaseDuration :: int
  mo_RenewDeadline :: int
  mo_RetryPeriod :: int
  mo_CacheSyncTimeout :: int
  mo_WebhookPort :: int
  mo_DisableFor :: "string list"

definition cacheDuration :: int where
  "cacheDuration = 5 * minute"

definition initial_options :: "operator_flags \<Rightarrow> manager_options" where
  "initial_options fl =
    \<lparr>mo_MetricsAddr = of_MetricsAddr fl, mo_ProbeAddr = of_ProbeAddr fl,
     mo_LeaderElection = of_EnableLeaderElection fl, mo_LeaderElectionID = ''797f9276.open-cluster-management.io'',
     mo_LeaseDuration = of_LeaseDuration fl, mo_RenewDeadline = of_RenewDeadline fl, mo_RetryPeriod = of_RetryPeriod fl,
     mo_CacheSyncTimeout = cacheDuration, mo_WebhookPort = 0, mo_DisableFor = []\<rparr>"

text \<open>Secrets, roles, config maps and service accounts are read from the API server, not from the cache.\<close>

definition mgrOptions :: "operator_flags \<Rightarrow> manager_options" where
  "mgrOptions fl = (initial_options fl)\<lparr>mo_WebhookPort := 9443,
     mo_DisableFor := [''Secret'', ''ClusterRole'', ''ClusterRoleBinding'', ''RoleBinding'', ''ConfigMap'', ''ServiceAccount'']\<rparr>"

text \<open>
  What the leader election of the client library accepts: positive durations, a lease longer than the renewal
  deadline, and a deadline longer than a jittered retry period (a factor of 1.2).
\<close>

definition elector_accepts :: "manager_options \<Rightarrow> bool" where
  "elector_accepts op = (mo_LeaderElection op \<longrightarrow>
    mo_RenewDeadline op < mo_LeaseDuration op \<and> 12 * mo_RetryPeriod op < 10 * mo_RenewDeadline op
    \<and> 1 \<le> mo_LeaseDuration op \<and> 1 \<le> mo_RenewDeadline op \<and> 1 \<le> mo_RetryPeriod op)"

text \<open>
  The defaults are accepted, and with a flag that changes the lease alone the election is accepted as long
  as the lease exceeds the default renewal deadline.
\<close>

theorem default_election_accepted:
  "elector_accepts (mgrOptions (default_flags\<lparr>of_LeaseDuration := lease\<rparr>)) \<longleftrightarrow> 107 * second < lease"
  by (auto simp: elector_accepts_def mgrOptions_def initial_options_def default_flags_def)

end
