(* ===== verification/Spec2Isabelle.thy ===== *)
theory Spec2Isabelle
  imports Webhook Tls Image_Overrides Network_Policies Chart_Permissions Run_Invariants Crd_Store Grpc_Server
    Toleration_Json Deep_Copy Manager_Options
begin

text \<open>
  \<^bold>\<open>The backplane operator.\<close>  The program is a Kubernetes operator: it watches one cluster-scoped
  resource, the \<open>MultiClusterEngine\<close> (the \<^emph>\<open>engine\<close>), and installs, toggles and removes the components
  the engine lists.  Its parts are the API types (\<open>src/api/v1\<close>), the admission webhook of the engine,
  the status packages (\<open>src/pkg/status\<close>, \<open>src/pkg/toggle\<close>), the utilities, overrides and renderer
  (\<open>src/pkg/utils\<close>, \<open>src/pkg/overrides\<close>, \<open>src/pkg/rendering\<close>), and the controller
  (\<open>src/controllers\<close>), whose \<open>Reconcile\<close> calls all the others.

  \<^bold>\<open>How the code is modelled.\<close>  A Go function that touches the cluster or the reconciler becomes a HOL
  function into the monad \<open>('s, 'a) go\<close> of theory \<open>Prelude\<close>: \<^term>\<open>None\<close> is a panic, \<^term>\<open>Inl e\<close> a
  returned error.  The Kubernetes client is third-party code and stays a parameter (\<open>Kube\<close>): a record
  of functions over an arbitrary type of worlds, so that the answers of the cluster are arbitrary and
  other actors may act between two calls.  Each call is logged in the trace \<open>ks_Trace\<close> of the state, and
  the safety theorems speak about that trace, for every client.  The Helm engine, YAML and JSON
  decoding, the file tree and the clock are fields of the operator's context (\<open>Operator\<close>,
  \<open>Rendering\<close>).  Go's strings are byte lists, its maps association lists, its durations and integers
  \<open>int\<close>; the places where an index is out of range or a nil pointer is followed are the \<^term>\<open>None\<close>
  branches.

  \<^bold>\<open>Theories, in the order of the code.\<close>
  \<^item> \<open>Prelude\<close>, \<open>Kube\<close>, \<open>Go_Lib\<close>: errors and their wrapping, string maps, the monad with its
    weakest-precondition rules, the client with its call trace, and the parts of Go's library that the
    sources use (\<open>strings\<close>, \<open>strconv\<close>, \<open>path\<close>, \<open>semver\<close>).  \<open>Sample_Cluster\<close> is an in-memory client
    on which the witnesses run.
  \<^item> \<open>Api_Types\<close>, \<open>Utils\<close>: the engine's records, the component tables, \<open>Enabled\<close>, \<open>Enable\<close>, \<open>Disable\<close>,
    \<open>Prune\<close>, defaulting of components, the annotations (\<open>multiclusterengine_types.go\<close>,
    \<open>multiclusterengine_methods.go\<close>, \<open>utils.go\<close>, \<open>annotations.go\<close>).
  \<^item> \<open>Go_Memory\<close>, \<open>Deep_Copy\<close>: a memory of cells in which slices, maps and pointers can alias, with the contract
    of a deep copy, and the generated deep copies of all API types over it
    (\<open>zz_generated.deepcopy.go\<close>); everywhere else an engine is a value.
  \<^item> \<open>Webhook\<close>: \<open>ValidateCreate\<close>, \<open>ValidateUpdate\<close>, \<open>ValidateDelete\<close> and the transition relation of
    admitted requests, with the invariant of the engines a cluster can hold.
  \<^item> \<open>Status_Conditions\<close>, \<open>Status_Reporters\<close>, \<open>Status_Tracker\<close>: the sorted condition list, one
    definition per status reporter, the tracker and the phase it reports.
  \<^item> \<open>Tls\<close>, \<open>Image_Overrides\<close>, \<open>Rendering\<close>, \<open>Toleration_Json\<close>, \<open>Component_Config\<close>: cipher suites, image
    and template overrides and their precedence, chart and CRD rendering, the quoting of tolerations for the
    charts, externally managed components, skipped CRD directories and deployment overrides.
  \<^item> \<open>Operator\<close>: the context and the reconciler's state.  \<open>Apply\<close>: applying and deleting one template
    under the ownership and adoption rules.
  \<^item> \<open>Toggle_Base\<close>, \<open>Toggle_Components\<close>, \<open>Cluster_Info\<close>, \<open>Local_Cluster\<close>, \<open>Maestro\<close>, \<open>Toggle_All\<close>:
    \<open>ensureX\<close> and \<open>ensureNoX\<close> of every component, the driver that collects their errors and requeues,
    the network policies and the removals of earlier releases.  \<open>Grpc_Server\<close>: what Maestro writes into the
    \<open>ClusterManager\<close> is recognised and can be taken out again.
  \<^item> \<open>Defaults\<close>, \<open>Finalize\<close>, \<open>Reconcile_Steps\<close>, \<open>Reconcile\<close>: the phases of \<open>Reconcile\<close> and their
    composition, the deferred status report included.  \<open>Crd_Store\<close>: the CA bundle of a CRD over the retries
    of \<open>EnsureCRD\<close>, and the repository's tests of it (\<open>backplaneconfig_controller_test_cabundle.go\<close>).
  \<^item> \<open>Serving_Certs\<close>, \<open>Startup\<close>: the serving certificates and their files, \<open>main\<close> up to the start of the
    manager with every exit, and the controller of the webhook configuration (\<open>main.go\<close>,
    \<open>webhook_controller.go\<close>).  \<open>Manager_Options\<close>: the flags of \<open>main\<close> and the manager's options.
  \<^item> \<open>Rbac_Gen\<close>: the build-time tool that writes the operator's permission markers
    (\<open>pkg/templates/rbac.go\<close>).  \<open>Permissions\<close>, \<open>Chart_Permissions\<close>: the markers
    written by hand in the controller and beside the generator, and what they permit.
  \<^item> \<open>Watches\<close>, \<open>Operator_Runs\<close>: the watches of both controllers and the requests they raise, and the
    operator at work as a step relation: events, reconciliations of queued engines, and changes by
    others, in any order.
  \<^item> \<open>Trace_Logic\<close>, \<open>Ownership\<close>, \<open>Reconcile_Writes\<close>, \<open>Network_Policies\<close>, \<open>Lifecycle\<close>, \<open>Uninstall\<close>:
    locales of trace predicates closed under the requests of the shared steps; each is interpreted on the
    model's own operations, and the properties of whole reconciliations are facts of these interpretations.
  \<^item> \<open>State_Runs\<close>, \<open>Deploy_Runs\<close>: the same for predicates on the state, once for every step from the Get of
    the engine to the last chart.  The predicate \<open>runs p Q\<close> says that a computation ends in \<open>Q\<close>, for \<open>p\<close> only
    if it does not panic.  \<open>Panic_Freedom\<close> interprets them totally (no step panics), \<open>Stored_Status\<close>
    partially (every status written is well formed), and \<open>Run_Invariants\<close> lifts both to the runs of
    \<open>Operator_Runs\<close>.

  \<^bold>\<open>What is shown.\<close>  Admission: exactly which creations, updates and deletions are admitted, and that
  every stored engine of an admitted history is consistent by itself; that at most one engine is
  standalone needs that the webhook's list shows the stored engines whenever one is created, which a
  cached client does not promise.  Status: the phase is \<open>Available\<close> exactly when nothing is wrong, the
  reporters answer what the cluster says, conditions stay sorted with one entry per type.  Rendering:
  everything a chart renders to is owned by the engine, skipping CRD directories, with the paths computed
  as \<open>filepath\<close> does, is rendering the tree without them, and no field of a toleration reads as a number or
  a boolean.  Writes: for every client, each write of a reconciliation, and of every run of the operator,
  is accounted for by the engine it serves: resources it owns or may adopt, handles by name, ships or
  renders; reconciling a deleted engine creates and patches nothing and, besides the engine,
  updates only the console; a paused one is left alone; the finalizer goes last; network policies that exist are
  left alone.  Termination: with a complete image, its namespace and image references set and managed
  clusters validated by the API server, no reconciliation panics and no run of the operator stops; every
  status a run stores is well formed; a reconciliation gives up on an engine only when it is gone, paused
  or available.  Round trips: the CA bundle that others injected into a CRD survives the retries of
  \<open>EnsureCRD\<close>; enabling the gRPC server is recognised and can be undone; dumped certificates can be read
  back.  Defaulting converges in one step; the controller of the webhook configuration does not converge
  on what the API server stores.  Start-up: the manager starts only after the cluster was inspected and the
  API server accepted the CRDs and the webhook.  Permissions: each generated marker is a rule of a
  rendered role without its resource names, which widens the rules that have them; the markers written by
  hand suffice for the uninstallation and, with one exception, for applying what the generator lets pass.
  Memory: deep copies denote what the original denotes and share no cell with it, and rendering for
  another namespace leaves the caller's engine alone.

  \<^bold>\<open>Bounds and fuel.\<close>  Loops of the source run over finite lists and are structural recursions.  The
  retry of \<open>EnsureCRD\<close> and the attempts of \<open>ensureWebhooks\<close> carry the source's own bounds.  No other
  definition needs fuel.

  \<^bold>\<open>Not modelled.\<close>  The parsing of the command line and the registration of types with the scheme, the
  queue of the controller library beyond the documented behaviour that \<open>Operator_Runs\<close> uses, the third-party
  serving certificate controller, the JSON encoding of the values for the Helm engine other than tolerations
  (part of that parameter), the generated markers, build-time constants and log output: they wire libraries or
  have no effect the model's state can show.
\<close>

section \<open>Admission and defaulting\<close>

lemma defaulted_hypershift:
  "(\<exists>h \<in> set hypershiftComponents. Enabled (snd (static_defaults m)) h) \<longleftrightarrow>
    Enabled m HyperShiftPreview \<or> component_flag m HyperShift \<noteq> Some False
    \<or> component_flag m HypershiftLocalHosting \<noteq> Some False"
  by (cases "component_flag m HyperShift"; cases "component_flag m HypershiftLocalHosting")
    (auto simp: hypershiftComponents_def Enabled_flag flag_static_defaults PreviewComponents_def
      PreviewToStable_def onComponents_def)

lemma defaulted_cluster_api:
  "(\<exists>c \<in> set clusterAPIComponents. Enabled (snd (static_defaults m)) c) \<longleftrightarrow>
    (\<exists>c \<in> set clusterAPIComponents. Enabled m c)"
  by (simp add: clusterAPIComponents_def Enabled_flag flag_static_defaults PreviewComponents_def
      PreviewToStable_def onComponents_def offComponents_def)

text \<open>
  C20: The operator's own defaulting has to pass the admission of updates.  The defaulted engine keeps
  HyperShift and Cluster API exclusive exactly when no Cluster API component is enabled or the user
  switched off both HyperShift components explicitly (and did not enable the HyperShift preview); in
  every other case no update to the defaulted engine is admitted, although the engine as the user
  created it may have been.
\<close>

theorem defaulted_update_admissible:
  "(exclusive (snd (static_defaults m)) \<longleftrightarrow>
      (\<forall>c \<in> set clusterAPIComponents. \<not> Enabled m c) \<or>
      \<not> Enabled m HyperShiftPreview \<and> component_flag m HyperShift = Some False
        \<and> component_flag m HypershiftLocalHosting = Some False)
    \<and> (ValidateUpdate cl env old (snd (static_defaults m)) s = Some (None, s') \<longrightarrow>
        exclusive (snd (static_defaults m)))"
  unfolding exclusive_def defaulted_hypershift defaulted_cluster_api
  using ValidateUpdate_None [of cl env old "snd (static_defaults m)" s s']
  by (auto simp: exclusive_def defaulted_hypershift defaulted_cluster_api)

definition capi_mce :: MultiClusterEngine where
  "capi_mce = with_components [mk_component ClusterAPI True] sample_mce"

theorem defaulted_update_admissible_witness:
  "(\<exists>s'. ValidateCreate mem_client capi_mce (start empty_mem) = Some (None, s'))
    \<and> (\<forall>env s'. ValidateUpdate mem_client env capi_mce (snd (static_defaults capi_mce)) (start empty_mem) \<noteq> Some (None, s'))"
proof
  have flags: "component_flag capi_mce c = (if c = ClusterAPI then Some True else None)"
    "mce_components capi_mce = [mk_component ClusterAPI True]" for c
    by (simp_all add: capi_mce_def with_components_def component_flag_def mce_components_def mk_component_def)
  show "\<exists>s'. ValidateCreate mem_client capi_mce (start empty_mem) = Some (None, s')"
    by (subst ValidateCreate_None)
      (simp add: availability_ok_def components_admissible_def exclusive_def Enabled_flag flags
        hypershiftComponents_def AllComponents_def MCEComponents_def mk_component_def mem_client_def empty_mem_def start_def,
        simp add: capi_mce_def with_components_def sample_mce_def sample_spec_def)
  show "\<forall>env s'. ValidateUpdate mem_client env capi_mce (snd (static_defaults capi_mce)) (start empty_mem) \<noteq> Some (None, s')"
    using defaulted_update_admissible [of capi_mce mem_client _ capi_mce "start empty_mem"]
    by (auto simp: Enabled_flag flags clusterAPIComponents_def)
qed

end
